(* ===== verification/Prelude.thy ===== *)
theory Prelude
  imports Main "HOL-Library.AList" "HOL-Library.Word" "HOL-Library.Multiset"
begin

text \<open>
  Shared vocabulary of the development: Go errors as values, Go panics as an
  outcome, programs that call external services as state transformers over an
  abstract world, Go's string-keyed maps with their nil value and iteration
  order, and the generic lemmas and proof rules the component theories use.
\<close>

named_theorems prog_simps \<open>unfolding of the program combinators\<close>
named_theorems hoare_intros \<open>structural rules of the program logic\<close>
named_theorems smap_simps \<open>lookup laws of Go string maps\<close>

section \<open>Errors\<close>

text \<open>
  An error interface value is a \<open>goerr option\<close>, with \<open>None\<close> for \<open>nil\<close>. The
  sentinel errors of the packages are constructors, so that the identity tests
  of the source (\<open>err != ErrNodeNotFound\<close>) are equalities.
  \<open>Wrap e s\<close> is an error that keeps \<open>e\<close> in its \<open>Unwrap\<close> chain (\<open>errors.Wrap\<close>,
  \<open>fmt.Errorf\<close> with \<open>%w\<close>), \<open>Opaque s e\<close> one that only prints it (\<open>%v\<close>).
\<close>

datatype k8s_reason = ReasonNotFound | ReasonAlreadyExists | ReasonConflict | ReasonOther string

datatype num_err = ErrSyntax | ErrRange

datatype (plugins only: code size) goerr =
    ErrNotInitialized | ErrNoAuthToken
  | ErrNodeNotFound | ErrNodeInUse | ErrNodeHasLock
  | ErrNamespaceNotFound | ErrNamespaceInUse
  | ErrVolumeNotFound | ErrNotFound | ErrNotShared | ErrNotKubernetes
  | ErrReservedLabelUnknown | ErrReservedLabelInvalid | ErrReservedLabelFixed
  | ErrBadFailureMode
  | ErrUnexpectedVolumeAttacher | ErrNodeTypeAssertion | ErrNodeNotCached
  | ErrUnsupportedKind | ErrCastCache | ErrCrossNamespace | ErrNoKeyInSecret
  | ErrNotInCluster | ErrWaitTimeout
  | NumError string string num_err
  | AddrError string string
  | GenericOpenAPIError string "string option" string
  | OpenAPIError string
  | BadRequestError string | AuthenticationError string | UnauthorisedError string
  | NotFoundError string | ConflictError string | StaleWriteError string
  | InvalidStateTransitionError string | LockedError string
  | LicenceCapabilityError string | ServerError string | StoreError string
  | K8sError k8s_reason string
  | StdError string
  | Wrap goerr string
  | Opaque string goerr
  | MultiError "goerr list"

type_synonym error_or_nil = "goerr option"
type_synonym byte = "8 word"
type_synonym bytes = "byte list"

text \<open>
  \<open>multierror.Append\<close> flattens a multi-error one level and ignores \<open>nil\<close>;
  \<open>ErrorOrNil\<close> is \<open>nil\<close> for an empty accumulator.
\<close>

definition Append :: "goerr list \<Rightarrow> error_or_nil \<Rightarrow> goerr list" where
  "Append acc e = (case e of None \<Rightarrow> acc
                   | Some (MultiError es) \<Rightarrow> acc @ es
                   | Some e' \<Rightarrow> acc @ [e'])"

definition ErrorOrNil :: "goerr list \<Rightarrow> error_or_nil" where
  "ErrorOrNil es = (if es = [] then None else Some (MultiError es))"

lemma Append_None [simp]: "Append acc None = acc"
  by (simp add: Append_def)

lemma Append_eq_Nil [simp]:
  "Append acc e = [] \<longleftrightarrow> acc = [] \<and> (e = None \<or> e = Some (MultiError []))"
  by (auto simp: Append_def split: option.splits goerr.splits)

lemma ErrorOrNil_None [simp]: "ErrorOrNil es = None \<longleftrightarrow> es = []"
  by (simp add: ErrorOrNil_def)

section \<open>Programs over a world\<close>

text \<open>
  The StorageOS control plane and the Kubernetes API are services the program
  only calls. A call is a function on an abstract world \<open>'w\<close> that returns the
  response and the next world; nothing is assumed of it, so the world may also
  change between two calls through other clients. A program either returns a
  value or panics, in both cases after the calls it made.
\<close>

datatype 'a outcome = Ret 'a | Panic

type_synonym ('w, 'a) ext = "'w \<Rightarrow> 'a \<times> 'w"
type_synonym ('w, 'a) prog = "'w \<Rightarrow> 'a outcome \<times> 'w"

definition retP :: "'a \<Rightarrow> ('w, 'a) prog" where
  "retP a w = (Ret a, w)"

definition panicP :: "('w, 'a) prog" where
  "panicP w = (Panic, w)"

definition callP :: "('w, 'a) ext \<Rightarrow> ('w, 'a) prog" where
  "callP f w = (case f w of (a, w') \<Rightarrow> (Ret a, w'))"

definition bindP :: "('w, 'a) prog \<Rightarrow> ('a \<Rightarrow> ('w, 'b) prog) \<Rightarrow> ('w, 'b) prog" where
  "bindP m f w = (case m w of (Ret a, w') \<Rightarrow> f a w' | (Panic, w') \<Rightarrow> (Panic, w'))"

text \<open>The idiom \<open>x, err := m(); if err != nil { return ..., err }\<close>.\<close>

definition tryP ::
  "('w, goerr + 'a) prog \<Rightarrow> ('a \<Rightarrow> ('w, goerr + 'b) prog) \<Rightarrow> ('w, goerr + 'b) prog" where
  "tryP m f = bindP m (\<lambda>r. case r of Inl e \<Rightarrow> retP (Inl e) | Inr x \<Rightarrow> f x)"

text \<open>
  The same in a function that returns only an error, and for a called function
  that returns only an error.
\<close>

definition tryE :: "('w, goerr + 'a) prog \<Rightarrow> ('a \<Rightarrow> ('w, error_or_nil) prog) \<Rightarrow> ('w, error_or_nil) prog" where
  "tryE m f = bindP m (\<lambda>r. case r of Inl e \<Rightarrow> retP (Some e) | Inr x \<Rightarrow> f x)"

definition mapErr :: "(goerr \<Rightarrow> goerr) \<Rightarrow> ('w, goerr + 'a) prog \<Rightarrow> ('w, goerr + 'a) prog" where
  "mapErr h m = bindP m (\<lambda>r. case r of Inl e \<Rightarrow> retP (Inl (h e)) | Inr x \<Rightarrow> retP (Inr x))"

text \<open>A range loop whose body always goes on, and one whose body may return an error.\<close>

primrec forP :: "('x \<Rightarrow> 's \<Rightarrow> ('w, 's) prog) \<Rightarrow> 'x list \<Rightarrow> 's \<Rightarrow> ('w, 's) prog" where
  "forP f [] s = retP s"
| "forP f (x # xs) s = bindP (f x s) (forP f xs)"

primrec forE :: "('x \<Rightarrow> 's \<Rightarrow> ('w, goerr + 's) prog) \<Rightarrow> 'x list \<Rightarrow> 's \<Rightarrow> ('w, goerr + 's) prog" where
  "forE f [] s = retP (Inr s)"
| "forE f (x # xs) s = tryP (f x s) (forE f xs)"

lemma retP_run [prog_simps]: "retP a w = (Ret a, w)"
  by (simp add: retP_def)

lemma panicP_run [prog_simps]: "panicP w = (Panic, w)"
  by (simp add: panicP_def)

lemma callP_run [simp, prog_simps]: "callP f w = (Ret (fst (f w)), snd (f w))"
  by (simp add: callP_def case_prod_beta)

lemma bindP_Ret [simp]: "m w = (Ret a, w') \<Longrightarrow> bindP m f w = f a w'"
  by (simp add: bindP_def)

lemma bindP_Panic [simp]: "m w = (Panic, w') \<Longrightarrow> bindP m f w = (Panic, w')"
  by (simp add: bindP_def)

lemma bindP_retP [simp]: "bindP (retP a) f = f a"
  by (rule ext) (simp add: retP_run)

lemma bindP_callP [simp]: "bindP (callP g) f w = f (fst (g w)) (snd (g w))"
  by simp

lemma bindP_panicP [simp]: "bindP panicP f = panicP"
  by (rule ext) (simp add: panicP_run)

lemma bindP_assoc: "bindP (bindP m f) g = bindP m (\<lambda>a. bindP (f a) g)"
  by (rule ext) (simp add: bindP_def split: prod.splits outcome.splits)

lemma tryP_run [prog_simps]:
  "tryP m f w = (case m w of (Ret (Inl e), w') \<Rightarrow> (Ret (Inl e), w')
                 | (Ret (Inr x), w') \<Rightarrow> f x w' | (Panic, w') \<Rightarrow> (Panic, w'))"
  by (simp add: tryP_def bindP_def retP_run split: prod.splits outcome.splits sum.splits)

lemma tryE_run [prog_simps]:
  "tryE m f w = (case m w of (Ret (Inl e), w') \<Rightarrow> (Ret (Some e), w')
                 | (Ret (Inr x), w') \<Rightarrow> f x w' | (Panic, w') \<Rightarrow> (Panic, w'))"
  by (simp add: tryE_def bindP_def retP_run split: prod.splits outcome.splits sum.splits)

lemma mapErr_run [prog_simps]:
  "mapErr h m w = (case m w of (Ret (Inl e), w') \<Rightarrow> (Ret (Inl (h e)), w') | r \<Rightarrow> r)"
  by (simp add: mapErr_def bindP_def retP_run split: prod.splits outcome.splits sum.splits)

lemmas bindP_run [prog_simps] = bindP_def

lemma forP_append: "forP f (xs @ ys) s = bindP (forP f xs s) (forP f ys)"
proof (induction xs arbitrary: s)
  case Nil
  show ?case by simp
next
  case (Cons x xs)
  have "forP f (xs @ ys) = (\<lambda>t. bindP (forP f xs t) (forP f ys))"
    by (rule ext) (rule Cons.IH)
  then show ?case by (simp add: bindP_assoc)
qed

subsection \<open>A program logic with a panic postcondition\<close>

text \<open>
  \<open>hoare P m Q E\<close>: from a world in \<open>P\<close>, a returned value and its world satisfy
  \<open>Q\<close>, and a world left behind by a panic satisfies \<open>E\<close>.
\<close>

definition hoare ::
  "('w \<Rightarrow> bool) \<Rightarrow> ('w, 'a) prog \<Rightarrow> ('a \<Rightarrow> 'w \<Rightarrow> bool) \<Rightarrow> ('w \<Rightarrow> bool) \<Rightarrow> bool" where
  "hoare P m Q E \<longleftrightarrow>
     (\<forall>w. P w \<longrightarrow> (case m w of (Ret a, w') \<Rightarrow> Q a w' | (Panic, w') \<Rightarrow> E w'))"

lemma hoareI:
  assumes "\<And>w a w'. P w \<Longrightarrow> m w = (Ret a, w') \<Longrightarrow> Q a w'"
    and "\<And>w w'. P w \<Longrightarrow> m w = (Panic, w') \<Longrightarrow> E w'"
  shows "hoare P m Q E"
  using assms by (auto simp: hoare_def split: prod.splits outcome.splits)

lemma hoare_RetD: "hoare P m Q E \<Longrightarrow> P w \<Longrightarrow> m w = (Ret a, w') \<Longrightarrow> Q a w'"
  by (auto simp: hoare_def dest!: spec [where x = w])

lemma hoare_PanicD: "hoare P m Q E \<Longrightarrow> P w \<Longrightarrow> m w = (Panic, w') \<Longrightarrow> E w'"
  by (auto simp: hoare_def dest!: spec [where x = w])

lemma hoare_retP [hoare_intros]: "hoare (Q a) (retP a) Q E"
  by (simp add: hoare_def retP_run)

lemma hoare_panicP [hoare_intros]: "hoare E panicP Q E"
  by (simp add: hoare_def panicP_run)

lemma hoare_bindP:
  assumes "hoare P m R E" and "\<And>a. hoare (R a) (f a) Q E"
  shows "hoare P (bindP m f) Q E"
  using assms by (fastforce simp: hoare_def bindP_def split: prod.splits outcome.splits)

lemma hoare_conseq:
  assumes "hoare P' m Q' E'" and "\<And>w. P w \<Longrightarrow> P' w"
    and "\<And>a w. Q' a w \<Longrightarrow> Q a w" and "\<And>w. E' w \<Longrightarrow> E w"
  shows "hoare P m Q E"
  using assms by (fastforce simp: hoare_def split: prod.splits outcome.splits)

lemma hoare_tryP:
  assumes "hoare P m (\<lambda>r w. case r of Inl e \<Rightarrow> Q (Inl e) w | Inr x \<Rightarrow> R x w) E"
    and "\<And>x. hoare (R x) (f x) Q E"
  shows "hoare P (tryP m f) Q E"
  unfolding tryP_def
  by (rule hoare_bindP [OF assms(1)])
     (auto simp: hoare_def retP_run split: sum.splits dest: assms(2) [unfolded hoare_def, rule_format])

lemma hoare_tryE:
  assumes "hoare P m (\<lambda>r w. case r of Inl e \<Rightarrow> Q (Some e) w | Inr x \<Rightarrow> R x w) E"
    and "\<And>x. hoare (R x) (f x) Q E"
  shows "hoare P (tryE m f) Q E"
  unfolding tryE_def
  by (rule hoare_bindP [OF assms(1)])
     (auto simp: hoare_def retP_run split: sum.splits dest: assms(2) [unfolded hoare_def, rule_format])

lemma hoare_forP:
  assumes "\<And>x s. x \<in> set xs \<Longrightarrow> hoare (I s) (f x s) I E"
  shows "hoare (I s) (forP f xs s) I E"
  using assms
proof (induction xs arbitrary: s)
  case Nil
  show ?case by (simp add: hoare_retP)
next
  case (Cons x xs)
  have "hoare (I s) (f x s) I E" by (rule Cons.prems) simp
  moreover have "hoare (I t) (forP f xs t) I E" for t
    by (rule Cons.IH) (simp add: Cons.prems)
  ultimately show ?case by (simp add: hoare_bindP)
qed

lemma hoare_forE:
  assumes "\<And>x s. x \<in> set xs \<Longrightarrow>
             hoare (I s) (f x s) (\<lambda>r w. case r of Inl e \<Rightarrow> J e w | Inr t \<Rightarrow> I t w) E"
  shows "hoare (I s) (forE f xs s) (\<lambda>r w. case r of Inl e \<Rightarrow> J e w | Inr t \<Rightarrow> I t w) E"
  using assms
proof (induction xs arbitrary: s)
  case Nil
  show ?case by (simp add: hoare_def retP_run)
next
  case (Cons x xs)
  have "hoare (I s) (f x s) (\<lambda>r w. case r of Inl e \<Rightarrow> J e w | Inr t \<Rightarrow> I t w) E"
    by (rule Cons.prems) simp
  then have "hoare (I s) (f x s)
      (\<lambda>r w. case r of Inl e \<Rightarrow> (case Inl e of Inl e \<Rightarrow> J e w | Inr t \<Rightarrow> I t w) | Inr t \<Rightarrow> I t w) E"
    by (rule hoare_conseq) (auto split: sum.splits)
  moreover have "hoare (I t) (forE f xs t) (\<lambda>r w. case r of Inl e \<Rightarrow> J e w | Inr t \<Rightarrow> I t w) E" for t
    by (rule Cons.IH) (simp add: Cons.prems)
  ultimately show ?case
    by (auto intro!: hoare_tryP [where R = I])
qed

text \<open>Programs that never panic, whatever the services answer.\<close>

definition no_panic :: "('w, 'a) prog \<Rightarrow> bool" where
  "no_panic m \<longleftrightarrow> (\<forall>w. fst (m w) \<noteq> Panic)"

lemma no_panic_retP [simp, intro]: "no_panic (retP a)"
  by (simp add: no_panic_def retP_run)

lemma no_panic_callP [simp, intro]: "no_panic (callP f)"
  by (simp add: no_panic_def)

lemma no_panic_bindP [intro]: "no_panic m \<Longrightarrow> (\<And>a. no_panic (f a)) \<Longrightarrow> no_panic (bindP m f)"
  by (auto simp: no_panic_def bindP_def split: prod.split outcome.split) (metis fst_conv)

lemma no_panic_tryP [intro]: "no_panic m \<Longrightarrow> (\<And>a. no_panic (f a)) \<Longrightarrow> no_panic (tryP m f)"
  by (auto simp: tryP_def intro!: no_panic_bindP split: sum.splits)

lemma no_panic_tryE [intro]: "no_panic m \<Longrightarrow> (\<And>a. no_panic (f a)) \<Longrightarrow> no_panic (tryE m f)"
  by (auto simp: tryE_def intro!: no_panic_bindP split: sum.splits)

lemma no_panic_mapErr [intro]: "no_panic m \<Longrightarrow> no_panic (mapErr h m)"
  by (auto simp: mapErr_def intro!: no_panic_bindP split: sum.splits)

lemma no_panic_forP [intro]: "(\<And>x s. x \<in> set xs \<Longrightarrow> no_panic (f x s)) \<Longrightarrow> no_panic (forP f xs s)"
  by (induction xs arbitrary: s) auto

lemma no_panic_forE [intro]: "(\<And>x s. x \<in> set xs \<Longrightarrow> no_panic (f x s)) \<Longrightarrow> no_panic (forE f xs s)"
  by (induction xs arbitrary: s) auto

lemma no_panicE: assumes "no_panic m" obtains a w' where "m w = (Ret a, w')"
  using assms by (cases "m w"; cases "fst (m w)") (auto simp: no_panic_def dest: spec [where x = w])

section \<open>Call traces\<close>

text \<open>
  To state what a program asks of a service, the service is instrumented: its
  world is paired with the list of events so far, and each call appends the
  event its response gives rise to. The programs themselves are unchanged.
\<close>

type_synonym ('w, 'e) traced = "'w \<times> 'e list"

definition traceX :: "('a \<Rightarrow> 'e) \<Rightarrow> ('w, 'a) ext \<Rightarrow> (('w, 'e) traced, 'a) ext" where
  "traceX ev f = (\<lambda>(w, tr). case f w of (a, w') \<Rightarrow> (a, (w', tr @ [ev a])))"

lemma traceX_run: "traceX ev f (w, tr) = (fst (f w), (snd (f w), tr @ [ev (fst (f w))]))"
  by (simp add: traceX_def case_prod_beta)

lemma fst_traceX [simp]: "fst (traceX ev f wt) = fst (f (fst wt))"
  by (cases wt) (simp add: traceX_run)

lemma fst_snd_traceX [simp]: "fst (snd (traceX ev f wt)) = snd (f (fst wt))"
  by (cases wt) (simp add: traceX_run)

lemma snd_snd_traceX [simp]: "snd (snd (traceX ev f wt)) = snd wt @ [ev (fst (f (fst wt)))]"
  by (cases wt) (simp add: traceX_run)

text \<open>A call that is not instrumented, and a whole operation seen as one event.\<close>

definition liftX :: "('w, 'a) ext \<Rightarrow> (('w, 'e) traced, 'a) ext" where
  "liftX f = (\<lambda>(w, tr). case f w of (a, w') \<Rightarrow> (a, (w', tr)))"

lemma liftX_run: "liftX f (w, tr) = (fst (f w), (snd (f w), tr))"
  by (simp add: liftX_def case_prod_beta)

definition traceP :: "('a \<Rightarrow> 'e) \<Rightarrow> ('w, 'a) prog \<Rightarrow> (('w, 'e) traced, 'a) prog" where
  "traceP ev m = (\<lambda>(w, tr). case m w of
       (Ret a, w') \<Rightarrow> (Ret a, (w', tr @ [ev a]))
     | (Panic, w') \<Rightarrow> (Panic, (w', tr)))"

lemma no_panic_traceP [intro]: "no_panic m \<Longrightarrow> no_panic (traceP ev m)"
  unfolding no_panic_def traceP_def by (auto split: prod.split outcome.split) (metis fst_conv)

section \<open>Go maps from strings to strings\<close>

text \<open>
  A Go map is \<open>nil\<close> or allocated. Its iteration order is unspecified, so an
  allocated map carries the order in which this execution visits it; what the
  code computes must not depend on it (see the order-independence theorems).
\<close>

datatype smap = NilMap | SMap "(string \<times> string) list"

primrec entries :: "smap \<Rightarrow> (string \<times> string) list" where
  "entries NilMap = []"
| "entries (SMap xs) = xs"

definition smap_get :: "smap \<Rightarrow> string \<Rightarrow> string option" where
  "smap_get m k = map_of (entries m) k"

text \<open>\<open>m[k]\<close> in a context that ignores \<open>ok\<close>: the zero value when absent.\<close>

definition smap_get0 :: "smap \<Rightarrow> string \<Rightarrow> string" where
  "smap_get0 m k = (case smap_get m k of None \<Rightarrow> '''' | Some v \<Rightarrow> v)"

definition smap_len :: "smap \<Rightarrow> nat" where
  "smap_len m = length (entries m)"

text \<open>\<open>m[k] = v\<close>: \<open>None\<close> is the panic of an assignment to a nil map.\<close>

primrec smap_set :: "smap \<Rightarrow> string \<Rightarrow> string \<Rightarrow> smap option" where
  "smap_set NilMap k v = None"
| "smap_set (SMap xs) k v = Some (SMap (AList.update k v xs))"

text \<open>\<open>reflect.DeepEqual\<close> on maps: same nil-ness, same length, same values.\<close>

fun deep_equal :: "smap \<Rightarrow> smap \<Rightarrow> bool" where
  "deep_equal NilMap NilMap = True"
| "deep_equal (SMap xs) (SMap ys) =
     (length xs = length ys \<and> list_all (\<lambda>(k, v). map_of ys k = Some v) xs)"
| "deep_equal _ _ = False"

definition wf_smap :: "smap \<Rightarrow> bool" where
  "wf_smap m \<longleftrightarrow> distinct (map fst (entries m))"

lemma wf_smap_NilMap [simp]: "wf_smap NilMap"
  by (simp add: wf_smap_def)

lemma smap_get_NilMap [simp]: "smap_get NilMap = Map.empty"
  by (simp add: smap_get_def fun_eq_iff)

lemma map_of_eq_imp_dom: "map_of xs = map_of ys \<Longrightarrow> fst ` set xs = fst ` set ys"
  by (metis dom_map_of_conv_image_fst)

lemma distinct_map_of_eq_length:
  assumes "distinct (map fst xs)" and "distinct (map fst ys)" and "map_of xs = map_of ys"
  shows "length xs = length ys"
proof -
  have "length xs = card (fst ` set xs)" and "length ys = card (fst ` set ys)"
    using assms(1,2) distinct_card [of "map fst xs"] distinct_card [of "map fst ys"] by simp_all
  with map_of_eq_imp_dom [OF assms(3)] show ?thesis by simp
qed

lemma alist_equal_iff:
  assumes "distinct (map fst xs)" and "distinct (map fst ys)"
  shows "(length xs = length ys \<and> list_all (\<lambda>(k, v). map_of ys k = Some v) xs)
           \<longleftrightarrow> map_of xs = map_of ys"
proof
  assume eq: "length xs = length ys \<and> list_all (\<lambda>(k, v). map_of ys k = Some v) xs"
  have sub: "set xs \<subseteq> set ys"
    using eq by (auto simp: list_all_iff dest: map_of_SomeD)
  have "card (set xs) = card (set ys)"
    using assms eq by (metis distinct_card distinct_map)
  with sub have "set xs = set ys"
    by (simp add: card_subset_eq)
  with assms show "map_of xs = map_of ys" by (simp add: map_of_inject_set)
next
  assume "map_of xs = map_of ys"
  with assms show "length xs = length ys \<and> list_all (\<lambda>(k, v). map_of ys k = Some v) xs"
    using distinct_map_of_eq_length [OF assms]
    by (auto simp: list_all_iff) (metis map_of_eq_Some_iff)
qed

text \<open>Between allocated maps, \<open>DeepEqual\<close> is equality of the lookup functions.\<close>

lemma deep_equal_iff:
  assumes "wf_smap a" and "wf_smap b"
  shows "deep_equal a b \<longleftrightarrow> ((a = NilMap) = (b = NilMap)) \<and> smap_get a = smap_get b"
proof (cases "a = NilMap \<or> b = NilMap")
  case True
  then show ?thesis by (cases a; cases b) (auto simp: smap_get_def [abs_def])
next
  case False
  then obtain xs ys where "a = SMap xs" and "b = SMap ys"
    by (cases a; cases b) auto
  with assms alist_equal_iff [of xs ys] show ?thesis
    by (simp only: deep_equal.simps wf_smap_def smap_get_def [abs_def] entries.simps smap.distinct) simp
qed

text \<open>
  \<open>for k, v := range xs { if p(k) { acc[k] = v } }\<close>, the copying loop that
  appears throughout the client.
\<close>

primrec range_copy ::
  "(string \<Rightarrow> bool) \<Rightarrow> (string \<times> string) list \<Rightarrow> (string \<times> string) list \<Rightarrow> (string \<times> string) list" where
  "range_copy p [] acc = acc"
| "range_copy p (kv # xs) acc =
     range_copy p xs (if p (fst kv) then AList.update (fst kv) (snd kv) acc else acc)"

lemma map_of_not_key: "k \<notin> fst ` set xs \<Longrightarrow> map_of xs k = None"
  by (simp add: map_of_eq_None_iff)

lemma map_of_range_copy [smap_simps]:
  assumes "distinct (map fst xs)"
  shows "map_of (range_copy p xs acc) k =
           (if p k \<and> k \<in> fst ` set xs then map_of xs k else map_of acc k)"
  using assms
proof (induction xs arbitrary: acc)
  case Nil
  show ?case by simp
next
  case (Cons kv xs)
  then show ?case by (cases kv) (auto simp: AList.update_conv')
qed

lemma distinct_range_copy [simp]:
  "distinct (map fst acc) \<Longrightarrow> distinct (map fst (range_copy p xs acc))"
  by (induction xs arbitrary: acc) (auto simp: AList.distinct_update)

lemma set_keys_range_copy:
  "fst ` set (range_copy p xs acc) = {k \<in> fst ` set xs. p k} \<union> fst ` set acc"
  by (induction xs arbitrary: acc) (auto simp: dom_update)

end
