(* ===== verification/Go_Std.thy ===== *)
theory Go_Std
  imports Prelude
begin

text \<open>
  The functions of Go's standard library that the program uses on strings and
  numbers: \<open>strings.HasPrefix\<close>, \<open>Contains\<close>, \<open>Split\<close>, \<open>strconv.ParseBool\<close>,
  \<open>ParseUint\<close>, \<open>Atoi\<close>, decimal formatting, \<open>net.SplitHostPort\<close> and
  \<open>encoding/hex\<close>. A Go string is a sequence of bytes, a \<open>uint64\<close> is a
  \<open>64 word\<close>, and an \<open>int32\<close> conversion keeps the low 32 bits.
\<close>

section \<open>strings\<close>

definition HasPrefix :: "string \<Rightarrow> string \<Rightarrow> bool" where
  "HasPrefix s p \<longleftrightarrow> length p \<le> length s \<and> take (length p) s = p"

fun Contains :: "string \<Rightarrow> string \<Rightarrow> bool" where
  "Contains [] sub = (sub = [])"
| "Contains (c # cs) sub = (HasPrefix (c # cs) sub \<or> Contains cs sub)"

text \<open>\<open>strings.Split\<close> at a single separator byte: always at least one piece.\<close>

fun Split :: "char \<Rightarrow> string \<Rightarrow> string list" where
  "Split sep [] = [[]]"
| "Split sep (c # cs) =
     (if c = sep then [] # Split sep cs
      else case Split sep cs of p # ps \<Rightarrow> (c # p) # ps | [] \<Rightarrow> [[c]])"

lemma HasPrefix_iff: "HasPrefix s p \<longleftrightarrow> (\<exists>t. s = p @ t)"
  unfolding HasPrefix_def by (metis append_eq_conv_conj append_take_drop_id le_add1 length_append)

lemma HasPrefix_append [simp]: "HasPrefix (p @ t) p"
  by (auto simp: HasPrefix_iff)

lemma Split_not_Nil [simp]: "Split sep s \<noteq> []"
  by (cases s) (auto split: list.splits)

lemma Split_no_sep: "sep \<notin> set s \<Longrightarrow> Split sep s = [s]"
  by (induction s) auto

lemma Split_append_sep: "sep \<notin> set a \<Longrightarrow> Split sep (a @ sep # b) = a # Split sep b"
  by (induction a) auto

lemma length_Split: "length (Split sep s) = Suc (count_list s sep)"
proof (induction s)
  case Nil
  show ?case by simp
next
  case (Cons c cs)
  then show ?case by (cases "Split sep cs") auto
qed

section \<open>strconv\<close>

definition ParseBool :: "string \<Rightarrow> goerr + bool" where
  "ParseBool s =
     (if s \<in> set [''1'', ''t'', ''T'', ''TRUE'', ''true'', ''True''] then Inr True
      else if s \<in> set [''0'', ''f'', ''F'', ''FALSE'', ''false'', ''False''] then Inr False
      else Inl (NumError ''ParseBool'' s ErrSyntax))"

definition digit :: "char \<Rightarrow> nat" where
  "digit c = of_char c - 48"

definition is_digit :: "char \<Rightarrow> bool" where
  "is_digit c \<longleftrightarrow> (48::nat) \<le> of_char c \<and> of_char c \<le> (57::nat)"

type_synonym uint64 = "64 word"

abbreviation maxUint64 :: uint64 where
  "maxUint64 \<equiv> 18446744073709551615"

abbreviation cutoff10 :: uint64 where
  "cutoff10 \<equiv> 1844674407370955162"

text \<open>
  The loop of \<open>strconv.ParseUint(s, 10, 64)\<close>: the value returned beside an
  error is 0 for a syntax error and the largest \<open>uint64\<close> for a range error.
\<close>

fun parse_uint_loop :: "string \<Rightarrow> uint64 \<Rightarrow> uint64 \<times> num_err option" where
  "parse_uint_loop [] n = (n, None)"
| "parse_uint_loop (c # cs) n =
     (if \<not> is_digit c then (0, Some ErrSyntax)
      else if cutoff10 \<le> n then (maxUint64, Some ErrRange)
      else let m = n * 10; n1 = m + of_nat (digit c)
           in if n1 < m then (maxUint64, Some ErrRange) else parse_uint_loop cs n1)"

definition parse_uint :: "string \<Rightarrow> uint64 \<times> num_err option" where
  "parse_uint s = (if s = [] then (0, Some ErrSyntax) else parse_uint_loop s 0)"

definition ParseUint :: "string \<Rightarrow> uint64 \<times> error_or_nil" where
  "ParseUint s = (case parse_uint s of (n, e) \<Rightarrow> (n, map_option (NumError ''ParseUint'' s) e))"

text \<open>The number a digit string denotes, without a width.\<close>

definition dec_val :: "nat \<Rightarrow> string \<Rightarrow> nat" where
  "dec_val = foldl (\<lambda>n c. 10 * n + digit c)"

lemma dec_val_Nil [simp]: "dec_val n [] = n"
  by (simp add: dec_val_def)

lemma dec_val_Cons [simp]: "dec_val n (c # cs) = dec_val (10 * n + digit c) cs"
  by (simp add: dec_val_def)

lemma dec_val_append: "dec_val n (xs @ ys) = dec_val (dec_val n xs) ys"
  by (simp add: dec_val_def)

lemma dec_val_ge: "n \<le> dec_val n cs"
proof (induction cs arbitrary: n)
  case (Cons c cs)
  have "n \<le> 10 * n + digit c" by simp
  also have "\<dots> \<le> dec_val n (c # cs)" using Cons.IH by simp
  finally show ?case .
qed simp

lemma digit_less: "is_digit c \<Longrightarrow> digit c < 10"
  unfolding is_digit_def digit_def by linarith

lemma unat_less_2p64: "unat n < 2 ^ 64" for n :: uint64
  using unsigned_less [of n] by simp

lemma cutoff10_iff: "cutoff10 \<le> n \<longleftrightarrow> 2 ^ 64 \<le> unat n * 10" for n :: uint64
  by (simp add: word_le_nat_alt) arith

lemma unat_times10: "\<not> cutoff10 \<le> n \<Longrightarrow> unat (n * 10) = unat n * 10" for n :: uint64
  by (simp add: cutoff10_iff unat_word_ariths)

lemma add_digit_wraps:
  fixes m :: uint64
  assumes "d < 10"
  shows "m + of_nat d < m \<longleftrightarrow> 2 ^ 64 \<le> unat m + d"
proof -
  have d: "unat (of_nat d :: uint64) = d" using assms by (simp add: unat_of_nat)
  have m: "unat m < 2 ^ 64" by (rule unat_less_2p64)
  show ?thesis
  proof (cases "unat m + d < 2 ^ 64")
    case True
    then have "unat (m + of_nat d) = unat m + d" by (simp add: unat_word_ariths d)
    with True show ?thesis by (simp add: word_less_nat_alt)
  next
    case False
    then have "(unat m + d) mod 2 ^ 64 = unat m + d - 2 ^ 64"
      using m assms by (simp add: mod_if)
    then have "unat (m + of_nat d) = unat m + d - 2 ^ 64" by (simp add: unat_word_ariths d)
    with False assms m show ?thesis by (simp add: word_less_nat_alt)
  qed
qed

text \<open>
  The overflow checks are exact: on digits the loop returns the number denoted
  when it fits into 64 bits and the range error otherwise.
\<close>

lemma parse_uint_loop_digits:
  assumes "list_all is_digit cs"
  shows "parse_uint_loop cs n =
           (if dec_val (unat n) cs < 2 ^ 64 then (of_nat (dec_val (unat n) cs), None)
            else (maxUint64, Some ErrRange))"
  using assms
proof (induction cs arbitrary: n)
  case Nil
  show ?case using unat_less_2p64 [of n] by simp
next
  case (Cons c cs)
  let ?d = "digit c" and ?m = "n * 10"
  from Cons.prems have c: "is_digit c" and d: "?d < 10" by (simp_all add: digit_less)
  have ge: "10 * unat n + ?d \<le> dec_val (unat n) (c # cs)"
    using dec_val_ge [of "10 * unat n + ?d" cs] by simp
  show ?case
  proof (cases "cutoff10 \<le> n \<or> ?m + of_nat ?d < ?m")
    case True
    then have "2 ^ 64 \<le> 10 * unat n + ?d"
      using d unat_times10 [of n] add_digit_wraps [of ?d ?m] cutoff10_iff [of n] by auto
    with ge have "\<not> dec_val (unat n) (c # cs) < 2 ^ 64" by linarith
    with True c show ?thesis by (auto simp: Let_def)
  next
    case False
    then have nw: "unat ?m + ?d < 2 ^ 64" and m: "unat ?m = unat n * 10"
      using d add_digit_wraps [of ?d ?m] unat_times10 [of n] by auto
    have "unat (?m + of_nat ?d) = 10 * unat n + ?d"
      using nw m d by (simp add: unat_word_ariths unat_of_nat)
    with False c Cons show ?thesis by (simp add: Let_def)
  qed
qed

lemma parse_uint_loop_None: "snd (parse_uint_loop cs n) = None \<Longrightarrow> list_all is_digit cs"
  by (induction cs n rule: parse_uint_loop.induct) (auto simp: Let_def split: if_splits)

lemma parse_uint_loop_err:
  "parse_uint_loop cs n = (v, Some e) \<Longrightarrow> v = (if e = ErrSyntax then 0 else maxUint64)"
  by (induction cs n rule: parse_uint_loop.induct) (auto simp: Let_def split: if_splits)

lemma parse_uint_ok_iff:
  "parse_uint s = (v, None) \<longleftrightarrow>
     s \<noteq> [] \<and> list_all is_digit s \<and> dec_val 0 s < 2 ^ 64 \<and> v = of_nat (dec_val 0 s)"
proof (cases "s \<noteq> [] \<and> list_all is_digit s")
  case True
  then show ?thesis by (auto simp: parse_uint_def parse_uint_loop_digits)
next
  case False
  then have "snd (parse_uint s) \<noteq> None"
    using parse_uint_loop_None [of s 0] by (auto simp: parse_uint_def)
  with False show ?thesis by auto
qed

lemma ParseUint_ok_iff:
  "ParseUint s = (v, None) \<longleftrightarrow>
     s \<noteq> [] \<and> list_all is_digit s \<and> dec_val 0 s < 2 ^ 64 \<and> v = of_nat (dec_val 0 s)"
  using parse_uint_ok_iff [of s v] by (auto simp: ParseUint_def split: prod.splits)

lemma ParseUint_range:
  assumes "s \<noteq> []" and "list_all is_digit s" and "2 ^ 64 \<le> dec_val 0 s"
  shows "ParseUint s = (maxUint64, Some (NumError ''ParseUint'' s ErrRange))"
  using assms by (simp add: ParseUint_def parse_uint_def parse_uint_loop_digits)

lemma ParseUint_err_value:
  "ParseUint s = (v, Some e) \<Longrightarrow>
     (v = 0 \<and> e = NumError ''ParseUint'' s ErrSyntax) \<or>
     (v = maxUint64 \<and> e = NumError ''ParseUint'' s ErrRange)"
  using parse_uint_loop_err [of s 0 v]
  by (auto simp: ParseUint_def parse_uint_def split: prod.splits if_splits) (metis num_err.exhaust)

subsection \<open>Decimal formatting\<close>

definition digit_char :: "nat \<Rightarrow> char" where
  "digit_char d = char_of (48 + d)"

fun show_nat :: "nat \<Rightarrow> string" where
  "show_nat n = (if n < 10 then [digit_char n] else show_nat (n div 10) @ [digit_char (n mod 10)])"

declare show_nat.simps [simp del]

definition show_int :: "int \<Rightarrow> string" where
  "show_int i = (if i < 0 then CHR ''-'' # show_nat (nat (- i)) else show_nat (nat i))"

lemma digit_char:
  assumes "d < 10"
  shows "is_digit (digit_char d)" and "digit (digit_char d) = d"
  using assms by (auto simp: is_digit_def digit_def digit_char_def of_char_of)

lemma show_nat_not_Nil [simp]: "show_nat n \<noteq> []"
  by (subst show_nat.simps) simp

lemma show_nat_digits: "list_all is_digit (show_nat n)"
proof (induction n rule: show_nat.induct)
  case (1 n)
  then show ?case by (subst show_nat.simps) (simp add: digit_char)
qed

lemma dec_val_show_nat: "dec_val 0 (show_nat n) = n"
proof (induction n rule: show_nat.induct)
  case (1 n)
  then show ?case by (subst show_nat.simps) (simp add: dec_val_append digit_char)
qed

lemma parse_uint_show_nat: "n < 2 ^ 64 \<Longrightarrow> parse_uint (show_nat n) = (of_nat n, None)"
  by (simp add: parse_uint_ok_iff show_nat_digits dec_val_show_nat)

subsection \<open>Atoi\<close>

text \<open>
  \<open>strconv.Atoi\<close> on a 64-bit platform: an optional sign, then \<open>ParseUint\<close>, then
  the check against the range of \<open>int\<close>. Its value is used only without an error.
\<close>

definition int_range :: "bool \<Rightarrow> uint64 \<Rightarrow> int option" where
  "int_range neg un =
     (if \<not> neg \<and> 2 ^ 63 \<le> uint un then None
      else if neg \<and> 2 ^ 63 < uint un then None
      else Some (if neg then - uint un else uint un))"

definition Atoi :: "string \<Rightarrow> goerr + int" where
  "Atoi s =
     (let neg = (s \<noteq> [] \<and> hd s = CHR ''-'');
          body = (if s \<noteq> [] \<and> (hd s = CHR ''-'' \<or> hd s = CHR ''+'') then tl s else s)
      in case parse_uint body of
           (un, e) \<Rightarrow>
             if e = Some ErrSyntax then Inl (NumError ''Atoi'' s ErrSyntax)
             else case int_range neg un of
                    None \<Rightarrow> Inl (NumError ''Atoi'' s ErrRange)
                  | Some i \<Rightarrow> Inr i)"

lemma int_range_bounds: "int_range neg un = Some i \<Longrightarrow> - (2 ^ 63) \<le> i \<and> i < 2 ^ 63"
proof -
  assume i: "int_range neg un = Some i"
  have nonneg: "0 \<le> uint un" "(0::int) < 2 ^ 63" by simp_all
  from i have "uint un \<le> 2 ^ 63 \<and> i = - uint un \<or> uint un < 2 ^ 63 \<and> i = uint un"
    by (auto simp: int_range_def split: if_splits)
  with nonneg show ?thesis by linarith
qed

lemma Atoi_bounds: "Atoi s = Inr i \<Longrightarrow> - (2 ^ 63) \<le> i \<and> i < 2 ^ 63"
  by (auto simp: Atoi_def Let_def simp del: power_numeral dest!: int_range_bounds
      split: prod.splits option.splits if_splits)

lemma is_digit_not_sign: "is_digit c \<Longrightarrow> c \<noteq> CHR ''-'' \<and> c \<noteq> CHR ''+''"
  by (auto simp: is_digit_def)

lemma uint_of_nat64: "n < 2 ^ 64 \<Longrightarrow> uint (of_nat n :: uint64) = int n"
  by (simp add: uint_nat unat_of_nat)

lemma of_nat_eq_iff_unat: "n < 2 ^ 64 \<and> t = of_nat n \<longleftrightarrow> n = unat t" for t :: uint64
proof
  assume "n < 2 ^ 64 \<and> t = of_nat n"
  then show "n = unat t" by (simp add: unat_eq_nat_uint uint_of_nat64)
next
  assume "n = unat t"
  then show "n < 2 ^ 64 \<and> t = of_nat n" using unat_less_2p64 [of t] by simp
qed

lemma Atoi_show_nat:
  assumes "n < 2 ^ 63"
  shows "Atoi (show_nat n) = Inr (int n)"
proof -
  have "is_digit (hd (show_nat n))"
    using show_nat_digits [of n] by (cases "show_nat n") auto
  then have "hd (show_nat n) \<noteq> CHR ''-''" and "hd (show_nat n) \<noteq> CHR ''+''"
    by (auto dest: is_digit_not_sign)
  moreover have "int_range False (of_nat n) = Some (int n)"
    using assms by (simp add: int_range_def uint_of_nat64)
  ultimately show ?thesis
    using assms by (simp add: Atoi_def Let_def parse_uint_show_nat)
qed

lemma Atoi_show_neg:
  assumes "n \<le> 2 ^ 63"
  shows "Atoi (CHR ''-'' # show_nat n) = Inr (- int n)"
proof -
  have "int_range True (of_nat n) = Some (- int n)"
    using assms by (simp add: int_range_def uint_of_nat64)
  then show ?thesis
    using assms by (simp add: Atoi_def Let_def parse_uint_show_nat)
qed

lemma Atoi_show_int:
  assumes "- (2 ^ 63) \<le> i" and "i < 2 ^ 63"
  shows "Atoi (show_int i) = Inr i"
proof (cases "i < 0")
  case True
  with assms(1) have "nat (- i) \<le> 2 ^ 63" by simp
  from Atoi_show_neg [OF this] True show ?thesis by (simp add: show_int_def)
next
  case False
  with assms(2) have "nat i < 2 ^ 63" by simp
  from Atoi_show_nat [OF this] False show ?thesis by (simp add: show_int_def)
qed

section \<open>net\<close>

fun IndexByte :: "char \<Rightarrow> string \<Rightarrow> nat option" where
  "IndexByte b [] = None"
| "IndexByte b (c # cs) = (if c = b then Some 0 else map_option Suc (IndexByte b cs))"

definition LastByte :: "char \<Rightarrow> string \<Rightarrow> nat option" where
  "LastByte b s = map_option (\<lambda>i. length s - Suc i) (IndexByte b (rev s))"

definition SplitHostPort :: "string \<Rightarrow> goerr + (string \<times> string)" where
  "SplitHostPort s =
     (case LastByte CHR '':'' s of
        None \<Rightarrow> Inl (AddrError ''missing port in address'' s)
      | Some i \<Rightarrow>
          let finish = (\<lambda>host j k.
                if CHR ''['' \<in> set (drop j s) then Inl (AddrError ''unexpected [ in address'' s)
                else if CHR '']'' \<in> set (drop k s) then Inl (AddrError ''unexpected ] in address'' s)
                else Inr (host, drop (Suc i) s))
          in if hd s = CHR ''['' then
               (case IndexByte CHR '']'' s of
                  None \<Rightarrow> Inl (AddrError ''missing ] in address'' s)
                | Some e \<Rightarrow>
                    if Suc e = length s then Inl (AddrError ''missing port in address'' s)
                    else if Suc e = i then finish (take (e - 1) (drop 1 s)) 1 (Suc e)
                    else if s ! Suc e = CHR '':'' then Inl (AddrError ''too many colons in address'' s)
                    else Inl (AddrError ''missing port in address'' s))
             else if CHR '':'' \<in> set (take i s) then Inl (AddrError ''too many colons in address'' s)
             else finish (take i s) 0 0)"

lemma IndexByte_append: "b \<notin> set xs \<Longrightarrow> IndexByte b (xs @ b # ys) = Some (length xs)"
  by (induction xs) auto

lemma IndexByte_None: "b \<notin> set xs \<Longrightarrow> IndexByte b xs = None"
  by (induction xs) auto

lemma LastByte_append: "b \<notin> set ys \<Longrightarrow> LastByte b (xs @ b # ys) = Some (length xs)"
  by (simp add: LastByte_def IndexByte_append)

lemma LastByte_None: "b \<notin> set xs \<Longrightarrow> LastByte b xs = None"
  by (simp add: LastByte_def IndexByte_None)

definition plain_part :: "string \<Rightarrow> bool" where
  "plain_part s \<longleftrightarrow> CHR '':'' \<notin> set s \<and> CHR ''['' \<notin> set s \<and> CHR '']'' \<notin> set s"

lemma SplitHostPort_plain:
  assumes "plain_part host" and "plain_part port"
  shows "SplitHostPort (host @ CHR '':'' # port) = Inr (host, port)"
proof -
  have "hd (host @ CHR '':'' # port) \<noteq> CHR ''[''"
    using assms(1) by (cases host) (auto simp: plain_part_def)
  with assms show ?thesis
    by (auto simp: SplitHostPort_def LastByte_append plain_part_def Let_def)
qed

lemma SplitHostPort_too_many_colons:
  assumes "CHR '':'' \<in> set host" and "hd host \<noteq> CHR ''[''" and "CHR '':'' \<notin> set port"
  shows "SplitHostPort (host @ CHR '':'' # port) =
           Inl (AddrError ''too many colons in address'' (host @ CHR '':'' # port))"
proof -
  from assms(1) have "host \<noteq> []" by auto
  with assms show ?thesis by (simp add: SplitHostPort_def LastByte_append Let_def)
qed

lemma SplitHostPort_bracketed:
  assumes "CHR ''['' \<notin> set host" and "CHR '']'' \<notin> set host" and "plain_part port"
  shows "SplitHostPort (CHR ''['' # host @ CHR '']'' # CHR '':'' # port) = Inr (host, port)"
proof -
  let ?s = "CHR ''['' # host @ CHR '']'' # CHR '':'' # port"
  have "LastByte CHR '':'' ((CHR ''['' # host @ [CHR '']'']) @ CHR '':'' # port) =
          Some (length (CHR ''['' # host @ [CHR '']'']))"
    using assms(3) by (intro LastByte_append) (simp add: plain_part_def)
  then have "LastByte CHR '':'' ?s = Some (length host + 2)" by simp
  moreover have "IndexByte CHR '']'' ?s = Some (Suc (length host))"
    using assms(2) by (simp add: IndexByte_append)
  ultimately show ?thesis
    using assms by (simp add: SplitHostPort_def Let_def plain_part_def)
qed

lemma plain_digits: "list_all is_digit s \<Longrightarrow> plain_part s"
  by (auto simp: list_all_iff plain_part_def is_digit_def)

lemma plain_show_int: "plain_part (show_int p)"
proof -
  have "plain_part (show_nat n)" for n
    by (rule plain_digits [OF show_nat_digits])
  then show ?thesis
    by (auto simp: show_int_def plain_part_def)
qed

end
