(* ===== verification/Api.thy ===== *)
theory Api
  imports Go_Std
begin

text \<open>
  The StorageOS API as the program sees it: the entities of the vendored
  \<open>go-api\<close> package (the fields the program reads), its mapping of HTTP errors,
  the \<open>ControlPlane\<close> interface of \<open>internal/pkg/storageos/client.go\<close> as a record
  of calls on the world, the \<open>Object\<close> interface as the record of what its
  methods return, and the label names of \<open>internal/pkg/storageos/labels.go\<close>.
\<close>

section \<open>Keys and objects\<close>

record objkey =
  key_Namespace :: string
  key_Name :: string

abbreviation mk_key :: "string \<Rightarrow> string \<Rightarrow> objkey" where
  "mk_key ns n \<equiv> \<lparr>key_Namespace = ns, key_Name = n\<rparr>"

text \<open>\<open>NamespacedName.String\<close>.\<close>

definition key_String :: "objkey \<Rightarrow> string" where
  "key_String k = key_Namespace k @ ''/'' @ key_Name k"

text \<open>
  A value of the \<open>storageos.Object\<close> interface is observable only through its
  methods \<open>GetID\<close>, \<open>GetName\<close>, \<open>GetNamespace\<close>, \<open>GetLabels\<close> and \<open>IsHealthy\<close>.
\<close>

record sobject =
  GetID :: string
  GetName :: string
  GetNamespace :: string
  GetLabels :: smap
  IsHealthy :: bool

definition ObjectKeyFromObject :: "sobject \<Rightarrow> objkey" where
  "ObjectKeyFromObject obj = \<lparr>key_Namespace = GetNamespace obj, key_Name = GetName obj\<rparr>"

definition ObjectKeys :: "sobject list \<Rightarrow> objkey list" where
  "ObjectKeys objects = map ObjectKeyFromObject objects"

section \<open>Entities of the control plane\<close>

text \<open>\<open>MasterHealth\<close> and \<open>NodeHealth\<close> are strings; these are their named values.\<close>

abbreviation MASTERHEALTH_ONLINE :: string where "MASTERHEALTH_ONLINE \<equiv> ''online''"
abbreviation NODEHEALTH_ONLINE :: string where "NODEHEALTH_ONLINE \<equiv> ''online''"
abbreviation NODEHEALTH_OFFLINE :: string where "NODEHEALTH_OFFLINE \<equiv> ''offline''"

record volume =
  vol_Id :: string
  vol_Name :: string
  vol_NamespaceID :: string
  vol_Labels :: smap
  vol_MasterHealth :: string
  vol_NfsServiceEndpoint :: "string option"
  vol_Version :: string

record node_capacity =
  cap_Total :: uint64
  cap_Free :: uint64
  cap_Available :: uint64

record node =
  node_Id :: string
  node_Name :: string
  node_Health :: string
  node_Capacity :: node_capacity
  node_IoEndpoint :: string
  node_SupervisorEndpoint :: string
  node_GossipEndpoint :: string
  node_ClusteringEndpoint :: string
  node_Labels :: smap
  node_CreatedAt :: int
  node_Version :: string

record namespace =
  ns_Id :: string
  ns_Name :: string
  ns_Labels :: smap
  ns_Version :: string

definition volume_object :: "volume \<Rightarrow> sobject" where
  "volume_object v =
     \<lparr>GetID = vol_Id v, GetName = vol_Name v, GetNamespace = vol_NamespaceID v,
      GetLabels = vol_Labels v, IsHealthy = (vol_MasterHealth v = MASTERHEALTH_ONLINE)\<rparr>"

definition node_object :: "node \<Rightarrow> sobject" where
  "node_object n =
     \<lparr>GetID = node_Id n, GetName = node_Name n, GetNamespace = '''',
      GetLabels = node_Labels n, IsHealthy = (node_Health n = NODEHEALTH_ONLINE)\<rparr>"

definition namespace_object :: "namespace \<Rightarrow> sobject" where
  "namespace_object n =
     \<lparr>GetID = ns_Id n, GetName = ns_Name n, GetNamespace = '''',
      GetLabels = ns_Labels n, IsHealthy = True\<rparr>"

section \<open>HTTP responses and error mapping\<close>

record http_response =
  StatusCode :: int
  AuthorizationHeader :: string

definition api_details :: "goerr \<Rightarrow> string option" where
  "api_details e =
     (case e of GenericOpenAPIError msg (Some m) body \<Rightarrow> Some m
      | GenericOpenAPIError msg None body \<Rightarrow> Some body
      | OpenAPIError m \<Rightarrow> Some m
      | _ \<Rightarrow> None)"

text \<open>\<open>api.MapAPIError\<close> on a non-nil error; on \<open>nil\<close> it returns \<open>nil\<close>.\<close>

definition MapAPIError :: "goerr \<Rightarrow> http_response option \<Rightarrow> goerr" where
  "MapAPIError err resp =
     (case resp of None \<Rightarrow> err
      | Some r \<Rightarrow>
          (case api_details err of None \<Rightarrow> err
           | Some details \<Rightarrow>
               (if StatusCode r = 400 then BadRequestError details
                else if StatusCode r = 401 then AuthenticationError details
                else if StatusCode r = 403 then UnauthorisedError details
                else if StatusCode r = 404 then NotFoundError details
                else if StatusCode r = 409 then ConflictError details
                else if StatusCode r = 412 then StaleWriteError details
                else if StatusCode r = 422 then InvalidStateTransitionError details
                else if StatusCode r = 423 then LockedError details
                else if StatusCode r = 451 then LicenceCapabilityError details
                else if StatusCode r = 500 then ServerError details
                else if StatusCode r = 503 then StoreError details
                else if details \<noteq> '''' then Wrap err details
                else err)))"

section \<open>The ControlPlane interface\<close>

text \<open>
  A context matters to a call only through the access token it carries
  (deadlines show as errors of the call). Every call returns the HTTP response,
  which is absent when the request failed before one arrived, and an error.
\<close>

type_synonym ctx = "string option"
type_synonym 'a api_ret = "'a \<times> http_response option \<times> error_or_nil"

record 'w control_plane =
  api_RefreshJwt :: "ctx \<Rightarrow> ('w, unit api_ret) ext"
  api_AuthenticateUser :: "string \<Rightarrow> string \<Rightarrow> ('w, unit api_ret) ext"
  api_ListNamespaces :: "ctx \<Rightarrow> ('w, namespace list api_ret) ext"
  api_DeleteNamespace :: "ctx \<Rightarrow> string \<Rightarrow> string \<Rightarrow> ('w, unit api_ret) ext"
  api_ListNodes :: "ctx \<Rightarrow> ('w, node list api_ret) ext"
  api_UpdateNode :: "ctx \<Rightarrow> string \<Rightarrow> smap \<Rightarrow> string \<Rightarrow> ('w, unit api_ret) ext"
  api_DeleteNode :: "ctx \<Rightarrow> string \<Rightarrow> string \<Rightarrow> ('w, unit api_ret) ext"
  api_SetComputeOnly :: "ctx \<Rightarrow> string \<Rightarrow> bool \<Rightarrow> string \<Rightarrow> ('w, unit api_ret) ext"
  api_ListVolumes :: "ctx \<Rightarrow> string \<Rightarrow> ('w, volume list api_ret) ext"
  api_GetVolume :: "ctx \<Rightarrow> string \<Rightarrow> string \<Rightarrow> ('w, volume api_ret) ext"
  api_UpdateVolume :: "ctx \<Rightarrow> string \<Rightarrow> string \<Rightarrow> smap \<Rightarrow> string \<Rightarrow> ('w, unit api_ret) ext"
  api_SetReplicas :: "ctx \<Rightarrow> string \<Rightarrow> string \<Rightarrow> uint64 \<Rightarrow> string \<Rightarrow> ('w, unit api_ret) ext"
  api_SetFailureMode :: "ctx \<Rightarrow> string \<Rightarrow> string \<Rightarrow> string \<Rightarrow> uint64 \<Rightarrow> string \<Rightarrow> ('w, unit api_ret) ext"
  api_UpdateNFSVolumeMountEndpoint :: "ctx \<Rightarrow> string \<Rightarrow> string \<Rightarrow> string \<Rightarrow> string \<Rightarrow> ('w, unit api_ret) ext"

text \<open>
  The idiom \<open>x, resp, err := c.api.F(ctx, ...)\<close> followed by
  \<open>if err != nil { return ..., api.MapAPIError(err, resp) }\<close>.
\<close>

definition apiP :: "('w, 'a api_ret) ext \<Rightarrow> ('w, goerr + 'a) prog" where
  "apiP f = bindP (callP f) (\<lambda>(v, resp, err). case err of
      None \<Rightarrow> retP (Inr v) | Some e \<Rightarrow> retP (Inl (MapAPIError e resp)))"

lemma apiP_run [prog_simps]:
  "apiP f w = (case f w of ((v, resp, err), w') \<Rightarrow>
     (Ret (case err of None \<Rightarrow> Inr v | Some e \<Rightarrow> Inl (MapAPIError e resp)), w'))"
  by (simp add: apiP_def retP_run split: prod.splits option.splits)

lemma no_panic_apiP [simp, intro]: "no_panic (apiP f)"
  by (auto simp: apiP_def intro!: no_panic_bindP split: prod.splits option.splits)

section \<open>Reserved labels\<close>

abbreviation ReservedLabelPrefix :: string where
  "ReservedLabelPrefix \<equiv> ''storageos.com/''"

abbreviation ReservedLabelComputeOnly :: string where
  "ReservedLabelComputeOnly \<equiv> ''storageos.com/computeonly''"

abbreviation ReservedLabelReplicas :: string where
  "ReservedLabelReplicas \<equiv> ''storageos.com/replicas''"

abbreviation ReservedLabelNoCache :: string where
  "ReservedLabelNoCache \<equiv> ''storageos.com/nocache''"

abbreviation ReservedLabelNoCompress :: string where
  "ReservedLabelNoCompress \<equiv> ''storageos.com/nocompress''"

abbreviation ReservedLabelFailureMode :: string where
  "ReservedLabelFailureMode \<equiv> ''storageos.com/failure-mode''"

abbreviation ReservedLabelEncryption :: string where
  "ReservedLabelEncryption \<equiv> ''storageos.com/encryption''"

abbreviation ReservedLabelFencing :: string where
  "ReservedLabelFencing \<equiv> ''storageos.com/fenced''"

abbreviation ReservedLabelK8sPVCNamespace :: string where
  "ReservedLabelK8sPVCNamespace \<equiv> ''csi.storage.k8s.io/pvc/namespace''"

abbreviation ReservedLabelK8sPVCName :: string where
  "ReservedLabelK8sPVCName \<equiv> ''csi.storage.k8s.io/pvc/name''"

abbreviation ReservedLabelK8sPVName :: string where
  "ReservedLabelK8sPVName \<equiv> ''csi.storage.k8s.io/pv/name''"

definition IsReservedLabel :: "string \<Rightarrow> bool" where
  "IsReservedLabel key =
     (if HasPrefix key ReservedLabelPrefix then True
      else if key = ReservedLabelK8sPVCNamespace \<or> key = ReservedLabelK8sPVCName
              \<or> key = ReservedLabelK8sPVName then True
      else False)"

lemma IsReservedLabel_named [simp]:
  "IsReservedLabel ReservedLabelComputeOnly" "IsReservedLabel ReservedLabelReplicas"
  "IsReservedLabel ReservedLabelNoCache" "IsReservedLabel ReservedLabelNoCompress"
  "IsReservedLabel ReservedLabelFailureMode" "IsReservedLabel ReservedLabelEncryption"
  "IsReservedLabel ReservedLabelFencing"
  by (simp_all add: IsReservedLabel_def HasPrefix_def)

section \<open>Formatting a list of errors\<close>

fun Join :: "string \<Rightarrow> string list \<Rightarrow> string" where
  "Join sep [] = ''''"
| "Join sep [s] = s"
| "Join sep (s # t # ss) = s @ sep @ Join sep (t # ss)"

text \<open>\<open>Error()\<close> texts of the errors in, the formatted text out.\<close>

definition ListErrors :: "string list \<Rightarrow> string" where
  "ListErrors es =
     (case es of [e] \<Rightarrow> e
      | _ \<Rightarrow> show_nat (length es) @ '' errors occurred: '' @ Join '', '' es)"

end
