(* ===== verification/Mem_Plane.thy ===== *)
theory Mem_Plane
  imports Api
begin

text \<open>
  A control plane that keeps its entities in memory and never fails, as a
  concrete instance of the calls the client makes. The theorems hold for every
  control plane; this one shows that their hypotheses can be met.
\<close>

record mem =
  mem_namespaces :: "namespace list"
  mem_nodes :: "node list"
  mem_volumes :: "volume list"

definition resp_ok :: "http_response option" where
  "resp_ok = Some \<lparr>StatusCode = 200, AuthorizationHeader = ''Bearer tok''\<rparr>"

definition mem_label :: "string \<Rightarrow> string \<Rightarrow> smap \<Rightarrow> smap" where
  "mem_label k v m = SMap (AList.update k v (entries m))"

definition mem_on_volume :: "string \<Rightarrow> (volume \<Rightarrow> volume) \<Rightarrow> 'a mem_scheme \<Rightarrow> unit api_ret \<times> 'a mem_scheme" where
  "mem_on_volume i f w =
     (((), resp_ok, None), w\<lparr>mem_volumes := map (\<lambda>v. if vol_Id v = i then f v else v) (mem_volumes w)\<rparr>)"

definition mem_on_node :: "string \<Rightarrow> (node \<Rightarrow> node) \<Rightarrow> 'a mem_scheme \<Rightarrow> unit api_ret \<times> 'a mem_scheme" where
  "mem_on_node i f w =
     (((), resp_ok, None), w\<lparr>mem_nodes := map (\<lambda>n. if node_Id n = i then f n else n) (mem_nodes w)\<rparr>)"

definition mem_cp :: "'a mem_scheme control_plane" where
  "mem_cp =
     \<lparr>api_RefreshJwt = (\<lambda>x w. (((), resp_ok, None), w)),
      api_AuthenticateUser = (\<lambda>u p w. (((), resp_ok, None), w)),
      api_ListNamespaces = (\<lambda>x w. ((mem_namespaces w, resp_ok, None), w)),
      api_DeleteNamespace = (\<lambda>x i v w.
        (((), resp_ok, None), w\<lparr>mem_namespaces := filter (\<lambda>n. ns_Id n \<noteq> i) (mem_namespaces w)\<rparr>)),
      api_ListNodes = (\<lambda>x w. ((mem_nodes w, resp_ok, None), w)),
      api_UpdateNode = (\<lambda>x i ls v. mem_on_node i (\<lambda>n. n\<lparr>node_Labels := ls\<rparr>)),
      api_DeleteNode = (\<lambda>x i v w.
        (((), resp_ok, None), w\<lparr>mem_nodes := filter (\<lambda>n. node_Id n \<noteq> i) (mem_nodes w)\<rparr>)),
      api_SetComputeOnly = (\<lambda>x i b v. mem_on_node i (\<lambda>n. n\<lparr>node_Labels :=
        mem_label ReservedLabelComputeOnly (if b then ''true'' else ''false'') (node_Labels n)\<rparr>)),
      api_ListVolumes = (\<lambda>x ns w. ((filter (\<lambda>v. vol_NamespaceID v = ns) (mem_volumes w), resp_ok, None), w)),
      api_GetVolume = (\<lambda>x ns i w. ((hd (filter (\<lambda>v. vol_Id v = i) (mem_volumes w)), resp_ok, None), w)),
      api_UpdateVolume = (\<lambda>x ns i ls v. mem_on_volume i (\<lambda>vl. vl\<lparr>vol_Labels := ls\<rparr>)),
      api_SetReplicas = (\<lambda>x ns i n v. mem_on_volume i (\<lambda>vl. vl\<lparr>vol_Labels :=
        mem_label ReservedLabelReplicas (show_nat (unat n)) (vol_Labels vl)\<rparr>)),
      api_SetFailureMode = (\<lambda>x ns i m t v. mem_on_volume i (\<lambda>vl. vl\<lparr>vol_Labels :=
        mem_label ReservedLabelFailureMode (if m = '''' then show_nat (unat t) else m) (vol_Labels vl)\<rparr>)),
      api_UpdateNFSVolumeMountEndpoint = (\<lambda>x ns i e v. mem_on_volume i (\<lambda>vl. vl\<lparr>vol_Labels :=
        mem_label ''storageos.com/nfs/mount-endpoint'' e (vol_Labels vl)\<rparr>))\<rparr>"

definition sample_node :: node where
  "sample_node =
     \<lparr>node_Id = ''n1'', node_Name = ''worker-1'', node_Health = ''online'',
      node_Capacity = \<lparr>cap_Total = 100, cap_Free = 60, cap_Available = 50\<rparr>,
      node_IoEndpoint = ''10.0.0.1:5703'', node_SupervisorEndpoint = ''10.0.0.1:5704'',
      node_GossipEndpoint = ''10.0.0.1:5711'', node_ClusteringEndpoint = ''10.0.0.1:5710'',
      node_Labels = SMap [(''storageos.com/computeonly'', ''true''), (''zone'', ''a'')],
      node_CreatedAt = 0, node_Version = ''v1''\<rparr>"

definition sample_volume :: volume where
  "sample_volume =
     \<lparr>vol_Id = ''vol1'', vol_Name = ''pvc-1'', vol_NamespaceID = ''ns1'',
      vol_Labels = SMap [(''storageos.com/replicas'', ''1''), (''env'', ''dev'')],
      vol_MasterHealth = ''online'', vol_NfsServiceEndpoint = Some ''10.0.0.1:25705'', vol_Version = ''v1''\<rparr>"

definition sample_namespace :: namespace where
  "sample_namespace = \<lparr>ns_Id = ''ns1'', ns_Name = ''default'', ns_Labels = NilMap, ns_Version = ''v1''\<rparr>"

definition sample_mem :: mem where
  "sample_mem =
     \<lparr>mem_namespaces = [sample_namespace], mem_nodes = [sample_node], mem_volumes = [sample_volume]\<rparr>"

lemmas sample_simps = sample_mem_def sample_namespace_def sample_volume_def sample_node_def

lemmas mem_cp_simps = mem_cp_def resp_ok_def mem_on_node_def mem_on_volume_def mem_label_def

end
