(* ===== verification/Client.thy ===== *)
theory Client
  imports Mem_Plane
begin

text \<open>
  \<open>internal/pkg/storageos/client.go\<close>: the API client's authentication state,
  the token taken from a response, reading the credentials of the mounted
  secret, and the \<open>Refresh\<close> loop that keeps the token fresh, as a machine
  driven by the events its \<open>select\<close> waits for.
\<close>

section \<open>State\<close>

record client =
  cl_api_set :: bool
  cl_transport_set :: bool
  cl_ctx :: ctx
  cl_traced :: bool

text \<open>
  \<open>AddToken\<close> puts the client's current token into the caller's context; the
  caller's own token, if any, is shadowed.
\<close>

definition AddToken :: "client \<Rightarrow> ctx" where
  "AddToken c = cl_ctx c"

definition NewTestAPIClient :: client where
  "NewTestAPIClient = \<lparr>cl_api_set = True, cl_transport_set = True, cl_ctx = None, cl_traced = False\<rparr>"

section \<open>Tokens\<close>

text \<open>
  \<open>strings.Split(value, " ")[1]\<close>: \<open>None\<close> is the index-out-of-range panic of a
  header without a space.
\<close>

definition respAuthToken :: "http_response \<Rightarrow> string option" where
  "respAuthToken resp =
     (let value = AuthorizationHeader resp
      in if value \<noteq> '''' then
           (let ps = Split CHR '' '' value in if 1 < length ps then Some (ps ! 1) else None)
         else Some '''')"

text \<open>The part \<open>Authenticate\<close> and \<open>resetClient\<close> share: log in and take the token.\<close>

definition Authenticate :: "'w control_plane \<Rightarrow> string \<Rightarrow> string \<Rightarrow> ('w, goerr + ctx) prog" where
  "Authenticate cp username password =
     bindP (callP (api_AuthenticateUser cp username password)) (\<lambda>(_, resp, err).
       case err of
         Some e \<Rightarrow> retP (Inl (MapAPIError e resp))
       | None \<Rightarrow>
           (case resp of
              None \<Rightarrow> panicP
            | Some r \<Rightarrow>
                (case respAuthToken r of
                   None \<Rightarrow> panicP
                 | Some token \<Rightarrow>
                     if token = '''' then retP (Inl ErrNoAuthToken) else retP (Inr (Some token)))))"

section \<open>Credentials\<close>

definition is_space :: "char \<Rightarrow> bool" where
  "is_space c \<longleftrightarrow> of_char c \<in> {9, 10, 11, 12, 13, 32 :: nat}"

definition TrimSpace :: "string \<Rightarrow> string" where
  "TrimSpace s = rev (dropWhile is_space (rev (dropWhile is_space s)))"

text \<open>
  \<open>secret.Read\<close>: \<open>readFile dir name\<close> is \<open>ioutil.ReadFile\<close> of a file of the
  mounted directory.
\<close>

definition secret_Read ::
  "(string \<Rightarrow> string \<Rightarrow> ('w, goerr + string) ext) \<Rightarrow> string \<Rightarrow> string \<Rightarrow> ('w, goerr + string) prog" where
  "secret_Read readFile dir name =
     bindP (callP (readFile dir name)) (\<lambda>r. case r of
       Inl e \<Rightarrow> retP (Inl (Opaque ''unable to read secret'' e))
     | Inr bytes \<Rightarrow> retP (Inr (TrimSpace bytes)))"

definition ReadCredsFromMountedSecret ::
  "(string \<Rightarrow> string \<Rightarrow> ('w, goerr + string) ext) \<Rightarrow> string \<Rightarrow> ('w, goerr + string \<times> string) prog" where
  "ReadCredsFromMountedSecret readFile path =
     tryP (secret_Read readFile path ''username'') (\<lambda>username.
     tryP (secret_Read readFile path ''password'') (\<lambda>password.
       retP (Inr (username, password))))"

definition resetClient ::
  "'w control_plane \<Rightarrow> (string \<Rightarrow> string \<Rightarrow> ('w, goerr + string) ext) \<Rightarrow> string \<Rightarrow> ('w, goerr + ctx) prog" where
  "resetClient cp readFile secretPath =
     tryP (ReadCredsFromMountedSecret readFile secretPath) (\<lambda>(username, password).
       Authenticate cp username password)"

section \<open>The refresh loop\<close>

text \<open>
  The \<open>select\<close> of \<open>Refresh\<close> waits for the interval to elapse, for a message on
  the reset channel and for the end of its context. The result counter is the
  list of increments made, oldest first.
\<close>

datatype refresh_event = IntervalElapsed | ResetReceived | CtxDone

type_synonym metric = "string \<times> error_or_nil"

record refresh_state =
  rs_client :: client
  rs_metrics :: "metric list"

datatype refresh_result = Running refresh_state | Stopped goerr refresh_state

definition incr :: "string \<Rightarrow> error_or_nil \<Rightarrow> refresh_state \<Rightarrow> refresh_state" where
  "incr name e s =
     (if cl_traced (rs_client s) then s\<lparr>rs_metrics := rs_metrics s @ [(name, e)]\<rparr> else s)"

definition set_token :: "ctx \<Rightarrow> refresh_state \<Rightarrow> refresh_state" where
  "set_token t s = s\<lparr>rs_client := (rs_client s)\<lparr>cl_ctx := t\<rparr>\<rparr>"

text \<open>Reset the client after a failed refresh or on request.\<close>

definition refresh_reset ::
  "'w control_plane \<Rightarrow> (string \<Rightarrow> string \<Rightarrow> ('w, goerr + string) ext) \<Rightarrow> string
     \<Rightarrow> refresh_state \<Rightarrow> ('w, refresh_state) prog" where
  "refresh_reset cp readFile path s =
     bindP (resetClient cp readFile path) (\<lambda>r. case r of
       Inl e \<Rightarrow> retP (incr ''reset_api'' (Some e) s)
     | Inr newCtx \<Rightarrow> retP (incr ''reset_api'' None (set_token newCtx s)))"

definition refresh_interval ::
  "'w control_plane \<Rightarrow> (string \<Rightarrow> string \<Rightarrow> ('w, goerr + string) ext) \<Rightarrow> string
     \<Rightarrow> refresh_state \<Rightarrow> ('w, refresh_state) prog" where
  "refresh_interval cp readFile path s =
     bindP (callP (api_RefreshJwt cp (cl_ctx (rs_client s)))) (\<lambda>(_, resp, err).
       case err of
         Some e \<Rightarrow> refresh_reset cp readFile path (incr ''refresh_token'' (Some (MapAPIError e resp)) s)
       | None \<Rightarrow>
           (case resp of
              None \<Rightarrow> panicP
            | Some r \<Rightarrow>
                (case respAuthToken r of
                   None \<Rightarrow> panicP
                 | Some token \<Rightarrow>
                     if token = '''' then retP (incr ''refresh_token'' (Some ErrNoAuthToken) s)
                     else retP (incr ''refresh_token'' None (set_token (Some token) s)))))"

primrec refresh_loop ::
  "'w control_plane \<Rightarrow> (string \<Rightarrow> string \<Rightarrow> ('w, goerr + string) ext) \<Rightarrow> string \<Rightarrow> goerr
     \<Rightarrow> refresh_event list \<Rightarrow> refresh_state \<Rightarrow> ('w, refresh_result) prog" where
  "refresh_loop cp readFile path ctxErr [] s = retP (Running s)"
| "refresh_loop cp readFile path ctxErr (ev # evs) s =
     (case ev of
        IntervalElapsed \<Rightarrow>
          bindP (refresh_interval cp readFile path s) (refresh_loop cp readFile path ctxErr evs)
      | ResetReceived \<Rightarrow>
          bindP (refresh_reset cp readFile path s) (refresh_loop cp readFile path ctxErr evs)
      | CtxDone \<Rightarrow> retP (Stopped ctxErr s))"

definition Refresh ::
  "'w control_plane \<Rightarrow> (string \<Rightarrow> string \<Rightarrow> ('w, goerr + string) ext) \<Rightarrow> string \<Rightarrow> goerr
     \<Rightarrow> refresh_event list \<Rightarrow> client \<Rightarrow> ('w, refresh_result) prog" where
  "Refresh cp readFile path ctxErr evs c =
     (let s = \<lparr>rs_client = c, rs_metrics = []\<rparr>
      in if \<not> cl_api_set c \<or> \<not> cl_transport_set c then retP (Stopped ErrNotInitialized s)
         else refresh_loop cp readFile path ctxErr evs s)"

section \<open>Facts about the loop\<close>

lemma respAuthToken_Bearer:
  assumes "AuthorizationHeader r = scheme @ CHR '' '' # token"
    and "CHR '' '' \<notin> set scheme" and "CHR '' '' \<notin> set token"
  shows "respAuthToken r = Some token"
  using assms by (simp add: respAuthToken_def Let_def Split_append_sep Split_no_sep)

lemma respAuthToken_None_iff:
  "respAuthToken r = None \<longleftrightarrow>
     AuthorizationHeader r \<noteq> '''' \<and> CHR '' '' \<notin> set (AuthorizationHeader r)"
  using count_list_0_iff [of "AuthorizationHeader r" "CHR '' ''"]
  by (auto simp: respAuthToken_def Let_def length_Split)

text \<open>A client state that holds a usable token.\<close>

definition has_token :: "refresh_state \<Rightarrow> bool" where
  "has_token s \<longleftrightarrow> (\<exists>t. cl_ctx (rs_client s) = Some t \<and> t \<noteq> '''')"

lemma incr_client [simp]: "rs_client (incr n e s) = rs_client s"
  by (simp add: incr_def)

lemma has_token_incr [simp]: "has_token (incr n e s) = has_token s"
  by (simp add: has_token_def)

lemma has_token_set_token [simp]: "has_token (set_token (Some t) s) \<longleftrightarrow> t \<noteq> ''''"
  by (simp add: has_token_def set_token_def)

lemma Authenticate_token: "Authenticate cp u p w = (Ret (Inr ctx), w') \<Longrightarrow> \<exists>t. ctx = Some t \<and> t \<noteq> ''''"
  by (auto simp: Authenticate_def prog_simps split: prod.splits option.splits if_splits) metis

lemma resetClient_token:
  "resetClient cp readFile path w = (Ret (Inr ctx), w') \<Longrightarrow> \<exists>t. ctx = Some t \<and> t \<noteq> ''''"
  by (auto simp: resetClient_def tryP_run split: prod.splits outcome.splits sum.splits
      dest: Authenticate_token)

lemma refresh_reset_token:
  "refresh_reset cp readFile path s w = (Ret s', w') \<Longrightarrow> has_token s \<Longrightarrow> has_token s'"
  by (auto simp: refresh_reset_def bindP_run retP_run split: prod.splits outcome.splits sum.splits
      dest: resetClient_token)

lemma refresh_interval_token:
  "refresh_interval cp readFile path s w = (Ret s', w') \<Longrightarrow> has_token s \<Longrightarrow> has_token s'"
  by (auto simp: refresh_interval_def prog_simps split: prod.splits option.splits if_splits
      dest: refresh_reset_token)

lemma refresh_loop_token:
  "refresh_loop cp readFile path ctxErr evs s w = (Ret r, w') \<Longrightarrow> has_token s \<Longrightarrow>
     (case r of Running s' \<Rightarrow> has_token s' | Stopped e s' \<Rightarrow> has_token s')"
proof (induction evs arbitrary: s w)
  case Nil
  then show ?case by (auto simp: retP_run)
next
  case (Cons ev evs)
  show ?case
  proof (cases ev)
    case IntervalElapsed
    with Cons show ?thesis
      by (auto simp: bindP_run split: prod.splits outcome.splits dest: refresh_interval_token)
  next
    case ResetReceived
    with Cons show ?thesis
      by (auto simp: bindP_run split: prod.splits outcome.splits dest: refresh_reset_token)
  next
    case CtxDone
    with Cons.prems show ?thesis by (auto simp: retP_run)
  qed
qed

lemma refresh_loop_stops:
  "refresh_loop cp readFile path ctxErr evs s w = (Ret (Stopped e s'), w') \<Longrightarrow>
     CtxDone \<in> set evs \<and> e = ctxErr"
proof (induction evs arbitrary: s w)
  case Nil
  then show ?case by (simp add: retP_run)
next
  case (Cons ev evs)
  then show ?case
    by (cases ev) (auto simp: bindP_run retP_run split: prod.splits outcome.splits)
qed

lemma refresh_loop_running:
  "refresh_loop cp readFile path ctxErr evs s w = (Ret (Running s'), w') \<Longrightarrow> CtxDone \<notin> set evs"
proof (induction evs arbitrary: s w)
  case Nil
  then show ?case by simp
next
  case (Cons ev evs)
  then show ?case
    by (cases ev) (auto simp: bindP_run retP_run split: prod.splits outcome.splits)
qed

section \<open>Properties\<close>

text \<open>
  C12. The refresh loop never loses the token. Started with a usable token, after
  any sequence of elapsed intervals, resets and the end of its context, and
  whatever the API and the mounted secret answer, the client holds a non-empty
  token; failures keep the previous one. The loop runs on until its context is
  done and then returns the context's error.
\<close>

theorem Refresh_token_invariant:
  assumes "cl_ctx c = Some t" and "t \<noteq> ''''" and "cl_api_set c" and "cl_transport_set c"
  shows "case Refresh cp readFile path ctxErr evs c w of
           (Ret (Running s), w') \<Rightarrow> CtxDone \<notin> set evs \<and> has_token s
         | (Ret (Stopped e s), w') \<Rightarrow> CtxDone \<in> set evs \<and> e = ctxErr \<and> has_token s
         | (Panic, w') \<Rightarrow> True"
proof -
  let ?s = "\<lparr>rs_client = c, rs_metrics = []\<rparr>"
  have tok: "has_token ?s" using assms by (simp add: has_token_def)
  have run: "Refresh cp readFile path ctxErr evs c w = refresh_loop cp readFile path ctxErr evs ?s w"
    using assms by (simp add: Refresh_def Let_def)
  show ?thesis
    unfolding run
    by (auto split: prod.split outcome.split refresh_result.split
        dest: refresh_loop_token [OF _ tok] refresh_loop_running refresh_loop_stops)
qed

theorem Refresh_token_invariant_witness:
  "case Refresh mem_cp (\<lambda>d n w. (Inr ''admin'', w)) ''/etc/secret'' (StdError ''context canceled'')
          [IntervalElapsed, ResetReceived, CtxDone]
          \<lparr>cl_api_set = True, cl_transport_set = True, cl_ctx = Some ''old'', cl_traced = True\<rparr> sample_mem of
     (Ret (Running s), w') \<Rightarrow> False
   | (Ret (Stopped e s), w') \<Rightarrow> has_token s
   | (Panic, w') \<Rightarrow> True"
  using Refresh_token_invariant
    [where c = "\<lparr>cl_api_set = True, cl_transport_set = True, cl_ctx = Some ''old'', cl_traced = True\<rparr>"
       and t = "''old''" and cp = mem_cp and readFile = "\<lambda>d n w. (Inr ''admin'', w)"
       and path = "''/etc/secret''" and ctxErr = "StdError ''context canceled''"
       and evs = "[IntervalElapsed, ResetReceived, CtxDone]" and w = sample_mem]
  by (auto split: prod.splits outcome.splits refresh_result.splits)

end
