(* ===== verification/Metrics.thy ===== *)
theory Metrics
  imports Prelude
begin

text \<open>
  \<open>internal/pkg/storageos/metrics\<close> (\<open>metrics.go\<close>, \<open>transport.go\<close>) and
  \<open>internal/controllers/sharedvolume/metrics.go\<close>: the collectors of the program, their
  registration, and the adapters that count. Registering a collector whose name is
  taken panics (\<open>MustRegister\<close>), so every registration goes through a \<open>sync.Once\<close>.
  Every call of \<open>InstrumentedTransport\<close> makes collectors of its own, told apart
  here by a number.
\<close>

section \<open>Collectors and the registry\<close>

datatype collector =
    HelperLatency | HelperResult | ReconcileLatency
  | TransportInFlight nat | TransportRequests nat | TransportDuration nat

primrec collector_name :: "collector \<Rightarrow> string" where
  "collector_name HelperLatency = ''storageos_api_helper_duration_seconds''"
| "collector_name HelperResult = ''storageos_api_helper_total''"
| "collector_name ReconcileLatency = ''storageos_shared_volume_reconcile_duration_seconds''"
| "collector_name (TransportInFlight n) = ''storageos_api_in_flight_requests''"
| "collector_name (TransportRequests n) = ''storageos_api_requests_total''"
| "collector_name (TransportDuration n) = ''storageos_api_request_duration_seconds''"

text \<open>
  The counters hold the number of calls by function and error string, the
  histograms the observed durations in nanoseconds, oldest first.
\<close>

record metrics =
  mt_registered :: "collector list"
  mt_registerMetricsOnce :: bool
  mt_registerTransportMetrics :: bool
  mt_registerReconcileOnce :: bool
  mt_transports :: nat
  mt_helperLatency :: "(string \<times> int) list"
  mt_helperResult :: "((string \<times> string) \<times> nat) list"
  mt_reconcileLatency :: "int list"

definition initial_metrics :: metrics where
  "initial_metrics =
     \<lparr>mt_registered = [], mt_registerMetricsOnce = False, mt_registerTransportMetrics = False,
      mt_registerReconcileOnce = False, mt_transports = 0,
      mt_helperLatency = [], mt_helperResult = [], mt_reconcileLatency = []\<rparr>"

primrec MustRegister :: "collector list \<Rightarrow> collector list \<Rightarrow> collector list outcome" where
  "MustRegister [] reg = Ret reg"
| "MustRegister (c # cs) reg =
     (if collector_name c \<in> collector_name ` set reg then Panic else MustRegister cs (reg @ [c]))"

text \<open>\<open>once.Do(func() { ... MustRegister ... })\<close>: the new registry and that it has run.\<close>

definition register_once :: "bool \<Rightarrow> collector list \<Rightarrow> collector list \<Rightarrow> collector list outcome" where
  "register_once already cs reg = (if already then Ret reg else MustRegister cs reg)"

definition RegisterMetrics :: "metrics \<Rightarrow> metrics outcome" where
  "RegisterMetrics ms =
     (case register_once (mt_registerMetricsOnce ms) [HelperLatency, HelperResult] (mt_registered ms) of
        Panic \<Rightarrow> Panic
      | Ret reg \<Rightarrow> Ret (ms\<lparr>mt_registered := reg, mt_registerMetricsOnce := True\<rparr>))"

definition sharedvolume_RegisterMetrics :: "metrics \<Rightarrow> metrics outcome" where
  "sharedvolume_RegisterMetrics ms =
     (case register_once (mt_registerReconcileOnce ms) [ReconcileLatency] (mt_registered ms) of
        Panic \<Rightarrow> Panic
      | Ret reg \<Rightarrow> Ret (ms\<lparr>mt_registered := reg, mt_registerReconcileOnce := True\<rparr>))"

section \<open>The instrumented transport\<close>

datatype transport = DefaultTransport | Instrumented nat transport

definition InstrumentedTransport :: "transport \<Rightarrow> metrics \<Rightarrow> (transport \<times> metrics) outcome" where
  "InstrumentedTransport t ms =
     (let n = mt_transports ms in
      case register_once (mt_registerTransportMetrics ms)
             [TransportRequests n, TransportDuration n, TransportInFlight n] (mt_registered ms) of
        Panic \<Rightarrow> Panic
      | Ret reg \<Rightarrow>
          Ret (Instrumented n t,
               ms\<lparr>mt_registered := reg, mt_registerTransportMetrics := True, mt_transports := Suc n\<rparr>))"

text \<open>Whether the requests made through a transport appear in what the process exports.\<close>

fun exported :: "metrics \<Rightarrow> transport \<Rightarrow> bool" where
  "exported ms (Instrumented n t) \<longleftrightarrow> TransportRequests n \<in> set (mt_registered ms)"
| "exported ms DefaultTransport \<longleftrightarrow> False"

section \<open>Adapters\<close>

text \<open>\<open>errorString\<close> is the \<open>Error\<close> method of the error value.\<close>

definition Latency_Observe :: "string \<Rightarrow> int \<Rightarrow> metrics \<Rightarrow> metrics" where
  "Latency_Observe function latency ms = ms\<lparr>mt_helperLatency := mt_helperLatency ms @ [(function, latency)]\<rparr>"

definition Errors_Increment :: "(goerr \<Rightarrow> string) \<Rightarrow> string \<Rightarrow> error_or_nil \<Rightarrow> metrics \<Rightarrow> metrics" where
  "Errors_Increment errorString function err ms =
     (let key = (case err of None \<Rightarrow> (function, '''') | Some e \<Rightarrow> (function, errorString e)) in
      ms\<lparr>mt_helperResult :=
           AList.update key (Suc (case map_of (mt_helperResult ms) key of Some n \<Rightarrow> n | None \<Rightarrow> 0)) (mt_helperResult ms)\<rparr>)"

definition ReconcileDuration_Observe :: "int \<Rightarrow> metrics \<Rightarrow> metrics" where
  "ReconcileDuration_Observe latency ms = ms\<lparr>mt_reconcileLatency := mt_reconcileLatency ms @ [latency]\<rparr>"

section \<open>The registry invariant\<close>

text \<open>
  What is registered follows from which registrations have run; of the
  transports, only the first one made is ever registered.
\<close>

definition wf_metrics :: "metrics \<Rightarrow> bool" where
  "wf_metrics ms \<longleftrightarrow>
     set (mt_registered ms) =
       (if mt_registerMetricsOnce ms then {HelperLatency, HelperResult} else {}) \<union>
       (if mt_registerTransportMetrics ms then {TransportRequests 0, TransportDuration 0, TransportInFlight 0} else {}) \<union>
       (if mt_registerReconcileOnce ms then {ReconcileLatency} else {}) \<and>
     (mt_registerTransportMetrics ms \<longleftrightarrow> 0 < mt_transports ms)"

lemma wf_initial_metrics [simp]: "wf_metrics initial_metrics"
  by (simp add: wf_metrics_def initial_metrics_def)

lemma MustRegister_Ret:
  "distinct (map collector_name cs) \<Longrightarrow> collector_name ` set cs \<inter> collector_name ` set reg = {} \<Longrightarrow>
     MustRegister cs reg = Ret (reg @ cs)"
  by (induction cs arbitrary: reg) auto

lemma RegisterMetrics_ok:
  assumes "wf_metrics ms"
  shows "\<exists>reg. RegisterMetrics ms = Ret (ms\<lparr>mt_registered := reg, mt_registerMetricsOnce := True\<rparr>) \<and>
           wf_metrics (ms\<lparr>mt_registered := reg, mt_registerMetricsOnce := True\<rparr>)"
proof (cases "mt_registerMetricsOnce ms")
  case True
  with assms show ?thesis
    by (intro exI [of _ "mt_registered ms"]) (auto simp: RegisterMetrics_def register_once_def wf_metrics_def)
next
  case False
  with assms have "MustRegister [HelperLatency, HelperResult] (mt_registered ms) =
      Ret (mt_registered ms @ [HelperLatency, HelperResult])"
    by (intro MustRegister_Ret) (auto simp: wf_metrics_def)
  with False assms show ?thesis
    by (auto simp: RegisterMetrics_def register_once_def wf_metrics_def simp del: MustRegister.simps)
qed

lemma sharedvolume_RegisterMetrics_ok:
  assumes "wf_metrics ms"
  shows "\<exists>reg. sharedvolume_RegisterMetrics ms = Ret (ms\<lparr>mt_registered := reg, mt_registerReconcileOnce := True\<rparr>) \<and>
           wf_metrics (ms\<lparr>mt_registered := reg, mt_registerReconcileOnce := True\<rparr>)"
proof (cases "mt_registerReconcileOnce ms")
  case True
  with assms show ?thesis
    by (intro exI [of _ "mt_registered ms"]) (auto simp: sharedvolume_RegisterMetrics_def register_once_def wf_metrics_def)
next
  case False
  with assms have "MustRegister [ReconcileLatency] (mt_registered ms) = Ret (mt_registered ms @ [ReconcileLatency])"
    by (intro MustRegister_Ret) (auto simp: wf_metrics_def)
  with False assms show ?thesis
    by (auto simp: sharedvolume_RegisterMetrics_def register_once_def wf_metrics_def simp del: MustRegister.simps)
qed

lemma InstrumentedTransport_ok:
  assumes "wf_metrics ms"
  shows "\<exists>ms'. InstrumentedTransport t ms = Ret (Instrumented (mt_transports ms) t, ms') \<and> wf_metrics ms' \<and>
           mt_transports ms' = Suc (mt_transports ms)"
proof (cases "mt_registerTransportMetrics ms")
  case True
  with assms show ?thesis
    by (auto simp: InstrumentedTransport_def register_once_def Let_def wf_metrics_def)
next
  case False
  with assms have "mt_transports ms = 0" by (simp add: wf_metrics_def)
  have "MustRegister [TransportRequests 0, TransportDuration 0, TransportInFlight 0] (mt_registered ms) =
      Ret (mt_registered ms @ [TransportRequests 0, TransportDuration 0, TransportInFlight 0])"
    using False assms by (intro MustRegister_Ret) (auto simp: wf_metrics_def)
  with False assms \<open>mt_transports ms = 0\<close> show ?thesis
    by (auto simp: InstrumentedTransport_def register_once_def Let_def wf_metrics_def simp del: MustRegister.simps)
qed

lemma exported_iff: "wf_metrics ms \<Longrightarrow> 0 < mt_transports ms \<Longrightarrow> exported ms (Instrumented n t) \<longleftrightarrow> n = 0"
  by (auto simp: wf_metrics_def)

lemma wf_Errors_Increment [simp]: "wf_metrics (Errors_Increment es f e ms) = wf_metrics ms"
  and transports_Errors_Increment [simp]: "mt_transports (Errors_Increment es f e ms) = mt_transports ms"
  by (simp_all add: wf_metrics_def Errors_Increment_def Let_def)

end
