(* ===== verification/Connect.thy ===== *)
theory Connect
  imports Client Metrics
begin

text \<open>
  The construction of the API client (\<open>New\<close>, \<open>NewTracedClient\<close> and
  \<open>newAuthenticatedClient\<close> of \<open>internal/pkg/storageos/client.go\<close>) and the loop at the
  start of \<open>main.go\<close> that blocks until there is a working connection. The loop may run
  forever, so its result is an option.
\<close>

section \<open>The API client\<close>

abbreviation DefaultPort :: nat where "DefaultPort \<equiv> 5705"
abbreviation DefaultScheme :: string where "DefaultScheme \<equiv> ''http''"
abbreviation HTTPTimeout :: int where "HTTPTimeout \<equiv> 10000000000"

text \<open>The parts of \<open>url.URL\<close> and of the API configuration that are used.\<close>

record url =
  url_Scheme :: string
  url_Host :: string

record api_config =
  cfg_Scheme :: string
  cfg_Host :: string
  cfg_Timeout :: int
  cfg_Transport :: transport

definition api_configuration :: "(string \<Rightarrow> goerr + url) \<Rightarrow> string \<Rightarrow> transport \<Rightarrow> goerr + api_config" where
  "api_configuration urlParse endpoint transport =
     (let endpoint = (if \<not> Contains endpoint ''://'' then DefaultScheme @ ''://'' @ endpoint else endpoint) in
      case urlParse endpoint of
        Inl err \<Rightarrow> Inl err
      | Inr u \<Rightarrow>
          Inr \<lparr>cfg_Scheme = url_Scheme u,
               cfg_Host = (if \<not> Contains (url_Host u) '':'' then url_Host u @ '':'' @ show_nat DefaultPort else url_Host u),
               cfg_Timeout = HTTPTimeout, cfg_Transport = transport\<rparr>)"

text \<open>
  What the process finds outside: the mounted secret, \<open>url.Parse\<close>, the generated API
  client for a configuration, the \<open>Error\<close> method of errors, and time that passes.
\<close>

record 'w outside =
  out_readFile :: "string \<Rightarrow> string \<Rightarrow> ('w, goerr + string) ext"
  out_urlParse :: "string \<Rightarrow> goerr + url"
  out_NewAPIClient :: "api_config \<Rightarrow> 'w control_plane"
  out_errorString :: "goerr \<Rightarrow> string"
  out_Sleep :: "int \<Rightarrow> 'w \<Rightarrow> 'w"

definition newAuthenticatedClient ::
  "'w outside \<Rightarrow> string \<Rightarrow> string \<Rightarrow> string \<Rightarrow> transport \<Rightarrow> ('w, goerr + ctx \<times> 'w control_plane) prog" where
  "newAuthenticatedClient out username password endpoint transport =
     (case api_configuration (out_urlParse out) endpoint transport of
        Inl err \<Rightarrow> retP (Inl err)
      | Inr config \<Rightarrow>
          (let cp = out_NewAPIClient out config in
           tryP (Authenticate cp username password) (\<lambda>ctx. retP (Inr (ctx, cp)))))"

text \<open>A client with the control plane and the transport it holds.\<close>

record 'w connection =
  con_client :: client
  con_api :: "'w control_plane"
  con_transport :: transport

definition New :: "'w outside \<Rightarrow> string \<Rightarrow> string \<Rightarrow> string \<Rightarrow> ('w, goerr + 'w connection) prog" where
  "New out username password endpoint =
     tryP (newAuthenticatedClient out username password endpoint DefaultTransport) (\<lambda>(ctx, cp).
       retP (Inr \<lparr>con_client = \<lparr>cl_api_set = True, cl_transport_set = True, cl_ctx = ctx, cl_traced = False\<rparr>,
                  con_api = cp, con_transport = DefaultTransport\<rparr>))"

definition NewTracedClient ::
  "'w outside \<Rightarrow> string \<Rightarrow> string \<Rightarrow> string \<Rightarrow> metrics \<Rightarrow> ('w, (goerr + 'w connection) \<times> metrics) prog" where
  "NewTracedClient out username password endpoint ms =
     (case RegisterMetrics ms of
        Panic \<Rightarrow> panicP
      | Ret ms \<Rightarrow>
          (case InstrumentedTransport DefaultTransport ms of
             Panic \<Rightarrow> panicP
           | Ret (transport, ms) \<Rightarrow>
               bindP (newAuthenticatedClient out username password endpoint transport) (\<lambda>r. case r of
                 Inl err \<Rightarrow> retP (Inl err, ms)
               | Inr (ctx, cp) \<Rightarrow>
                   retP (Inr \<lparr>con_client = \<lparr>cl_api_set = True, cl_transport_set = True, cl_ctx = ctx, cl_traced = True\<rparr>,
                              con_api = cp, con_transport = transport\<rparr>, ms))))"

section \<open>Waiting for the API\<close>

text \<open>One round of the loop of \<open>main\<close>, up to the sleep.\<close>

definition connect_attempt ::
  "'w outside \<Rightarrow> string \<Rightarrow> string \<Rightarrow> metrics \<Rightarrow> ('w, (goerr + 'w connection) \<times> metrics) prog" where
  "connect_attempt out apiSecretPath apiEndpoint ms =
     bindP (ReadCredsFromMountedSecret (out_readFile out) apiSecretPath) (\<lambda>r. case r of
       Inl err \<Rightarrow> retP (Inl err, Errors_Increment (out_errorString out) ''setup'' (Some err) ms)
     | Inr (username, password) \<Rightarrow>
         bindP (NewTracedClient out username password apiEndpoint ms) (\<lambda>(api, ms). case api of
           Inr api \<Rightarrow> retP (Inr api, Errors_Increment (out_errorString out) ''setup'' None ms)
         | Inl err \<Rightarrow> retP (Inl err, Errors_Increment (out_errorString out) ''setup'' (Some err) ms)))"

partial_function (option) connect ::
  "'w outside \<Rightarrow> string \<Rightarrow> string \<Rightarrow> int \<Rightarrow> metrics \<Rightarrow> 'w \<Rightarrow> (('w connection \<times> metrics) outcome \<times> 'w) option" where
  "connect out apiSecretPath apiEndpoint apiRetryInterval ms w =
     (case connect_attempt out apiSecretPath apiEndpoint ms w of
        (Panic, w') \<Rightarrow> Some (Panic, w')
      | (Ret (Inr api, ms'), w') \<Rightarrow> Some (Ret (api, ms'), w')
      | (Ret (Inl err, ms'), w') \<Rightarrow>
          connect out apiSecretPath apiEndpoint apiRetryInterval ms' (out_Sleep out apiRetryInterval w'))"

section \<open>When the loop ends\<close>

text \<open>The state in which attempt \<open>n\<close> starts, when all attempts before it fail.\<close>

fun retry_state :: "'w outside \<Rightarrow> string \<Rightarrow> string \<Rightarrow> int \<Rightarrow> metrics \<times> 'w \<Rightarrow> (metrics \<times> 'w) option" where
  "retry_state out path endpoint interval (ms, w) =
     (case connect_attempt out path endpoint ms w of
        (Ret (Inl err, ms'), w') \<Rightarrow> Some (ms', out_Sleep out interval w')
      | _ \<Rightarrow> None)"

primrec attempt_state ::
  "'w outside \<Rightarrow> string \<Rightarrow> string \<Rightarrow> int \<Rightarrow> nat \<Rightarrow> metrics \<times> 'w \<Rightarrow> (metrics \<times> 'w) option" where
  "attempt_state out path endpoint interval 0 s = Some s"
| "attempt_state out path endpoint interval (Suc n) s =
     (case retry_state out path endpoint interval s of
        None \<Rightarrow> None
      | Some s' \<Rightarrow> attempt_state out path endpoint interval n s')"

text \<open>The result of an attempt that is not followed by another one.\<close>

definition last_attempt ::
  "'w outside \<Rightarrow> string \<Rightarrow> string \<Rightarrow> metrics \<times> 'w \<Rightarrow> (('w connection \<times> metrics) outcome \<times> 'w) option" where
  "last_attempt out path endpoint s =
     (case connect_attempt out path endpoint (fst s) (snd s) of
        (Panic, w') \<Rightarrow> Some (Panic, w')
      | (Ret (Inr api, ms'), w') \<Rightarrow> Some (Ret (api, ms'), w')
      | (Ret (Inl err, ms'), w') \<Rightarrow> None)"

lemma connect_unfold:
  "connect out path endpoint interval (fst s) (snd s) =
     (case retry_state out path endpoint interval s of
        None \<Rightarrow> last_attempt out path endpoint s
      | Some s' \<Rightarrow> connect out path endpoint interval (fst s') (snd s'))"
  by (cases s) (subst connect.simps, auto simp: last_attempt_def split: prod.splits outcome.splits sum.splits)

lemma last_attempt_iff: "last_attempt out path endpoint s = None \<longleftrightarrow> retry_state out path endpoint interval s \<noteq> None"
  by (cases s) (auto simp: last_attempt_def split: prod.splits outcome.splits sum.splits)

lemma connect_returns:
  "attempt_state out path endpoint interval n s = Some s' \<Longrightarrow> retry_state out path endpoint interval s' = None \<Longrightarrow>
     connect out path endpoint interval (fst s) (snd s) = last_attempt out path endpoint s'"
proof (induction n arbitrary: s)
  case 0
  then show ?case using connect_unfold [of out path endpoint interval s] by simp
next
  case (Suc n)
  from Suc.prems(1) obtain s1 where s1: "retry_state out path endpoint interval s = Some s1"
    "attempt_state out path endpoint interval n s1 = Some s'" by (auto split: option.splits)
  have "connect out path endpoint interval (fst s) (snd s) = connect out path endpoint interval (fst s1) (snd s1)"
    by (subst connect_unfold) (simp add: s1(1))
  also have "\<dots> = last_attempt out path endpoint s'" by (rule Suc.IH [OF s1(2) Suc.prems(2)])
  finally show ?case .
qed

lemma connect_result:
  assumes ret: "connect out path endpoint interval ms w = Some res"
  shows "\<exists>n s'. attempt_state out path endpoint interval n (ms, w) = Some s' \<and>
           last_attempt out path endpoint s' = Some res"
proof (rule connect.raw_induct [where P = "\<lambda>out path endpoint interval ms w res.
    \<exists>n s'. attempt_state out path endpoint interval n (ms, w) = Some s' \<and>
           last_attempt out path endpoint s' = Some res", OF _ ret])
  fix f out path endpoint interval ms w res
  assume IH: "\<And>out path endpoint interval ms w res. f out path endpoint interval ms w = Some res \<Longrightarrow>
      \<exists>n s'. attempt_state out path endpoint interval n (ms, w) = Some s' \<and> last_attempt out path endpoint s' = Some res"
    and eq: "(case connect_attempt out path endpoint ms w of
        (Panic, w') \<Rightarrow> Some (Panic, w')
      | (Ret (Inr api, ms'), w') \<Rightarrow> Some (Ret (api, ms'), w')
      | (Ret (Inl err, ms'), w') \<Rightarrow> f out path endpoint interval ms' (out_Sleep out interval w')) = Some res"
  show "\<exists>n s'. attempt_state out path endpoint interval n (ms, w) = Some s' \<and> last_attempt out path endpoint s' = Some res"
  proof (cases "retry_state out path endpoint interval (ms, w)")
    case None
    with eq show ?thesis
      by (intro exI [of _ 0] exI [of _ "(ms, w)"])
         (auto simp: last_attempt_def split: prod.splits outcome.splits sum.splits)
  next
    case (Some s)
    then have "f out path endpoint interval (fst s) (snd s) = Some res"
      using eq by (auto split: prod.splits outcome.splits sum.splits)
    from IH [OF this] obtain n s' where "attempt_state out path endpoint interval n s = Some s'"
      "last_attempt out path endpoint s' = Some res" by auto
    with Some show ?thesis by (intro exI [of _ "Suc n"] exI [of _ s']) simp
  qed
qed


section \<open>What an attempt leaves behind\<close>

text \<open>Whether the credentials can be read in a world.\<close>

definition creds_readable :: "'w outside \<Rightarrow> string \<Rightarrow> 'w \<Rightarrow> bool" where
  "creds_readable out path w \<longleftrightarrow>
     (\<exists>up w'. ReadCredsFromMountedSecret (out_readFile out) path w = (Ret (Inr up), w'))"

lemma newAuthenticatedClient_ok:
  assumes "newAuthenticatedClient out u p endpoint t w = (Ret (Inr (ctx, cp)), w')"
  shows "(\<exists>tok. ctx = Some tok \<and> tok \<noteq> '''') \<and>
         (\<exists>cfg. api_configuration (out_urlParse out) endpoint t = Inr cfg \<and> cp = out_NewAPIClient out cfg)"
  using assms
  by (auto simp: newAuthenticatedClient_def Let_def tryP_run retP_run
      split: sum.splits prod.splits outcome.splits dest: Authenticate_token)

lemma no_panic_ReadCreds: "no_panic (ReadCredsFromMountedSecret rf path)"
  unfolding ReadCredsFromMountedSecret_def secret_Read_def
  by (intro no_panic_tryP no_panic_bindP no_panic_callP no_panic_retP) (simp_all add: no_panic_retP split: sum.split)

lemma connect_attempt_failed:
  assumes wf: "wf_metrics ms" and run: "connect_attempt out path endpoint ms w = (Ret (Inl err, ms'), w')"
  shows "wf_metrics ms' \<and> mt_transports ms' = (if creds_readable out path w then Suc (mt_transports ms) else mt_transports ms)"
proof -
  from no_panic_ReadCreds obtain r w1 where r: "ReadCredsFromMountedSecret (out_readFile out) path w = (Ret r, w1)"
    by (rule no_panicE)
  from RegisterMetrics_ok [OF wf] obtain reg where
    reg: "RegisterMetrics ms = Ret (ms\<lparr>mt_registered := reg, mt_registerMetricsOnce := True\<rparr>)"
      "wf_metrics (ms\<lparr>mt_registered := reg, mt_registerMetricsOnce := True\<rparr>)" by blast
  from InstrumentedTransport_ok [OF reg(2), of DefaultTransport] obtain ms1 where
    "InstrumentedTransport DefaultTransport (ms\<lparr>mt_registered := reg, mt_registerMetricsOnce := True\<rparr>) =
       Ret (Instrumented (mt_transports ms) DefaultTransport, ms1)" "wf_metrics ms1"
    "mt_transports ms1 = Suc (mt_transports ms)" by auto
  with run wf r reg show ?thesis
    by (auto simp: connect_attempt_def NewTracedClient_def creds_readable_def bindP_run retP_run
        split: sum.splits prod.splits outcome.splits)
qed

lemma connect_attempt_connected:
  assumes wf: "wf_metrics ms" and run: "connect_attempt out path endpoint ms w = (Ret (Inr con, ms'), w')"
  shows "(\<exists>tok. cl_ctx (con_client con) = Some tok \<and> tok \<noteq> '''') \<and>
         cl_api_set (con_client con) \<and> cl_transport_set (con_client con) \<and> cl_traced (con_client con) \<and>
         (\<exists>cfg. api_configuration (out_urlParse out) endpoint (con_transport con) = Inr cfg \<and>
                con_api con = out_NewAPIClient out cfg) \<and>
         (exported ms' (con_transport con) \<longleftrightarrow> mt_transports ms = 0) \<and> wf_metrics ms'"
proof -
  from RegisterMetrics_ok [OF wf] obtain reg where
    reg: "RegisterMetrics ms = Ret (ms\<lparr>mt_registered := reg, mt_registerMetricsOnce := True\<rparr>)"
      "wf_metrics (ms\<lparr>mt_registered := reg, mt_registerMetricsOnce := True\<rparr>)" by blast
  from InstrumentedTransport_ok [OF reg(2), of DefaultTransport] obtain ms1 where
    ms1: "InstrumentedTransport DefaultTransport (ms\<lparr>mt_registered := reg, mt_registerMetricsOnce := True\<rparr>) =
       Ret (Instrumented (mt_transports ms) DefaultTransport, ms1)" "wf_metrics ms1"
    "mt_transports ms1 = Suc (mt_transports ms)" by auto
  from run reg ms1 obtain u p wa wb ctx cp where
    auth: "newAuthenticatedClient out u p endpoint (Instrumented (mt_transports ms) DefaultTransport) wa = (Ret (Inr (ctx, cp)), wb)"
    and con: "con = \<lparr>con_client = \<lparr>cl_api_set = True, cl_transport_set = True, cl_ctx = ctx, cl_traced = True\<rparr>,
                     con_api = cp, con_transport = Instrumented (mt_transports ms) DefaultTransport\<rparr>"
    and ms': "ms' = Errors_Increment (out_errorString out) ''setup'' None ms1"
    by (auto simp: connect_attempt_def NewTracedClient_def bindP_run retP_run
        split: sum.splits prod.splits outcome.splits)
  have "exported ms' (Instrumented (mt_transports ms) DefaultTransport) \<longleftrightarrow> mt_transports ms = 0"
    using exported_iff [of ms' "mt_transports ms" DefaultTransport] ms1(2,3) unfolding ms' by simp
  with newAuthenticatedClient_ok [OF auth] con ms1(2) ms' show ?thesis by simp
qed

lemma attempt_state_metrics:
  assumes "attempt_state out path endpoint interval n (ms, w) = Some s'" and "wf_metrics ms"
  shows "wf_metrics (fst s') \<and>
         (mt_transports (fst s') = mt_transports ms \<longleftrightarrow>
            (\<forall>m < n. \<forall>s. attempt_state out path endpoint interval m (ms, w) = Some s \<longrightarrow>
               \<not> creds_readable out path (snd s))) \<and>
         mt_transports ms \<le> mt_transports (fst s')"
  using assms
proof (induction n arbitrary: ms w)
  case 0
  then show ?case by auto
next
  case (Suc n)
  from Suc.prems(1) obtain ms1 w1 err w0 where
    at: "connect_attempt out path endpoint ms w = (Ret (Inl err, ms1), w0)" "w1 = out_Sleep out interval w0"
    and rest: "attempt_state out path endpoint interval n (ms1, w1) = Some s'"
    by (auto split: option.splits prod.splits outcome.splits sum.splits)
  from connect_attempt_failed [OF Suc.prems(2) at(1)] have
    wf1: "wf_metrics ms1" and
    tr1: "mt_transports ms1 = (if creds_readable out path w then Suc (mt_transports ms) else mt_transports ms)" by auto
  have shift: "(\<forall>m < Suc n. \<forall>s. attempt_state out path endpoint interval m (ms, w) = Some s \<longrightarrow> \<not> creds_readable out path (snd s)) \<longleftrightarrow>
      \<not> creds_readable out path w \<and>
      (\<forall>m < n. \<forall>s. attempt_state out path endpoint interval m (ms1, w1) = Some s \<longrightarrow> \<not> creds_readable out path (snd s))"
    using at by (auto simp: All_less_Suc2)
  from Suc.IH [OF rest wf1] tr1 show ?case
    unfolding shift by (auto split: if_splits)
qed


lemma attempt_state_next:
  "attempt_state out path endpoint interval n s = Some s' \<Longrightarrow>
     attempt_state out path endpoint interval (Suc n) s = retry_state out path endpoint interval s'"
proof (induction n arbitrary: s)
  case 0
  then show ?case by (simp split: option.split)
next
  case (Suc n)
  from Suc.prems obtain s1 where "retry_state out path endpoint interval s = Some s1"
    "attempt_state out path endpoint interval n s1 = Some s'" by (auto split: option.splits)
  with Suc.IH [of s1] show ?case by simp
qed

lemma attempt_state_end:
  "attempt_state out path endpoint interval n s = Some s' \<Longrightarrow> retry_state out path endpoint interval s' = None \<Longrightarrow>
     attempt_state out path endpoint interval (Suc n) s = None"
  using attempt_state_next [of out path endpoint interval n s s'] by simp

lemma connected_facts:
  assumes "\<exists>n s. attempt_state out path endpoint interval n (initial_metrics, w) = Some s \<and>
      last_attempt out path endpoint s = Some (Ret (con, ms), w')"
  shows "(\<exists>tok. cl_ctx (con_client con) = Some tok \<and> tok \<noteq> '''') \<and>
      cl_api_set (con_client con) \<and> cl_transport_set (con_client con) \<and> cl_traced (con_client con) \<and>
      (\<exists>cfg. api_configuration (out_urlParse out) endpoint (con_transport con) = Inr cfg \<and>
             con_api con = out_NewAPIClient out cfg) \<and>
      (\<exists>n s. attempt_state out path endpoint interval n (initial_metrics, w) = Some s \<and>
             last_attempt out path endpoint s = Some (Ret (con, ms), w') \<and>
             (exported ms (con_transport con) \<longleftrightarrow>
                (\<forall>m < n. \<forall>s. attempt_state out path endpoint interval m (initial_metrics, w) = Some s \<longrightarrow>
                   \<not> creds_readable out path (snd s))))"
proof -
  from assms obtain n s where s: "attempt_state out path endpoint interval n (initial_metrics, w) = Some s"
    "last_attempt out path endpoint s = Some (Ret (con, ms), w')" by blast
  from attempt_state_metrics [OF s(1)] have m: "wf_metrics (fst s)"
    "mt_transports (fst s) = 0 \<longleftrightarrow>
            (\<forall>m < n. \<forall>s. attempt_state out path endpoint interval m (initial_metrics, w) = Some s \<longrightarrow>
               \<not> creds_readable out path (snd s))"
    by (simp_all add: initial_metrics_def [THEN arg_cong [where f = mt_transports]])
  from s(2) have "connect_attempt out path endpoint (fst s) (snd s) = (Ret (Inr con, ms), w')"
    by (auto simp: last_attempt_def split: prod.splits outcome.splits sum.splits)
  from connect_attempt_connected [OF m(1) this] m(2) s show ?thesis
    by (intro conjI exI [of _ n] exI [of _ s]) simp_all
qed

lemma connect_metrics:
  assumes "connect out path endpoint interval initial_metrics w = Some (Ret (con, ms), w')"
  shows "wf_metrics ms"
proof -
  from connect_result [OF assms] obtain n s where s: "attempt_state out path endpoint interval n (initial_metrics, w) = Some s"
    "last_attempt out path endpoint s = Some (Ret (con, ms), w')" by blast
  from s(2) have "connect_attempt out path endpoint (fst s) (snd s) = (Ret (Inr con, ms), w')"
    by (auto simp: last_attempt_def split: prod.splits outcome.splits sum.splits)
  with attempt_state_metrics [OF s(1)] show ?thesis
    by (auto dest: connect_attempt_connected)
qed

section \<open>Property\<close>

lemma connect_None_iff:
  "connect out path endpoint interval ms w = None \<longleftrightarrow> (\<forall>n. attempt_state out path endpoint interval n (ms, w) \<noteq> None)"
proof -
  let ?at = "\<lambda>n. attempt_state out path endpoint interval n (ms, w)"
  have none: "connect out path endpoint interval ms w = None" if all: "\<forall>n. ?at n \<noteq> None"
  proof (rule ccontr)
    assume "connect out path endpoint interval ms w \<noteq> None"
    then obtain res where "connect out path endpoint interval ms w = Some res" by blast
    from connect_result [OF this] obtain n s where
      s: "?at n = Some s" "last_attempt out path endpoint s = Some res" by blast
    then have "retry_state out path endpoint interval s = None"
      using last_attempt_iff [of out path endpoint s interval] by (metis option.distinct(1))
    with s(1) have "?at (Suc n) = None" by (rule attempt_state_end)
    with all show False by blast
  qed
  moreover have "\<forall>n. ?at n \<noteq> None" if c: "connect out path endpoint interval ms w = None"
  proof
    fix n
    show "?at n \<noteq> None"
    proof (induction n)
      case (Suc n)
      then obtain s where s: "?at n = Some s" by blast
      show ?case
      proof (cases "retry_state out path endpoint interval s")
        case None
        from connect_returns [OF s None] c last_attempt_iff [of out path endpoint s interval] None
        show ?thesis by simp
      next
        case (Some s')
        with attempt_state_next [OF s] show ?thesis by (metis option.distinct(1))
      qed
    qed simp
  qed
  ultimately show ?thesis by blast
qed

text \<open>
  C39. The start of the process waits for the API exactly as long as it has to. The
  loop runs forever only if every attempt fails with an error; otherwise it returns
  after the first attempt that does not. A connection it returns has a non-empty token
  and everything the refresh loop requires, and goes to the API at the configured
  endpoint. Its request metrics are exported only if no earlier attempt got past
  reading the credentials: a client built after a failed one counts its requests on
  collectors that are never registered.
\<close>

theorem connect_terminates:
  "(connect out path endpoint interval initial_metrics w = None \<longleftrightarrow>
      (\<forall>n. attempt_state out path endpoint interval n (initial_metrics, w) \<noteq> None)) \<and>
   (\<forall>con ms w'. connect out path endpoint interval initial_metrics w = Some (Ret (con, ms), w') \<longrightarrow>
      (\<exists>tok. cl_ctx (con_client con) = Some tok \<and> tok \<noteq> '''') \<and>
      cl_api_set (con_client con) \<and> cl_transport_set (con_client con) \<and> cl_traced (con_client con) \<and>
      (\<exists>cfg. api_configuration (out_urlParse out) endpoint (con_transport con) = Inr cfg \<and>
             con_api con = out_NewAPIClient out cfg) \<and>
      (\<exists>n s. attempt_state out path endpoint interval n (initial_metrics, w) = Some s \<and>
             last_attempt out path endpoint s = Some (Ret (con, ms), w') \<and>
             (exported ms (con_transport con) \<longleftrightarrow>
                (\<forall>m < n. \<forall>s. attempt_state out path endpoint interval m (initial_metrics, w) = Some s \<longrightarrow>
                   \<not> creds_readable out path (snd s)))))"
proof (intro conjI allI impI)
  show "connect out path endpoint interval initial_metrics w = None \<longleftrightarrow>
      (\<forall>n. attempt_state out path endpoint interval n (initial_metrics, w) \<noteq> None)" by (rule connect_None_iff)
next
  fix con ms w'
  assume "connect out path endpoint interval initial_metrics w = Some (Ret (con, ms), w')"
  then have returned: "\<exists>n s. attempt_state out path endpoint interval n (initial_metrics, w) = Some s \<and>
      last_attempt out path endpoint s = Some (Ret (con, ms), w')" by (rule connect_result)
  note c = connected_facts [OF returned]
  show "\<exists>tok. cl_ctx (con_client con) = Some tok \<and> tok \<noteq> ''''" using c by blast
  show "cl_api_set (con_client con)" "cl_transport_set (con_client con)" "cl_traced (con_client con)" using c by blast+
  show "\<exists>cfg. api_configuration (out_urlParse out) endpoint (con_transport con) = Inr cfg \<and>
             con_api con = out_NewAPIClient out cfg" using c by blast
  show "\<exists>n s. attempt_state out path endpoint interval n (initial_metrics, w) = Some s \<and>
             last_attempt out path endpoint s = Some (Ret (con, ms), w') \<and>
             (exported ms (con_transport con) \<longleftrightarrow>
                (\<forall>m < n. \<forall>s. attempt_state out path endpoint interval m (initial_metrics, w) = Some s \<longrightarrow>
                   \<not> creds_readable out path (snd s)))" using c by blast
qed


text \<open>The secret appears while the process sleeps.\<close>

definition late_secret :: "mem outside" where
  "late_secret =
     \<lparr>out_readFile = (\<lambda>dir name w. (if mem_namespaces w = [] then Inl (StdError ''no such file'') else Inr ''admin'', w)),
      out_urlParse = (\<lambda>u. Inr \<lparr>url_Scheme = ''http'', url_Host = ''storageos''\<rparr>),
      out_NewAPIClient = (\<lambda>cfg. mem_cp), out_errorString = (\<lambda>e. ''error''),
      out_Sleep = (\<lambda>d w. w\<lparr>mem_namespaces := [sample_namespace]\<rparr>)\<rparr>"

theorem connect_terminates_witness:
  "\<exists>con ms w'. connect late_secret ''/etc/storageos/secrets/api'' ''storageos'' 5000000000 initial_metrics
        (sample_mem\<lparr>mem_namespaces := []\<rparr>) = Some (Ret (con, ms), w') \<and>
     cl_ctx (con_client con) \<noteq> None \<and> mem_namespaces w' \<noteq> [] \<and>
     (\<exists>cfg. api_configuration (out_urlParse late_secret) ''storageos'' (con_transport con) = Inr cfg)"
proof -
  let ?w = "sample_mem\<lparr>mem_namespaces := []\<rparr>"
  have "\<exists>con ms w'. connect late_secret ''/etc/storageos/secrets/api'' ''storageos'' 5000000000 initial_metrics ?w =
      Some (Ret (con, ms), w') \<and> mem_namespaces w' \<noteq> []"
    by (subst connect.simps, subst connect.simps)
       (simp add: connect_attempt_def NewTracedClient_def newAuthenticatedClient_def ReadCredsFromMountedSecret_def
          secret_Read_def late_secret_def prog_simps RegisterMetrics_def InstrumentedTransport_def register_once_def
          Let_def initial_metrics_def Errors_Increment_def api_configuration_def Authenticate_def mem_cp_simps
          respAuthToken_def)
  then obtain con ms w' where run: "connect late_secret ''/etc/storageos/secrets/api'' ''storageos'' 5000000000 initial_metrics ?w =
      Some (Ret (con, ms), w')" and w': "mem_namespaces w' \<noteq> []" by blast
  from connect_terminates [of late_secret "''/etc/storageos/secrets/api''" "''storageos''" 5000000000 ?w] run
  have "\<exists>tok. cl_ctx (con_client con) = Some tok \<and> tok \<noteq> ''''"
    "\<exists>cfg. api_configuration (out_urlParse late_secret) ''storageos'' (con_transport con) = Inr cfg" by blast+
  with run w' show ?thesis by blast
qed

end
