(* ===== verification/K8s.thy ===== *)
theory K8s
  imports Api
begin

text \<open>
  Kubernetes as the program sees it: the objects with the fields the program
  reads or writes, and the calls of the controller-runtime client it makes, as a
  record of functions on the world. A call that fails returns its error and
  leaves the object passed to it unchanged; \<open>Update\<close> returns the object as
  the API server stored it, which the client writes back into its argument, and so
  does the creation of a secret, the only created object that is read afterwards.
\<close>

section \<open>Objects\<close>

type_synonym int32 = "32 word"

record owner_reference =
  or_APIVersion :: string
  or_Kind :: string
  or_Name :: string
  or_UID :: string

text \<open>Creation timestamps are in seconds, the resolution the Kubernetes API has for them.\<close>

record objmeta =
  meta_Name :: string
  meta_Namespace :: string
  meta_UID :: string
  meta_CreationTimestamp :: int
  meta_Labels :: smap
  meta_Annotations :: smap
  meta_OwnerReferences :: "owner_reference list"

definition meta_key :: "objmeta \<Rightarrow> objkey" where
  "meta_key m = mk_key (meta_Namespace m) (meta_Name m)"

definition empty_meta :: objmeta where
  "empty_meta = \<lparr>meta_Name = '''', meta_Namespace = '''', meta_UID = '''', meta_CreationTimestamp = 0,
                 meta_Labels = NilMap, meta_Annotations = NilMap, meta_OwnerReferences = []\<rparr>"

datatype int_or_string = IntVal int32 | StrVal string

text \<open>The field \<open>IntVal\<close> of an \<open>IntOrString\<close> that holds a string is zero.\<close>

primrec intVal :: "int_or_string \<Rightarrow> int32" where
  "intVal (IntVal i) = i"
| "intVal (StrVal s) = 0"

text \<open>\<open>int32(i)\<close> and \<open>intstr.FromInt\<close>, which truncates to 32 bits.\<close>

definition to_int32 :: "int \<Rightarrow> int32" where
  "to_int32 i = word_of_int i"

definition FromInt :: "int \<Rightarrow> int_or_string" where
  "FromInt i = IntVal (to_int32 i)"

record service_port =
  sp_Name :: string
  sp_Protocol :: string
  sp_Port :: int32
  sp_TargetPort :: int_or_string
  sp_NodePort :: int32

record service =
  svc_meta :: objmeta
  svc_Type :: string
  svc_Ports :: "service_port list"
  svc_ClusterIP :: string

record endpoint_port =
  ep_Name :: string
  ep_Port :: int32
  ep_Protocol :: string

record endpoint_address =
  ea_IP :: string
  ea_Hostname :: string

record endpoint_subset =
  es_Addresses :: "endpoint_address list"
  es_NotReadyAddresses :: "endpoint_address list"
  es_Ports :: "endpoint_port list"

record endpoints =
  eps_meta :: objmeta
  eps_Subsets :: "endpoint_subset list"

definition empty_service :: service where
  "empty_service = \<lparr>svc_meta = empty_meta, svc_Type = '''', svc_Ports = [], svc_ClusterIP = ''''\<rparr>"

definition empty_endpoints :: endpoints where
  "empty_endpoints = \<lparr>eps_meta = empty_meta, eps_Subsets = []\<rparr>"

record pvc =
  pvc_meta :: objmeta
  pvc_StorageClassName :: "string option"
  pvc_VolumeName :: string

record pv =
  pv_meta :: objmeta
  pv_CSI_Driver :: "string option"

record storage_class =
  sc_meta :: objmeta
  sc_Provisioner :: string
  sc_Parameters :: smap

record pod_volume =
  pvol_Name :: string
  pvol_ClaimName :: "string option"

record pod =
  pod_meta :: objmeta
  pod_Volumes :: "pod_volume list"
  pod_NodeName :: string
  pod_SchedulerName :: string

record volume_attachment =
  va_meta :: objmeta
  va_Attacher :: string
  va_NodeName :: string
  va_PersistentVolumeName :: "string option"

record k8s_node =
  kn_meta :: objmeta

text \<open>The data of a secret is \<open>None\<close> when the map is nil.\<close>

record secret =
  sec_Kind :: string
  sec_APIVersion :: string
  sec_meta :: objmeta
  sec_Data :: "(string \<times> bytes) list option"

text \<open>\<open>apierrors.IsNotFound\<close> looks at the status reason of the error itself or one it wraps.\<close>

fun IsNotFound :: "goerr \<Rightarrow> bool" where
  "IsNotFound (K8sError ReasonNotFound s) = True"
| "IsNotFound (Wrap e s) = IsNotFound e"
| "IsNotFound e = False"

section \<open>The client\<close>

record 'w k8s_client =
  k8s_GetNode :: "objkey \<Rightarrow> ('w, goerr + k8s_node) ext"
  k8s_ListPods :: "string \<Rightarrow> ('w, goerr + pod list) ext"
  k8s_DeletePod :: "pod \<Rightarrow> int \<Rightarrow> ('w, error_or_nil) ext"
  k8s_ListVolumeAttachments :: "string \<Rightarrow> ('w, goerr + volume_attachment list) ext"
  k8s_DeleteVolumeAttachment :: "volume_attachment \<Rightarrow> int \<Rightarrow> ('w, error_or_nil) ext"
  k8s_GetPVC :: "objkey \<Rightarrow> ('w, goerr + pvc) ext"
  k8s_UpdatePVC :: "pvc \<Rightarrow> ('w, goerr + pvc) ext"
  k8s_GetPV :: "objkey \<Rightarrow> ('w, goerr + pv) ext"
  k8s_GetStorageClass :: "objkey \<Rightarrow> ('w, goerr + storage_class) ext"
  k8s_ListStorageClasses :: "('w, goerr + storage_class list) ext"
  k8s_GetService :: "objkey \<Rightarrow> ('w, goerr + service) ext"
  k8s_CreateService :: "service \<Rightarrow> ('w, error_or_nil) ext"
  k8s_UpdateService :: "service \<Rightarrow> ('w, goerr + service) ext"
  k8s_GetEndpoints :: "objkey \<Rightarrow> ('w, goerr + endpoints) ext"
  k8s_CreateEndpoints :: "endpoints \<Rightarrow> ('w, error_or_nil) ext"
  k8s_UpdateEndpoints :: "endpoints \<Rightarrow> ('w, goerr + endpoints) ext"
  k8s_GetSecret :: "objkey \<Rightarrow> ('w, goerr + secret) ext"
  k8s_CreateSecret :: "secret \<Rightarrow> ('w, goerr + secret) ext"

text \<open>A call whose error is returned as it is, in a function that returns only an error.\<close>

definition tryN :: "('w, error_or_nil) prog \<Rightarrow> ('w, error_or_nil) prog \<Rightarrow> ('w, error_or_nil) prog" where
  "tryN m k = bindP m (\<lambda>e. case e of Some e \<Rightarrow> retP (Some e) | None \<Rightarrow> k)"

lemma no_panic_tryN [intro]: "no_panic m \<Longrightarrow> no_panic k \<Longrightarrow> no_panic (tryN m k)"
  unfolding tryN_def by (auto intro!: no_panic_bindP split: option.splits)

lemma tryN_run [prog_simps]:
  "tryN m k w = (case m w of (Ret (Some e), w') \<Rightarrow> (Ret (Some e), w')
                 | (Ret None, w') \<Rightarrow> k w' | (Panic, w') \<Rightarrow> (Panic, w'))"
  by (simp add: tryN_def bindP_run retP_run split: prod.splits outcome.splits option.splits)

end
