(* ===== verification/Api_Trace.thy ===== *)
theory Api_Trace
  imports Api
begin

text \<open>
  Instrumentation of the control plane: every call becomes an event that holds
  its arguments and the answer. Properties of the client speak of the events a
  run adds to the trace.
\<close>

datatype (plugins only: code size) api_event =
    EvRefreshJwt ctx "unit api_ret"
  | EvAuthenticateUser string string "unit api_ret"
  | EvListNamespaces ctx "namespace list api_ret"
  | EvDeleteNamespace ctx string string "unit api_ret"
  | EvListNodes ctx "node list api_ret"
  | EvUpdateNode ctx string smap string "unit api_ret"
  | EvDeleteNode ctx string string "unit api_ret"
  | EvSetComputeOnly ctx string bool string "unit api_ret"
  | EvListVolumes ctx string "volume list api_ret"
  | EvGetVolume ctx string string "volume api_ret"
  | EvUpdateVolume ctx string string smap string "unit api_ret"
  | EvSetReplicas ctx string string uint64 string "unit api_ret"
  | EvSetFailureMode ctx string string string uint64 string "unit api_ret"
  | EvUpdateNFSVolumeMountEndpoint ctx string string string string "unit api_ret"

definition traced_cp :: "'w control_plane \<Rightarrow> ('w, api_event) traced control_plane" where
  "traced_cp cp =
     \<lparr>api_RefreshJwt = (\<lambda>x. traceX (EvRefreshJwt x) (api_RefreshJwt cp x)),
      api_AuthenticateUser = (\<lambda>u p. traceX (EvAuthenticateUser u p) (api_AuthenticateUser cp u p)),
      api_ListNamespaces = (\<lambda>x. traceX (EvListNamespaces x) (api_ListNamespaces cp x)),
      api_DeleteNamespace = (\<lambda>x i v. traceX (EvDeleteNamespace x i v) (api_DeleteNamespace cp x i v)),
      api_ListNodes = (\<lambda>x. traceX (EvListNodes x) (api_ListNodes cp x)),
      api_UpdateNode = (\<lambda>x i l v. traceX (EvUpdateNode x i l v) (api_UpdateNode cp x i l v)),
      api_DeleteNode = (\<lambda>x i v. traceX (EvDeleteNode x i v) (api_DeleteNode cp x i v)),
      api_SetComputeOnly = (\<lambda>x i b v. traceX (EvSetComputeOnly x i b v) (api_SetComputeOnly cp x i b v)),
      api_ListVolumes = (\<lambda>x n. traceX (EvListVolumes x n) (api_ListVolumes cp x n)),
      api_GetVolume = (\<lambda>x n i. traceX (EvGetVolume x n i) (api_GetVolume cp x n i)),
      api_UpdateVolume = (\<lambda>x n i l v. traceX (EvUpdateVolume x n i l v) (api_UpdateVolume cp x n i l v)),
      api_SetReplicas = (\<lambda>x n i r v. traceX (EvSetReplicas x n i r v) (api_SetReplicas cp x n i r v)),
      api_SetFailureMode = (\<lambda>x n i m t v. traceX (EvSetFailureMode x n i m t v) (api_SetFailureMode cp x n i m t v)),
      api_UpdateNFSVolumeMountEndpoint = (\<lambda>x n i e v.
        traceX (EvUpdateNFSVolumeMountEndpoint x n i e v) (api_UpdateNFSVolumeMountEndpoint cp x n i e v))\<rparr>"

lemma traced_cp_sel [simp]:
  "api_RefreshJwt (traced_cp cp) x = traceX (EvRefreshJwt x) (api_RefreshJwt cp x)"
  "api_AuthenticateUser (traced_cp cp) u p = traceX (EvAuthenticateUser u p) (api_AuthenticateUser cp u p)"
  "api_ListNamespaces (traced_cp cp) x = traceX (EvListNamespaces x) (api_ListNamespaces cp x)"
  "api_DeleteNamespace (traced_cp cp) x i v = traceX (EvDeleteNamespace x i v) (api_DeleteNamespace cp x i v)"
  "api_ListNodes (traced_cp cp) x = traceX (EvListNodes x) (api_ListNodes cp x)"
  "api_UpdateNode (traced_cp cp) x i l v = traceX (EvUpdateNode x i l v) (api_UpdateNode cp x i l v)"
  "api_DeleteNode (traced_cp cp) x i v = traceX (EvDeleteNode x i v) (api_DeleteNode cp x i v)"
  "api_SetComputeOnly (traced_cp cp) x i b v = traceX (EvSetComputeOnly x i b v) (api_SetComputeOnly cp x i b v)"
  "api_ListVolumes (traced_cp cp) x n = traceX (EvListVolumes x n) (api_ListVolumes cp x n)"
  "api_GetVolume (traced_cp cp) x n i = traceX (EvGetVolume x n i) (api_GetVolume cp x n i)"
  "api_UpdateVolume (traced_cp cp) x n i l v = traceX (EvUpdateVolume x n i l v) (api_UpdateVolume cp x n i l v)"
  "api_SetReplicas (traced_cp cp) x n i r v = traceX (EvSetReplicas x n i r v) (api_SetReplicas cp x n i r v)"
  "api_SetFailureMode (traced_cp cp) x n i m t v = traceX (EvSetFailureMode x n i m t v) (api_SetFailureMode cp x n i m t v)"
  "api_UpdateNFSVolumeMountEndpoint (traced_cp cp) x n i e v =
     traceX (EvUpdateNFSVolumeMountEndpoint x n i e v) (api_UpdateNFSVolumeMountEndpoint cp x n i e v)"
  by (simp_all add: traced_cp_def)

text \<open>The token an event was sent with, and whether the event asks for a change.\<close>

primrec ev_ctx :: "api_event \<Rightarrow> ctx option" where
  "ev_ctx (EvRefreshJwt x r) = Some x"
| "ev_ctx (EvAuthenticateUser u p r) = None"
| "ev_ctx (EvListNamespaces x r) = Some x"
| "ev_ctx (EvDeleteNamespace x i v r) = Some x"
| "ev_ctx (EvListNodes x r) = Some x"
| "ev_ctx (EvUpdateNode x i l v r) = Some x"
| "ev_ctx (EvDeleteNode x i v r) = Some x"
| "ev_ctx (EvSetComputeOnly x i b v r) = Some x"
| "ev_ctx (EvListVolumes x n r) = Some x"
| "ev_ctx (EvGetVolume x n i r) = Some x"
| "ev_ctx (EvUpdateVolume x n i l v r) = Some x"
| "ev_ctx (EvSetReplicas x n i d v r) = Some x"
| "ev_ctx (EvSetFailureMode x n i m t v r) = Some x"
| "ev_ctx (EvUpdateNFSVolumeMountEndpoint x n i e v r) = Some x"

primrec is_write :: "api_event \<Rightarrow> bool" where
  "is_write (EvRefreshJwt x r) = False"
| "is_write (EvAuthenticateUser u p r) = False"
| "is_write (EvListNamespaces x r) = False"
| "is_write (EvDeleteNamespace x i v r) = True"
| "is_write (EvListNodes x r) = False"
| "is_write (EvUpdateNode x i l v r) = True"
| "is_write (EvDeleteNode x i v r) = True"
| "is_write (EvSetComputeOnly x i b v r) = True"
| "is_write (EvListVolumes x n r) = False"
| "is_write (EvGetVolume x n i r) = False"
| "is_write (EvUpdateVolume x n i l v r) = True"
| "is_write (EvSetReplicas x n i d v r) = True"
| "is_write (EvSetFailureMode x n i m t v r) = True"
| "is_write (EvUpdateNFSVolumeMountEndpoint x n i e v r) = True"

text \<open>The changes a trace asks for, in order.\<close>

definition writes :: "api_event list \<Rightarrow> api_event list" where
  "writes tr = filter is_write tr"

lemma writes_Nil [simp]: "writes [] = []"
  by (simp add: writes_def)

lemma writes_append [simp]: "writes (xs @ ys) = writes xs @ writes ys"
  by (simp add: writes_def)

lemma writes_Cons [simp]: "writes (x # xs) = (if is_write x then x # writes xs else writes xs)"
  by (simp add: writes_def)

text \<open>
  \<open>emits P m\<close>: a run of \<open>m\<close> extends the trace by events that all satisfy \<open>P\<close>,
  also when it panics.
\<close>

definition emits :: "('e \<Rightarrow> bool) \<Rightarrow> (('w, 'e) traced, 'a) prog \<Rightarrow> bool" where
  "emits P m \<longleftrightarrow> (\<forall>w tr. \<exists>es. snd (snd (m (w, tr))) = tr @ es \<and> list_all P es)"

named_theorems emits_intros \<open>closure of trace properties under the program combinators\<close>

lemma emits_retP [emits_intros]: "emits P (retP a)"
  by (simp add: emits_def retP_run)

lemma emits_panicP [emits_intros]: "emits P panicP"
  by (simp add: emits_def panicP_run)

lemma emits_traceX [emits_intros]: "(\<And>a. P (ev a)) \<Longrightarrow> emits P (callP (traceX ev f))"
  by (simp add: emits_def)

lemma emits_liftX [emits_intros]: "emits P (callP (liftX f))"
  by (simp add: emits_def liftX_run)

lemma emits_traceP [emits_intros]:
  assumes "\<And>a. P (ev a)"
  shows "emits P (traceP ev m)"
  using assms by (auto simp: emits_def traceP_def split: prod.splits outcome.splits)

lemma emits_bindP [emits_intros]:
  assumes "emits P m" and "\<And>a. emits P (f a)"
  shows "emits P (bindP m f)"
  unfolding emits_def
proof (intro allI)
  fix w tr
  obtain r w1 tr1 where m: "m (w, tr) = (r, (w1, tr1))" by (metis prod.collapse)
  from assms(1) m obtain es where es: "tr1 = tr @ es" "list_all P es"
    by (metis emits_def snd_conv)
  show "\<exists>es. snd (snd (bindP m f (w, tr))) = tr @ es \<and> list_all P es"
  proof (cases r)
    case (Ret a)
    from assms(2) [of a] obtain fs where "snd (snd (f a (w1, tr1))) = tr1 @ fs" "list_all P fs"
      unfolding emits_def by blast
    with es m Ret show ?thesis by (intro exI [of _ "es @ fs"]) (simp add: bindP_run)
  next
    case Panic
    with es m show ?thesis by (intro exI [of _ es]) (simp add: bindP_run)
  qed
qed

lemma emits_tryP [emits_intros]:
  "emits P m \<Longrightarrow> (\<And>x. emits P (f x)) \<Longrightarrow> emits P (tryP m f)"
  unfolding tryP_def by (auto intro!: emits_intros split: sum.split)

lemma emits_tryE [emits_intros]:
  "emits P m \<Longrightarrow> (\<And>x. emits P (f x)) \<Longrightarrow> emits P (tryE m f)"
  unfolding tryE_def by (auto intro!: emits_intros split: sum.split)

lemma emits_mapErr [emits_intros]: "emits P m \<Longrightarrow> emits P (mapErr h m)"
  unfolding mapErr_def by (auto intro!: emits_intros split: sum.split)

lemma emits_forP [emits_intros]:
  "(\<And>x s. x \<in> set xs \<Longrightarrow> emits P (f x s)) \<Longrightarrow> emits P (forP f xs s)"
  by (induction xs arbitrary: s) (auto intro!: emits_intros)

lemma emits_forE [emits_intros]:
  "(\<And>x s. x \<in> set xs \<Longrightarrow> emits P (f x s)) \<Longrightarrow> emits P (forE f xs s)"
  by (induction xs arbitrary: s) (auto intro!: emits_intros)

lemma emits_apiP [emits_intros]: "(\<And>a. P (ev a)) \<Longrightarrow> emits P (apiP (traceX ev f))"
  unfolding apiP_def by (auto intro!: emits_intros split: prod.split option.split)

lemma emitsD: "emits P m \<Longrightarrow> m (w, tr) = (r, (w', tr')) \<Longrightarrow> \<exists>es. tr' = tr @ es \<and> list_all P es"
  unfolding emits_def by (metis snd_conv)

lemma emits_start: "emits P m \<Longrightarrow> m (w, []) = (r, (w', tr)) \<Longrightarrow> list_all P tr"
  by (drule emitsD) auto

lemma emits_mono: "emits P m \<Longrightarrow> (\<And>e. P e \<Longrightarrow> Q e) \<Longrightarrow> emits Q m"
  unfolding emits_def by (metis list.pred_mono_strong)

end
