(* ===== verification/Toolkit.thy ===== *)
theory Toolkit
  imports K8s Api_Trace
begin

text \<open>
  The controllers of the vendored operator toolkit
  (\<open>github.com/darkowlzz/operator-toolkit\<close>) that the program's controllers plug
  into: the sync reconciler, the garbage collector of the external-object sync
  reconciler, the resync of the metadata sync reconciler, and the
  stateless-action reconciler with its retry loop. The Go interfaces they call
  are records of operations, and the locales state what the callers may rely on.
\<close>

section \<open>Sync reconciler\<close>

record ('w, 'o) sync_controller =
  ctl_Ensure :: "'o \<Rightarrow> ('w, error_or_nil) prog"
  ctl_Delete :: "'o \<Rightarrow> ('w, error_or_nil) prog"

record ('w, 'o) external_controller = "('w, 'o) sync_controller" +
  ctl_List :: "('w, goerr + objkey list) prog"

record ('w, 'o) metadata_controller = "('w, 'o) sync_controller" +
  ctl_Diff :: "'o list \<Rightarrow> ('w, goerr + 'o list) prog"

text \<open>The prototype of a kind, with the Kubernetes calls a reconciler makes for it.\<close>

record ('w, 'o) kind_client =
  kc_Get :: "objkey \<Rightarrow> ('w, goerr + 'o) ext"
  kc_List :: "('w, goerr + 'o list) ext"
  kc_New :: "objkey \<Rightarrow> 'o"
  kc_Key :: "'o \<Rightarrow> objkey"

record reconcile_result =
  Requeue :: bool
  Err :: error_or_nil

definition Reconcile ::
  "('w, 'o) kind_client \<Rightarrow> ('w, 'o, 'more) sync_controller_scheme \<Rightarrow> objkey \<Rightarrow> ('w, reconcile_result) prog" where
  "Reconcile kc ctl req =
     bindP (callP (kc_Get kc req)) (\<lambda>r. case r of
       Inl getErr \<Rightarrow>
         if IsNotFound getErr then
           bindP (ctl_Delete ctl (kc_New kc req)) (\<lambda>e. case e of
             None \<Rightarrow> retP \<lparr>Requeue = False, Err = None\<rparr>
           | Some delErr \<Rightarrow> retP \<lparr>Requeue = True, Err = Some (Wrap delErr ''failed to delete from external system'')\<rparr>)
         else retP \<lparr>Requeue = False, Err = Some getErr\<rparr>
     | Inr obj \<Rightarrow>
         bindP (ctl_Ensure ctl obj) (\<lambda>e. case e of
           None \<Rightarrow> retP \<lparr>Requeue = False, Err = None\<rparr>
         | Some ensureErr \<Rightarrow> retP \<lparr>Requeue = True, Err = Some (Wrap ensureErr ''failed to ensure in the external system'')\<rparr>))"

text \<open>\<open>SyncFunc.Run\<close> up to its \<open>n\<close>-th tick: once after the startup delay, then once per tick.\<close>

primrec SyncFunc_Run :: "('w, unit) prog \<Rightarrow> nat \<Rightarrow> ('w, unit) prog" where
  "SyncFunc_Run f 0 = f"
| "SyncFunc_Run f (Suc n) = bindP (SyncFunc_Run f n) (\<lambda>_. f)"

section \<open>Garbage collection\<close>

fun NamespacedNamesDiff :: "objkey list \<Rightarrow> objkey list \<Rightarrow> objkey list" where
  "NamespacedNamesDiff [] b = []"
| "NamespacedNamesDiff (aa # a) b =
     (if list_ex (\<lambda>bb. aa = bb) b then NamespacedNamesDiff a b else aa # NamespacedNamesDiff a b)"

definition collectGarbage ::
  "('w, 'o) kind_client \<Rightarrow> ('w, 'o, 'more) external_controller_scheme \<Rightarrow> ('w, unit) prog" where
  "collectGarbage kc ctl =
     bindP (callP (kc_List kc)) (\<lambda>r. case r of
       Inl listErr \<Rightarrow> retP ()
     | Inr instances \<Rightarrow>
         (let kObjList = map (kc_Key kc) instances in
          bindP (ctl_List ctl) (\<lambda>r. case r of
            Inl listErr \<Rightarrow> retP ()
          | Inr extObjList \<Rightarrow>
              forP (\<lambda>obj u. bindP (ctl_Delete ctl (kc_New kc obj)) (\<lambda>_. retP ()))
                   (NamespacedNamesDiff extObjList kObjList) ())))"

lemma NamespacedNamesDiff_filter: "NamespacedNamesDiff a b = filter (\<lambda>k. k \<notin> set b) a"
  by (induction a) (auto simp: list_ex_iff)

section \<open>Resync of metadata\<close>

definition resync ::
  "('w, 'o) kind_client \<Rightarrow> ('w, 'o, 'more) metadata_controller_scheme \<Rightarrow> ('w, unit) prog" where
  "resync kc ctl =
     bindP (callP (kc_List kc)) (\<lambda>r. case r of
       Inl listErr \<Rightarrow> retP ()
     | Inr k8sObjList \<Rightarrow>
         bindP (ctl_Diff ctl k8sObjList) (\<lambda>r. case r of
           Inl listErr \<Rightarrow> retP ()
         | Inr resyncObjs \<Rightarrow>
             forP (\<lambda>obj u. bindP (ctl_Ensure ctl obj) (\<lambda>_. retP ())) resyncObjs ()))"

section \<open>Stateless actions\<close>

text \<open>
  The state \<open>'s\<close> of an action manager is what its methods may change through
  pointers they share.
\<close>

record ('w, 's, 'o) action_manager =
  am_GetName :: "'o \<Rightarrow> goerr + string"
  am_GetObjects :: "'s \<Rightarrow> ('w, goerr + 'o list) prog"
  am_Run :: "'s \<Rightarrow> 'o \<Rightarrow> ('w, error_or_nil) prog"
  am_Defer :: "'o \<Rightarrow> ('w, error_or_nil) prog"
  am_Check :: "'s \<Rightarrow> 'o \<Rightarrow> ('w, (goerr + bool) \<times> 's) prog"

record ('w, 's, 'o) action_controller =
  ac_GetObject :: "objkey \<Rightarrow> ('w, goerr + 'o option) prog"
  ac_RequireAction :: "'o \<Rightarrow> ('w, goerr + bool) prog"
  ac_BuildActionManager :: "'o \<Rightarrow> goerr + 's"

datatype action_event = RetryPeriodElapsed | ActionCtxDone

datatype 's action_status = ActRunning 's | ActSucceeded 's | ActCancelled 's

text \<open>The retry loop, driven by the events its \<open>select\<close> receives.\<close>

primrec retry_loop ::
  "('w, 's, 'o) action_manager \<Rightarrow> 'o \<Rightarrow> action_event list \<Rightarrow> 's \<Rightarrow> ('w, 's action_status) prog" where
  "retry_loop am obj [] s = retP (ActRunning s)"
| "retry_loop am obj (ev # evs) s =
     (case ev of
        RetryPeriodElapsed \<Rightarrow>
          bindP (am_Check am s obj) (\<lambda>(checked, s). case checked of
            Inl checkErr \<Rightarrow> retry_loop am obj evs s
          | Inr True \<Rightarrow> bindP (am_Run am s obj) (\<lambda>_. retry_loop am obj evs s)
          | Inr False \<Rightarrow> retP (ActSucceeded s))
      | ActionCtxDone \<Rightarrow> retP (ActCancelled s))"

text \<open>
  \<open>RunAction\<close> returns nothing while it still runs; otherwise how it ended and
  the error of the deferred function.
\<close>

definition RunAction ::
  "('w, 's, 'o) action_manager \<Rightarrow> 's \<Rightarrow> 'o \<Rightarrow> action_event list
     \<Rightarrow> ('w, goerr + ('s action_status \<times> error_or_nil)) prog" where
  "RunAction am s obj evs =
     (case am_GetName am obj of
        Inl err \<Rightarrow> retP (Inl (Wrap err ''failed to get action manager name''))
      | Inr name \<Rightarrow>
          bindP (am_Run am s obj) (\<lambda>_.
          bindP (retry_loop am obj evs s) (\<lambda>st. case st of
            ActRunning s \<Rightarrow> retP (Inr (ActRunning s, None))
          | _ \<Rightarrow> bindP (am_Defer am obj) (\<lambda>e.
              retP (Inr (st, map_option (\<lambda>e. Wrap e ''failed to run deferred action'') e))))))"

text \<open>
  \<open>RunActionManager\<close> starts one goroutine per object; the model returns the
  manager state with the objects whose actions were started.
\<close>

definition RunActionManager ::
  "('w, 's, 'o) action_controller \<Rightarrow> ('w, 's, 'o) action_manager \<Rightarrow> 'o
     \<Rightarrow> ('w, goerr + 's \<times> 'o list) prog" where
  "RunActionManager ac am obj =
     (case ac_BuildActionManager ac obj of
        Inl err \<Rightarrow> retP (Inl (Wrap err ''failed to build action manager''))
      | Inr s \<Rightarrow>
          tryP (mapErr (\<lambda>e. Wrap e ''failed to get objects from action manager'') (am_GetObjects am s)) (\<lambda>objects.
            retP (Inr (s, objects))))"

definition IgnoreNotFound :: "goerr \<Rightarrow> error_or_nil" where
  "IgnoreNotFound e = (if IsNotFound e then None else Some e)"

definition ActionReconcile ::
  "('w, 's, 'o) action_controller \<Rightarrow> ('w, 's, 'o) action_manager \<Rightarrow> objkey
     \<Rightarrow> ('w, error_or_nil \<times> ('s \<times> 'o list) option) prog" where
  "ActionReconcile ac am req =
     bindP (ac_GetObject ac req) (\<lambda>r. case r of
       Inl err \<Rightarrow> retP (IgnoreNotFound err, None)
     | Inr None \<Rightarrow> retP (None, None)
     | Inr (Some obj) \<Rightarrow>
         bindP (ac_RequireAction ac obj) (\<lambda>r. case r of
           Inl err \<Rightarrow> retP (Some err, None)
         | Inr False \<Rightarrow> retP (None, None)
         | Inr True \<Rightarrow>
             bindP (RunActionManager ac am obj) (\<lambda>r. case r of
               Inl err \<Rightarrow> retP (Some err, None)
             | Inr started \<Rightarrow> retP (None, Some started))))"

section \<open>Facts about the reconcilers\<close>

lemma no_panic_retry_loop:
  assumes "\<And>s. no_panic (am_Run am s obj)" and "\<And>s. no_panic (am_Check am s obj)"
  shows "no_panic (retry_loop am obj evs s)"
  by (induction evs arbitrary: s)
     (auto intro!: no_panic_bindP assms split: action_event.split sum.split bool.split)

text \<open>The loop is over once the context is done, whatever the checks say.\<close>

lemma retry_loop_ends:
  "ActionCtxDone \<in> set evs \<Longrightarrow> retry_loop am obj evs s w = (Ret st, w') \<Longrightarrow> \<forall>s'. st \<noteq> ActRunning s'"
proof (induction evs arbitrary: s w)
  case Nil
  then show ?case by simp
next
  case (Cons ev evs)
  then show ?case
    by (cases ev)
       (fastforce simp: bindP_run retP_run split: prod.splits outcome.splits sum.splits bool.splits)+
qed

text \<open>
  How each way the loop can end comes about. What the checks keep of the manager's
  state holds of the state the last check started from.
\<close>

lemma retry_loop_cases:
  assumes "retry_loop am obj evs s w = (Ret st, w')" and "I s"
    and keep: "\<And>s w r s' w'. I s \<Longrightarrow> am_Check am s obj w = (Ret (r, s'), w') \<Longrightarrow> I s'"
  shows "case st of
        ActRunning s' \<Rightarrow> ActionCtxDone \<notin> set evs
      | ActCancelled s' \<Rightarrow> ActionCtxDone \<in> set evs
      | ActSucceeded s' \<Rightarrow> (\<exists>s0 w0. I s0 \<and> am_Check am s0 obj w0 = (Ret (Inr False, s'), w'))"
  using assms(1,2)
proof (induction evs arbitrary: s w)
  case Nil
  then show ?case by (auto simp: retP_run)
next
  case (Cons ev evs)
  show ?case
  proof (cases ev)
    case ActionCtxDone
    with Cons.prems show ?thesis by (auto simp: retP_run)
  next
    case RetryPeriodElapsed
    with Cons.prems obtain r s1 w1 where c: "am_Check am s obj w = (Ret (r, s1), w1)"
      by (auto simp: bindP_run split: prod.splits outcome.splits)
    from keep [OF \<open>I s\<close> c] have I1: "I s1" .
    show ?thesis
    proof (cases "r = Inr False")
      case True
      with Cons.prems c RetryPeriodElapsed show ?thesis by (auto simp: retP_run) blast
    next
      case False
      with Cons.prems c RetryPeriodElapsed obtain w2 where
        "retry_loop am obj evs s1 w2 = (Ret st, w')"
        by (auto simp: bindP_run split: prod.splits outcome.splits sum.splits bool.splits)
      from Cons.IH [OF this I1] RetryPeriodElapsed show ?thesis by (auto split: action_status.splits)
    qed
  qed
qed

section \<open>Contracts\<close>

text \<open>
  The events of deleting keys one after another: a segment for each key, where the
  flag of a segment says whether that deletion panicked. A panic ends the sequence.
\<close>

fun deletions :: "('k \<Rightarrow> bool \<Rightarrow> 'e list \<Rightarrow> bool) \<Rightarrow> 'k list \<Rightarrow> bool \<Rightarrow> 'e list \<Rightarrow> bool" where
  "deletions seg [] panicked es \<longleftrightarrow> \<not> panicked \<and> es = []"
| "deletions seg (k # ks) panicked es \<longleftrightarrow>
     panicked \<and> seg k True es \<or>
     (\<exists>s rest. es = s @ rest \<and> seg k False s \<and> deletions seg ks panicked rest)"

text \<open>
  What the garbage collector relies on: one deletion adds to the trace only
  events that the contract \<open>justified\<close> allows for its key and its way of ending.
\<close>

locale external_deleter =
  fixes del :: "'o \<Rightarrow> (('w, 'e) traced, error_or_nil) prog"
    and new :: "objkey \<Rightarrow> 'o"
    and justified :: "objkey \<Rightarrow> bool \<Rightarrow> 'e list \<Rightarrow> bool"
  assumes del_segment:
    "del (new key) (w, tr) = (r, (w', tr')) \<Longrightarrow> \<exists>es. tr' = tr @ es \<and> justified key (r = Panic) es"
begin

text \<open>Deleting a list of keys gives one justified segment per key, up to a deletion that panics.\<close>

lemma delete_all:
  "forP (\<lambda>obj u. bindP (del (new obj)) (\<lambda>_. retP ())) keys u (w, tr) = (r, (w', tr')) \<Longrightarrow>
     \<exists>es. tr' = tr @ es \<and> deletions justified keys (r = Panic) es"
proof (induction keys arbitrary: u w tr)
  case Nil
  then show ?case by (auto simp: retP_run)
next
  case (Cons k ks)
  obtain d w1 tr1 where d: "del (new k) (w, tr) = (d, (w1, tr1))"
    by (metis prod.collapse)
  from del_segment [OF d] obtain es where es: "tr1 = tr @ es" "justified k (d = Panic) es" by blast
  show ?case
  proof (cases d)
    case Panic
    with Cons.prems d es show ?thesis by (auto simp: bindP_run)
  next
    case (Ret e)
    with Cons.prems d have "forP (\<lambda>obj u. bindP (del (new obj)) (\<lambda>_. retP ())) ks () (w1, tr1) = (r, (w', tr'))"
      by (simp add: bindP_assoc)
    from Cons.IH [OF this] obtain rest where "tr' = tr1 @ rest" "deletions justified ks (r = Panic) rest"
      by blast
    with es Ret show ?thesis by (intro exI [of _ "es @ rest"]) auto
  qed
qed

text \<open>
  A collection that gets both lists deletes, in order, exactly the external keys
  that Kubernetes did not list.
\<close>

lemma collectGarbage_segments:
  assumes "kc_List kc (w, tr) = (Inr objs, (w1, tr1))"
    and "ctl_List ctl (w1, tr1) = (Ret (Inr ext), (w2, tr2))"
    and "ctl_Delete ctl = del" and "kc_New kc = new"
    and "collectGarbage kc ctl (w, tr) = (r, (w', tr'))"
  shows "\<exists>es. tr' = tr2 @ es \<and>
           deletions justified (filter (\<lambda>k. k \<notin> kc_Key kc ` set objs) ext) (r = Panic) es"
proof -
  have "forP (\<lambda>obj u. bindP (del (new obj)) (\<lambda>_. retP ()))
          (filter (\<lambda>k. k \<notin> kc_Key kc ` set objs) ext) () (w2, tr2) = (r, (w', tr'))"
    using assms by (simp add: collectGarbage_def Let_def bindP_run NamespacedNamesDiff_filter)
  from delete_all [OF this] show ?thesis .
qed

end

text \<open>
  What the resync relies on: \<open>Diff\<close> returns some of the objects it was given, in
  their order.
\<close>

locale metadata_differ =
  fixes diff :: "'o list \<Rightarrow> (('w, 'e) traced, goerr + 'o list) prog"
  assumes diff_subset: "diff objs wt = (Ret (Inr out), wt') \<Longrightarrow> set out \<subseteq> set objs"
begin

lemma resync_emits:
  assumes list: "\<And>wt objs wt'. kc_List kc wt = (Inr objs, wt') \<Longrightarrow> \<forall>obj \<in> set objs. L obj"
    and ensure: "\<And>obj. L obj \<Longrightarrow> emits Q (ctl_Ensure ctl obj)"
    and reads: "emits Q (callP (kc_List kc))" "\<And>objs. emits Q (diff objs)"
    and ctl: "ctl_Diff ctl = diff"
  shows "emits Q (resync kc ctl)"
proof -
  have loop: "emits Q (forP (\<lambda>obj u. bindP (ctl_Ensure ctl obj) (\<lambda>_. retP ())) objs ())"
    if "\<forall>obj \<in> set objs. L obj" for objs
    using that ensure by (auto intro!: emits_intros)
  show ?thesis
    unfolding emits_def
  proof (intro allI)
    fix w tr
    obtain l w1 tr1 where l: "kc_List kc (w, tr) = (l, (w1, tr1))" by (metis prod.collapse)
    from reads(1) l obtain es where es: "tr1 = tr @ es" "list_all Q es"
      unfolding emits_def by (metis callP_run snd_conv)
    show "\<exists>es. snd (snd (resync kc ctl (w, tr))) = tr @ es \<and> list_all Q es"
    proof (cases l)
      case (Inl e)
      with l es show ?thesis by (auto simp: resync_def bindP_run retP_run)
    next
      case (Inr objs)
      obtain d w2 tr2 where d: "diff objs (w1, tr1) = (d, (w2, tr2))" by (metis prod.collapse)
      from emitsD [OF reads(2) d] obtain es2 where es2: "tr2 = tr1 @ es2" "list_all Q es2" by blast
      have step: "snd (snd (resync kc ctl (w, tr))) =
          (case d of Ret (Inr out) \<Rightarrow>
             snd (snd (forP (\<lambda>obj u. bindP (ctl_Ensure ctl obj) (\<lambda>_. retP ())) out () (w2, tr2)))
           | _ \<Rightarrow> tr2)"
        using l Inr d by (auto simp: resync_def ctl bindP_run retP_run split: outcome.splits sum.splits)
      show ?thesis
      proof (cases "\<exists>out. d = Ret (Inr out)")
        case True
        then obtain out where out: "d = Ret (Inr out)" by blast
        from list [OF l [unfolded Inr]] diff_subset [OF d [unfolded out]]
        have "\<forall>obj \<in> set out. L obj" by blast
        from loop [OF this] obtain es3 where
          "snd (snd (forP (\<lambda>obj u. bindP (ctl_Ensure ctl obj) (\<lambda>_. retP ())) out () (w2, tr2))) = tr2 @ es3"
          "list_all Q es3"
          unfolding emits_def by blast
        with step out es es2 show ?thesis by (intro exI [of _ "es @ es2 @ es3"]) simp
      next
        case False
        with step es es2 show ?thesis
          by (intro exI [of _ "es @ es2"]) (auto split: outcome.splits sum.splits)
      qed
    qed
  qed
qed

end

text \<open>What the retry loop relies on: every step of the action keeps to \<open>P\<close>.\<close>

locale traced_action =
  fixes am :: "(('w, 'e) traced, 's, 'o) action_manager"
    and P :: "'e \<Rightarrow> bool"
  assumes emits_Run: "emits P (am_Run am s obj)"
    and emits_Check: "emits P (am_Check am s obj)"
    and emits_Defer: "emits P (am_Defer am obj)"
begin

lemma emits_retry_loop: "emits P (retry_loop am obj evs s)"
  by (induction evs arbitrary: s)
     (auto intro!: emits_intros emits_Run emits_Check split: action_event.split sum.split bool.split)

lemma emits_RunAction: "emits P (RunAction am s obj evs)"
  unfolding RunAction_def
  by (auto intro!: emits_intros emits_Run emits_Defer emits_retry_loop split: sum.split action_status.split)

end

end
