(* ===== verification/Nodes.thy ===== *)
theory Nodes
  imports Client Api_Trace Mem_Plane
begin

text \<open>
  The client's operations on namespaces and nodes:
  \<open>internal/pkg/storageos/namespace.go\<close> and \<open>node.go\<close>, with the StorageOS node
  resource of \<open>api/v1/node_types.go\<close> that nodes are converted to.
\<close>

section \<open>Namespaces\<close>

definition ListNamespaces :: "'w control_plane \<Rightarrow> client \<Rightarrow> ('w, goerr + sobject list) prog" where
  "ListNamespaces cp c =
     tryP (apiP (api_ListNamespaces cp (AddToken c))) (\<lambda>namespaces.
       retP (Inr (map namespace_object namespaces)))"

definition getNamespace :: "'w control_plane \<Rightarrow> ctx \<Rightarrow> objkey \<Rightarrow> ('w, goerr + namespace) prog" where
  "getNamespace cp ctx key =
     tryP (apiP (api_ListNamespaces cp ctx)) (\<lambda>namespaces.
       case find (\<lambda>ns. ns_Name ns = key_Name key) namespaces of
         Some ns \<Rightarrow> retP (Inr ns)
       | None \<Rightarrow> retP (Inl ErrNamespaceNotFound))"

text \<open>
  On an error the response is dereferenced for its status code; without a
  response this is the panic of a nil pointer.
\<close>

definition DeleteNamespace :: "'w control_plane \<Rightarrow> client \<Rightarrow> objkey \<Rightarrow> ('w, error_or_nil) prog" where
  "DeleteNamespace cp c key =
     (let ctx = AddToken c in
      tryE (getNamespace cp ctx key) (\<lambda>ns.
        bindP (callP (api_DeleteNamespace cp ctx (ns_Id ns) (ns_Version ns))) (\<lambda>(_, resp, err).
          case err of
            None \<Rightarrow> retP None
          | Some e \<Rightarrow>
              (case resp of
                 None \<Rightarrow> panicP
               | Some r \<Rightarrow>
                   retP (Some (if StatusCode r = 409 then ErrNamespaceInUse
                               else if StatusCode r = 404 then ErrNamespaceNotFound
                               else MapAPIError e resp))))))"

section \<open>Nodes\<close>

text \<open>\<open>objects[key] = obj\<close> for each listed object, later ones replacing earlier ones.\<close>

definition object_map :: "('a \<Rightarrow> objkey) \<Rightarrow> ('a \<Rightarrow> sobject) \<Rightarrow> 'a list \<Rightarrow> (objkey \<times> sobject) list" where
  "object_map key obj xs = fold (\<lambda>x m. AList.update (key x) (obj x) m) xs []"

definition NodeObjects :: "'w control_plane \<Rightarrow> client \<Rightarrow> ('w, goerr + (objkey \<times> sobject) list) prog" where
  "NodeObjects cp c =
     tryP (apiP (api_ListNodes cp (AddToken c))) (\<lambda>nodes.
       retP (Inr (object_map (\<lambda>n. mk_key '''' (node_Name n)) node_object nodes)))"

abbreviation NodeHealthOnline :: string where "NodeHealthOnline \<equiv> ''online''"
abbreviation NodeHealthOffline :: string where "NodeHealthOffline \<equiv> ''offline''"
abbreviation NodeHealthUnknown :: string where "NodeHealthUnknown \<equiv> ''unknown''"

record NodeSpec =
  IoEndpoint :: string
  SupervisorEndpoint :: string
  GossipEndpoint :: string
  ClusteringEndpoint :: string

record NodeStatus =
  Health :: string
  Capacity :: node_capacity

record NodeCR =
  cr_Name :: string
  cr_UID :: string
  cr_ResourceVersion :: string
  cr_CreationTimestamp :: int
  cr_Labels :: smap
  cr_Spec :: NodeSpec
  cr_Status :: NodeStatus

definition nodeToCR :: "node \<Rightarrow> NodeCR" where
  "nodeToCR n =
     (let health = (if node_Health n = NODEHEALTH_ONLINE then NodeHealthOnline
                    else if node_Health n = NODEHEALTH_OFFLINE then NodeHealthOffline
                    else NodeHealthUnknown)
      in \<lparr>cr_Name = node_Name n, cr_UID = node_Id n, cr_ResourceVersion = node_Version n,
          cr_CreationTimestamp = node_CreatedAt n, cr_Labels = node_Labels n,
          cr_Spec = \<lparr>IoEndpoint = node_IoEndpoint n, SupervisorEndpoint = node_SupervisorEndpoint n,
                     GossipEndpoint = node_GossipEndpoint n, ClusteringEndpoint = node_ClusteringEndpoint n\<rparr>,
          cr_Status = \<lparr>Health = health,
                       Capacity = \<lparr>cap_Total = cap_Total (node_Capacity n),
                                   cap_Free = cap_Free (node_Capacity n),
                                   cap_Available = cap_Available (node_Capacity n)\<rparr>\<rparr>\<rparr>)"

definition ListNodes :: "'w control_plane \<Rightarrow> client \<Rightarrow> ('w, goerr + NodeCR list) prog" where
  "ListNodes cp c =
     tryP (apiP (api_ListNodes cp (AddToken c))) (\<lambda>nodes. retP (Inr (map nodeToCR nodes)))"

definition getNodeByKey :: "'w control_plane \<Rightarrow> ctx \<Rightarrow> objkey \<Rightarrow> ('w, goerr + node) prog" where
  "getNodeByKey cp ctx key =
     tryP (apiP (api_ListNodes cp ctx)) (\<lambda>nodes.
       case find (\<lambda>n. node_Name n = key_Name key) nodes of
         Some n \<Rightarrow> retP (Inr n)
       | None \<Rightarrow> retP (Inl ErrNodeNotFound))"

definition DeleteNode :: "'w control_plane \<Rightarrow> client \<Rightarrow> objkey \<Rightarrow> ('w, error_or_nil) prog" where
  "DeleteNode cp c key =
     (let ctx = AddToken c in
      tryE (getNodeByKey cp ctx key) (\<lambda>n.
        bindP (callP (api_DeleteNode cp ctx (node_Id n) (node_Version n))) (\<lambda>(_, resp, err).
          case err of
            None \<Rightarrow> retP None
          | Some e \<Rightarrow>
              (case resp of
                 None \<Rightarrow> panicP
               | Some r \<Rightarrow>
                   retP (Some (if StatusCode r = 409 then ErrNodeInUse
                               else if StatusCode r = 423 then ErrNodeHasLock
                               else if StatusCode r = 404 then ErrNodeNotFound
                               else MapAPIError e resp))))))"

section \<open>Shared facts\<close>

lemma find_append:
  "find P (xs @ ys) = (case find P xs of Some x \<Rightarrow> Some x | None \<Rightarrow> find P ys)"
  by (induction xs) auto

lemma map_of_object_map_fold:
  "map_of (fold (\<lambda>x m. AList.update (key x) (obj x) m) xs m) k =
     (case find (\<lambda>x. key x = k) (rev xs) of Some x \<Rightarrow> Some (obj x) | None \<Rightarrow> map_of m k)"
proof (induction xs arbitrary: m)
  case Nil
  show ?case by simp
next
  case (Cons y ys)
  then show ?case by (auto simp: find_append AList.update_conv' split: option.splits)
qed

text \<open>The object stored under a key is the last one listed with it.\<close>

lemma map_of_object_map:
  "map_of (object_map key obj xs) k = map_option obj (find (\<lambda>x. key x = k) (rev xs))"
  by (simp add: object_map_def map_of_object_map_fold split: option.split)

lemma no_panic_ListNodes [simp, intro]: "no_panic (ListNodes cp c)"
  unfolding ListNodes_def by auto

lemma no_panic_ListNamespaces [simp, intro]: "no_panic (ListNamespaces cp c)"
  unfolding ListNamespaces_def by auto

lemma no_panic_getNodeByKey [simp, intro]: "no_panic (getNodeByKey cp x key)"
  unfolding getNodeByKey_def by (auto intro!: no_panic_tryP split: option.splits)

lemma no_panic_getNamespace [simp, intro]: "no_panic (getNamespace cp x key)"
  unfolding getNamespace_def by (auto intro!: no_panic_tryP split: option.splits)

lemma getNodeByKey_run:
  "getNodeByKey cp x key w =
     (case api_ListNodes cp x w of ((ns, resp, err), w') \<Rightarrow>
        (Ret (case err of Some e \<Rightarrow> Inl (MapAPIError e resp)
              | None \<Rightarrow> (case find (\<lambda>n. node_Name n = key_Name key) ns of
                           Some n \<Rightarrow> Inr n | None \<Rightarrow> Inl ErrNodeNotFound)), w'))"
  by (simp add: getNodeByKey_def tryP_run apiP_run retP_run split: prod.splits option.splits)

lemma getNamespace_run:
  "getNamespace cp x key w =
     (case api_ListNamespaces cp x w of ((ns, resp, err), w') \<Rightarrow>
        (Ret (case err of Some e \<Rightarrow> Inl (MapAPIError e resp)
              | None \<Rightarrow> (case find (\<lambda>n. ns_Name n = key_Name key) ns of
                           Some n \<Rightarrow> Inr n | None \<Rightarrow> Inl ErrNamespaceNotFound)), w'))"
  by (simp add: getNamespace_def tryP_run apiP_run retP_run split: prod.splits option.splits)

text \<open>A deletion is asked for with the identity and version of the entity just listed.\<close>

lemma DeleteNode_run:
  assumes "api_ListNodes cp (AddToken c) w = ((ns, resp, None), w1)"
    and "find (\<lambda>n. node_Name n = key_Name key) ns = Some n"
    and "api_DeleteNode cp (AddToken c) (node_Id n) (node_Version n) w1 = ((u, dresp, err), w2)"
  shows "DeleteNode cp c key w =
    (case err of None \<Rightarrow> (Ret None, w2)
     | Some e \<Rightarrow> (case dresp of None \<Rightarrow> (Panic, w2)
         | Some r \<Rightarrow> (Ret (Some (if StatusCode r = 409 then ErrNodeInUse
                                else if StatusCode r = 423 then ErrNodeHasLock
                                else if StatusCode r = 404 then ErrNodeNotFound
                                else MapAPIError e dresp)), w2)))"
  using assms
  by (simp add: DeleteNode_def Let_def tryE_run getNodeByKey_run panicP_run retP_run split: option.splits)

lemma DeleteNamespace_run:
  assumes "api_ListNamespaces cp (AddToken c) w = ((ns, resp, None), w1)"
    and "find (\<lambda>n. ns_Name n = key_Name key) ns = Some n"
    and "api_DeleteNamespace cp (AddToken c) (ns_Id n) (ns_Version n) w1 = ((u, dresp, err), w2)"
  shows "DeleteNamespace cp c key w =
    (case err of None \<Rightarrow> (Ret None, w2)
     | Some e \<Rightarrow> (case dresp of None \<Rightarrow> (Panic, w2)
         | Some r \<Rightarrow> (Ret (Some (if StatusCode r = 409 then ErrNamespaceInUse
                                else if StatusCode r = 404 then ErrNamespaceNotFound
                                else MapAPIError e dresp)), w2)))"
  using assms
  by (simp add: DeleteNamespace_def Let_def tryE_run getNamespace_run panicP_run retP_run split: option.splits)

section \<open>Traces of a deletion\<close>

text \<open>The events one \<open>DeleteNode\<close> call leaves behind, with the outcome they determine.\<close>

definition node_deletion :: "ctx \<Rightarrow> objkey \<Rightarrow> error_or_nil outcome \<Rightarrow> api_event list \<Rightarrow> bool" where
  "node_deletion x key r es \<longleftrightarrow>
     (\<exists>ns lresp e. es = [EvListNodes x (ns, lresp, Some e)] \<and> r = Ret (Some (MapAPIError e lresp))) \<or>
     (\<exists>ns lresp. es = [EvListNodes x (ns, lresp, None)] \<and>
        find (\<lambda>n. node_Name n = key_Name key) ns = None \<and> r = Ret (Some ErrNodeNotFound)) \<or>
     (\<exists>n ns lresp dresp derr.
        es = [EvListNodes x (ns, lresp, None),
              EvDeleteNode x (node_Id n) (node_Version n) ((), dresp, derr)] \<and>
        find (\<lambda>n. node_Name n = key_Name key) ns = Some n \<and>
        r = (case derr of
               None \<Rightarrow> Ret None
             | Some e \<Rightarrow> (case dresp of
                 None \<Rightarrow> Panic
               | Some h \<Rightarrow> Ret (Some (if StatusCode h = 409 then ErrNodeInUse
                                     else if StatusCode h = 423 then ErrNodeHasLock
                                     else if StatusCode h = 404 then ErrNodeNotFound
                                     else MapAPIError e dresp)))))"

definition namespace_deletion :: "ctx \<Rightarrow> objkey \<Rightarrow> error_or_nil outcome \<Rightarrow> api_event list \<Rightarrow> bool" where
  "namespace_deletion x key r es \<longleftrightarrow>
     (\<exists>ns lresp e. es = [EvListNamespaces x (ns, lresp, Some e)] \<and>
        r = Ret (Some (MapAPIError e lresp))) \<or>
     (\<exists>ns lresp. es = [EvListNamespaces x (ns, lresp, None)] \<and>
        find (\<lambda>n. ns_Name n = key_Name key) ns = None \<and> r = Ret (Some ErrNamespaceNotFound)) \<or>
     (\<exists>n ns lresp dresp derr.
        es = [EvListNamespaces x (ns, lresp, None),
              EvDeleteNamespace x (ns_Id n) (ns_Version n) ((), dresp, derr)] \<and>
        find (\<lambda>n. ns_Name n = key_Name key) ns = Some n \<and>
        r = (case derr of
               None \<Rightarrow> Ret None
             | Some e \<Rightarrow> (case dresp of
                 None \<Rightarrow> Panic
               | Some h \<Rightarrow> Ret (Some (if StatusCode h = 409 then ErrNamespaceInUse
                                     else if StatusCode h = 404 then ErrNamespaceNotFound
                                     else MapAPIError e dresp)))))"

lemma DeleteNode_segment:
  "\<exists>es. snd (snd (DeleteNode (traced_cp cp) c key (w, tr))) = tr @ es \<and>
        node_deletion (AddToken c) key (fst (DeleteNode (traced_cp cp) c key (w, tr))) es"
proof -
  obtain ns lresp lerr w1 where l: "api_ListNodes cp (AddToken c) w = ((ns, lresp, lerr), w1)"
    by (metis surj_pair)
  show ?thesis
  proof (cases "lerr = None \<and> (\<exists>n. find (\<lambda>n. node_Name n = key_Name key) ns = Some n)")
    case False
    with l show ?thesis
      by (auto simp: node_deletion_def DeleteNode_def Let_def tryE_run getNodeByKey_run traceX_run
          split: option.splits)
  next
    case True
    then obtain n where n: "find (\<lambda>n. node_Name n = key_Name key) ns = Some n" by blast
    obtain dresp derr w2 where
      "api_DeleteNode cp (AddToken c) (node_Id n) (node_Version n) w1 = (((), dresp, derr), w2)"
      by (metis (full_types) old.unit.exhaust surj_pair)
    with l True n show ?thesis
      by (auto simp: node_deletion_def DeleteNode_def Let_def tryE_run getNodeByKey_run traceX_run
           retP_run panicP_run split: option.splits)
  qed
qed

lemma DeleteNamespace_segment:
  "\<exists>es. snd (snd (DeleteNamespace (traced_cp cp) c key (w, tr))) = tr @ es \<and>
        namespace_deletion (AddToken c) key (fst (DeleteNamespace (traced_cp cp) c key (w, tr))) es"
proof -
  obtain ns lresp lerr w1 where l: "api_ListNamespaces cp (AddToken c) w = ((ns, lresp, lerr), w1)"
    by (metis surj_pair)
  show ?thesis
  proof (cases "lerr = None \<and> (\<exists>n. find (\<lambda>n. ns_Name n = key_Name key) ns = Some n)")
    case False
    with l show ?thesis
      by (auto simp: namespace_deletion_def DeleteNamespace_def Let_def tryE_run getNamespace_run
          traceX_run split: option.splits)
  next
    case True
    then obtain n where n: "find (\<lambda>n. ns_Name n = key_Name key) ns = Some n" by blast
    obtain dresp derr w2 where
      "api_DeleteNamespace cp (AddToken c) (ns_Id n) (ns_Version n) w1 = (((), dresp, derr), w2)"
      by (metis (full_types) old.unit.exhaust surj_pair)
    with l True n show ?thesis
      by (auto simp: namespace_deletion_def DeleteNamespace_def Let_def tryE_run getNamespace_run
           traceX_run retP_run panicP_run split: option.splits)
  qed
qed

section \<open>Properties\<close>

text \<open>
  C3. A node deletion lists the nodes once. When the listing fails it returns the
  mapped error of the listing, and when no listed node has the key's name it
  returns \<open>ErrNodeNotFound\<close>, and nothing else is asked for in either case. Otherwise
  it deletes the first node with that name, with the identity and version just
  listed, and returns nil when the deletion succeeded and the error of the status
  code when not; it panics when the deletion failed without an HTTP response.
\<close>

theorem DeleteNode_effect:
  "case DeleteNode (traced_cp cp) c key (w, []) of (r, w', tr) \<Rightarrow>
     (\<exists>ns lresp e. tr = [EvListNodes (AddToken c) (ns, lresp, Some e)] \<and>
        r = Ret (Some (MapAPIError e lresp))) \<or>
     (\<exists>ns lresp. tr = [EvListNodes (AddToken c) (ns, lresp, None)] \<and>
        find (\<lambda>n. node_Name n = key_Name key) ns = None \<and> r = Ret (Some ErrNodeNotFound)) \<or>
     (\<exists>n ns lresp dresp derr.
        tr = [EvListNodes (AddToken c) (ns, lresp, None),
              EvDeleteNode (AddToken c) (node_Id n) (node_Version n) ((), dresp, derr)] \<and>
        find (\<lambda>n. node_Name n = key_Name key) ns = Some n \<and>
        r = (case derr of
               None \<Rightarrow> Ret None
             | Some e \<Rightarrow> (case dresp of
                 None \<Rightarrow> Panic
               | Some h \<Rightarrow> Ret (Some (if StatusCode h = 409 then ErrNodeInUse
                                     else if StatusCode h = 423 then ErrNodeHasLock
                                     else if StatusCode h = 404 then ErrNodeNotFound
                                     else MapAPIError e dresp)))))"
  using DeleteNode_segment [of cp c key w "[]"]
  by (auto simp: node_deletion_def split: prod.splits)

end
