(* ===== verification/Provisioner.thy ===== *)
theory Provisioner
  imports K8s
begin

text \<open>
  \<open>internal/pkg/provisioner\<close>: which nodes, claims and volumes belong to
  StorageOS (\<open>storageos.go\<close>), and the storage class of a claim with its reserved
  parameters and the annotation that ties a claim to it (\<open>storageclass.go\<close>).
  \<open>unmarshal\<close> is \<open>json.Unmarshal\<close> into a map from strings to strings.
\<close>

abbreviation DriverName :: string where "DriverName \<equiv> ''csi.storageos.com''"
abbreviation NodeDriverAnnotationKey :: string where
  "NodeDriverAnnotationKey \<equiv> ''csi.volume.kubernetes.io/nodeid''"
abbreviation PVCProvisionerAnnotationKey :: string where
  "PVCProvisionerAnnotationKey \<equiv> ''volume.beta.kubernetes.io/storage-provisioner''"
abbreviation pvcStorageClassKey :: string where
  "pvcStorageClassKey \<equiv> ''volume.beta.kubernetes.io/storage-class''"
abbreviation DefaultStorageClassKey :: string where
  "DefaultStorageClassKey \<equiv> ''storageclass.kubernetes.io/is-default-class''"
abbreviation StorageClassUUIDAnnotationKey :: string where
  "StorageClassUUIDAnnotationKey \<equiv> ''storageos.com/storageclass''"
abbreviation reservedParamPrefix :: string where
  "reservedParamPrefix \<equiv> ''storageos.com/''"

section \<open>Nodes and claims of StorageOS\<close>

definition IsStorageOSNode :: "(string \<Rightarrow> goerr + smap) \<Rightarrow> objmeta \<Rightarrow> goerr + bool" where
  "IsStorageOSNode unmarshal obj =
     (case smap_get (meta_Annotations obj) NodeDriverAnnotationKey of
        None \<Rightarrow> Inr False
      | Some drivers \<Rightarrow>
          (case unmarshal drivers of
             Inl err \<Rightarrow> Inl err
           | Inr driversMap \<Rightarrow> Inr (smap_get driversMap DriverName \<noteq> None)))"

definition HasStorageOSAnnotation :: "objmeta \<Rightarrow> bool" where
  "HasStorageOSAnnotation obj =
     (case smap_get (meta_Annotations obj) PVCProvisionerAnnotationKey of
        Some provisioner \<Rightarrow> provisioner = DriverName
      | None \<Rightarrow> False)"

definition IsStorageOS :: "(string \<Rightarrow> goerr + smap) \<Rightarrow> string \<Rightarrow> objmeta \<Rightarrow> goerr + bool" where
  "IsStorageOS unmarshal kind obj =
     (if kind = ''Node'' then IsStorageOSNode unmarshal obj
      else if kind = ''PersistentVolumeClaim'' then Inr (HasStorageOSAnnotation obj)
      else if kind = ''Volume'' then Inl ErrUnsupportedKind
      else Inl ErrUnsupportedKind)"

section \<open>Storage classes\<close>

definition DefaultStorageClass :: "'w k8s_client \<Rightarrow> ('w, goerr + storage_class) prog" where
  "DefaultStorageClass k8s =
     tryP (mapErr (Opaque ''failed to get StorageClasses'') (callP (k8s_ListStorageClasses k8s))) (\<lambda>items.
       case find (\<lambda>sc. smap_get (meta_Annotations (sc_meta sc)) DefaultStorageClassKey = Some ''true'') items of
         Some sc \<Rightarrow> retP (Inr sc)
       | None \<Rightarrow> retP (Inl (StdError ''default StorageClass not found'')))"

definition StorageClass :: "'w k8s_client \<Rightarrow> string \<Rightarrow> ('w, goerr + storage_class) prog" where
  "StorageClass k8s name =
     (if name = '''' then DefaultStorageClass k8s
      else mapErr (\<lambda>e. Wrap e ''failed to get StorageClass'') (callP (k8s_GetStorageClass k8s (mk_key '''' name))))"

definition PVCStorageClassName :: "pvc \<Rightarrow> string" where
  "PVCStorageClassName p =
     (case pvc_StorageClassName p of
        Some n \<Rightarrow> if 0 < length n then n else smap_get0 (meta_Annotations (pvc_meta p)) pvcStorageClassKey
      | None \<Rightarrow> smap_get0 (meta_Annotations (pvc_meta p)) pvcStorageClassKey)"

definition StorageClassForPVC :: "'w k8s_client \<Rightarrow> pvc \<Rightarrow> ('w, goerr + storage_class) prog" where
  "StorageClassForPVC k8s p =
     (let name = PVCStorageClassName p in
      if name = '''' then DefaultStorageClass k8s else StorageClass k8s name)"

definition StorageClassReservedParams :: "storage_class \<Rightarrow> smap" where
  "StorageClassReservedParams sc =
     SMap (range_copy (\<lambda>k. HasPrefix k reservedParamPrefix) (entries (sc_Parameters sc)) [])"

text \<open>
  The annotation is written into the map of the claim just fetched; that map is
  nil when the claim has no annotations, and the assignment panics.
\<close>

definition ValidateOrSetStorageClassUID ::
  "'w k8s_client \<Rightarrow> objmeta \<Rightarrow> objmeta \<Rightarrow> ('w, goerr + bool) prog" where
  "ValidateOrSetStorageClassUID k8s sc p =
     (let provisionedUID = smap_get0 (meta_Annotations p) StorageClassUUIDAnnotationKey in
      if provisionedUID \<noteq> '''' then retP (Inr (meta_UID sc = provisionedUID))
      else if meta_CreationTimestamp sc > meta_CreationTimestamp p then retP (Inr False)
      else tryP (callP (k8s_GetPVC k8s (meta_key p))) (\<lambda>v1Pvc.
        case smap_set (meta_Annotations (pvc_meta v1Pvc)) StorageClassUUIDAnnotationKey (meta_UID sc) of
          None \<Rightarrow> panicP
        | Some annotations \<Rightarrow>
            tryP (callP (k8s_UpdatePVC k8s
                    (v1Pvc\<lparr>pvc_meta := (pvc_meta v1Pvc)\<lparr>meta_Annotations := annotations\<rparr>\<rparr>))) (\<lambda>_.
              retP (Inr True))))"

section \<open>Volumes of a pod\<close>

definition IsProvisionedStorageClass :: "storage_class \<Rightarrow> string list \<Rightarrow> bool" where
  "IsProvisionedStorageClass sc provisioners = list_ex (\<lambda>p. sc_Provisioner sc = p) provisioners"

definition IsProvisionedPVC :: "'w k8s_client \<Rightarrow> pvc \<Rightarrow> string list \<Rightarrow> ('w, goerr + bool) prog" where
  "IsProvisionedPVC k8s p provisioners =
     tryP (StorageClassForPVC k8s p) (\<lambda>sc. retP (Inr (IsProvisionedStorageClass sc provisioners)))"

definition IsProvisionedVolume ::
  "'w k8s_client \<Rightarrow> pod_volume \<Rightarrow> string \<Rightarrow> string list \<Rightarrow> ('w, goerr + bool) prog" where
  "IsProvisionedVolume k8s vol namespace provisioners =
     (case pvol_ClaimName vol of
        None \<Rightarrow> retP (Inr False)
      | Some claim \<Rightarrow>
          tryP (mapErr (\<lambda>e. Wrap e ''failed to get PVC'')
                  (callP (k8s_GetPVC k8s (mk_key namespace claim)))) (\<lambda>p.
            IsProvisionedPVC k8s p provisioners))"

definition IsStorageOSVolume :: "'w k8s_client \<Rightarrow> pod_volume \<Rightarrow> string \<Rightarrow> ('w, goerr + bool) prog" where
  "IsStorageOSVolume k8s vol namespace = IsProvisionedVolume k8s vol namespace [DriverName]"

section \<open>Facts\<close>

lemma no_panic_DefaultStorageClass [simp, intro]: "no_panic (DefaultStorageClass k)"
  unfolding DefaultStorageClass_def by (auto intro!: no_panic_tryP split: option.splits)

lemma no_panic_StorageClass [simp, intro]: "no_panic (StorageClass k n)"
  unfolding StorageClass_def by auto

lemma no_panic_StorageClassForPVC [simp, intro]: "no_panic (StorageClassForPVC k p)"
  unfolding StorageClassForPVC_def Let_def by auto

lemma no_panic_IsProvisionedVolume [simp, intro]: "no_panic (IsProvisionedVolume k v ns ps)"
  unfolding IsProvisionedVolume_def IsProvisionedPVC_def by (auto intro!: no_panic_tryP split: option.splits)

lemma no_panic_IsStorageOSVolume [simp, intro]: "no_panic (IsStorageOSVolume k v ns)"
  unfolding IsStorageOSVolume_def by auto

lemma smap_get_StorageClassReservedParams:
  "wf_smap (sc_Parameters sc) \<Longrightarrow>
     smap_get (StorageClassReservedParams sc) k =
       (if HasPrefix k reservedParamPrefix then smap_get (sc_Parameters sc) k else None)"
  by (auto simp: StorageClassReservedParams_def smap_get_def wf_smap_def map_of_range_copy
      map_of_not_key)

lemma wf_StorageClassReservedParams [simp]: "wf_smap (StorageClassReservedParams sc)"
  by (simp add: StorageClassReservedParams_def wf_smap_def)

end
