(* ===== verification/Delete_Controllers.thy ===== *)
theory Delete_Controllers
  imports Toolkit Nodes Provisioner
begin

text \<open>
  \<open>controllers/node-delete\<close> and \<open>controllers/namespace-delete\<close>: the sync
  controllers that remove nodes and namespaces from StorageOS once they are gone
  from Kubernetes, their event predicates on top of
  \<open>internal/pkg/predicate/ignore.go\<close>, and the garbage collection the toolkit
  runs with them.
\<close>

section \<open>Predicates\<close>

datatype kevent =
    CreateEvent objmeta
  | UpdateEvent objmeta objmeta
  | DeleteEvent objmeta
  | GenericEvent objmeta

record ignore_funcs =
  CreateFunc :: "(objmeta \<Rightarrow> bool) option"
  DeleteFunc :: "(objmeta \<Rightarrow> bool) option"
  UpdateFunc :: "(objmeta \<times> objmeta \<Rightarrow> bool) option"
  GenericFunc :: "(objmeta \<Rightarrow> bool) option"

definition IgnoreFuncs_Create :: "ignore_funcs \<Rightarrow> objmeta \<Rightarrow> bool" where
  "IgnoreFuncs_Create p e = (case CreateFunc p of Some f \<Rightarrow> f e | None \<Rightarrow> False)"

definition IgnoreFuncs_Delete :: "ignore_funcs \<Rightarrow> objmeta \<Rightarrow> bool" where
  "IgnoreFuncs_Delete p e = (case DeleteFunc p of Some f \<Rightarrow> f e | None \<Rightarrow> False)"

definition IgnoreFuncs_Update :: "ignore_funcs \<Rightarrow> objmeta \<times> objmeta \<Rightarrow> bool" where
  "IgnoreFuncs_Update p e = (case UpdateFunc p of Some f \<Rightarrow> f e | None \<Rightarrow> False)"

definition IgnoreFuncs_Generic :: "ignore_funcs \<Rightarrow> objmeta \<Rightarrow> bool" where
  "IgnoreFuncs_Generic p e = (case GenericFunc p of Some f \<Rightarrow> f e | None \<Rightarrow> False)"

text \<open>The embedded \<open>IgnoreFuncs{}\<close> of every predicate of the program.\<close>

definition ignore_all :: ignore_funcs where
  "ignore_all = \<lparr>CreateFunc = None, DeleteFunc = None, UpdateFunc = None, GenericFunc = None\<rparr>"

text \<open>\<open>Delete\<close> of the node predicate: an annotation that does not parse counts as not found.\<close>

definition NodeDelete_Predicate_Delete :: "(string \<Rightarrow> goerr + smap) \<Rightarrow> objmeta \<Rightarrow> bool" where
  "NodeDelete_Predicate_Delete unmarshal obj =
     (case IsStorageOSNode unmarshal obj of Inl err \<Rightarrow> False | Inr found \<Rightarrow> found)"

definition NodeDelete_Predicate :: "(string \<Rightarrow> goerr + smap) \<Rightarrow> kevent \<Rightarrow> bool" where
  "NodeDelete_Predicate unmarshal ev =
     (case ev of
        CreateEvent e \<Rightarrow> IgnoreFuncs_Create ignore_all e
      | UpdateEvent old new \<Rightarrow> IgnoreFuncs_Update ignore_all (old, new)
      | DeleteEvent e \<Rightarrow> NodeDelete_Predicate_Delete unmarshal e
      | GenericEvent e \<Rightarrow> IgnoreFuncs_Generic ignore_all e)"

definition NamespaceDelete_Predicate_Delete :: "objmeta \<Rightarrow> bool" where
  "NamespaceDelete_Predicate_Delete obj = True"

definition NamespaceDelete_Predicate :: "kevent \<Rightarrow> bool" where
  "NamespaceDelete_Predicate ev =
     (case ev of
        CreateEvent e \<Rightarrow> IgnoreFuncs_Create ignore_all e
      | UpdateEvent old new \<Rightarrow> IgnoreFuncs_Update ignore_all (old, new)
      | DeleteEvent e \<Rightarrow> NamespaceDelete_Predicate_Delete e
      | GenericEvent e \<Rightarrow> IgnoreFuncs_Generic ignore_all e)"

section \<open>Controllers\<close>

record 'w node_deleter =
  nd_DeleteNode :: "objkey \<Rightarrow> ('w, error_or_nil) prog"
  nd_ListNodes :: "('w, goerr + NodeCR list) prog"

record 'w namespace_deleter =
  nsd_DeleteNamespace :: "objkey \<Rightarrow> ('w, error_or_nil) prog"
  nsd_ListNamespaces :: "('w, goerr + sobject list) prog"

definition client_node_deleter :: "'w control_plane \<Rightarrow> client \<Rightarrow> 'w node_deleter" where
  "client_node_deleter cp c = \<lparr>nd_DeleteNode = DeleteNode cp c, nd_ListNodes = ListNodes cp c\<rparr>"

definition client_namespace_deleter :: "'w control_plane \<Rightarrow> client \<Rightarrow> 'w namespace_deleter" where
  "client_namespace_deleter cp c =
     \<lparr>nsd_DeleteNamespace = DeleteNamespace cp c, nsd_ListNamespaces = ListNamespaces cp c\<rparr>"

definition NodeDelete_Ensure :: "'w node_deleter \<Rightarrow> objmeta \<Rightarrow> ('w, error_or_nil) prog" where
  "NodeDelete_Ensure api obj = retP None"

definition NodeDelete_Delete :: "'w node_deleter \<Rightarrow> objmeta \<Rightarrow> ('w, error_or_nil) prog" where
  "NodeDelete_Delete api obj =
     bindP (nd_DeleteNode api (meta_key obj)) (\<lambda>err.
       if err \<noteq> None \<and> err \<noteq> Some ErrNodeNotFound then retP err else retP None)"

definition NodeDelete_List :: "'w node_deleter \<Rightarrow> ('w, goerr + objkey list) prog" where
  "NodeDelete_List api =
     tryP (nd_ListNodes api) (\<lambda>nodes. retP (Inr (map (\<lambda>n. mk_key '''' (cr_Name n)) nodes)))"

definition NodeDelete_Controller :: "'w node_deleter \<Rightarrow> ('w, objmeta) external_controller" where
  "NodeDelete_Controller api =
     \<lparr>ctl_Ensure = NodeDelete_Ensure api, ctl_Delete = NodeDelete_Delete api, ctl_List = NodeDelete_List api\<rparr>"

definition NamespaceDelete_Ensure :: "'w namespace_deleter \<Rightarrow> objmeta \<Rightarrow> ('w, error_or_nil) prog" where
  "NamespaceDelete_Ensure api obj = retP None"

definition NamespaceDelete_Delete :: "'w namespace_deleter \<Rightarrow> objmeta \<Rightarrow> ('w, error_or_nil) prog" where
  "NamespaceDelete_Delete api obj =
     bindP (nsd_DeleteNamespace api (meta_key obj)) (\<lambda>err.
       if err \<noteq> None \<and> err \<noteq> Some ErrNamespaceNotFound then retP err else retP None)"

definition NamespaceDelete_List :: "'w namespace_deleter \<Rightarrow> ('w, goerr + objkey list) prog" where
  "NamespaceDelete_List api = tryP (nsd_ListNamespaces api) (\<lambda>objects. retP (Inr (ObjectKeys objects)))"

definition NamespaceDelete_Controller :: "'w namespace_deleter \<Rightarrow> ('w, objmeta) external_controller" where
  "NamespaceDelete_Controller api =
     \<lparr>ctl_Ensure = NamespaceDelete_Ensure api, ctl_Delete = NamespaceDelete_Delete api,
      ctl_List = NamespaceDelete_List api\<rparr>"

text \<open>
  The kind both reconcilers are set up with: nodes and namespaces are
  cluster-scoped, and only their metadata matters here. The prototype instance
  of a key has that name and namespace and is otherwise empty.
\<close>

definition meta_kind ::
  "(objkey \<Rightarrow> ('w, goerr + objmeta) ext) \<Rightarrow> ('w, goerr + objmeta list) ext \<Rightarrow> ('w, objmeta) kind_client" where
  "meta_kind getObj listObjs =
     \<lparr>kc_Get = getObj, kc_List = listObjs,
      kc_New = (\<lambda>key. empty_meta\<lparr>meta_Name := key_Name key, meta_Namespace := key_Namespace key\<rparr>),
      kc_Key = meta_key\<rparr>"

section \<open>The deletion contract holds for both controllers\<close>

definition node_deletion_seg :: "ctx \<Rightarrow> objkey \<Rightarrow> bool \<Rightarrow> api_event list \<Rightarrow> bool" where
  "node_deletion_seg x key panicked es \<longleftrightarrow> (\<exists>r. node_deletion x key r es \<and> (r = Panic \<longleftrightarrow> panicked))"

definition namespace_deletion_seg :: "ctx \<Rightarrow> objkey \<Rightarrow> bool \<Rightarrow> api_event list \<Rightarrow> bool" where
  "namespace_deletion_seg x key panicked es \<longleftrightarrow>
     (\<exists>r. namespace_deletion x key r es \<and> (r = Panic \<longleftrightarrow> panicked))"

definition new_meta :: "objkey \<Rightarrow> objmeta" where
  "new_meta key = empty_meta\<lparr>meta_Name := key_Name key, meta_Namespace := key_Namespace key\<rparr>"

lemma meta_key_new_meta [simp]: "meta_key (new_meta key) = key"
  by (cases key) (simp add: meta_key_def new_meta_def empty_meta_def)

lemma kc_New_meta_kind [simp]: "kc_New (meta_kind g l) = new_meta"
  by (simp add: meta_kind_def new_meta_def [abs_def])

lemma kc_sel_meta_kind [simp]:
  "kc_Key (meta_kind g l) = meta_key" "kc_List (meta_kind g l) = l" "kc_Get (meta_kind g l) = g"
  by (simp_all add: meta_kind_def)

interpretation node_del: external_deleter
  "NodeDelete_Delete (client_node_deleter (traced_cp cp) c)" new_meta "node_deletion_seg (AddToken c)"
  for cp :: "'w control_plane" and c :: client
proof
  fix key :: objkey and w w' :: 'w and tr tr' r
  assume run: "NodeDelete_Delete (client_node_deleter (traced_cp cp) c) (new_meta key) (w, tr) = (r, w', tr')"
  obtain d w1 tr1 where d: "DeleteNode (traced_cp cp) c key (w, tr) = (d, (w1, tr1))"
    by (metis prod.collapse)
  with run have "tr' = tr1 \<and> (r = Panic \<longleftrightarrow> d = Panic)"
    by (auto simp: NodeDelete_Delete_def client_node_deleter_def bindP_run retP_run
        split: outcome.splits if_splits)
  with d DeleteNode_segment [of cp c key w tr]
  show "\<exists>es. tr' = tr @ es \<and> node_deletion_seg (AddToken c) key (r = Panic) es"
    by (auto simp: node_deletion_seg_def)
qed

interpretation ns_del: external_deleter
  "NamespaceDelete_Delete (client_namespace_deleter (traced_cp cp) c)" new_meta
  "namespace_deletion_seg (AddToken c)"
  for cp :: "'w control_plane" and c :: client
proof
  fix key :: objkey and w w' :: 'w and tr tr' r
  assume run: "NamespaceDelete_Delete (client_namespace_deleter (traced_cp cp) c) (new_meta key) (w, tr) = (r, w', tr')"
  obtain d w1 tr1 where d: "DeleteNamespace (traced_cp cp) c key (w, tr) = (d, (w1, tr1))"
    by (metis prod.collapse)
  with run have "tr' = tr1 \<and> (r = Panic \<longleftrightarrow> d = Panic)"
    by (auto simp: NamespaceDelete_Delete_def client_namespace_deleter_def bindP_run retP_run
        split: outcome.splits if_splits)
  with d DeleteNamespace_segment [of cp c key w tr]
  show "\<exists>es. tr' = tr @ es \<and> namespace_deletion_seg (AddToken c) key (r = Panic) es"
    by (auto simp: namespace_deletion_seg_def)
qed

lemma NodeDelete_List_run:
  "NodeDelete_List (client_node_deleter (traced_cp cp) c) (w, tr) =
     (case api_ListNodes cp (AddToken c) w of ((ns, resp, err), w') \<Rightarrow>
        (Ret (case err of None \<Rightarrow> Inr (map (\<lambda>n. mk_key '''' (node_Name n)) ns)
              | Some e \<Rightarrow> Inl (MapAPIError e resp)),
         (w', tr @ [EvListNodes (AddToken c) (ns, resp, err)])))"
  by (auto simp: NodeDelete_List_def client_node_deleter_def ListNodes_def tryP_run apiP_run retP_run
      traceX_run nodeToCR_def Let_def split: prod.splits option.splits)

lemma NamespaceDelete_List_run:
  "NamespaceDelete_List (client_namespace_deleter (traced_cp cp) c) (w, tr) =
     (case api_ListNamespaces cp (AddToken c) w of ((ns, resp, err), w') \<Rightarrow>
        (Ret (case err of None \<Rightarrow> Inr (map (\<lambda>n. mk_key '''' (ns_Name n)) ns)
              | Some e \<Rightarrow> Inl (MapAPIError e resp)),
         (w', tr @ [EvListNamespaces (AddToken c) (ns, resp, err)])))"
  by (auto simp: NamespaceDelete_List_def client_namespace_deleter_def ListNamespaces_def tryP_run
      apiP_run retP_run traceX_run ObjectKeys_def ObjectKeyFromObject_def namespace_object_def
      split: prod.splits option.splits)

lemma NodeDelete_Controller_sel [simp]:
  "ctl_Delete (NodeDelete_Controller api) = NodeDelete_Delete api"
  "ctl_List (NodeDelete_Controller api) = NodeDelete_List api"
  "ctl_Ensure (NodeDelete_Controller api) = NodeDelete_Ensure api"
  by (simp_all add: NodeDelete_Controller_def)

lemma NamespaceDelete_Controller_sel [simp]:
  "ctl_Delete (NamespaceDelete_Controller api) = NamespaceDelete_Delete api"
  "ctl_List (NamespaceDelete_Controller api) = NamespaceDelete_List api"
  "ctl_Ensure (NamespaceDelete_Controller api) = NamespaceDelete_Ensure api"
  by (simp_all add: NamespaceDelete_Controller_def)

lemma collectGarbage_list_error:
  "kc_List kc w = (Inl e, w') \<Longrightarrow> collectGarbage kc ctl w = (Ret (), w')"
  by (simp add: collectGarbage_def retP_run)

lemma collectGarbage_ext_error:
  "kc_List kc w = (Inr objs, w1) \<Longrightarrow> ctl_List ctl w1 = (Ret (Inl e), w2) \<Longrightarrow>
     collectGarbage kc ctl w = (Ret (), w2)"
  by (simp add: collectGarbage_def Let_def retP_run)

section \<open>Exact garbage collection\<close>

text \<open>
  The outcome of a collection, from the listing \<open>klist\<close> of Kubernetes and the listing
  \<open>xlist\<close> of StorageOS, whose event is \<open>ev\<close>: nothing is asked of StorageOS when Kubernetes
  cannot be listed, and only a listing when StorageOS cannot. Otherwise, after one
  listing, there is one segment of calls for every listed entity whose key
  Kubernetes did not list, in the order listed, and no other call; only a segment
  that panics cuts the sequence short.
\<close>

definition deletes_orphans ::
  "('w, goerr + objmeta list) ext \<Rightarrow> ('w, 'x list api_ret) ext \<Rightarrow> ('x list api_ret \<Rightarrow> api_event) \<Rightarrow> ('x \<Rightarrow> string) \<Rightarrow>
     (objkey \<Rightarrow> bool \<Rightarrow> api_event list \<Rightarrow> bool) \<Rightarrow> 'w \<Rightarrow> unit outcome \<Rightarrow> api_event list \<Rightarrow> bool" where
  "deletes_orphans klist xlist ev name seg w r tr \<longleftrightarrow>
     (case klist w of
        (Inl e, w1) \<Rightarrow> r = Ret () \<and> tr = []
      | (Inr objs, w1) \<Rightarrow>
          (case xlist w1 of ((xs, resp, err), w2) \<Rightarrow>
             (case err of
                Some e \<Rightarrow> r = Ret () \<and> tr = [ev (xs, resp, err)]
              | None \<Rightarrow>
                  (let orphans = filter (\<lambda>k. k \<notin> meta_key ` set objs) (map (\<lambda>x. mk_key '''' (name x)) xs)
                   in \<exists>es. tr = ev (xs, resp, None) # es \<and> deletions seg orphans (r = Panic) es))))"

lemma collectGarbage_orphans:
  assumes del: "external_deleter del new_meta seg" "ctl_Delete ctl = del"
    and list: "\<And>w tr. ctl_List ctl (w, tr) = (case xlist w of ((xs, resp, err), w') \<Rightarrow>
        (Ret (case err of None \<Rightarrow> Inr (map (\<lambda>x. mk_key '''' (name x)) xs) | Some e \<Rightarrow> Inl (MapAPIError e resp)),
         (w', tr @ [ev (xs, resp, err)])))"
    and gc: "collectGarbage (meta_kind getObj (liftX klist)) ctl (w, []) = (r, (w', tr))"
  shows "deletes_orphans klist xlist ev name seg w r tr"
proof -
  let ?kc = "meta_kind getObj (liftX klist)"
  obtain l w1 where l: "klist w = (l, w1)" by (metis surj_pair)
  then have kl: "kc_List ?kc (w, []) = (l, (w1, []))" by (simp add: liftX_run)
  obtain xs resp err w2 where n: "xlist w1 = ((xs, resp, err), w2)" by (metis surj_pair)
  show ?thesis
  proof (cases l)
    case (Inl e)
    with collectGarbage_list_error [of ?kc _ e _ ctl, OF kl [unfolded Inl]] gc l show ?thesis
      by (simp add: deletes_orphans_def)
  next
    case l_objs: (Inr objs)
    show ?thesis
    proof (cases err)
      case (Some e)
      with n have "ctl_List ctl (w1, []) = (Ret (Inl (MapAPIError e resp)), (w2, [ev (xs, resp, err)]))"
        by (simp add: list)
      from collectGarbage_ext_error [OF kl [unfolded l_objs] this] gc l n l_objs Some show ?thesis
        by (simp add: deletes_orphans_def)
    next
      case None
      with n have "ctl_List ctl (w1, []) =
          (Ret (Inr (map (\<lambda>x. mk_key '''' (name x)) xs)), (w2, [ev (xs, resp, None)]))"
        by (simp add: list)
      from external_deleter.collectGarbage_segments [OF del(1) kl [unfolded l_objs] this del(2) _ gc] l n l_objs None
      show ?thesis by (auto simp: deletes_orphans_def Let_def)
    qed
  qed
qed

section \<open>Properties\<close>

text \<open>
  C1. Garbage collection of nodes and of namespaces. Nothing is asked of StorageOS
  when Kubernetes cannot be listed, and only a listing when StorageOS cannot.
  Otherwise, after one listing, every listed StorageOS node (namespace) whose name
  Kubernetes did not list gets its turn, in the order listed, and no other is
  touched. At its turn the entities are listed again, and the first one with that
  name is deleted by one request with the identity and version just listed; no
  request is made only when that listing fails or the entity is no longer in it.
  An error of one turn does not stop the next; only a deletion that fails without
  an HTTP response panics and cuts the sequence short.
\<close>

theorem gc_exact:
  fixes cp :: "'w control_plane" and klist :: "('w, goerr + objmeta list) ext"
  shows "(case collectGarbage (meta_kind getObj (liftX klist))
                 (NodeDelete_Controller (client_node_deleter (traced_cp cp) c)) (w, []) of (r, w', tr) \<Rightarrow>
            deletes_orphans klist (api_ListNodes cp (AddToken c)) (EvListNodes (AddToken c)) node_Name
              (node_deletion_seg (AddToken c)) w r tr) \<and>
         (case collectGarbage (meta_kind getObj' (liftX klist))
                 (NamespaceDelete_Controller (client_namespace_deleter (traced_cp cp) c)) (w, []) of (r, w', tr) \<Rightarrow>
            deletes_orphans klist (api_ListNamespaces cp (AddToken c)) (EvListNamespaces (AddToken c)) ns_Name
              (namespace_deletion_seg (AddToken c)) w r tr)"
  by (auto split: prod.split
      intro!: collectGarbage_orphans [OF node_del.external_deleter_axioms]
        collectGarbage_orphans [OF ns_del.external_deleter_axioms]
      simp: NodeDelete_List_run NamespaceDelete_List_run)

end
