(* ===== verification/Label_Merge.thy ===== *)
theory Label_Merge
  imports Api
begin

text \<open>
  The merge of desired and current labels that
  \<open>EnsureUnreservedNodeLabels\<close> and \<open>EnsureUnreservedVolumeLabels\<close> both write out,
  and the test with which both skip an update.
\<close>

text \<open>
  Desired labels are copied unless reserved, then the reserved labels of the
  current object are put back.
\<close>

definition apply_labels :: "smap \<Rightarrow> smap \<Rightarrow> smap" where
  "apply_labels current desired =
     SMap (range_copy IsReservedLabel (entries current)
             (range_copy (\<lambda>k. \<not> IsReservedLabel k) (entries desired) []))"

text \<open>Both empty or nil, or deeply equal.\<close>

definition skip_update :: "smap \<Rightarrow> smap \<Rightarrow> bool" where
  "skip_update current applied \<longleftrightarrow>
     (smap_len current = 0 \<and> smap_len applied = 0) \<or> deep_equal current applied"

text \<open>The abstract merge: reserved keys as they are, all others as desired.\<close>

definition merged :: "smap \<Rightarrow> smap \<Rightarrow> string \<Rightarrow> string option" where
  "merged current desired k =
     (if IsReservedLabel k then smap_get current k else smap_get desired k)"

lemma smap_get_apply_labels:
  assumes "wf_smap current" and "wf_smap desired"
  shows "smap_get (apply_labels current desired) = merged current desired"
proof
  fix k
  show "smap_get (apply_labels current desired) k = merged current desired k"
    using assms
    by (auto simp: apply_labels_def merged_def smap_get_def wf_smap_def map_of_range_copy map_of_not_key)
qed

lemma wf_apply_labels [simp]: "wf_smap (apply_labels current desired)"
  by (simp add: apply_labels_def wf_smap_def)

lemma apply_labels_not_nil [simp]: "apply_labels current desired \<noteq> NilMap"
  by (simp add: apply_labels_def)

lemma smap_len_0_iff: "smap_len m = 0 \<longleftrightarrow> smap_get m = Map.empty"
proof -
  have "map_of xs = Map.empty \<longleftrightarrow> xs = []" for xs :: "(string \<times> string) list"
    by (metis list.set_intros(1) map_of.simps(1) map_of_eq_empty_iff neq_Nil_conv)
  then show ?thesis by (cases m) (auto simp: smap_len_def smap_get_def [abs_def])
qed

text \<open>The skip test is equality of the current labels and the merge.\<close>

lemma skip_update_iff:
  assumes "wf_smap current" and "wf_smap desired"
  shows "skip_update current (apply_labels current desired) \<longleftrightarrow> merged current desired = smap_get current"
proof (cases "current = NilMap")
  case True
  with assms show ?thesis
    by (auto simp: skip_update_def smap_len_0_iff smap_get_apply_labels deep_equal_iff)
next
  case False
  with assms show ?thesis
    by (auto simp: skip_update_def smap_len_0_iff smap_get_apply_labels deep_equal_iff)
qed

lemma merged_eq_current_iff:
  "merged current desired = smap_get current \<longleftrightarrow>
     (\<forall>k. \<not> IsReservedLabel k \<longrightarrow> smap_get desired k = smap_get current k)"
  by (auto simp: merged_def fun_eq_iff)

lemma merged_idem: "smap_get current' = merged current desired \<Longrightarrow> merged current' desired = smap_get current'"
  by (auto simp: merged_def fun_eq_iff)

text \<open>Only the lookups of a map matter, not the order it is visited in.\<close>

lemma merged_cong: "smap_get a = smap_get a' \<Longrightarrow> smap_get b = smap_get b' \<Longrightarrow> merged a b = merged a' b'"
  by (simp add: merged_def fun_eq_iff)

end
