(* ===== verification/Node_Labels.thy ===== *)
theory Node_Labels
  imports Nodes Label_Merge
begin

text \<open>
  The labels of a StorageOS node: \<open>internal/pkg/storageos/node_labels.go\<close>.
\<close>

section \<open>Classification of the desired labels\<close>

record node_label_state =
  nl_unreserved :: "(string \<times> string) list"
  nl_computeOnly :: bool
  nl_errs :: "goerr list"

definition node_label_init :: node_label_state where
  "node_label_init = \<lparr>nl_unreserved = [], nl_computeOnly = False, nl_errs = []\<rparr>"

definition node_label_step :: "string \<times> string \<Rightarrow> node_label_state \<Rightarrow> node_label_state" where
  "node_label_step kv s =
     (case kv of (k, v) \<Rightarrow>
        if \<not> IsReservedLabel k then s\<lparr>nl_unreserved := AList.update k v (nl_unreserved s)\<rparr>
        else if k = ReservedLabelNoCache \<or> k = ReservedLabelNoCompress
                \<or> k = ReservedLabelFailureMode \<or> k = ReservedLabelReplicas
        then s\<lparr>nl_errs := Append (nl_errs s) (Some (Wrap ErrReservedLabelInvalid k))\<rparr>
        else if k = ReservedLabelComputeOnly
        then (case ParseBool v of
                Inr b \<Rightarrow> s\<lparr>nl_computeOnly := b\<rparr>
              | Inl e \<Rightarrow> s\<lparr>nl_computeOnly := False, nl_errs := Append (nl_errs s) (Some (Wrap e k))\<rparr>)
        else s\<lparr>nl_errs := Append (nl_errs s) (Some (Wrap ErrReservedLabelUnknown k))\<rparr>)"

definition classify_node_labels :: "smap \<Rightarrow> node_label_state" where
  "classify_node_labels labels = fold node_label_step (entries labels) node_label_init"

section \<open>Operations\<close>

definition EnsureUnreservedNodeLabels ::
  "'w control_plane \<Rightarrow> client \<Rightarrow> objkey \<Rightarrow> smap \<Rightarrow> ('w, error_or_nil) prog" where
  "EnsureUnreservedNodeLabels cp c key labels0 =
     (let labels = (if labels0 = NilMap then SMap [] else labels0);
          ctx = AddToken c
      in tryE (getNodeByKey cp ctx key) (\<lambda>n.
           let applyLabels = apply_labels (node_Labels n) labels in
           if skip_update (node_Labels n) applyLabels then retP None
           else tryE (apiP (api_UpdateNode cp ctx (node_Id n) labels (node_Version n))) (\<lambda>_. retP None)))"

definition EnsureComputeOnly ::
  "'w control_plane \<Rightarrow> client \<Rightarrow> objkey \<Rightarrow> bool \<Rightarrow> ('w, error_or_nil) prog" where
  "EnsureComputeOnly cp c key enabled =
     (let ctx = AddToken c in
      tryE (getNodeByKey cp ctx key) (\<lambda>n.
        case (case smap_get (node_Labels n) ReservedLabelComputeOnly of
                None \<Rightarrow> Inr False | Some v \<Rightarrow> ParseBool v) of
          Inl e \<Rightarrow> retP (Some e)
        | Inr current \<Rightarrow>
            if current = enabled then retP None
            else tryE (apiP (api_SetComputeOnly cp ctx (node_Id n) enabled (node_Version n))) (\<lambda>_. retP None)))"

text \<open>\<open>if err := m(); err != nil && err != ignored { errs = multierror.Append(errs, err) }\<close>\<close>

definition collectE :: "goerr \<Rightarrow> ('w, error_or_nil) prog \<Rightarrow> goerr list \<Rightarrow> ('w, goerr list) prog" where
  "collectE ignored m errs =
     bindP m (\<lambda>e. retP (if e \<noteq> None \<and> e \<noteq> Some ignored then Append errs e else errs))"

definition EnsureNodeLabels ::
  "'w control_plane \<Rightarrow> client \<Rightarrow> objkey \<Rightarrow> smap \<Rightarrow> ('w, error_or_nil) prog" where
  "EnsureNodeLabels cp c key labels =
     (let s = classify_node_labels labels in
      bindP (collectE ErrNodeNotFound (EnsureComputeOnly cp c key (nl_computeOnly s)) (nl_errs s)) (\<lambda>errs.
      bindP (collectE ErrNodeNotFound
               (EnsureUnreservedNodeLabels cp c key (SMap (nl_unreserved s))) errs) (\<lambda>errs.
      retP (ErrorOrNil errs))))"

section \<open>What the classification computes\<close>

text \<open>The error a desired label of a node gives rise to, if any.\<close>

definition node_label_error :: "string \<Rightarrow> string \<Rightarrow> goerr list" where
  "node_label_error k v =
     (if \<not> IsReservedLabel k then []
      else if k = ReservedLabelNoCache \<or> k = ReservedLabelNoCompress
              \<or> k = ReservedLabelFailureMode \<or> k = ReservedLabelReplicas
      then [Wrap ErrReservedLabelInvalid k]
      else if k = ReservedLabelComputeOnly
      then (case ParseBool v of Inr b \<Rightarrow> [] | Inl e \<Rightarrow> [Wrap e k])
      else [Wrap ErrReservedLabelUnknown k])"

definition desired_compute_only :: "smap \<Rightarrow> bool" where
  "desired_compute_only labels =
     (case smap_get labels ReservedLabelComputeOnly of
        None \<Rightarrow> False
      | Some v \<Rightarrow> (case ParseBool v of Inr b \<Rightarrow> b | Inl e \<Rightarrow> False))"

lemma node_label_step_sel:
  "nl_unreserved (node_label_step (k, v) s) =
     (if \<not> IsReservedLabel k then AList.update k v (nl_unreserved s) else nl_unreserved s)"
  "nl_errs (node_label_step (k, v) s) = nl_errs s @ node_label_error k v"
  "nl_computeOnly (node_label_step (k, v) s) =
     (if k = ReservedLabelComputeOnly
      then (case ParseBool v of Inr b \<Rightarrow> b | Inl e \<Rightarrow> False) else nl_computeOnly s)"
  by (simp_all add: node_label_step_def node_label_error_def Append_def split: sum.split)

lemma fold_node_label_unreserved:
  "nl_unreserved (fold node_label_step xs s) = range_copy (\<lambda>k. \<not> IsReservedLabel k) xs (nl_unreserved s)"
  by (induction xs arbitrary: s) (auto simp: node_label_step_sel)

lemma fold_node_label_errs:
  "nl_errs (fold node_label_step xs s) = nl_errs s @ concat (map (\<lambda>(k, v). node_label_error k v) xs)"
  by (induction xs arbitrary: s) (auto simp: node_label_step_sel)

lemma fold_node_label_computeOnly:
  assumes "distinct (map fst xs)"
  shows "nl_computeOnly (fold node_label_step xs s) =
    (case map_of xs ReservedLabelComputeOnly of
       None \<Rightarrow> nl_computeOnly s
     | Some v \<Rightarrow> (case ParseBool v of Inr b \<Rightarrow> b | Inl e \<Rightarrow> False))"
  using assms
  by (induction xs arbitrary: s) (auto simp: node_label_step_sel map_of_not_key split: option.splits)

lemma classify_node_labels_errs:
  "nl_errs (classify_node_labels labels) = concat (map (\<lambda>(k, v). node_label_error k v) (entries labels))"
  by (simp add: classify_node_labels_def node_label_init_def fold_node_label_errs)

lemma classify_node_labels_computeOnly:
  "wf_smap labels \<Longrightarrow> nl_computeOnly (classify_node_labels labels) = desired_compute_only labels"
  by (simp add: classify_node_labels_def node_label_init_def fold_node_label_computeOnly
      wf_smap_def desired_compute_only_def smap_get_def split: option.split)

lemma classify_node_labels_unreserved:
  assumes "wf_smap labels"
  shows "wf_smap (SMap (nl_unreserved (classify_node_labels labels)))"
    and "smap_get (SMap (nl_unreserved (classify_node_labels labels))) k =
           (if IsReservedLabel k then None else smap_get labels k)"
  using assms
  by (auto simp: classify_node_labels_def node_label_init_def fold_node_label_unreserved wf_smap_def
      smap_get_def map_of_range_copy map_of_not_key)

section \<open>Runs of the operations\<close>

lemma no_panic_EnsureComputeOnly [simp, intro]: "no_panic (EnsureComputeOnly cp c key b)"
  unfolding EnsureComputeOnly_def Let_def
  by (auto intro!: no_panic_tryE split: sum.splits)

lemma no_panic_EnsureUnreservedNodeLabels [simp, intro]: "no_panic (EnsureUnreservedNodeLabels cp c key ls)"
  unfolding EnsureUnreservedNodeLabels_def Let_def
  by (auto intro!: no_panic_tryE)

lemma no_panic_collectE [intro]: "no_panic m \<Longrightarrow> no_panic (collectE e m errs)"
  unfolding collectE_def by auto

lemma no_panic_EnsureNodeLabels [simp, intro]: "no_panic (EnsureNodeLabels cp c key ls)"
  unfolding EnsureNodeLabels_def Let_def
  by (auto intro!: no_panic_bindP no_panic_collectE)

lemma collectE_run:
  "collectE ig m errs w = (case m w of
       (Ret e, w') \<Rightarrow> (Ret (if e \<noteq> None \<and> e \<noteq> Some ig then Append errs e else errs), w')
     | (Panic, w') \<Rightarrow> (Panic, w'))"
  by (simp add: collectE_def bindP_run retP_run split: prod.splits outcome.splits)

lemma EnsureUnreservedNodeLabels_run:
  assumes "getNodeByKey cp (AddToken c) key w = (Ret (Inr n), w1)" and "labels \<noteq> NilMap"
    and "wf_smap (node_Labels n)" and "wf_smap labels"
  shows "EnsureUnreservedNodeLabels cp c key labels w =
    (if \<forall>k. \<not> IsReservedLabel k \<longrightarrow> smap_get labels k = smap_get (node_Labels n) k then (Ret None, w1)
     else (case api_UpdateNode cp (AddToken c) (node_Id n) labels (node_Version n) w1 of
             ((u, resp, err), w2) \<Rightarrow> (Ret (map_option (\<lambda>e. MapAPIError e resp) err), w2)))"
  using assms
  by (auto simp: EnsureUnreservedNodeLabels_def Let_def tryE_run apiP_run retP_run skip_update_iff
      merged_eq_current_iff split: prod.splits option.splits)

lemma EnsureComputeOnly_run:
  assumes "getNodeByKey cp (AddToken c) key w = (Ret (Inr n), w1)"
    and "(case smap_get (node_Labels n) ReservedLabelComputeOnly of
            None \<Rightarrow> Inr False | Some v \<Rightarrow> ParseBool v) = Inr current"
  shows "EnsureComputeOnly cp c key enabled w =
    (if current = enabled then (Ret None, w1)
     else (case api_SetComputeOnly cp (AddToken c) (node_Id n) enabled (node_Version n) w1 of
             ((u, resp, err), w2) \<Rightarrow> (Ret (map_option (\<lambda>e. MapAPIError e resp) err), w2)))"
  using assms
  by (auto simp add: EnsureComputeOnly_def Let_def tryE_run apiP_run retP_run
      split: prod.splits option.splits sum.splits)

section \<open>Traces\<close>

text \<open>
  What the events of \<open>EnsureNodeLabels\<close> may be. The labels of an update are the
  desired unreserved ones and nothing else.
\<close>

primrec node_event_ok :: "smap \<Rightarrow> api_event \<Rightarrow> bool" where
  "node_event_ok labels (EvRefreshJwt x r) = False"
| "node_event_ok labels (EvAuthenticateUser u p r) = False"
| "node_event_ok labels (EvListNamespaces x r) = False"
| "node_event_ok labels (EvDeleteNamespace x i v r) = False"
| "node_event_ok labels (EvListNodes x r) = True"
| "node_event_ok labels (EvUpdateNode x i m v r) =
     (\<forall>k. smap_get m k = (if IsReservedLabel k then None else smap_get labels k))"
| "node_event_ok labels (EvDeleteNode x i v r) = False"
| "node_event_ok labels (EvSetComputeOnly x i b v r) = (b = desired_compute_only labels)"
| "node_event_ok labels (EvListVolumes x n r) = False"
| "node_event_ok labels (EvGetVolume x n i r) = False"
| "node_event_ok labels (EvUpdateVolume x n i m v r) = False"
| "node_event_ok labels (EvSetReplicas x n i d v r) = False"
| "node_event_ok labels (EvSetFailureMode x n i m t v r) = False"
| "node_event_ok labels (EvUpdateNFSVolumeMountEndpoint x n i e v r) = False"

lemma emits_getNodeByKey:
  assumes "\<And>r. P (EvListNodes x r)"
  shows "emits P (getNodeByKey (traced_cp cp) x key)"
  unfolding getNodeByKey_def by (auto intro!: emits_intros assms split: option.split)

lemma emits_collectE [emits_intros]: "emits P m \<Longrightarrow> emits P (collectE ig m errs)"
  unfolding collectE_def by (auto intro!: emits_intros)

section \<open>Properties\<close>

text \<open>
  What \<open>EnsureNodeLabels\<close> may ask of StorageOS: listings of nodes, a compute-only
  setting equal to the desired one (false when the label is absent or not a
  boolean), and updates whose labels are exactly the desired unreserved ones. In
  particular no update carries any reserved label, also when the node has some.
\<close>

lemma emits_EnsureNodeLabels:
  assumes "wf_smap labels"
  shows "emits (\<lambda>e. ev_ctx e = Some (AddToken c) \<and> node_event_ok labels e)
           (EnsureNodeLabels (traced_cp cp) c key labels)"
proof -
  let ?P = "\<lambda>e. ev_ctx e = Some (AddToken c) \<and> node_event_ok labels e"
  let ?s = "classify_node_labels labels"
  have "emits ?P (EnsureComputeOnly (traced_cp cp) c key (nl_computeOnly ?s))"
    unfolding EnsureComputeOnly_def Let_def
    by (auto intro!: emits_intros emits_getNodeByKey split: sum.split
        simp: classify_node_labels_computeOnly assms)
  moreover have "emits ?P (EnsureUnreservedNodeLabels (traced_cp cp) c key (SMap (nl_unreserved ?s)))"
    unfolding EnsureUnreservedNodeLabels_def Let_def
    by (auto intro!: emits_intros emits_getNodeByKey
        simp: classify_node_labels_unreserved(2) [OF assms])
  ultimately show ?thesis
    unfolding EnsureNodeLabels_def Let_def by (auto intro!: emits_intros)
qed

text \<open>
  C11. A node update drops the reserved labels of the node. When the node just
  read has a reserved label and an unreserved label is to change, the update that
  is sent lacks the reserved label; the merge the code computes beforehand, and
  compares with, has it.
\<close>

theorem EnsureUnreservedNodeLabels_drops_reserved:
  assumes "getNodeByKey cp (AddToken c) key w = (Ret (Inr n), w1)"
    and "labels \<noteq> NilMap" and "wf_smap labels" and "wf_smap (node_Labels n)"
    and "\<And>k. IsReservedLabel k \<Longrightarrow> smap_get labels k = None"
    and "smap_get (node_Labels n) r = Some v" and "IsReservedLabel r"
    and "\<not> IsReservedLabel k" and "smap_get labels k \<noteq> smap_get (node_Labels n) k"
  shows "EnsureUnreservedNodeLabels cp c key labels w =
           (case api_UpdateNode cp (AddToken c) (node_Id n) labels (node_Version n) w1 of
              ((u, resp, err), w2) \<Rightarrow> (Ret (map_option (\<lambda>e. MapAPIError e resp) err), w2)) \<and>
         smap_get labels r = None \<and>
         smap_get (apply_labels (node_Labels n) labels) r = Some v"
  using assms
  by (auto simp: EnsureUnreservedNodeLabels_run smap_get_apply_labels merged_def)

theorem EnsureUnreservedNodeLabels_drops_reserved_witness:
  "EnsureUnreservedNodeLabels mem_cp NewTestAPIClient (mk_key '''' ''worker-1'')
     (SMap [(''zone'', ''b'')]) sample_mem =
   (Ret None, sample_mem\<lparr>mem_nodes := [sample_node\<lparr>node_Labels := SMap [(''zone'', ''b'')]\<rparr>]\<rparr>)"
proof -
  have r: "getNodeByKey mem_cp (AddToken NewTestAPIClient) (mk_key '''' ''worker-1'') sample_mem =
             (Ret (Inr sample_node), sample_mem)"
    by (simp add: getNodeByKey_run mem_cp_simps sample_simps)
  have unres: "smap_get (SMap [(''zone'', ''b'')]) k = None" if "IsReservedLabel k" for k
    using that by (auto simp: smap_get_def IsReservedLabel_def HasPrefix_def)
  show ?thesis
    using EnsureUnreservedNodeLabels_drops_reserved
      [OF r _ _ _ unres, of ReservedLabelComputeOnly "''true''" "''zone''"]
    by (simp add: wf_smap_def sample_node_def smap_get_def IsReservedLabel_def HasPrefix_def
        mem_cp_simps sample_mem_def)
qed

end
