(* ===== verification/Volumes.thy ===== *)
theory Volumes
  imports Nodes
begin

text \<open>
  The client's view of volumes: \<open>internal/pkg/storageos/volume.go\<close>.
\<close>

text \<open>The volumes of all namespaces, in the order the namespaces are listed.\<close>

definition getVolumes :: "'w control_plane \<Rightarrow> client \<Rightarrow> ctx \<Rightarrow> ('w, goerr + volume list) prog" where
  "getVolumes cp c ctx =
     tryP (ListNamespaces cp c) (\<lambda>namespaces.
       forE (\<lambda>ns volumes.
               tryP (apiP (api_ListVolumes cp ctx (GetID ns))) (\<lambda>nsVols. retP (Inr (volumes @ nsVols))))
            namespaces [])"

definition VolumeObjects :: "'w control_plane \<Rightarrow> client \<Rightarrow> ('w, goerr + (objkey \<times> sobject) list) prog" where
  "VolumeObjects cp c =
     (let ctx = AddToken c in
      tryP (getVolumes cp c ctx) (\<lambda>volumes.
        retP (Inr (object_map (\<lambda>v. ObjectKeyFromObject (volume_object v)) volume_object volumes))))"

definition ListVolumes :: "'w control_plane \<Rightarrow> client \<Rightarrow> ('w, goerr + sobject list) prog" where
  "ListVolumes cp c =
     (let ctx = AddToken c in
      tryP (getVolumes cp c ctx) (\<lambda>volumes. retP (Inr (map volume_object volumes))))"

definition getVolume :: "'w control_plane \<Rightarrow> ctx \<Rightarrow> objkey \<Rightarrow> ('w, goerr + volume) prog" where
  "getVolume cp ctx key =
     tryP (getNamespace cp ctx (mk_key '''' (key_Namespace key))) (\<lambda>ns.
     tryP (apiP (api_ListVolumes cp ctx (ns_Id ns))) (\<lambda>volumes.
       case find (\<lambda>vol. vol_Name vol = key_Name key) volumes of
         Some vol \<Rightarrow> retP (Inr vol)
       | None \<Rightarrow> retP (Inl ErrVolumeNotFound)))"

definition GetVolume :: "'w control_plane \<Rightarrow> client \<Rightarrow> objkey \<Rightarrow> ('w, goerr + sobject) prog" where
  "GetVolume cp c key =
     (let ctx = AddToken c in tryP (getVolume cp ctx key) (\<lambda>vol. retP (Inr (volume_object vol))))"

definition getVolumeByID :: "'w control_plane \<Rightarrow> ctx \<Rightarrow> string \<Rightarrow> string \<Rightarrow> ('w, goerr + volume) prog" where
  "getVolumeByID cp ctx volID namespace =
     tryP (getNamespace cp ctx (mk_key '''' namespace)) (\<lambda>ns. apiP (api_GetVolume cp ctx (ns_Id ns) volID))"

section \<open>Facts\<close>

lemma no_panic_getVolumes [simp, intro]: "no_panic (getVolumes cp c x)"
  unfolding getVolumes_def by (auto intro!: no_panic_tryP)

lemma no_panic_getVolume [simp, intro]: "no_panic (getVolume cp x key)"
  unfolding getVolume_def by (auto intro!: no_panic_tryP split: option.splits)

lemma no_panic_getVolumeByID [simp, intro]: "no_panic (getVolumeByID cp x i ns)"
  unfolding getVolumeByID_def by (auto intro!: no_panic_tryP)

lemma no_panic_GetVolume [simp, intro]: "no_panic (GetVolume cp c key)"
  unfolding GetVolume_def Let_def by (auto intro!: no_panic_tryP)

lemma no_panic_VolumeObjects [simp, intro]: "no_panic (VolumeObjects cp c)"
  unfolding VolumeObjects_def Let_def by (auto intro!: no_panic_tryP)

lemma no_panic_ListVolumes [simp, intro]: "no_panic (ListVolumes cp c)"
  unfolding ListVolumes_def Let_def by (auto intro!: no_panic_tryP)

lemma getVolume_run:
  assumes "api_ListNamespaces cp x w = ((nss, r1, None), w1)"
    and "find (\<lambda>n. ns_Name n = key_Namespace key) nss = Some ns"
    and "api_ListVolumes cp x (ns_Id ns) w1 = ((vols, r2, None), w2)"
    and "find (\<lambda>v. vol_Name v = key_Name key) vols = Some vol"
  shows "getVolume cp x key w = (Ret (Inr vol), w2)"
  using assms by (simp add: getVolume_def tryP_run getNamespace_run apiP_run retP_run)

lemma getVolume_name:
  assumes "getVolume cp x key w = (Ret (Inr vol), w')"
  shows "vol_Name vol = key_Name key"
  using assms
  by (auto simp: getVolume_def tryP_run retP_run find_Some_iff
      split: prod.splits outcome.splits sum.splits option.splits)

lemma getVolume_sample:
  "getVolume mem_cp x (mk_key ''default'' ''pvc-1'') sample_mem = (Ret (Inr sample_volume), sample_mem)"
  by (simp add: getVolume_def tryP_run getNamespace_run apiP_run retP_run mem_cp_simps sample_simps)

end
