(* ===== verification/Volume_Labels.thy ===== *)
theory Volume_Labels
  imports Volumes Node_Labels
begin

text \<open>
  The labels of a StorageOS volume: \<open>internal/pkg/storageos/volume_labels.go\<close>.
\<close>

section \<open>Failure modes\<close>

abbreviation FailureModeSoft :: string where "FailureModeSoft \<equiv> ''soft''"
abbreviation FailureModeHard :: string where "FailureModeHard \<equiv> ''hard''"
abbreviation FailureModeAlwaysOn :: string where "FailureModeAlwaysOn \<equiv> ''alwayson''"

definition ErrBadFailureMode_text :: string where
  "ErrBadFailureMode_text =
     ''failed to parse failure-mode label, must be hard, soft, alwayson or an integer toleration''"

definition ParseFailureMode :: "string \<Rightarrow> goerr + (string \<times> uint64)" where
  "ParseFailureMode s =
     (if s = FailureModeSoft then Inr (''soft'', 0)
      else if s = FailureModeHard then Inr (''hard'', 0)
      else if s = FailureModeAlwaysOn then Inr (''alwayson'', 0)
      else if s = '''' then Inr (''hard'', 0)
      else (case ParseUint s of
              (threshold, Some err) \<Rightarrow> Inl (Wrap err ErrBadFailureMode_text)
            | (threshold, None) \<Rightarrow> Inr ('''', threshold)))"

section \<open>Classification of the desired labels\<close>

record volume_label_state =
  vl_unreserved :: "(string \<times> string) list"
  vl_replicas :: uint64
  vl_failureMode :: string
  vl_errs :: "goerr list"

definition volume_label_init :: volume_label_state where
  "volume_label_init = \<lparr>vl_unreserved = [], vl_replicas = 0, vl_failureMode = '''', vl_errs = []\<rparr>"

definition volume_label_step :: "string \<times> string \<Rightarrow> volume_label_state \<Rightarrow> volume_label_state" where
  "volume_label_step kv s =
     (case kv of (k, v) \<Rightarrow>
        if \<not> IsReservedLabel k then s\<lparr>vl_unreserved := AList.update k v (vl_unreserved s)\<rparr>
        else if k = ReservedLabelComputeOnly
        then s\<lparr>vl_errs := Append (vl_errs s) (Some (Wrap ErrReservedLabelInvalid k))\<rparr>
        else if k = ReservedLabelNoCache \<or> k = ReservedLabelNoCompress
        then s\<lparr>vl_errs := Append (vl_errs s) (Some (Wrap ErrReservedLabelFixed k))\<rparr>
        else if k = ReservedLabelFailureMode then s\<lparr>vl_failureMode := v\<rparr>
        else if k = ReservedLabelReplicas
        then (case ParseUint v of
                (n, None) \<Rightarrow> s\<lparr>vl_replicas := n\<rparr>
              | (n, Some e) \<Rightarrow> s\<lparr>vl_replicas := n, vl_errs := Append (vl_errs s) (Some (Wrap e k))\<rparr>)
        else s\<lparr>vl_errs := Append (vl_errs s) (Some (Wrap ErrReservedLabelUnknown k))\<rparr>)"

definition classify_volume_labels :: "smap \<Rightarrow> volume_label_state" where
  "classify_volume_labels labels = fold volume_label_step (entries labels) volume_label_init"

section \<open>Operations\<close>

definition EnsureUnreservedVolumeLabels ::
  "'w control_plane \<Rightarrow> client \<Rightarrow> objkey \<Rightarrow> smap \<Rightarrow> ('w, error_or_nil) prog" where
  "EnsureUnreservedVolumeLabels cp c key labels0 =
     (let labels = (if labels0 = NilMap then SMap [] else labels0);
          ctx = AddToken c
      in tryE (getVolume cp ctx key) (\<lambda>vol.
           let applyLabels = apply_labels (vol_Labels vol) labels in
           if skip_update (vol_Labels vol) applyLabels then retP None
           else tryE (apiP (api_UpdateVolume cp ctx (vol_NamespaceID vol) (vol_Id vol)
                              applyLabels (vol_Version vol))) (\<lambda>_. retP None)))"

definition EnsureReplicas ::
  "'w control_plane \<Rightarrow> client \<Rightarrow> objkey \<Rightarrow> uint64 \<Rightarrow> ('w, error_or_nil) prog" where
  "EnsureReplicas cp c key desired =
     (let ctx = AddToken c in
      tryE (getVolume cp ctx key) (\<lambda>vol.
        case (case smap_get (vol_Labels vol) ReservedLabelReplicas of
                None \<Rightarrow> (0, None) | Some v \<Rightarrow> ParseUint v) of
          (current, Some e) \<Rightarrow> retP (Some e)
        | (current, None) \<Rightarrow>
            if current = desired then retP None
            else tryE (apiP (api_SetReplicas cp ctx (vol_NamespaceID vol) (vol_Id vol) desired
                               (vol_Version vol))) (\<lambda>_. retP None)))"

definition EnsureFailureMode ::
  "'w control_plane \<Rightarrow> client \<Rightarrow> objkey \<Rightarrow> string \<Rightarrow> ('w, error_or_nil) prog" where
  "EnsureFailureMode cp c key desired =
     (let ctx = AddToken c in
      tryE (getVolume cp ctx key) (\<lambda>vol.
        let current = smap_get0 (vol_Labels vol) ReservedLabelFailureMode in
        if current = desired then retP None
        else (case ParseFailureMode desired of
                Inl e \<Rightarrow> retP (Some e)
              | Inr (mode, threshold) \<Rightarrow>
                  tryE (apiP (api_SetFailureMode cp ctx (vol_NamespaceID vol) (vol_Id vol) mode
                                threshold (vol_Version vol))) (\<lambda>_. retP None))))"

definition EnsureVolumeLabels ::
  "'w control_plane \<Rightarrow> client \<Rightarrow> objkey \<Rightarrow> smap \<Rightarrow> ('w, error_or_nil) prog" where
  "EnsureVolumeLabels cp c key labels =
     (let s = classify_volume_labels labels in
      bindP (collectE ErrVolumeNotFound (EnsureReplicas cp c key (vl_replicas s)) (vl_errs s)) (\<lambda>errs.
      bindP (collectE ErrVolumeNotFound (EnsureFailureMode cp c key (vl_failureMode s)) errs) (\<lambda>errs.
      bindP (collectE ErrVolumeNotFound
               (EnsureUnreservedVolumeLabels cp c key (SMap (vl_unreserved s))) errs) (\<lambda>errs.
      retP (ErrorOrNil errs)))))"

section \<open>What the classification computes\<close>

definition volume_label_error :: "string \<Rightarrow> string \<Rightarrow> goerr list" where
  "volume_label_error k v =
     (if \<not> IsReservedLabel k \<or> k = ReservedLabelFailureMode then []
      else if k = ReservedLabelComputeOnly then [Wrap ErrReservedLabelInvalid k]
      else if k = ReservedLabelNoCache \<or> k = ReservedLabelNoCompress then [Wrap ErrReservedLabelFixed k]
      else if k = ReservedLabelReplicas
      then (case snd (ParseUint v) of None \<Rightarrow> [] | Some e \<Rightarrow> [Wrap e k])
      else [Wrap ErrReservedLabelUnknown k])"

definition desired_replicas :: "smap \<Rightarrow> uint64" where
  "desired_replicas labels =
     (case smap_get labels ReservedLabelReplicas of None \<Rightarrow> 0 | Some v \<Rightarrow> fst (ParseUint v))"

lemma volume_label_step_sel:
  "vl_unreserved (volume_label_step (k, v) s) =
     (if \<not> IsReservedLabel k then AList.update k v (vl_unreserved s) else vl_unreserved s)"
  "vl_errs (volume_label_step (k, v) s) = vl_errs s @ volume_label_error k v"
  "vl_replicas (volume_label_step (k, v) s) =
     (if k = ReservedLabelReplicas then fst (ParseUint v) else vl_replicas s)"
  "vl_failureMode (volume_label_step (k, v) s) =
     (if k = ReservedLabelFailureMode then v else vl_failureMode s)"
  by (simp_all add: volume_label_step_def volume_label_error_def Append_def split: prod.split option.split)

lemma fold_volume_label_unreserved:
  "vl_unreserved (fold volume_label_step xs s) = range_copy (\<lambda>k. \<not> IsReservedLabel k) xs (vl_unreserved s)"
  by (induction xs arbitrary: s) (auto simp: volume_label_step_sel)

lemma fold_volume_label_errs:
  "vl_errs (fold volume_label_step xs s) = vl_errs s @ concat (map (\<lambda>(k, v). volume_label_error k v) xs)"
  by (induction xs arbitrary: s) (auto simp: volume_label_step_sel)

lemma fold_volume_label_replicas:
  assumes "distinct (map fst xs)"
  shows "vl_replicas (fold volume_label_step xs s) =
    (case map_of xs ReservedLabelReplicas of None \<Rightarrow> vl_replicas s | Some v \<Rightarrow> fst (ParseUint v))"
  using assms
  by (induction xs arbitrary: s) (auto simp: volume_label_step_sel map_of_not_key split: option.splits)

lemma fold_volume_label_failureMode:
  assumes "distinct (map fst xs)"
  shows "vl_failureMode (fold volume_label_step xs s) =
    (case map_of xs ReservedLabelFailureMode of None \<Rightarrow> vl_failureMode s | Some v \<Rightarrow> v)"
  using assms
  by (induction xs arbitrary: s) (auto simp: volume_label_step_sel map_of_not_key split: option.splits)

lemma classify_volume_labels_sel:
  "vl_errs (classify_volume_labels labels) = concat (map (\<lambda>(k, v). volume_label_error k v) (entries labels))"
  "wf_smap labels \<Longrightarrow> vl_replicas (classify_volume_labels labels) = desired_replicas labels"
  "wf_smap labels \<Longrightarrow> vl_failureMode (classify_volume_labels labels) = smap_get0 labels ReservedLabelFailureMode"
  by (auto simp: classify_volume_labels_def volume_label_init_def fold_volume_label_errs
      fold_volume_label_replicas fold_volume_label_failureMode wf_smap_def desired_replicas_def
      smap_get_def smap_get0_def split: option.splits)

lemma classify_volume_labels_unreserved:
  assumes "wf_smap labels"
  shows "wf_smap (SMap (vl_unreserved (classify_volume_labels labels)))"
    and "smap_get (SMap (vl_unreserved (classify_volume_labels labels))) k =
           (if IsReservedLabel k then None else smap_get labels k)"
  using assms
  by (auto simp: classify_volume_labels_def volume_label_init_def fold_volume_label_unreserved wf_smap_def
      smap_get_def map_of_range_copy map_of_not_key)

section \<open>Runs of the operations\<close>

lemma no_panic_EnsureReplicas [simp, intro]: "no_panic (EnsureReplicas cp c key n)"
  unfolding EnsureReplicas_def Let_def by (auto intro!: no_panic_tryE split: prod.splits option.splits)

lemma no_panic_EnsureFailureMode [simp, intro]: "no_panic (EnsureFailureMode cp c key m)"
  unfolding EnsureFailureMode_def Let_def by (auto intro!: no_panic_tryE split: sum.splits)

lemma no_panic_EnsureUnreservedVolumeLabels [simp, intro]:
  "no_panic (EnsureUnreservedVolumeLabels cp c key ls)"
  unfolding EnsureUnreservedVolumeLabels_def Let_def by (auto intro!: no_panic_tryE)

lemma no_panic_EnsureVolumeLabels [simp, intro]: "no_panic (EnsureVolumeLabels cp c key ls)"
  unfolding EnsureVolumeLabels_def Let_def by (auto intro!: no_panic_bindP no_panic_collectE)

lemma EnsureUnreservedVolumeLabels_run:
  assumes "getVolume cp (AddToken c) key w = (Ret (Inr vol), w1)" and "labels \<noteq> NilMap"
    and "wf_smap (vol_Labels vol)" and "wf_smap labels"
  shows "EnsureUnreservedVolumeLabels cp c key labels w =
    (if \<forall>k. \<not> IsReservedLabel k \<longrightarrow> smap_get labels k = smap_get (vol_Labels vol) k then (Ret None, w1)
     else (case api_UpdateVolume cp (AddToken c) (vol_NamespaceID vol) (vol_Id vol)
                  (apply_labels (vol_Labels vol) labels) (vol_Version vol) w1 of
             ((u, resp, err), w2) \<Rightarrow> (Ret (map_option (\<lambda>e. MapAPIError e resp) err), w2)))"
  using assms
  by (auto simp: EnsureUnreservedVolumeLabels_def Let_def tryE_run apiP_run retP_run skip_update_iff
      merged_eq_current_iff split: prod.splits option.splits)

lemma EnsureReplicas_run:
  assumes "getVolume cp (AddToken c) key w = (Ret (Inr vol), w1)"
    and "(case smap_get (vol_Labels vol) ReservedLabelReplicas of
            None \<Rightarrow> (0, None) | Some v \<Rightarrow> ParseUint v) = (current, None)"
  shows "EnsureReplicas cp c key desired w =
    (if current = desired then (Ret None, w1)
     else (case api_SetReplicas cp (AddToken c) (vol_NamespaceID vol) (vol_Id vol) desired
                  (vol_Version vol) w1 of
             ((u, resp, err), w2) \<Rightarrow> (Ret (map_option (\<lambda>e. MapAPIError e resp) err), w2)))"
  using assms
  by (auto simp: EnsureReplicas_def Let_def tryE_run apiP_run retP_run
      split: prod.splits option.splits)

lemma EnsureFailureMode_run:
  assumes "getVolume cp (AddToken c) key w = (Ret (Inr vol), w1)"
  shows "EnsureFailureMode cp c key desired w =
    (if smap_get0 (vol_Labels vol) ReservedLabelFailureMode = desired then (Ret None, w1)
     else (case ParseFailureMode desired of
             Inl e \<Rightarrow> (Ret (Some e), w1)
           | Inr (mode, threshold) \<Rightarrow>
               (case api_SetFailureMode cp (AddToken c) (vol_NamespaceID vol) (vol_Id vol) mode
                       threshold (vol_Version vol) w1 of
                  ((u, resp, err), w2) \<Rightarrow> (Ret (map_option (\<lambda>e. MapAPIError e resp) err), w2))))"
  using assms
  by (auto simp: EnsureFailureMode_def Let_def tryE_run apiP_run retP_run
      split: prod.splits option.splits sum.splits)

lemma ParseFailureMode_exclusive:
  "ParseFailureMode s = Inr (mode, threshold) \<Longrightarrow>
     (mode \<in> {''soft'', ''hard'', ''alwayson''} \<and> threshold = 0) \<or> mode = ''''"
  by (auto simp: ParseFailureMode_def split: if_splits prod.splits option.splits)

section \<open>Traces\<close>

text \<open>
  What the events of \<open>EnsureVolumeLabels\<close> may be: listings, and changes that
  carry what the desired labels say.
\<close>

primrec volume_event_ok :: "smap \<Rightarrow> api_event \<Rightarrow> bool" where
  "volume_event_ok labels (EvRefreshJwt x r) = False"
| "volume_event_ok labels (EvAuthenticateUser u p r) = False"
| "volume_event_ok labels (EvListNamespaces x r) = True"
| "volume_event_ok labels (EvDeleteNamespace x i v r) = False"
| "volume_event_ok labels (EvListNodes x r) = False"
| "volume_event_ok labels (EvUpdateNode x i l v r) = False"
| "volume_event_ok labels (EvDeleteNode x i v r) = False"
| "volume_event_ok labels (EvSetComputeOnly x i b v r) = False"
| "volume_event_ok labels (EvListVolumes x n r) = True"
| "volume_event_ok labels (EvGetVolume x n i r) = False"
| "volume_event_ok labels (EvUpdateVolume x n i m v r) =
     (\<forall>k. \<not> IsReservedLabel k \<longrightarrow> smap_get m k = smap_get labels k)"
| "volume_event_ok labels (EvSetReplicas x n i d v r) = (d = desired_replicas labels)"
| "volume_event_ok labels (EvSetFailureMode x n i m t v r) =
     (ParseFailureMode (smap_get0 labels ReservedLabelFailureMode) = Inr (m, t))"
| "volume_event_ok labels (EvUpdateNFSVolumeMountEndpoint x n i e v r) = False"

lemma emits_getVolume:
  assumes "\<And>r. P (EvListNamespaces x r)" and "\<And>i r. P (EvListVolumes x i r)"
  shows "emits P (getVolume (traced_cp cp) x key)"
  unfolding getVolume_def getNamespace_def
  by (auto intro!: emits_intros assms split: option.split)

lemma apply_labels_unreserved:
  "wf_smap desired \<Longrightarrow> \<not> IsReservedLabel k \<Longrightarrow>
     smap_get (apply_labels current desired) k = smap_get desired k"
proof -
  assume wf: "wf_smap desired" and k: "\<not> IsReservedLabel k"
  have "map_of (range_copy IsReservedLabel xs acc) k = map_of acc k" for xs acc
    using k by (induction xs arbitrary: acc) (auto simp: AList.update_conv')
  with wf k show ?thesis
    by (auto simp: apply_labels_def smap_get_def wf_smap_def map_of_range_copy map_of_not_key)
qed

section \<open>Properties\<close>

text \<open>
  C4. What \<open>EnsureVolumeLabels\<close> may ask of StorageOS. Whatever the control plane
  answers, every call carries the client's token and is a listing or one of
  three changes: an update whose unreserved labels are exactly the desired ones,
  a replica count equal to the desired one (zero when the label is absent), or
  the failure mode the desired label parses to.
\<close>

theorem EnsureVolumeLabels_events:
  assumes "wf_smap labels"
  shows "emits (\<lambda>e. ev_ctx e = Some (AddToken c) \<and> volume_event_ok labels e)
           (EnsureVolumeLabels (traced_cp cp) c key labels)"
proof -
  let ?P = "\<lambda>e. ev_ctx e = Some (AddToken c) \<and> volume_event_ok labels e"
  let ?s = "classify_volume_labels labels"
  have "emits ?P (EnsureReplicas (traced_cp cp) c key (vl_replicas ?s))"
    unfolding EnsureReplicas_def Let_def
    by (auto intro!: emits_intros emits_getVolume split: prod.split option.split
        simp: classify_volume_labels_sel assms)
  moreover have "emits ?P (EnsureFailureMode (traced_cp cp) c key (vl_failureMode ?s))"
    unfolding EnsureFailureMode_def Let_def
    by (auto intro!: emits_intros emits_getVolume split: sum.split
        simp: classify_volume_labels_sel assms)
  moreover have "emits ?P (EnsureUnreservedVolumeLabels (traced_cp cp) c key (SMap (vl_unreserved ?s)))"
    unfolding EnsureUnreservedVolumeLabels_def Let_def
    by (auto intro!: emits_intros emits_getVolume
        simp: apply_labels_unreserved classify_volume_labels_unreserved assms)
  ultimately show ?thesis
    unfolding EnsureVolumeLabels_def Let_def by (auto intro!: emits_intros)
qed

theorem EnsureVolumeLabels_events_witness:
  "emits (\<lambda>e. ev_ctx e = Some (AddToken NewTestAPIClient) \<and>
              volume_event_ok (SMap [(''storageos.com/replicas'', ''2''), (''env'', ''prod'')]) e)
     (EnsureVolumeLabels (traced_cp mem_cp) NewTestAPIClient (mk_key ''default'' ''pvc-1'')
        (SMap [(''storageos.com/replicas'', ''2''), (''env'', ''prod'')]))"
  by (rule EnsureVolumeLabels_events) (simp add: wf_smap_def)

text \<open>
  C5. The update of a volume's unreserved labels. With the volume \<open>vol\<close> just
  read, nothing is sent when the unreserved labels already agree. Otherwise one
  update is sent, with the identity and version of \<open>vol\<close> and with labels that
  are the current ones on reserved keys and the desired ones on all others; a
  second call on a volume with these labels sends nothing.
\<close>

theorem EnsureUnreservedVolumeLabels_exact:
  assumes "getVolume cp (AddToken c) key w = (Ret (Inr vol), w1)"
    and "labels \<noteq> NilMap" and "wf_smap labels" and "wf_smap (vol_Labels vol)"
  shows "\<exists>payload.
    (\<forall>k. smap_get payload k =
           (if IsReservedLabel k then smap_get (vol_Labels vol) k else smap_get labels k)) \<and>
    EnsureUnreservedVolumeLabels cp c key labels w =
      (if \<forall>k. \<not> IsReservedLabel k \<longrightarrow> smap_get labels k = smap_get (vol_Labels vol) k
       then (Ret None, w1)
       else (case api_UpdateVolume cp (AddToken c) (vol_NamespaceID vol) (vol_Id vol) payload
                    (vol_Version vol) w1 of
               ((u, resp, err), w2) \<Rightarrow> (Ret (map_option (\<lambda>e. MapAPIError e resp) err), w2))) \<and>
    (\<forall>w' vol' w1'. getVolume cp (AddToken c) key w' = (Ret (Inr vol'), w1') \<and>
        wf_smap (vol_Labels vol') \<and> smap_get (vol_Labels vol') = smap_get payload \<longrightarrow>
        EnsureUnreservedVolumeLabels cp c key labels w' = (Ret None, w1'))"
  using assms
  by (intro exI [of _ "apply_labels (vol_Labels vol) labels"])
     (auto simp: EnsureUnreservedVolumeLabels_run smap_get_apply_labels merged_def)

theorem EnsureUnreservedVolumeLabels_exact_witness:
  "\<exists>payload. smap_get payload ''storageos.com/replicas'' = Some ''1'' \<and>
             smap_get payload ''env'' = Some ''prod'' \<and>
    EnsureUnreservedVolumeLabels mem_cp NewTestAPIClient (mk_key ''default'' ''pvc-1'')
        (SMap [(''env'', ''prod'')]) sample_mem =
      (case api_UpdateVolume mem_cp None ''ns1'' ''vol1'' payload ''v1'' sample_mem of
         ((u, resp, err), w2) \<Rightarrow> (Ret (map_option (\<lambda>e. MapAPIError e resp) err), w2))"
proof -
  note r = getVolume_sample [of "AddToken NewTestAPIClient"]
  have "wf_smap (SMap [(''env'', ''prod'')])" and "wf_smap (vol_Labels sample_volume)"
    by (simp_all add: wf_smap_def sample_volume_def)
  from EnsureUnreservedVolumeLabels_exact [OF r _ this]
  obtain payload where payload: "\<And>k. smap_get payload k =
        (if IsReservedLabel k then smap_get (vol_Labels sample_volume) k
         else smap_get (SMap [(''env'', ''prod'')]) k)"
    and run: "EnsureUnreservedVolumeLabels mem_cp NewTestAPIClient (mk_key ''default'' ''pvc-1'')
        (SMap [(''env'', ''prod'')]) sample_mem =
      (if \<forall>k. \<not> IsReservedLabel k \<longrightarrow> smap_get (SMap [(''env'', ''prod'')]) k = smap_get (vol_Labels sample_volume) k
       then (Ret None, sample_mem)
       else (case api_UpdateVolume mem_cp (AddToken NewTestAPIClient) (vol_NamespaceID sample_volume)
                    (vol_Id sample_volume) payload (vol_Version sample_volume) sample_mem of
               ((u, resp, err), w2) \<Rightarrow> (Ret (map_option (\<lambda>e. MapAPIError e resp) err), w2)))"
    by blast
  have env: "\<not> IsReservedLabel ''env''" by (simp add: IsReservedLabel_def HasPrefix_def)
  moreover have "smap_get (SMap [(''env'', ''prod'')]) ''env'' \<noteq> smap_get (vol_Labels sample_volume) ''env''"
    by (simp add: smap_get_def sample_volume_def)
  ultimately have "\<not> (\<forall>k. \<not> IsReservedLabel k \<longrightarrow>
      smap_get (SMap [(''env'', ''prod'')]) k = smap_get (vol_Labels sample_volume) k)" by blast
  with run payload env show ?thesis
    by (intro exI [of _ payload] conjI)
       (simp_all add: smap_get_def sample_volume_def AddToken_def NewTestAPIClient_def)
qed

text \<open>
  C6. Applying the labels of a claim to a volume that already has them changes
  nothing: when the replica count, the failure mode and the unreserved labels
  agree, no call but the readings is made, the world is left as it was read, and
  the result is exactly the list of errors of the labels themselves.
\<close>

theorem EnsureVolumeLabels_converged:
  assumes "getVolume cp (AddToken c) key w = (Ret (Inr vol), w)"
    and "wf_smap labels" and "wf_smap (vol_Labels vol)"
    and "(case smap_get (vol_Labels vol) ReservedLabelReplicas of
            None \<Rightarrow> (0, None) | Some v \<Rightarrow> ParseUint v) = (desired_replicas labels, None)"
    and "smap_get0 (vol_Labels vol) ReservedLabelFailureMode = smap_get0 labels ReservedLabelFailureMode"
    and "\<And>k. \<not> IsReservedLabel k \<Longrightarrow> smap_get (vol_Labels vol) k = smap_get labels k"
  shows "EnsureVolumeLabels cp c key labels w =
           (Ret (ErrorOrNil (concat (map (\<lambda>(k, v). volume_label_error k v) (entries labels)))), w)"
proof -
  let ?s = "classify_volume_labels labels"
  have "EnsureReplicas cp c key (vl_replicas ?s) w = (Ret None, w)"
    using assms by (simp add: EnsureReplicas_run classify_volume_labels_sel)
  moreover have "EnsureFailureMode cp c key (vl_failureMode ?s) w = (Ret None, w)"
    using assms by (simp add: EnsureFailureMode_run classify_volume_labels_sel)
  moreover have "EnsureUnreservedVolumeLabels cp c key (SMap (vl_unreserved ?s)) w = (Ret None, w)"
    using assms by (simp add: EnsureUnreservedVolumeLabels_run classify_volume_labels_unreserved)
  ultimately show ?thesis
    by (simp add: EnsureVolumeLabels_def Let_def bindP_run collectE_run retP_run classify_volume_labels_sel)
qed

theorem EnsureVolumeLabels_converged_witness:
  "EnsureVolumeLabels mem_cp NewTestAPIClient (mk_key ''default'' ''pvc-1'')
     (SMap [(''env'', ''dev''), (''storageos.com/replicas'', ''1'')]) sample_mem = (Ret None, sample_mem)"
proof -
  note r = getVolume_sample [of "AddToken NewTestAPIClient"]
  have "ParseUint ''1'' = (1, None)" by code_simp
  then show ?thesis
    by (subst EnsureVolumeLabels_converged [OF r])
       (auto simp: sample_volume_def smap_get_def smap_get0_def wf_smap_def desired_replicas_def
         volume_label_error_def ErrorOrNil_def IsReservedLabel_def HasPrefix_def)
qed

text \<open>
  C7. The order in which a map is visited does not matter: for two orders of the
  same labels the classification gives the same replica count and failure mode,
  the same lookup of unreserved labels, and the same errors up to their order.
\<close>

theorem classify_volume_labels_order:
  assumes "mset xs = mset ys" and "distinct (map fst xs)"
  shows "let a = classify_volume_labels (SMap xs); b = classify_volume_labels (SMap ys) in
           vl_replicas a = vl_replicas b \<and> vl_failureMode a = vl_failureMode b \<and>
           map_of (vl_unreserved a) = map_of (vl_unreserved b) \<and> mset (vl_errs a) = mset (vl_errs b)"
proof -
  have set: "set xs = set ys" using assms(1) by (metis set_mset_mset)
  have d: "distinct (map fst ys)"
    using assms by (metis distinct_map mset_eq_imp_distinct_iff set)
  have get: "smap_get (SMap xs) = smap_get (SMap ys)"
    using assms(2) d set by (simp add: smap_get_def [abs_def] map_of_inject_set)
  have wf: "wf_smap (SMap xs)" "wf_smap (SMap ys)"
    using assms(2) d by (simp_all add: wf_smap_def)
  have "mset (concat (map f xs)) = mset (concat (map f ys))" for f :: "string \<times> string \<Rightarrow> goerr list"
    using assms(1) by (simp add: mset_concat flip: sum_mset_sum_list)
  moreover have "map_of (vl_unreserved (classify_volume_labels (SMap xs))) =
                 map_of (vl_unreserved (classify_volume_labels (SMap ys)))"
    using classify_volume_labels_unreserved(2) [OF wf(1)] classify_volume_labels_unreserved(2) [OF wf(2)] get
    by (simp add: smap_get_def fun_eq_iff)
  ultimately show ?thesis
    using get by (simp add: Let_def classify_volume_labels_sel wf desired_replicas_def smap_get0_def)
qed

theorem classify_volume_labels_order_witness:
  "vl_replicas (classify_volume_labels (SMap [(''a'', ''b''), (''storageos.com/replicas'', ''2'')])) =
   vl_replicas (classify_volume_labels (SMap [(''storageos.com/replicas'', ''2''), (''a'', ''b'')]))"
  using classify_volume_labels_order
    [of "[(''a'', ''b''), (''storageos.com/replicas'', ''2'')]"
        "[(''storageos.com/replicas'', ''2''), (''a'', ''b'')]"]
  by (simp add: Let_def)

text \<open>
  C8. A replica label with a number too large for 64 bits is reported as an error,
  and yet the largest 64-bit number is what is then applied, not the default of
  zero.
\<close>

theorem replicas_overflow_not_default:
  assumes "wf_smap labels" and "smap_get labels ReservedLabelReplicas = Some v"
    and "v \<noteq> ''''" and "list_all is_digit v" and "2 ^ 64 \<le> dec_val 0 v"
  shows "vl_replicas (classify_volume_labels labels) = maxUint64 \<and>
         Wrap (NumError ''ParseUint'' v ErrRange) ReservedLabelReplicas
           \<in> set (vl_errs (classify_volume_labels labels))"
proof -
  have p: "ParseUint v = (maxUint64, Some (NumError ''ParseUint'' v ErrRange))"
    using assms by (intro ParseUint_range) auto
  have "Wrap (NumError ''ParseUint'' v ErrRange) ReservedLabelReplicas \<in> set (volume_label_error ReservedLabelReplicas v)"
    by (simp add: volume_label_error_def p)
  moreover have "(ReservedLabelReplicas, v) \<in> set (entries labels)"
    using assms(2) by (auto simp: smap_get_def dest: map_of_SomeD)
  ultimately have "Wrap (NumError ''ParseUint'' v ErrRange) ReservedLabelReplicas
      \<in> set (concat (map (\<lambda>(k, v). volume_label_error k v) (entries labels)))"
    unfolding set_concat set_map by blast
  with p assms(1,2) show ?thesis
    by (simp add: classify_volume_labels_sel desired_replicas_def)
qed

theorem replicas_overflow_not_default_witness:
  "vl_replicas (classify_volume_labels
     (SMap [(''storageos.com/replicas'', ''18446744073709551616'')])) = maxUint64"
proof (rule replicas_overflow_not_default [THEN conjunct1])
  show "wf_smap (SMap [(''storageos.com/replicas'', ''18446744073709551616'')])"
    by (simp add: wf_smap_def)
  show "smap_get (SMap [(''storageos.com/replicas'', ''18446744073709551616'')]) ReservedLabelReplicas =
          Some ''18446744073709551616''"
    by (simp add: smap_get_def)
  have "dec_val 0 ''18446744073709551616'' = 18446744073709551616"
    by (simp add: digit_def)
  then show "2 ^ 64 \<le> dec_val 0 ''18446744073709551616''"
    by (simp only:) simp
qed (simp_all add: is_digit_def)

text \<open>
  \<open>ParseFailureMode\<close> accepts exactly the three named modes, the empty string
  (the default, hard) and the decimal numerals below \<open>2 ^ 64\<close>, and never returns
  both a mode and a threshold.
\<close>

theorem ParseFailureMode_exact:
  "ParseFailureMode s = Inr (mode, threshold) \<longleftrightarrow>
     (s = ''soft'' \<and> mode = ''soft'' \<and> threshold = 0) \<or>
     (s = ''hard'' \<and> mode = ''hard'' \<and> threshold = 0) \<or>
     (s = ''alwayson'' \<and> mode = ''alwayson'' \<and> threshold = 0) \<or>
     (s = '''' \<and> mode = ''hard'' \<and> threshold = 0) \<or>
     (s \<noteq> '''' \<and> list_all is_digit s \<and> mode = '''' \<and> dec_val 0 s = unat threshold)"
proof (cases "s \<in> {''soft'', ''hard'', ''alwayson'', ''''}")
  case True
  then show ?thesis by (auto simp: ParseFailureMode_def is_digit_def)
next
  case False
  then have "ParseFailureMode s = Inr (mode, threshold) \<longleftrightarrow> mode = '''' \<and> ParseUint s = (threshold, None)"
    by (auto simp: ParseFailureMode_def split: prod.splits option.splits)
  moreover have "dec_val 0 s < 2 ^ 64 \<and> threshold = of_nat (dec_val 0 s) \<longleftrightarrow> dec_val 0 s = unat threshold"
    by (rule of_nat_eq_iff_unat)
  ultimately show ?thesis
    using False by (simp add: ParseUint_ok_iff) blast
qed

end
