(* ===== verification/K8s_Trace.thy ===== *)
theory K8s_Trace
  imports K8s Api_Trace
begin

text \<open>
  Instrumentation of the Kubernetes client: every call becomes an event with its
  arguments and the answer. \<open>emb\<close> embeds these events into the events of a whole
  component.
\<close>

datatype (plugins only: code size) k8s_event =
    KGetNode objkey "goerr + k8s_node"
  | KListPods string "goerr + pod list"
  | KDeletePod pod int error_or_nil
  | KListVolumeAttachments string "goerr + volume_attachment list"
  | KDeleteVolumeAttachment volume_attachment int error_or_nil
  | KGetPVC objkey "goerr + pvc"
  | KUpdatePVC pvc "goerr + pvc"
  | KGetPV objkey "goerr + pv"
  | KGetStorageClass objkey "goerr + storage_class"
  | KListStorageClasses "goerr + storage_class list"
  | KGetService objkey "goerr + service"
  | KCreateService service error_or_nil
  | KUpdateService service "goerr + service"
  | KGetEndpoints objkey "goerr + endpoints"
  | KCreateEndpoints endpoints error_or_nil
  | KUpdateEndpoints endpoints "goerr + endpoints"
  | KGetSecret objkey "goerr + secret"
  | KCreateSecret secret "goerr + secret"

definition traced_k8s ::
  "(k8s_event \<Rightarrow> 'e) \<Rightarrow> 'w k8s_client \<Rightarrow> ('w, 'e) traced k8s_client" where
  "traced_k8s emb k =
     \<lparr>k8s_GetNode = (\<lambda>a. traceX (\<lambda>r. emb (KGetNode a r)) (k8s_GetNode k a)),
      k8s_ListPods = (\<lambda>a. traceX (\<lambda>r. emb (KListPods a r)) (k8s_ListPods k a)),
      k8s_DeletePod = (\<lambda>a b. traceX (\<lambda>r. emb (KDeletePod a b r)) (k8s_DeletePod k a b)),
      k8s_ListVolumeAttachments = (\<lambda>a. traceX (\<lambda>r. emb (KListVolumeAttachments a r)) (k8s_ListVolumeAttachments k a)),
      k8s_DeleteVolumeAttachment = (\<lambda>a b. traceX (\<lambda>r. emb (KDeleteVolumeAttachment a b r)) (k8s_DeleteVolumeAttachment k a b)),
      k8s_GetPVC = (\<lambda>a. traceX (\<lambda>r. emb (KGetPVC a r)) (k8s_GetPVC k a)),
      k8s_UpdatePVC = (\<lambda>a. traceX (\<lambda>r. emb (KUpdatePVC a r)) (k8s_UpdatePVC k a)),
      k8s_GetPV = (\<lambda>a. traceX (\<lambda>r. emb (KGetPV a r)) (k8s_GetPV k a)),
      k8s_GetStorageClass = (\<lambda>a. traceX (\<lambda>r. emb (KGetStorageClass a r)) (k8s_GetStorageClass k a)),
      k8s_ListStorageClasses = traceX (\<lambda>r. emb (KListStorageClasses r)) (k8s_ListStorageClasses k),
      k8s_GetService = (\<lambda>a. traceX (\<lambda>r. emb (KGetService a r)) (k8s_GetService k a)),
      k8s_CreateService = (\<lambda>a. traceX (\<lambda>r. emb (KCreateService a r)) (k8s_CreateService k a)),
      k8s_UpdateService = (\<lambda>a. traceX (\<lambda>r. emb (KUpdateService a r)) (k8s_UpdateService k a)),
      k8s_GetEndpoints = (\<lambda>a. traceX (\<lambda>r. emb (KGetEndpoints a r)) (k8s_GetEndpoints k a)),
      k8s_CreateEndpoints = (\<lambda>a. traceX (\<lambda>r. emb (KCreateEndpoints a r)) (k8s_CreateEndpoints k a)),
      k8s_UpdateEndpoints = (\<lambda>a. traceX (\<lambda>r. emb (KUpdateEndpoints a r)) (k8s_UpdateEndpoints k a)),
      k8s_GetSecret = (\<lambda>a. traceX (\<lambda>r. emb (KGetSecret a r)) (k8s_GetSecret k a)),
      k8s_CreateSecret = (\<lambda>a. traceX (\<lambda>r. emb (KCreateSecret a r)) (k8s_CreateSecret k a))\<rparr>"

lemma traced_k8s_sel [simp]:
  "k8s_GetNode (traced_k8s emb k) key = traceX (\<lambda>r. emb (KGetNode key r)) (k8s_GetNode k key)"
  "k8s_ListPods (traced_k8s emb k) nn = traceX (\<lambda>r. emb (KListPods nn r)) (k8s_ListPods k nn)"
  "k8s_DeletePod (traced_k8s emb k) p g = traceX (\<lambda>r. emb (KDeletePod p g r)) (k8s_DeletePod k p g)"
  "k8s_ListVolumeAttachments (traced_k8s emb k) nn = traceX (\<lambda>r. emb (KListVolumeAttachments nn r)) (k8s_ListVolumeAttachments k nn)"
  "k8s_DeleteVolumeAttachment (traced_k8s emb k) va g = traceX (\<lambda>r. emb (KDeleteVolumeAttachment va g r)) (k8s_DeleteVolumeAttachment k va g)"
  "k8s_GetPVC (traced_k8s emb k) key = traceX (\<lambda>r. emb (KGetPVC key r)) (k8s_GetPVC k key)"
  "k8s_UpdatePVC (traced_k8s emb k) claim = traceX (\<lambda>r. emb (KUpdatePVC claim r)) (k8s_UpdatePVC k claim)"
  "k8s_GetPV (traced_k8s emb k) key = traceX (\<lambda>r. emb (KGetPV key r)) (k8s_GetPV k key)"
  "k8s_GetStorageClass (traced_k8s emb k) key = traceX (\<lambda>r. emb (KGetStorageClass key r)) (k8s_GetStorageClass k key)"
  "k8s_ListStorageClasses (traced_k8s emb k) = traceX (\<lambda>r. emb (KListStorageClasses r)) (k8s_ListStorageClasses k)"
  "k8s_GetService (traced_k8s emb k) key = traceX (\<lambda>r. emb (KGetService key r)) (k8s_GetService k key)"
  "k8s_CreateService (traced_k8s emb k) svc = traceX (\<lambda>r. emb (KCreateService svc r)) (k8s_CreateService k svc)"
  "k8s_UpdateService (traced_k8s emb k) svc = traceX (\<lambda>r. emb (KUpdateService svc r)) (k8s_UpdateService k svc)"
  "k8s_GetEndpoints (traced_k8s emb k) key = traceX (\<lambda>r. emb (KGetEndpoints key r)) (k8s_GetEndpoints k key)"
  "k8s_CreateEndpoints (traced_k8s emb k) eps = traceX (\<lambda>r. emb (KCreateEndpoints eps r)) (k8s_CreateEndpoints k eps)"
  "k8s_UpdateEndpoints (traced_k8s emb k) eps = traceX (\<lambda>r. emb (KUpdateEndpoints eps r)) (k8s_UpdateEndpoints k eps)"
  "k8s_GetSecret (traced_k8s emb k) key = traceX (\<lambda>r. emb (KGetSecret key r)) (k8s_GetSecret k key)"
  "k8s_CreateSecret (traced_k8s emb k) sec = traceX (\<lambda>r. emb (KCreateSecret sec r)) (k8s_CreateSecret k sec)"
  by (simp_all add: traced_k8s_def)

text \<open>Whether a call asks for a change.\<close>

primrec k8s_write :: "k8s_event \<Rightarrow> bool" where
  "k8s_write (KGetNode a r) = False"
| "k8s_write (KListPods a r) = False"
| "k8s_write (KDeletePod a b r) = True"
| "k8s_write (KListVolumeAttachments a r) = False"
| "k8s_write (KDeleteVolumeAttachment a b r) = True"
| "k8s_write (KGetPVC a r) = False"
| "k8s_write (KUpdatePVC a r) = True"
| "k8s_write (KGetPV a r) = False"
| "k8s_write (KGetStorageClass a r) = False"
| "k8s_write (KListStorageClasses r) = False"
| "k8s_write (KGetService a r) = False"
| "k8s_write (KCreateService a r) = True"
| "k8s_write (KUpdateService a r) = True"
| "k8s_write (KGetEndpoints a r) = False"
| "k8s_write (KCreateEndpoints a r) = True"
| "k8s_write (KUpdateEndpoints a r) = True"
| "k8s_write (KGetSecret a r) = False"
| "k8s_write (KCreateSecret a r) = True"

text \<open>
  Sequencing when the continuation's events depend on what the first program is
  known to return.
\<close>

lemma emits_bindP_post:
  assumes m: "emits P m" and post: "\<And>wt a wt'. m wt = (Ret a, wt') \<Longrightarrow> R a"
    and f: "\<And>a. R a \<Longrightarrow> emits P (f a)"
  shows "emits P (bindP m f)"
proof -
  let ?g = "\<lambda>a. if R a then f a else panicP"
  have "bindP m f wt = bindP m ?g wt" for wt
    using post [of wt] by (auto simp: bindP_run split: prod.split outcome.split)
  then have "bindP m f = bindP m ?g" ..
  moreover have "emits P (bindP m ?g)"
    using m f by (auto intro!: emits_intros)
  ultimately show ?thesis by simp
qed

end
