(* ===== verification/Mem_K8s.thy ===== *)
theory Mem_K8s
  imports K8s
begin

text \<open>
  A Kubernetes client for an empty cluster that accepts every change, as a
  starting point for concrete instances: every object is missing, every list is
  empty, and creations, updates and deletions succeed.
\<close>

definition not_found :: goerr where
  "not_found = K8sError ReasonNotFound ''not found''"

definition empty_k8s :: "'w k8s_client" where
  "empty_k8s =
     \<lparr>k8s_GetNode = (\<lambda>k w. (Inl not_found, w)),
      k8s_ListPods = (\<lambda>n w. (Inr [], w)),
      k8s_DeletePod = (\<lambda>p g w. (None, w)),
      k8s_ListVolumeAttachments = (\<lambda>n w. (Inr [], w)),
      k8s_DeleteVolumeAttachment = (\<lambda>va g w. (None, w)),
      k8s_GetPVC = (\<lambda>k w. (Inl not_found, w)),
      k8s_UpdatePVC = (\<lambda>c w. (Inr c, w)),
      k8s_GetPV = (\<lambda>k w. (Inl not_found, w)),
      k8s_GetStorageClass = (\<lambda>k w. (Inl not_found, w)),
      k8s_ListStorageClasses = (\<lambda>w. (Inr [], w)),
      k8s_GetService = (\<lambda>k w. (Inl not_found, w)),
      k8s_CreateService = (\<lambda>s w. (None, w)),
      k8s_UpdateService = (\<lambda>s w. (Inr s, w)),
      k8s_GetEndpoints = (\<lambda>k w. (Inl not_found, w)),
      k8s_CreateEndpoints = (\<lambda>e w. (None, w)),
      k8s_UpdateEndpoints = (\<lambda>e w. (Inr e, w)),
      k8s_GetSecret = (\<lambda>k w. (Inl not_found, w)),
      k8s_CreateSecret = (\<lambda>s w. (Inr s, w))\<rparr>"

lemma IsNotFound_not_found [simp]: "IsNotFound not_found"
  by (simp add: not_found_def)

definition sample_pvc :: pvc where
  "sample_pvc =
     \<lparr>pvc_meta = empty_meta\<lparr>meta_Name := ''data'', meta_Namespace := ''default'', meta_UID := ''u1'',
        meta_Annotations := SMap [(''volume.beta.kubernetes.io/storage-provisioner'', ''csi.storageos.com'')]\<rparr>,
      pvc_StorageClassName = Some ''fast'', pvc_VolumeName = ''pvc-1''\<rparr>"

definition sample_pod :: pod where
  "sample_pod =
     \<lparr>pod_meta = empty_meta\<lparr>meta_Name := ''db-0'', meta_Namespace := ''default'',
        meta_Labels := SMap [(''storageos.com/fenced'', ''true'')]\<rparr>,
      pod_Volumes = [\<lparr>pvol_Name = ''v'', pvol_ClaimName = Some ''data''\<rparr>],
      pod_NodeName = ''worker-1'', pod_SchedulerName = ''''\<rparr>"

definition sample_storage_class :: storage_class where
  "sample_storage_class =
     \<lparr>sc_meta = empty_meta\<lparr>meta_Name := ''fast'', meta_UID := ''sc-uid''\<rparr>,
      sc_Provisioner = ''csi.storageos.com'',
      sc_Parameters = SMap [(''fsType'', ''ext4''), (''storageos.com/replicas'', ''1'')]\<rparr>"

end
