(* ===== verification/Label_Controllers.thy ===== *)
theory Label_Controllers
  imports Delete_Controllers Node_Labels Volume_Labels K8s_Trace Mem_K8s
begin

text \<open>
  \<open>controllers/node-label\<close> and \<open>controllers/pvc-label\<close>: the metadata-sync
  controllers that copy the labels of Kubernetes nodes and claims to StorageOS
  nodes and volumes, and their event predicates.
\<close>

section \<open>Node labels\<close>

record 'w node_labeller =
  nlr_EnsureNodeLabels :: "objkey \<Rightarrow> smap \<Rightarrow> ('w, error_or_nil) prog"
  nlr_NodeObjects :: "('w, goerr + (objkey \<times> sobject) list) prog"

definition client_node_labeller :: "'w control_plane \<Rightarrow> client \<Rightarrow> 'w node_labeller" where
  "client_node_labeller cp c =
     \<lparr>nlr_EnsureNodeLabels = EnsureNodeLabels cp c, nlr_NodeObjects = NodeObjects cp c\<rparr>"

definition NodeLabel_Ensure :: "'w node_labeller \<Rightarrow> objmeta \<Rightarrow> ('w, error_or_nil) prog" where
  "NodeLabel_Ensure api obj = nlr_EnsureNodeLabels api (meta_key obj) (meta_Labels obj)"

definition NodeLabel_Diff :: "'w node_labeller \<Rightarrow> objmeta list \<Rightarrow> ('w, goerr + objmeta list) prog" where
  "NodeLabel_Diff api objs =
     tryP (nlr_NodeObjects api) (\<lambda>nodes.
       retP (Inr (fold (\<lambda>obj apply.
         case map_of nodes (meta_key obj) of
           None \<Rightarrow> apply
         | Some n \<Rightarrow> if \<not> deep_equal (meta_Labels obj) (GetLabels n) then apply @ [obj] else apply) objs [])))"

definition NodeLabel_Delete :: "'w node_labeller \<Rightarrow> objmeta \<Rightarrow> ('w, error_or_nil) prog" where
  "NodeLabel_Delete api obj = retP None"

definition NodeLabel_Controller :: "'w node_labeller \<Rightarrow> ('w, objmeta) metadata_controller" where
  "NodeLabel_Controller api =
     \<lparr>ctl_Ensure = NodeLabel_Ensure api, ctl_Delete = NodeLabel_Delete api, ctl_Diff = NodeLabel_Diff api\<rparr>"

definition NodeLabel_Predicate_Update :: "(string \<Rightarrow> goerr + smap) \<Rightarrow> objmeta \<Rightarrow> objmeta \<Rightarrow> bool" where
  "NodeLabel_Predicate_Update unmarshal objOld objNew =
     (let isStorageOS = (case IsStorageOSNode unmarshal objNew of Inl _ \<Rightarrow> False | Inr b \<Rightarrow> b);
          wasStorageOS = (case IsStorageOSNode unmarshal objOld of Inl _ \<Rightarrow> False | Inr b \<Rightarrow> b)
      in if \<not> isStorageOS then False
         else if \<not> wasStorageOS then True
         else if \<not> deep_equal (meta_Labels objOld) (meta_Labels objNew) then True
         else False)"

definition NodeLabel_Predicate :: "(string \<Rightarrow> goerr + smap) \<Rightarrow> kevent \<Rightarrow> bool" where
  "NodeLabel_Predicate unmarshal ev =
     (case ev of
        CreateEvent e \<Rightarrow> IgnoreFuncs_Create ignore_all e
      | UpdateEvent old new \<Rightarrow> NodeLabel_Predicate_Update unmarshal old new
      | DeleteEvent e \<Rightarrow> IgnoreFuncs_Delete ignore_all e
      | GenericEvent e \<Rightarrow> IgnoreFuncs_Generic ignore_all e)"

section \<open>Claim labels\<close>

record 'w volume_labeller =
  vlr_EnsureVolumeLabels :: "objkey \<Rightarrow> smap \<Rightarrow> ('w, error_or_nil) prog"
  vlr_VolumeObjects :: "('w, goerr + (objkey \<times> sobject) list) prog"

definition client_volume_labeller :: "'w control_plane \<Rightarrow> client \<Rightarrow> 'w volume_labeller" where
  "client_volume_labeller cp c =
     \<lparr>vlr_EnsureVolumeLabels = EnsureVolumeLabels cp c, vlr_VolumeObjects = VolumeObjects cp c\<rparr>"

text \<open>
  The unstructured form of a claim has \<open>spec.storageClassName\<close> when it is set and
  \<open>spec.volumeName\<close> when it is not empty.
\<close>

definition PVCLabel_ensureLabels :: "storage_class \<Rightarrow> pvc \<Rightarrow> smap" where
  "PVCLabel_ensureLabels sc obj =
     SMap (range_copy (\<lambda>k. True) (entries (meta_Labels (pvc_meta obj)))
             (entries (StorageClassReservedParams sc)))"

definition PVCLabel_Ensure ::
  "'w k8s_client \<Rightarrow> 'w volume_labeller \<Rightarrow> pvc \<Rightarrow> ('w, error_or_nil) prog" where
  "PVCLabel_Ensure k8s api obj =
     (let scName = (case pvc_StorageClassName obj of None \<Rightarrow> '''' | Some n \<Rightarrow> n) in
      tryE (mapErr (\<lambda>e. Wrap e ''failed to get storageclass for pvc'') (StorageClass k8s scName)) (\<lambda>sc.
      tryE (mapErr (\<lambda>e. Wrap e ''failed to set storageclass annotation on the pvc'')
              (ValidateOrSetStorageClassUID k8s (sc_meta sc) (pvc_meta obj))) (\<lambda>ok.
      if \<not> ok then retP None
      else (let ensureLabels = PVCLabel_ensureLabels sc obj;
                pvName = pvc_VolumeName obj
            in if pvName = '''' then retP (Some (StdError ''pv for pvc not yet provisioned''))
               else vlr_EnsureVolumeLabels api (mk_key (meta_Namespace (pvc_meta obj)) pvName) ensureLabels))))"

definition PVCLabel_Diff :: "'w volume_labeller \<Rightarrow> pvc list \<Rightarrow> ('w, goerr + pvc list) prog" where
  "PVCLabel_Diff api objs =
     tryP (vlr_VolumeObjects api) (\<lambda>volumes.
       retP (Inr (fold (\<lambda>obj apply.
         case map_of volumes (meta_key (pvc_meta obj)) of
           None \<Rightarrow> apply
         | Some vol \<Rightarrow>
             if \<not> deep_equal (meta_Labels (pvc_meta obj)) (GetLabels vol) then apply @ [obj] else apply) objs [])))"

definition PVCLabel_Delete :: "'w volume_labeller \<Rightarrow> pvc \<Rightarrow> ('w, error_or_nil) prog" where
  "PVCLabel_Delete api obj = retP None"

definition PVCLabel_Controller ::
  "'w k8s_client \<Rightarrow> 'w volume_labeller \<Rightarrow> ('w, pvc) metadata_controller" where
  "PVCLabel_Controller k8s api =
     \<lparr>ctl_Ensure = PVCLabel_Ensure k8s api, ctl_Delete = PVCLabel_Delete api, ctl_Diff = PVCLabel_Diff api\<rparr>"

definition PVCLabel_Predicate_Update :: "objmeta \<Rightarrow> objmeta \<Rightarrow> bool" where
  "PVCLabel_Predicate_Update objOld objNew =
     (if \<not> HasStorageOSAnnotation objNew then False
      else if \<not> deep_equal (meta_Labels objOld) (meta_Labels objNew) then True
      else False)"

definition PVCLabel_Predicate :: "kevent \<Rightarrow> bool" where
  "PVCLabel_Predicate ev =
     (case ev of
        CreateEvent e \<Rightarrow> IgnoreFuncs_Create ignore_all e
      | UpdateEvent old new \<Rightarrow> PVCLabel_Predicate_Update old new
      | DeleteEvent e \<Rightarrow> IgnoreFuncs_Delete ignore_all e
      | GenericEvent e \<Rightarrow> IgnoreFuncs_Generic ignore_all e)"

section \<open>The differ contract\<close>

lemma fold_collect:
  "fold (\<lambda>x acc. case f x of None \<Rightarrow> acc | Some y \<Rightarrow> if p x y then acc @ [x] else acc) xs acc =
     acc @ filter (\<lambda>x. case f x of None \<Rightarrow> False | Some y \<Rightarrow> p x y) xs"
  by (induction xs arbitrary: acc) (auto split: option.splits)

lemma NodeLabel_Diff_run:
  "nlr_NodeObjects api w = (Ret (Inr nodes), w') \<Longrightarrow>
   NodeLabel_Diff api objs w =
     (Ret (Inr (filter (\<lambda>obj. case map_of nodes (meta_key obj) of
                  None \<Rightarrow> False | Some n \<Rightarrow> \<not> deep_equal (meta_Labels obj) (GetLabels n)) objs)), w')"
  by (simp add: NodeLabel_Diff_def tryP_run retP_run fold_collect)

lemma PVCLabel_Diff_run:
  "vlr_VolumeObjects api w = (Ret (Inr vols), w') \<Longrightarrow>
   PVCLabel_Diff api objs w =
     (Ret (Inr (filter (\<lambda>obj. case map_of vols (meta_key (pvc_meta obj)) of
                  None \<Rightarrow> False | Some v \<Rightarrow> \<not> deep_equal (meta_Labels (pvc_meta obj)) (GetLabels v)) objs)), w')"
  by (simp add: PVCLabel_Diff_def tryP_run retP_run fold_collect)

interpretation node_diff: metadata_differ "NodeLabel_Diff (client_node_labeller (traced_cp cp) c)"
  for cp :: "'w control_plane" and c :: client
  by unfold_locales
     (auto simp: NodeLabel_Diff_def tryP_run retP_run fold_collect
       split: prod.splits outcome.splits sum.splits)

interpretation pvc_diff: metadata_differ "PVCLabel_Diff (client_volume_labeller (traced_cp cp) c)"
  for cp :: "'w control_plane" and c :: client
  by unfold_locales
     (auto simp: PVCLabel_Diff_def tryP_run retP_run fold_collect
       split: prod.splits outcome.splits sum.splits)


section \<open>What the node label controller does\<close>

lemma emits_NodeObjects:
  "(\<And>r. P (EvListNodes (AddToken c) r)) \<Longrightarrow> emits P (NodeObjects (traced_cp cp) c)"
  unfolding NodeObjects_def by (auto intro!: emits_intros)

text \<open>
  C10. What the node label controller may ask of StorageOS, at every tick of its resync
  and for every reconciled key, whatever the services answer: each call carries the
  client's token, and each change is justified by a node \<open>obj\<close> that Kubernetes returned,
  from a get or a list. It is a compute-only setting equal to the one of the labels of
  \<open>obj\<close> (false when absent or not a boolean), or an update whose labels are exactly the
  unreserved labels of \<open>obj\<close>.
\<close>

theorem node_label_sync_events:
  assumes get: "\<And>key w obj w'. getObj key w = (Inr obj, w') \<Longrightarrow> obj \<in> K"
    and list: "\<And>w objs w'. listObjs w = (Inr objs, w') \<Longrightarrow> set objs \<subseteq> K"
    and wf: "\<And>obj. obj \<in> K \<Longrightarrow> wf_smap (meta_Labels obj)"
  shows "emits (\<lambda>e. ev_ctx e = Some (AddToken c) \<and> (is_write e \<longrightarrow> (\<exists>obj \<in> K. node_event_ok (meta_Labels obj) e)))
           (SyncFunc_Run (resync (meta_kind (\<lambda>key. liftX (getObj key)) (liftX listObjs))
              (NodeLabel_Controller (client_node_labeller (traced_cp cp) c))) n) \<and>
         emits (\<lambda>e. ev_ctx e = Some (AddToken c) \<and> (is_write e \<longrightarrow> (\<exists>obj \<in> K. node_event_ok (meta_Labels obj) e)))
           (Reconcile (meta_kind (\<lambda>key. liftX (getObj key)) (liftX listObjs))
              (NodeLabel_Controller (client_node_labeller (traced_cp cp) c)) key)"
proof -
  define kc where "kc = meta_kind (\<lambda>key. liftX (getObj key)) (liftX listObjs :: (_, api_event) traced \<Rightarrow> _)"
  define ctl where "ctl = NodeLabel_Controller (client_node_labeller (traced_cp cp) c)"
  define ok where "ok = (\<lambda>e. ev_ctx e = Some (AddToken c) \<and> (is_write e \<longrightarrow> (\<exists>obj \<in> K. node_event_ok (meta_Labels obj) e)))"
  have ensure: "emits ok (NodeLabel_Ensure (client_node_labeller (traced_cp cp) c) obj)" if "obj \<in> K" for obj
    unfolding NodeLabel_Ensure_def client_node_labeller_def
    using that wf by (auto simp: ok_def intro!: emits_mono [OF emits_EnsureNodeLabels])
  have diff: "emits ok (NodeLabel_Diff (client_node_labeller (traced_cp cp) c) objs)" for objs
    unfolding NodeLabel_Diff_def client_node_labeller_def
    by (auto simp: ok_def intro!: emits_intros emits_NodeObjects)
  have "emits ok (resync kc ctl)"
  proof (rule node_diff.resync_emits [where L = "\<lambda>obj. obj \<in> K"])
    show "\<forall>obj \<in> set objs. obj \<in> K" if "kc_List kc wt = (Inr objs, wt')" for wt objs wt'
      using that list by (cases wt) (auto simp: kc_def liftX_run split: prod.splits, metis prod.collapse subset_iff)
  qed (auto simp: kc_def ctl_def NodeLabel_Controller_def ensure diff intro: emits_intros)
  then have "emits ok (SyncFunc_Run (resync kc ctl) n)"
    by (induction n) (auto intro!: emits_intros)
  moreover have "emits ok (Reconcile kc ctl key)"
    unfolding Reconcile_def
  proof (rule emits_bindP_post [where R = "\<lambda>r. \<forall>obj. r = Inr obj \<longrightarrow> obj \<in> K"])
    show "\<forall>obj. r = Inr obj \<longrightarrow> obj \<in> K" if "callP (kc_Get kc key) wt = (Ret r, wt')" for wt r wt'
      using that get by (cases wt) (auto simp: kc_def liftX_run, metis prod.collapse)
  qed (auto simp: kc_def ctl_def NodeLabel_Controller_def NodeLabel_Delete_def intro!: emits_intros ensure
       split: sum.split option.split)
  ultimately show ?thesis unfolding kc_def ctl_def ok_def by blast
qed

definition labelled_node :: objmeta where
  "labelled_node = empty_meta\<lparr>meta_Name := ''worker-1'',
     meta_Labels := SMap [(''storageos.com/computeonly'', ''true''), (''zone'', ''b'')]\<rparr>"

theorem node_label_sync_events_witness:
  "emits (\<lambda>e. ev_ctx e = Some (AddToken NewTestAPIClient) \<and>
             (is_write e \<longrightarrow> (\<exists>obj \<in> {labelled_node}. node_event_ok (meta_Labels obj) e)))
     (SyncFunc_Run (resync (meta_kind (\<lambda>key. liftX (\<lambda>w. (Inr labelled_node, w))) (liftX (\<lambda>w. (Inr [labelled_node], w))))
        (NodeLabel_Controller (client_node_labeller (traced_cp (mem_cp :: mem control_plane)) NewTestAPIClient))) 3)"
  using node_label_sync_events
    [where getObj = "\<lambda>key w. (Inr labelled_node, w)" and listObjs = "\<lambda>w. (Inr [labelled_node], w)"
       and K = "{labelled_node}" and cp = "mem_cp :: mem control_plane" and c = NewTestAPIClient and n = 3]
  by (simp add: labelled_node_def wf_smap_def)

section \<open>What the claim label controller does\<close>

datatype label_event =
    LK8s k8s_event
  | LEnsure objkey smap error_or_nil
  | LVolumes "goerr + (objkey \<times> sobject) list"

definition traced_labeller :: "'w volume_labeller \<Rightarrow> ('w, label_event) traced volume_labeller" where
  "traced_labeller api =
     \<lparr>vlr_EnsureVolumeLabels = (\<lambda>key labels. traceP (LEnsure key labels) (vlr_EnsureVolumeLabels api key labels)),
      vlr_VolumeObjects = traceP LVolumes (vlr_VolumeObjects api)\<rparr>"

text \<open>
  The event in which Kubernetes was asked for a storage class, with the class found:
  by name, or the first default one of the list.
\<close>

definition class_answer :: "string \<Rightarrow> k8s_event \<Rightarrow> storage_class option \<Rightarrow> bool" where
  "class_answer name ev found \<longleftrightarrow>
     (if name = '''' then
        \<exists>r. ev = KListStorageClasses r \<and>
            found = (case r of
                       Inl e \<Rightarrow> None
                     | Inr items \<Rightarrow>
                         find (\<lambda>sc. smap_get (meta_Annotations (sc_meta sc)) DefaultStorageClassKey = Some ''true'') items)
      else
        \<exists>r. ev = KGetStorageClass (mk_key '''' name) r \<and>
            found = (case r of Inl e \<Rightarrow> None | Inr sc \<Rightarrow> Some sc))"

text \<open>
  How the class is compared with the record on the claim \<open>p\<close>, as rules over the calls and
  their answers: a recorded class must be this one; without a record a class younger
  than the claim is not the claim's; otherwise the claim is read once and updated once,
  with nothing changed but the record. A claim read without annotations is a panic.
\<close>

definition record_on :: "pvc \<Rightarrow> smap \<Rightarrow> pvc" where
  "record_on p0 annotations = p0\<lparr>pvc_meta := (pvc_meta p0)\<lparr>meta_Annotations := annotations\<rparr>\<rparr>"

inductive record_phase :: "objmeta \<Rightarrow> objmeta \<Rightarrow> k8s_event list \<Rightarrow> (goerr + bool) outcome \<Rightarrow> bool"
  for sc p where
  recorded: "smap_get0 (meta_Annotations p) StorageClassUUIDAnnotationKey = uid \<Longrightarrow> uid \<noteq> '''' \<Longrightarrow>
    record_phase sc p [] (Ret (Inr (uid = meta_UID sc)))"
| younger: "smap_get0 (meta_Annotations p) StorageClassUUIDAnnotationKey = '''' \<Longrightarrow>
    meta_CreationTimestamp p < meta_CreationTimestamp sc \<Longrightarrow> record_phase sc p [] (Ret (Inr False))"
| unreadable: "smap_get0 (meta_Annotations p) StorageClassUUIDAnnotationKey = '''' \<Longrightarrow>
    meta_CreationTimestamp sc \<le> meta_CreationTimestamp p \<Longrightarrow>
    record_phase sc p [KGetPVC (meta_key p) (Inl e)] (Ret (Inl e))"
| no_annotations: "smap_get0 (meta_Annotations p) StorageClassUUIDAnnotationKey = '''' \<Longrightarrow>
    meta_CreationTimestamp sc \<le> meta_CreationTimestamp p \<Longrightarrow>
    smap_set (meta_Annotations (pvc_meta p0)) StorageClassUUIDAnnotationKey (meta_UID sc) = None \<Longrightarrow>
    record_phase sc p [KGetPVC (meta_key p) (Inr p0)] Panic"
| update: "smap_get0 (meta_Annotations p) StorageClassUUIDAnnotationKey = '''' \<Longrightarrow>
    meta_CreationTimestamp sc \<le> meta_CreationTimestamp p \<Longrightarrow>
    smap_set (meta_Annotations (pvc_meta p0)) StorageClassUUIDAnnotationKey (meta_UID sc) = Some annotations \<Longrightarrow>
    record_phase sc p [KGetPVC (meta_key p) (Inr p0), KUpdatePVC (record_on p0 annotations) answer]
      (Ret (case answer of Inl e \<Rightarrow> Inl e | Inr p1 \<Rightarrow> Inr True))"

lemma record_phase_one_write: "record_phase sc p es res \<Longrightarrow> length (filter k8s_write es) \<le> 1"
  by (induction rule: record_phase.induct) auto

lemma StorageClass_traced:
  "\<exists>a w' ev. StorageClass (traced_k8s emb k) name (w, tr) = (Ret a, (w', tr @ [emb ev])) \<and>
     class_answer name ev (case a of Inl e \<Rightarrow> None | Inr sc \<Rightarrow> Some sc)"
proof (cases "name = ''''")
  case True
  show ?thesis
  proof (cases "fst (k8s_ListStorageClasses k w)")
    case (Inl e)
    with True show ?thesis
      by (auto simp: StorageClass_def DefaultStorageClass_def class_answer_def prog_simps traceX_run)
  next
    case (Inr items)
    with True show ?thesis
      by (cases "find (\<lambda>sc. smap_get (meta_Annotations (sc_meta sc)) DefaultStorageClassKey = Some ''true'') items")
         (auto simp: StorageClass_def DefaultStorageClass_def class_answer_def prog_simps traceX_run)
  qed
next
  case False
  then show ?thesis
    by (auto simp: StorageClass_def class_answer_def prog_simps traceX_run split: sum.splits)
qed

lemma ValidateOrSet_traced:
  "\<exists>res w' es. ValidateOrSetStorageClassUID (traced_k8s emb k) sc p (w, tr) = (res, (w', tr @ map emb es)) \<and>
     record_phase sc p es res"
proof (cases "smap_get0 (meta_Annotations p) StorageClassUUIDAnnotationKey \<noteq> '''' \<or>
              meta_CreationTimestamp p < meta_CreationTimestamp sc")
  case True
  then show ?thesis
    using record_phase.recorded [of p _ sc, OF refl] record_phase.younger [of p sc]
    by (intro exI [of _ "Ret (Inr (smap_get0 (meta_Annotations p) StorageClassUUIDAnnotationKey \<noteq> '''' \<and>
           smap_get0 (meta_Annotations p) StorageClassUUIDAnnotationKey = meta_UID sc))"] exI [of _ w] exI [of _ "[]"])
       (auto simp: ValidateOrSetStorageClassUID_def Let_def retP_run)
next
  case False
  then have ok: "smap_get0 (meta_Annotations p) StorageClassUUIDAnnotationKey = ''''"
    "meta_CreationTimestamp sc \<le> meta_CreationTimestamp p" by auto
  let ?get = "k8s_GetPVC k (meta_key p) w"
  show ?thesis
  proof (cases "fst ?get")
    case (Inl err)
    with ok record_phase.unreadable [OF ok, of err] show ?thesis
      by (intro exI [of _ "Ret (Inl err)"] exI [of _ "snd ?get"] exI [of _ "[KGetPVC (meta_key p) (Inl err)]"])
         (simp add: ValidateOrSetStorageClassUID_def prog_simps traceX_run)
  next
    case (Inr p0)
    show ?thesis
    proof (cases "smap_set (meta_Annotations (pvc_meta p0)) StorageClassUUIDAnnotationKey (meta_UID sc)")
      case None
      with ok Inr record_phase.no_annotations [OF ok None] show ?thesis
        by (intro exI [of _ Panic] exI [of _ "snd ?get"] exI [of _ "[KGetPVC (meta_key p) (Inr p0)]"])
           (simp add: ValidateOrSetStorageClassUID_def prog_simps traceX_run)
    next
      case (Some ann)
      let ?u = "k8s_UpdatePVC k (record_on p0 ann) (snd ?get)"
      from ok Inr Some record_phase.update [OF ok Some, of "fst ?u"] show ?thesis
        by (intro exI [of _ "Ret (case fst ?u of Inl e \<Rightarrow> Inl e | Inr p1 \<Rightarrow> Inr True)"] exI [of _ "snd ?u"]
              exI [of _ "[KGetPVC (meta_key p) (Inr p0), KUpdatePVC (record_on p0 ann) (fst ?u)]"])
           (auto simp: ValidateOrSetStorageClassUID_def record_on_def prog_simps traceX_run split: sum.split)
    qed
  qed
qed

text \<open>The labels the volume should get: those of the claim over the reserved parameters of the class.\<close>

lemma PVCLabel_ensureLabels_get:
  assumes "wf_smap (meta_Labels (pvc_meta obj))" and "wf_smap (sc_Parameters sc)"
  shows "smap_get (PVCLabel_ensureLabels sc obj) k =
           (case smap_get (meta_Labels (pvc_meta obj)) k of
              Some v \<Rightarrow> Some v
            | None \<Rightarrow> if HasPrefix k reservedParamPrefix then smap_get (sc_Parameters sc) k else None)"
  using assms
  by (auto simp: PVCLabel_ensureLabels_def StorageClassReservedParams_def smap_get_def wf_smap_def
      map_of_range_copy map_of_not_key split: option.split dest!: map_of_SomeD intro: rev_image_eqI)

lemma traceP_run:
  "traceP ev m (w, tr) = (case m w of (Ret a, w') \<Rightarrow> (Ret a, (w', tr @ [ev a])) | (Panic, w') \<Rightarrow> (Panic, (w', tr)))"
  by (simp add: traceP_def)

definition pvc_class_name :: "pvc \<Rightarrow> string" where
  "pvc_class_name obj = (case pvc_StorageClassName obj of None \<Rightarrow> '''' | Some n \<Rightarrow> n)"

text \<open>
  The end of a sync whose class is the claim's: a claim without a volume is an error, and
  otherwise the volume of the claim is labelled by one call, whose answer is the result.
\<close>

definition label_phase ::
  "'w volume_labeller \<Rightarrow> pvc \<Rightarrow> storage_class \<Rightarrow> label_event list \<Rightarrow> error_or_nil outcome \<Rightarrow> bool" where
  "label_phase api obj sc es r \<longleftrightarrow>
     (if pvc_VolumeName obj = '''' then es = [] \<and> (\<exists>e. r = Ret (Some e))
      else let key = mk_key (meta_Namespace (pvc_meta obj)) (pvc_VolumeName obj);
               desired = (\<lambda>labels. wf_smap (meta_Labels (pvc_meta obj)) \<and> wf_smap (sc_Parameters sc) \<longrightarrow>
                 (\<forall>k. smap_get labels k =
                    (case smap_get (meta_Labels (pvc_meta obj)) k of
                       Some v \<Rightarrow> Some v
                     | None \<Rightarrow> if HasPrefix k reservedParamPrefix then smap_get (sc_Parameters sc) k else None)))
           in (case r of
                 Ret err \<Rightarrow> \<exists>labels. es = [LEnsure key labels err] \<and> desired labels
               | Panic \<Rightarrow> es = [] \<and>
                   (\<exists>labels w. fst (vlr_EnsureVolumeLabels api key labels w) = Panic \<and> desired labels)))"

lemma label_phase_run:
  assumes "pvc_VolumeName obj \<noteq> ''''"
    and "vlr_EnsureVolumeLabels (traced_labeller api) (mk_key (meta_Namespace (pvc_meta obj)) (pvc_VolumeName obj))
           (PVCLabel_ensureLabels sc obj) (w, tr) = (r, (w', tr'))"
  shows "\<exists>es. tr' = tr @ es \<and> label_phase api obj sc es r"
proof -
  note labels = PVCLabel_ensureLabels_get [of obj sc]
  show ?thesis
  proof (cases r)
    case (Ret err)
    with assms labels show ?thesis
      by (auto simp: label_phase_def Let_def traced_labeller_def traceP_run split: prod.splits outcome.splits)
  next
    case Panic
    with assms(2) have "tr' = tr" and "fst (vlr_EnsureVolumeLabels api
        (mk_key (meta_Namespace (pvc_meta obj)) (pvc_VolumeName obj)) (PVCLabel_ensureLabels sc obj) w) = Panic"
      by (auto simp: traced_labeller_def traceP_run split: prod.splits outcome.splits)
    with assms(1) labels Panic show ?thesis by (auto simp: label_phase_def Let_def)
  qed
qed

lemma PVCLabel_Ensure_run:
  "PVCLabel_Ensure k8s api obj wt =
     (case StorageClass k8s (pvc_class_name obj) wt of
        (Panic, wt1) \<Rightarrow> (Panic, wt1)
      | (Ret (Inl e), wt1) \<Rightarrow> (Ret (Some (Wrap e ''failed to get storageclass for pvc'')), wt1)
      | (Ret (Inr sc), wt1) \<Rightarrow>
          (case ValidateOrSetStorageClassUID k8s (sc_meta sc) (pvc_meta obj) wt1 of
             (Panic, wt2) \<Rightarrow> (Panic, wt2)
           | (Ret (Inl e), wt2) \<Rightarrow> (Ret (Some (Wrap e ''failed to set storageclass annotation on the pvc'')), wt2)
           | (Ret (Inr ok), wt2) \<Rightarrow>
               if \<not> ok then (Ret None, wt2)
               else if pvc_VolumeName obj = '''' then (Ret (Some (StdError ''pv for pvc not yet provisioned'')), wt2)
               else vlr_EnsureVolumeLabels api (mk_key (meta_Namespace (pvc_meta obj)) (pvc_VolumeName obj))
                      (PVCLabel_ensureLabels sc obj) wt2))"
  by (auto simp: PVCLabel_Ensure_def pvc_class_name_def Let_def tryE_run mapErr_run retP_run
      split: prod.split outcome.split sum.split)

section \<open>Properties\<close>


end
