(* ===== verification/Cache.thy ===== *)
theory Cache
  imports Api
begin

text \<open>
  The expiring caches of the program: the vendored \<open>patrickmn/go-cache\<close>
  (\<open>Get\<close>, \<open>Set\<close>, \<open>Delete\<close>, \<open>DeleteExpired\<close>) and \<open>CacheMiss\<close> of
  \<open>internal/pkg/cache/cache.go\<close> on top of it. The clock is an argument, in
  nanoseconds; each operation takes the cache's lock for its whole duration, so a
  history of a shared cache is a sequence of these operations.
\<close>

section \<open>go-cache\<close>

record 'v item =
  Object :: 'v
  Expiration :: int

record 'v cache =
  defaultExpiration :: int
  items :: "(string \<times> 'v item) list"

definition cache_New :: "int \<Rightarrow> 'v cache" where
  "cache_New expiryInterval =
     \<lparr>defaultExpiration = (if expiryInterval = 0 then -1 else expiryInterval), items = []\<rparr>"

definition Get :: "int \<Rightarrow> 'v cache \<Rightarrow> string \<Rightarrow> 'v option" where
  "Get now c k =
     (case map_of (items c) k of
        None \<Rightarrow> None
      | Some it \<Rightarrow>
          if Expiration it > 0 then (if now > Expiration it then None else Some (Object it))
          else Some (Object it))"

definition Set :: "int \<Rightarrow> 'v cache \<Rightarrow> string \<Rightarrow> 'v \<Rightarrow> int \<Rightarrow> 'v cache" where
  "Set now c k x d =
     (let d = (if d = 0 then defaultExpiration c else d);
          e = (if d > 0 then now + d else 0)
      in c\<lparr>items := AList.update k \<lparr>Object = x, Expiration = e\<rparr> (items c)\<rparr>)"

definition Delete :: "'v cache \<Rightarrow> string \<Rightarrow> 'v cache" where
  "Delete c k = c\<lparr>items := AList.delete k (items c)\<rparr>"

definition sweep_step :: "int \<Rightarrow> string \<times> 'v item \<Rightarrow> 'v cache \<Rightarrow> 'v cache" where
  "sweep_step now kv c =
     (if Expiration (snd kv) > 0 \<and> now > Expiration (snd kv) then Delete c (fst kv) else c)"

definition DeleteExpired :: "int \<Rightarrow> 'v cache \<Rightarrow> 'v cache" where
  "DeleteExpired now c = fold (sweep_step now) (items c) c"

section \<open>Object cache\<close>

text \<open>
  \<open>eq\<close> is the semantic deep equality of two objects and \<open>key\<close> the object's
  namespaced name as a string. The cache after the call is returned with the
  answer.
\<close>

definition CacheMiss ::
  "('v \<Rightarrow> 'v \<Rightarrow> bool) \<Rightarrow> ('v \<Rightarrow> string) \<Rightarrow> int \<Rightarrow> 'v cache \<Rightarrow> 'v \<Rightarrow> bool \<times> 'v cache" where
  "CacheMiss eq key now c obj =
     (let k = key obj in
      case Get now c k of
        Some cached \<Rightarrow> if eq cached obj then (False, c) else (True, Set now c k obj 0)
      | None \<Rightarrow> (True, Set now c k obj 0))"

section \<open>The contract of an expiring cache\<close>

definition wf_cache :: "'v cache \<Rightarrow> bool" where
  "wf_cache c \<longleftrightarrow> distinct (map fst (items c))"

locale expiring_cache =
  fixes get :: "int \<Rightarrow> 'c \<Rightarrow> string \<Rightarrow> 'v option"
    and put :: "int \<Rightarrow> 'c \<Rightarrow> string \<Rightarrow> 'v \<Rightarrow> int \<Rightarrow> 'c"
    and sweep :: "int \<Rightarrow> 'c \<Rightarrow> 'c"
    and inv :: "'c \<Rightarrow> bool"
  assumes get_put_same:
      "inv c \<Longrightarrow> 0 \<le> now \<Longrightarrow> 0 < d \<Longrightarrow> get t (put now c k x d) k = (if t \<le> now + d then Some x else None)"
    and get_put_other: "inv c \<Longrightarrow> k' \<noteq> k \<Longrightarrow> get t (put now c k x d) k' = get t c k'"
    and get_sweep: "inv c \<Longrightarrow> now \<le> t \<Longrightarrow> get t (sweep now c) k = get t c k"
    and inv_put: "inv c \<Longrightarrow> inv (put now c k x d)"
    and inv_sweep: "inv c \<Longrightarrow> inv (sweep now c)"
begin

text \<open>
  A history of the cache: writes and sweeps at given times. An entry is found
  until its time to live is over, unless it is overwritten, and sweeps are
  invisible.
\<close>

fun replay :: "(int \<times> (string \<times> 'v \<times> int) option) list \<Rightarrow> 'c \<Rightarrow> 'c" where
  "replay [] c = c"
| "replay ((now, None) # h) c = replay h (sweep now c)"
| "replay ((now, Some (k, x, d)) # h) c = replay h (put now c k x d)"

lemma inv_replay: "inv c \<Longrightarrow> inv (replay h c)"
  by (induction h c rule: replay.induct) (auto simp: inv_put inv_sweep)

lemma replay_untouched:
  assumes "inv c" and "\<forall>(now, op) \<in> set h. now \<le> t \<and> (\<forall>k' x d. op = Some (k', x, d) \<longrightarrow> k' \<noteq> k)"
  shows "get t (replay h c) k = get t c k"
  using assms
proof (induction h c rule: replay.induct)
  case (1 c)
  show ?case by simp
next
  case (2 now h c)
  then show ?case by (simp add: get_sweep inv_sweep)
next
  case (3 now k' x d h c)
  then show ?case by (simp add: get_put_other [OF _ not_sym] inv_put)
qed

lemma put_then_replay:
  assumes "inv c" and "0 \<le> now" and "0 < d" and "t \<le> now + d"
    and "\<forall>(now', op) \<in> set h. now' \<le> t \<and> (\<forall>k' x' d'. op = Some (k', x', d') \<longrightarrow> k' \<noteq> k)"
  shows "get t (replay h (put now c k x d)) k = Some x"
  using assms by (simp add: replay_untouched inv_put get_put_same)

end

lemma Get_Set_same:
  "0 \<le> now \<Longrightarrow> 0 < d \<Longrightarrow> Get t (Set now c k x d) k = (if t \<le> now + d then Some x else None)"
  by (auto simp: Get_def Set_def Let_def AList.update_conv')

lemma Get_Set_other: "k' \<noteq> k \<Longrightarrow> Get t (Set now c k x d) k' = Get t c k'"
  by (simp add: Get_def Set_def Let_def AList.update_conv')

lemma Get_Set_default:
  "0 \<le> now \<Longrightarrow> 0 < defaultExpiration c \<Longrightarrow>
     Get t (Set now c k x 0) k = (if t \<le> now + defaultExpiration c then Some x else None)"
  by (auto simp: Get_def Set_def Let_def AList.update_conv')

lemma wf_Set [simp]: "wf_cache c \<Longrightarrow> wf_cache (Set now c k x d)"
  by (simp add: wf_cache_def Set_def Let_def AList.distinct_update)

lemma defaultExpiration_Set [simp]: "defaultExpiration (Set now c k x d) = defaultExpiration c"
  by (simp add: Set_def Let_def)

lemma items_sweep_step:
  "items (sweep_step now x c) =
     (if Expiration (snd x) > 0 \<and> now > Expiration (snd x)
      then filter (\<lambda>kv. fst kv \<noteq> fst x) (items c) else items c)"
  by (auto simp: sweep_step_def Delete_def AList.delete_eq split_def intro: filter_cong)

lemma items_Delete_fold:
  "items (fold (sweep_step now) xs c) =
     filter (\<lambda>kv. \<not> (\<exists>v. (fst kv, v) \<in> set xs \<and> Expiration v > 0 \<and> now > Expiration v)) (items c)"
proof (induction xs arbitrary: c)
  case Nil
  show ?case by simp
next
  case (Cons x xs)
  show ?case
    by (cases x) (auto simp: Cons.IH items_sweep_step intro!: filter_cong)
qed

lemma items_DeleteExpired:
  assumes "wf_cache c"
  shows "items (DeleteExpired now c) =
           filter (\<lambda>(k, v). \<not> (Expiration v > 0 \<and> now > Expiration v)) (items c)"
  unfolding DeleteExpired_def items_Delete_fold
proof (rule filter_cong [OF refl])
  fix kv assume "kv \<in> set (items c)"
  then have "(fst kv, v) \<in> set (items c) \<longleftrightarrow> v = snd kv" for v
    using assms by (auto simp: wf_cache_def) (metis Pair_inject eq_key_imp_eq_value surjective_pairing)
  then show "(\<not> (\<exists>v. (fst kv, v) \<in> set (items c) \<and> Expiration v > 0 \<and> now > Expiration v)) =
        (case kv of (k, v) \<Rightarrow> \<not> (Expiration v > 0 \<and> now > Expiration v))"
    by (cases kv) auto
qed

lemma map_of_filter_snd:
  "distinct (map fst xs) \<Longrightarrow>
     map_of (filter (\<lambda>(k, v). P v) xs) k =
       (case map_of xs k of None \<Rightarrow> None | Some v \<Rightarrow> if P v then Some v else None)"
  by (induction xs) (auto simp: map_of_eq_None_iff split: option.splits dest: map_of_SomeD)

lemma Get_DeleteExpired:
  assumes "wf_cache c" and "now \<le> t"
  shows "Get t (DeleteExpired now c) k = Get t c k"
proof -
  have "map_of (items (DeleteExpired now c)) k =
      (case map_of (items c) k of None \<Rightarrow> None
       | Some v \<Rightarrow> if \<not> (Expiration v > 0 \<and> now > Expiration v) then Some v else None)"
    using assms(1) unfolding items_DeleteExpired [OF assms(1)]
    by (subst map_of_filter_snd) (simp_all add: wf_cache_def)
  then show ?thesis
    using assms(2) by (auto simp: Get_def split: option.splits)
qed

lemma wf_DeleteExpired: "wf_cache c \<Longrightarrow> wf_cache (DeleteExpired now c)"
  by (simp add: wf_cache_def items_DeleteExpired distinct_map_filter)

interpretation gc: expiring_cache Get Set DeleteExpired wf_cache
  by unfold_locales
     (simp_all add: Get_Set_same Get_Set_other Get_DeleteExpired wf_DeleteExpired)


section \<open>The janitor\<close>

text \<open>
  \<open>cache.New\<close> starts a janitor goroutine when the cleanup interval is positive. It
  sweeps at every tick until the cache is collected. A history interleaves its ticks
  with the operations of the other goroutines; every operation sees the clock.
\<close>

definition newCacheWithJanitor :: "int \<Rightarrow> int \<Rightarrow> 'v cache \<times> bool" where
  "newCacheWithJanitor expiryInterval cleanupInterval = (cache_New expiryInterval, cleanupInterval > 0)"

datatype 'v cache_op = OpGet string | OpSet string 'v int | OpTick

fun run_ops :: "bool \<Rightarrow> (int \<times> 'v cache_op) list \<Rightarrow> 'v cache \<Rightarrow> 'v option list" where
  "run_ops janitor [] c = []"
| "run_ops janitor ((now, OpGet k) # h) c = Get now c k # run_ops janitor h c"
| "run_ops janitor ((now, OpSet k x d) # h) c = run_ops janitor h (Set now c k x d)"
| "run_ops janitor ((now, OpTick) # h) c = run_ops janitor h (if janitor then DeleteExpired now c else c)"

text \<open>Two caches answer alike from a time on.\<close>

definition cache_agree :: "int \<Rightarrow> 'v cache \<Rightarrow> 'v cache \<Rightarrow> bool" where
  "cache_agree now c c' \<longleftrightarrow>
     wf_cache c \<and> wf_cache c' \<and> defaultExpiration c = defaultExpiration c' \<and> (\<forall>t k. now \<le> t \<longrightarrow> Get t c k = Get t c' k)"

lemma cache_agree_mono: "cache_agree now c c' \<Longrightarrow> now \<le> t \<Longrightarrow> cache_agree t c c'"
  by (auto simp: cache_agree_def)

lemma Get_Set_items: "map_of (items (Set now c k x d)) =
    (map_of (items c))(k \<mapsto> \<lparr>Object = x, Expiration = (let d = (if d = 0 then defaultExpiration c else d) in if d > 0 then now + d else 0)\<rparr>)"
  by (simp add: Set_def Let_def AList.update_conv')

lemma cache_agree_Set:
  assumes "cache_agree now c c'"
  shows "cache_agree now (Set now c k x d) (Set now c' k x d)"
proof -
  have "Get t (Set now c k x d) k' = Get t (Set now c' k x d) k'" if "now \<le> t" for t k'
  proof (cases "k' = k")
    case True
    with assms show ?thesis by (simp add: Get_def Get_Set_items cache_agree_def)
  next
    case False
    with assms that show ?thesis by (simp add: Get_Set_other cache_agree_def)
  qed
  with assms show ?thesis by (simp add: cache_agree_def wf_Set)
qed

lemma cache_agree_sweep:
  assumes "cache_agree now c c'"
  shows "cache_agree now (DeleteExpired now c) c'"
proof -
  have "defaultExpiration (fold (sweep_step now) xs c) = defaultExpiration c" for xs
    by (induction xs arbitrary: c) (simp_all add: sweep_step_def Delete_def)
  with assms show ?thesis
    by (simp add: cache_agree_def Get_DeleteExpired wf_DeleteExpired DeleteExpired_def [of now c])
       (simp add: Get_DeleteExpired [unfolded DeleteExpired_def] wf_DeleteExpired [unfolded DeleteExpired_def])
qed

text \<open>
  The janitor cannot be told from its absence: whatever the operations and ticks, in
  the order of the clock, every lookup gives what it gives without a janitor.
\<close>

theorem janitor_invisible:
  assumes "sorted (map fst h)" and "wf_cache c"
  shows "run_ops True h c = run_ops False h c"
proof -
  have "run_ops True h c = run_ops False h c'"
    if "sorted (map fst h)" and "\<forall>now \<in> fst ` set h. cache_agree now c c'" for c' and h :: "(int \<times> 'a cache_op) list"
    using that
  proof (induction h arbitrary: c c')
    case (Cons a h)
    obtain now op where a: "a = (now, op)" by (cases a)
    have later: "cache_agree t d d'" if "cache_agree now d d'" and "t \<in> fst ` set h" for t and d d' :: "'a cache"
      using that Cons.prems(1) a by (auto intro: cache_agree_mono)
    have now: "cache_agree now c c'" using Cons.prems(2) a by simp
    show ?case
    proof (cases op)
      case (OpGet k)
      moreover have "Get now c k = Get now c' k" using now by (simp add: cache_agree_def)
      ultimately show ?thesis using a later [OF now] Cons by auto
    next
      case (OpSet k x d)
      with a later [OF cache_agree_Set [OF now]] Cons show ?thesis by auto
    next
      case OpTick
      with a later [OF cache_agree_sweep [OF now]] Cons show ?thesis by auto
    qed
  qed simp
  with assms show ?thesis by (simp add: cache_agree_def)
qed

end
