(* ===== verification/Fencer.thy ===== *)
theory Fencer
  imports K8s_Trace Mem_K8s Toolkit Cache Nodes Volumes Provisioner
begin

text \<open>
  \<open>controllers/fencer\<close>: the stateless-action controller that deletes the pods of
  nodes StorageOS reports offline, so that they are rescheduled
  (\<open>fencer.go\<close>), and the poller that feeds node states into the object cache
  and the queue (\<open>reconciler.go\<close>, with the toolkit's cached enqueue handler).
\<close>

section \<open>State\<close>

record 'w node_fencer =
  nf_ListNodes :: "('w, goerr + NodeCR list) prog"
  nf_GetVolume :: "objkey \<Rightarrow> ('w, goerr + sobject) prog"

definition client_node_fencer :: "'w control_plane \<Rightarrow> client \<Rightarrow> 'w node_fencer" where
  "client_node_fencer cp c = \<lparr>nf_ListNodes = ListNodes cp c, nf_GetVolume = GetVolume cp c\<rparr>"

text \<open>
  The cache is shared with the poller, so a read finds it as it is in the world
  at that moment. \<open>fc_Convert\<close> is the scheme's conversion of a cached object
  into a \<open>Node\<close>.
\<close>

record 'w fence_controller =
  fc_Client :: "'w k8s_client"
  fc_api :: "'w node_fencer"
  fc_cache :: "'w \<Rightarrow> NodeCR cache"
  fc_now :: "'w \<Rightarrow> int"
  fc_Convert :: "NodeCR \<Rightarrow> goerr + NodeCR"

definition cacheGet :: "'w fence_controller \<Rightarrow> objkey \<Rightarrow> ('w, NodeCR option) ext" where
  "cacheGet c key w = (Get (fc_now c w) (fc_cache c w) (key_String key), w)"

definition node_key :: "NodeCR \<Rightarrow> objkey" where
  "node_key n = mk_key '''' (cr_Name n)"

section \<open>The stateless-action controller\<close>

definition GetObject :: "'w fence_controller \<Rightarrow> objkey \<Rightarrow> ('w, goerr + NodeCR option) prog" where
  "GetObject c key =
     bindP (callP (cacheGet c key)) (\<lambda>val. case val of
       None \<Rightarrow> retP (Inl ErrNodeNotCached)
     | Some val \<Rightarrow>
         (case fc_Convert c val of
            Inl err \<Rightarrow> retP (Inl (Opaque ''failed to convert cached object to Node'' err))
          | Inr n \<Rightarrow> retP (Inr (Some n))))"

definition RequireAction :: "'w fence_controller \<Rightarrow> NodeCR \<Rightarrow> ('w, goerr + bool) prog" where
  "RequireAction c n =
     bindP (callP (k8s_GetNode (fc_Client c) (mk_key '''' (cr_Name n)))) (\<lambda>r. case r of
       Inl err \<Rightarrow> if IsNotFound err then retP (Inr False) else retP (Inl err)
     | Inr k8sNode \<Rightarrow>
         if Health (cr_Status n) = NodeHealthOffline then retP (Inr True) else retP (Inr False))"

definition BuildActionManager :: "'w fence_controller \<Rightarrow> NodeCR \<Rightarrow> goerr + NodeCR" where
  "BuildActionManager c n = Inr n"

section \<open>Target pods\<close>

text \<open>The fenced label: a value that is not a boolean counts as not set.\<close>

definition pod_fenced :: "pod \<Rightarrow> bool" where
  "pod_fenced p =
     (case smap_get (meta_Labels (pod_meta p)) ReservedLabelFencing of
        None \<Rightarrow> False
      | Some v \<Rightarrow> (case ParseBool v of Inr enabled \<Rightarrow> enabled | Inl err \<Rightarrow> False))"

definition podPVCs_step ::
  "'w k8s_client \<Rightarrow> pod \<Rightarrow> pod_volume \<Rightarrow> pvc list \<times> goerr list \<Rightarrow> ('w, pvc list \<times> goerr list) prog" where
  "podPVCs_step k8s p vol st =
     (case st of (pvcs, errors) \<Rightarrow>
        (case pvol_ClaimName vol of
           None \<Rightarrow> retP (pvcs, errors)
         | Some claim \<Rightarrow>
             if claim = '''' then retP (pvcs, errors)
             else bindP (callP (k8s_GetPVC k8s (mk_key (meta_Namespace (pod_meta p)) claim))) (\<lambda>r. case r of
               Inl err \<Rightarrow> retP (pvcs, Append errors (Some err))
             | Inr c \<Rightarrow>
                 (case smap_get (meta_Annotations (pvc_meta c)) PVCProvisionerAnnotationKey of
                    Some provisioner \<Rightarrow>
                      if provisioner = DriverName then retP (pvcs @ [c], errors) else retP (pvcs, errors)
                  | None \<Rightarrow>
                      bindP (callP (k8s_GetPV k8s (mk_key '''' (pvc_VolumeName c)))) (\<lambda>r. case r of
                        Inl err \<Rightarrow> retP (pvcs, errors)
                      | Inr v \<Rightarrow>
                          if pv_CSI_Driver v = Some DriverName then retP (pvcs @ [c], errors)
                          else retP (pvcs, errors))))))"

definition podPVCs :: "'w k8s_client \<Rightarrow> pod \<Rightarrow> ('w, goerr + pvc list) prog" where
  "podPVCs k8s p =
     bindP (forP (podPVCs_step k8s p) (pod_Volumes p) ([], [])) (\<lambda>(pvcs, errors).
       case ErrorOrNil errors of Some e \<Rightarrow> retP (Inl e) | None \<Rightarrow> retP (Inr pvcs))"

definition volKeys :: "pvc list \<Rightarrow> objkey list" where
  "volKeys pvcs =
     map (\<lambda>c. mk_key (meta_Namespace (pvc_meta c)) (pvc_VolumeName c))
         (filter (\<lambda>c. pvc_VolumeName c \<noteq> '''') pvcs)"

definition getTargetPods :: "'w k8s_client \<Rightarrow> NodeCR \<Rightarrow> ('w, goerr + pod list) prog" where
  "getTargetPods k8s n =
     tryP (callP (k8s_ListPods k8s (cr_Name n))) (\<lambda>podList.
       forE (\<lambda>p needFencing.
         if \<not> pod_fenced p then retP (Inr needFencing)
         else tryP (mapErr (Opaque ''failed to get pvcs for pod'') (podPVCs k8s p)) (\<lambda>pvcs.
           if volKeys pvcs = [] then retP (Inr needFencing) else retP (Inr (needFencing @ [p]))))
       podList [])"

section \<open>Fencing\<close>

definition stosVolumes_step ::
  "'w node_fencer \<Rightarrow> objkey \<Rightarrow> sobject list \<Rightarrow> ('w, goerr + sobject list) prog" where
  "stosVolumes_step api key volumes =
     tryP (mapErr (Opaque ''failed to get storageos volume for pvc'') (nf_GetVolume api key)) (\<lambda>vol.
       retP (Inr (volumes @ [vol])))"

definition stosVolumes :: "'w node_fencer \<Rightarrow> objkey list \<Rightarrow> ('w, goerr + sobject list) prog" where
  "stosVolumes api keys = forE (stosVolumes_step api) keys []"

text \<open>The volume attachment of a claim; an attachment without a volume name is dereferenced.\<close>

fun pvcVA :: "pvc \<Rightarrow> volume_attachment list \<Rightarrow> volume_attachment option outcome" where
  "pvcVA c [] = Ret None"
| "pvcVA c (va # vas) =
     (case va_PersistentVolumeName va of
        None \<Rightarrow> Panic
      | Some name \<Rightarrow> if name = pvc_VolumeName c then Ret (Some va) else pvcVA c vas)"

definition deleteVA_step ::
  "'w k8s_client \<Rightarrow> volume_attachment list \<Rightarrow> pvc \<Rightarrow> unit \<Rightarrow> ('w, unit) prog" where
  "deleteVA_step k8s vaList c u =
     (case pvcVA c vaList of
        Panic \<Rightarrow> panicP
      | Ret None \<Rightarrow> retP ()
      | Ret (Some va) \<Rightarrow>
          if va_Attacher va \<noteq> DriverName then retP ()
          else bindP (callP (k8s_DeleteVolumeAttachment k8s va 0)) (\<lambda>_. retP ()))"

definition fencePod ::
  "'w k8s_client \<Rightarrow> 'w node_fencer \<Rightarrow> pod \<Rightarrow> volume_attachment list \<Rightarrow> ('w, error_or_nil) prog" where
  "fencePod k8s api p vaList =
     tryE (mapErr (Opaque ''failed to get pvcs for pod'') (podPVCs k8s p)) (\<lambda>pvcs.
     tryE (mapErr (Opaque ''failed to get storageos volumes for pod'') (stosVolumes api (volKeys pvcs))) (\<lambda>volumes.
       let canFailover = list_all IsHealthy volumes in
       if \<not> canFailover then retP None
       else bindP (callP (k8s_DeletePod k8s p 0)) (\<lambda>err. case err of
         Some e \<Rightarrow> retP (Some (Opaque ''failed to delete pod'' e))
       | None \<Rightarrow> bindP (forP (deleteVA_step k8s vaList) pvcs ()) (\<lambda>_. retP None))))"

definition fenceNode :: "'w k8s_client \<Rightarrow> 'w node_fencer \<Rightarrow> NodeCR \<Rightarrow> ('w, error_or_nil) prog" where
  "fenceNode k8s api n =
     tryE (callP (k8s_ListVolumeAttachments k8s (cr_Name n))) (\<lambda>vaList.
     tryE (getTargetPods k8s n) (\<lambda>podList.
       bindP (forP (\<lambda>p u. bindP (fencePod k8s api p vaList) (\<lambda>_. retP ())) podList ()) (\<lambda>_. retP None)))"

text \<open>\<open>Check\<close> refreshes the manager's node from the cache and asks whether to fence again.\<close>

definition Check :: "'w fence_controller \<Rightarrow> NodeCR \<Rightarrow> ('w, (goerr + bool) \<times> NodeCR) prog" where
  "Check c n =
     bindP (callP (cacheGet c (node_key n))) (\<lambda>val. case val of
       None \<Rightarrow> retP (Inl ErrNodeNotCached, n)
     | Some val \<Rightarrow>
         (case fc_Convert c val of
            Inl err \<Rightarrow> retP (Inl (Wrap err ''failed to convert cached object to Node''), n)
          | Inr n' \<Rightarrow>
              if Health (cr_Status n') \<noteq> NodeHealthOffline then retP (Inr False, n')
              else bindP (getTargetPods (fc_Client c) n') (\<lambda>r. case r of
                Inl err \<Rightarrow> retP (Inl (Wrap err ''failed to get target pods to fence''), n')
              | Inr podList \<Rightarrow> retP (Inr (0 < length podList), n'))))"

definition fenceActionManager :: "'w fence_controller \<Rightarrow> ('w, NodeCR, NodeCR) action_manager" where
  "fenceActionManager c =
     \<lparr>am_GetName = (\<lambda>obj. Inr (cr_Name obj)),
      am_GetObjects = (\<lambda>n. retP (Inr [n])),
      am_Run = (\<lambda>n obj. fenceNode (fc_Client c) (fc_api c) n),
      am_Defer = (\<lambda>obj. retP None),
      am_Check = (\<lambda>n obj. Check c n)\<rparr>"

definition fenceActionController :: "'w fence_controller \<Rightarrow> ('w, NodeCR, NodeCR) action_controller" where
  "fenceActionController c =
     \<lparr>ac_GetObject = GetObject c, ac_RequireAction = RequireAction c,
      ac_BuildActionManager = BuildActionManager c\<rparr>"

section \<open>Polling and enqueueing\<close>

abbreviation minPollInterval :: int where "minPollInterval \<equiv> 5000000000"

text \<open>The poll interval a reconciler is created with, in nanoseconds.\<close>

definition NewReconciler_pollInterval :: "int \<Rightarrow> int" where
  "NewReconciler_pollInterval pollInterval =
     (if pollInterval < minPollInterval then minPollInterval else pollInterval)"

text \<open>
  One tick of \<open>pollNodes\<close>: the node events it sends, and whether it asks for a
  reset of the API client.
\<close>

definition pollNodes_tick :: "'w node_fencer \<Rightarrow> ('w, NodeCR list \<times> bool) prog" where
  "pollNodes_tick api =
     bindP (nf_ListNodes api) (\<lambda>r. case r of
       Inl err \<Rightarrow> retP ([], True)
     | Inr nodes \<Rightarrow> retP (nodes, False))"

datatype poll_event = PollTick | PollCtxDone

primrec pollNodes :: "'w node_fencer \<Rightarrow> poll_event list \<Rightarrow> (NodeCR list \<times> nat) \<Rightarrow> ('w, NodeCR list \<times> nat) prog" where
  "pollNodes api [] st = retP st"
| "pollNodes api (ev # evs) st =
     (case ev of
        PollTick \<Rightarrow>
          bindP (pollNodes_tick api) (\<lambda>(sent, reset).
            pollNodes api evs (fst st @ sent, if reset then Suc (snd st) else snd st))
      | PollCtxDone \<Rightarrow> retP st)"

text \<open>
  Semantic equality of two nodes, which does not tell an empty map from a nil one,
  and the work queue, which holds a key once.
\<close>

definition node_equal :: "NodeCR \<Rightarrow> NodeCR \<Rightarrow> bool" where
  "node_equal a b \<longleftrightarrow>
     cr_Name a = cr_Name b \<and> cr_UID a = cr_UID b \<and> cr_ResourceVersion a = cr_ResourceVersion b \<and>
     cr_CreationTimestamp a = cr_CreationTimestamp b \<and>
     deep_equal (SMap (entries (cr_Labels a))) (SMap (entries (cr_Labels b))) \<and>
     cr_Spec a = cr_Spec b \<and> cr_Status a = cr_Status b"

definition enqueue :: "objkey \<Rightarrow> objkey list \<Rightarrow> objkey list" where
  "enqueue key q = (if key \<in> set q then q else q @ [key])"

definition EnqueueRequestFromCache ::
  "int \<Rightarrow> NodeCR \<Rightarrow> NodeCR cache \<times> objkey list \<Rightarrow> NodeCR cache \<times> objkey list" where
  "EnqueueRequestFromCache now obj st =
     (case st of (c, q) \<Rightarrow>
        (case CacheMiss node_equal (\<lambda>n. key_String (node_key n)) now c obj of
           (missed, c') \<Rightarrow> (c', if missed then enqueue (node_key obj) q else q)))"

section \<open>Traces of fencing\<close>

datatype fence_event =
    FK8s k8s_event
  | FListNodes "goerr + NodeCR list"
  | FGetVolume objkey "goerr + sobject"

definition traced_fencer :: "'w node_fencer \<Rightarrow> ('w, fence_event) traced node_fencer" where
  "traced_fencer api =
     \<lparr>nf_ListNodes = traceP FListNodes (nf_ListNodes api),
      nf_GetVolume = (\<lambda>key. traceP (FGetVolume key) (nf_GetVolume api key))\<rparr>"

definition traced_fence :: "'w fence_controller \<Rightarrow> ('w, fence_event) traced fence_controller" where
  "traced_fence c =
     \<lparr>fc_Client = traced_k8s FK8s (fc_Client c), fc_api = traced_fencer (fc_api c),
      fc_cache = (\<lambda>wt. fc_cache c (fst wt)), fc_now = (\<lambda>wt. fc_now c (fst wt)),
      fc_Convert = fc_Convert c\<rparr>"

lemma traced_fence_sel [simp]:
  "fc_Client (traced_fence c) = traced_k8s FK8s (fc_Client c)"
  "fc_api (traced_fence c) = traced_fencer (fc_api c)"
  "fc_Convert (traced_fence c) = fc_Convert c"
  by (simp_all add: traced_fence_def)

lemma traced_fencer_sel [simp]:
  "nf_GetVolume (traced_fencer api) key = traceP (FGetVolume key) (nf_GetVolume api key)"
  by (simp add: traced_fencer_def)

text \<open>
  What a fencing action may ask for: readings, the immediate deletion of pods
  that carry the fenced label, and the immediate deletion of volume attachments
  of the StorageOS driver.
\<close>

definition labelled_fenced :: "pod \<Rightarrow> bool" where
  "labelled_fenced p \<longleftrightarrow>
     (\<exists>v. smap_get (meta_Labels (pod_meta p)) ''storageos.com/fenced'' = Some v \<and>
          v \<in> {''1'', ''t'', ''T'', ''true'', ''TRUE'', ''True''})"

lemma pod_fenced_labelled: "pod_fenced p \<longleftrightarrow> labelled_fenced p"
  by (auto simp: pod_fenced_def labelled_fenced_def ParseBool_def split: option.splits)

primrec k8s_fence_ok :: "k8s_event \<Rightarrow> bool" where
  "k8s_fence_ok (KGetNode k r) = True"
| "k8s_fence_ok (KListPods k r) = True"
| "k8s_fence_ok (KDeletePod p g r) = (g = 0 \<and> labelled_fenced p)"
| "k8s_fence_ok (KListVolumeAttachments k r) = True"
| "k8s_fence_ok (KDeleteVolumeAttachment va g r) =
     (g = 0 \<and> va_Attacher va = DriverName \<and> va_PersistentVolumeName va \<noteq> None)"
| "k8s_fence_ok (KGetPVC k r) = True"
| "k8s_fence_ok (KUpdatePVC c r) = False"
| "k8s_fence_ok (KGetPV k r) = True"
| "k8s_fence_ok (KGetStorageClass k r) = False"
| "k8s_fence_ok (KListStorageClasses r) = False"
| "k8s_fence_ok (KGetService k r) = False"
| "k8s_fence_ok (KCreateService s r) = False"
| "k8s_fence_ok (KUpdateService s r) = False"
| "k8s_fence_ok (KGetEndpoints k r) = False"
| "k8s_fence_ok (KCreateEndpoints e r) = False"
| "k8s_fence_ok (KUpdateEndpoints e r) = False"
| "k8s_fence_ok (KGetSecret k r) = False"
| "k8s_fence_ok (KCreateSecret s r) = False"

primrec fence_ok :: "fence_event \<Rightarrow> bool" where
  "fence_ok (FK8s e) = k8s_fence_ok e"
| "fence_ok (FListNodes r) = True"
| "fence_ok (FGetVolume k r) = True"

lemma emits_podPVCs:
  assumes "\<And>k r. P (FK8s (KGetPVC k r))" and "\<And>k r. P (FK8s (KGetPV k r))"
  shows "emits P (podPVCs (traced_k8s FK8s k8s) p)"
  unfolding podPVCs_def podPVCs_step_def
  by (auto intro!: emits_intros assms split: prod.split option.split sum.split)

lemma emits_getTargetPods:
  assumes "\<And>n r. P (FK8s (KListPods n r))"
    and "\<And>k r. P (FK8s (KGetPVC k r))" and "\<And>k r. P (FK8s (KGetPV k r))"
  shows "emits P (getTargetPods (traced_k8s FK8s k8s) n)"
  unfolding getTargetPods_def
  by (auto intro!: emits_intros emits_podPVCs assms)

lemma emits_stosVolumes:
  assumes "\<And>k r. P (FGetVolume k r)"
  shows "emits P (stosVolumes (traced_fencer api) keys)"
  unfolding stosVolumes_def stosVolumes_step_def by (auto intro!: emits_intros assms)

lemma getTargetPods_fenced:
  assumes run: "getTargetPods k8s n w = (Ret (Inr pods), w')"
  shows "\<forall>p \<in> set pods. pod_fenced p"
proof -
  let ?body = "\<lambda>p ps. if \<not> pod_fenced p then retP (Inr ps)
       else tryP (mapErr (Opaque ''failed to get pvcs for pod'') (podPVCs k8s p)) (\<lambda>pvcs.
         if volKeys pvcs = [] then retP (Inr ps) else retP (Inr (ps @ [p])))"
  have body: "hoare (\<lambda>w. \<forall>p \<in> set ps. pod_fenced p) (?body p ps)
      (\<lambda>r w. case r of Inl e \<Rightarrow> True | Inr ps \<Rightarrow> \<forall>p \<in> set ps. pod_fenced p) (\<lambda>w. True)" for p ps
    by (auto simp: hoare_def tryP_run retP_run split: prod.split outcome.split sum.split)
  from run obtain l w1 where l: "forE ?body l [] w1 = (Ret (Inr pods), w')"
    unfolding getTargetPods_def by (auto simp: tryP_run split: prod.splits sum.splits)
  have "hoare (\<lambda>w. \<forall>p \<in> set []. pod_fenced p) (forE ?body l [])
      (\<lambda>r w. case r of Inl e \<Rightarrow> True | Inr ps \<Rightarrow> \<forall>p \<in> set ps. pod_fenced p) (\<lambda>w. True)"
    by (rule hoare_forE [where I = "\<lambda>ps w. \<forall>p \<in> set ps. pod_fenced p" and J = "\<lambda>e w. True"]) (rule body)
  from hoare_RetD [OF this _ l] show ?thesis by simp
qed

lemma pvcVA_Some:
  "pvcVA c vas = Ret (Some va) \<Longrightarrow> va \<in> set vas \<and> va_PersistentVolumeName va = Some (pvc_VolumeName c)"
  by (induction vas) (auto split: option.splits if_splits)

lemma emits_fencePod:
  assumes "pod_fenced p"
  shows "emits fence_ok (fencePod (traced_k8s FK8s k8s) (traced_fencer api) p vaList)"
proof -
  have "emits fence_ok (deleteVA_step (traced_k8s FK8s k8s) vaList c ())" for c
    unfolding deleteVA_step_def
    by (auto intro!: emits_intros split: outcome.split option.split dest: pvcVA_Some)
  then show ?thesis
    unfolding fencePod_def Let_def
    by (auto intro!: emits_intros emits_podPVCs emits_stosVolumes simp: assms [unfolded pod_fenced_labelled] split: option.split)
qed

lemma emits_fenceNode: "emits fence_ok (fenceNode (traced_k8s FK8s k8s) (traced_fencer api) n)"
proof -
  have "emits fence_ok (tryE (getTargetPods (traced_k8s FK8s k8s) n) (\<lambda>podList.
       bindP (forP (\<lambda>p u. bindP (fencePod (traced_k8s FK8s k8s) (traced_fencer api) p vaList) (\<lambda>_. retP ()))
                podList ()) (\<lambda>_. retP None)))" for vaList
    unfolding tryE_def
    by (rule emits_bindP_post [where R = "\<lambda>r. \<forall>pods. r = Inr pods \<longrightarrow> (\<forall>p \<in> set pods. pod_fenced p)"])
       (auto intro!: emits_intros emits_getTargetPods emits_fencePod split: sum.split
         dest: getTargetPods_fenced)
  moreover have "emits fence_ok (callP (k8s_ListVolumeAttachments (traced_k8s FK8s k8s) (cr_Name n)))"
    by (auto intro!: emits_intros)
  ultimately show ?thesis
    unfolding fenceNode_def by (rule emits_tryE [rotated])
qed

lemma emits_Check: "emits fence_ok (Check (traced_fence c) n)"
proof -
  have "emits P (callP (cacheGet (traced_fence c) key))" for P key
    by (simp add: emits_def cacheGet_def)
  then show ?thesis
    unfolding Check_def
    by (auto intro!: emits_intros emits_getTargetPods split: option.split sum.split)
qed

lemma fenceActionManager_sel [simp]:
  "am_GetName (fenceActionManager c) obj = Inr (cr_Name obj)"
  "am_GetObjects (fenceActionManager c) n = retP (Inr [n])"
  "am_Run (fenceActionManager c) n obj = fenceNode (fc_Client c) (fc_api c) n"
  "am_Defer (fenceActionManager c) obj = retP None"
  "am_Check (fenceActionManager c) n obj = Check c n"
  by (simp_all add: fenceActionManager_def)

interpretation fence: traced_action "fenceActionManager (traced_fence c)" fence_ok
  for c :: "'w fence_controller"
  by unfold_locales (simp_all add: emits_fenceNode emits_Check emits_intros)

section \<open>The order of a fencing run\<close>

definition fence_read :: "fence_event \<Rightarrow> bool" where
  "fence_read e = (case e of FK8s ev \<Rightarrow> \<not> k8s_write ev | FListNodes r \<Rightarrow> True | FGetVolume k r \<Rightarrow> True)"

definition va_deletion :: "pvc list \<Rightarrow> volume_attachment list \<Rightarrow> fence_event \<Rightarrow> bool" where
  "va_deletion pvcs vas e \<longleftrightarrow>
     (\<exists>va r c. e = FK8s (KDeleteVolumeAttachment va 0 r) \<and> va \<in> set vas \<and> va_Attacher va = DriverName \<and>
               c \<in> set pvcs \<and> va_PersistentVolumeName va = Some (pvc_VolumeName c))"

lemma stosVolumes_step_run:
  "stosVolumes_step (traced_fencer api) k acc (w, tr) =
     (case nf_GetVolume api k w of
        (Ret (Inr v), w1) \<Rightarrow> (Ret (Inr (acc @ [v])), (w1, tr @ [FGetVolume k (Inr v)]))
      | (Ret (Inl e), w1) \<Rightarrow>
          (Ret (Inl (Opaque ''failed to get storageos volume for pvc'' e)), (w1, tr @ [FGetVolume k (Inl e)]))
      | (Panic, w1) \<Rightarrow> (Panic, (w1, tr)))"
  by (simp add: stosVolumes_step_def tryP_run mapErr_run traceP_def retP_run
      split: prod.split outcome.split sum.split)

lemma stosVolumes_loop_trace:
  "forE (stosVolumes_step (traced_fencer api)) keys acc (w, tr) = (Ret (Inr res), (w', tr')) \<Longrightarrow>
   \<exists>vols. res = acc @ vols \<and> length vols = length keys \<and>
          tr' = tr @ map2 (\<lambda>k v. FGetVolume k (Inr v)) keys vols"
proof (induction keys arbitrary: acc w tr)
  case Nil
  then show ?case by (simp add: retP_run)
next
  case (Cons k ks)
  then obtain v w1 where
    "forE (stosVolumes_step (traced_fencer api)) ks (acc @ [v]) (w1, tr @ [FGetVolume k (Inr v)]) =
       (Ret (Inr res), (w', tr'))"
    by (auto simp: tryP_run stosVolumes_step_run split: prod.splits outcome.splits sum.splits)
  from Cons.IH [OF this] obtain vols where
    "res = (acc @ [v]) @ vols" "length vols = length ks"
    "tr' = (tr @ [FGetVolume k (Inr v)]) @ map2 (\<lambda>k v. FGetVolume k (Inr v)) ks vols" by blast
  then show ?case by (intro exI [of _ "v # vols"]) simp
qed

lemma stosVolumes_trace:
  "stosVolumes (traced_fencer api) keys (w, tr) = (Ret (Inr vols), (w', tr')) \<Longrightarrow>
     length vols = length keys \<and> tr' = tr @ map2 (\<lambda>k v. FGetVolume k (Inr v)) keys vols"
  unfolding stosVolumes_def by (drule stosVolumes_loop_trace) auto

lemma emits_deleteVA_loop:
  "emits (va_deletion pvcs vas) (bindP (forP (deleteVA_step (traced_k8s FK8s k8s) vas) pvcs ()) (\<lambda>_. retP None))"
  unfolding deleteVA_step_def
  by (auto intro!: emits_intros split: outcome.split option.split
      simp: va_deletion_def dest!: pvcVA_Some) blast

section \<open>Properties\<close>

text \<open>
  C17. A fencing action, with all its retries, changes nothing but what fencing is
  for: whatever Kubernetes and StorageOS answer and however often the action is
  retried, the only changes it asks for are immediate deletions of pods whose
  fenced label is true and of volume attachments of the StorageOS driver.
\<close>

theorem fencing_action_safe:
  "emits fence_ok (RunAction (fenceActionManager (traced_fence c)) n obj evs)"
  by (rule fence.emits_RunAction)

text \<open>With healthy volumes the pod is deleted, and then only attachments of its claims.\<close>

lemma fencePod_healthy_trace:
  assumes p1: "podPVCs (traced_k8s FK8s k8s) p (w, tr0) = (Ret (Inr pvcs), (w1, reads))"
    and p2: "stosVolumes (traced_fencer api) (volKeys pvcs) (w1, reads) = (Ret (Inr vols), (w2, tr2))"
    and healthy: "list_all IsHealthy vols"
    and run: "fencePod (traced_k8s FK8s k8s) (traced_fencer api) p vas (w, tr0) = (r, (w', tr))"
  shows "\<exists>dres dels. tr = tr2 @ FK8s (KDeletePod p 0 dres) # dels \<and> list_all (va_deletion pvcs vas) dels"
proof -
  obtain dres w3 where d: "k8s_DeletePod k8s p 0 w2 = (dres, w3)" by (metis surj_pair)
  let ?loop = "bindP (forP (deleteVA_step (traced_k8s FK8s k8s) vas) pvcs ()) (\<lambda>_. retP (None :: error_or_nil))"
  have "tr = (case dres of Some e \<Rightarrow> tr2 @ [FK8s (KDeletePod p 0 dres)]
              | None \<Rightarrow> snd (snd (?loop (w3, tr2 @ [FK8s (KDeletePod p 0 dres)]))))"
    using run p1 p2 healthy d
    by (auto simp: fencePod_def tryE_run mapErr_run retP_run Let_def traceX_run split: option.splits)
  moreover have "emits (va_deletion pvcs vas) ?loop" by (rule emits_deleteVA_loop)
  then obtain dels where
    "snd (snd (?loop (w3, tr2 @ [FK8s (KDeletePod p 0 dres)]))) =
       (tr2 @ [FK8s (KDeletePod p 0 dres)]) @ dels" "list_all (va_deletion pvcs vas) dels"
    unfolding emits_def by blast
  ultimately show ?thesis by (cases dres) auto
qed

text \<open>
  C18. A pod is deleted only after every StorageOS volume of its claims has been
  found healthy. A run of \<open>fencePod\<close> either only reads, or it reads the pod's
  claims, gets for each claim with a volume name that volume and finds it
  healthy, deletes this pod, and then deletes only attachments from the given
  list, of the StorageOS driver, for volumes of these claims.
\<close>

theorem fencePod_order:
  "case fencePod (traced_k8s FK8s k8s) (traced_fencer api) p vas (w, []) of (r, w', tr) \<Rightarrow>
     list_all fence_read tr \<or>
     (\<exists>pvcs vols reads w1 dres dels.
        tr = reads @ map2 (\<lambda>k v. FGetVolume k (Inr v)) (volKeys pvcs) vols @
             FK8s (KDeletePod p 0 dres) # dels \<and>
        podPVCs (traced_k8s FK8s k8s) p (w, []) = (Ret (Inr pvcs), (w1, reads)) \<and>
        list_all fence_read reads \<and>
        length vols = length (volKeys pvcs) \<and> list_all IsHealthy vols \<and>
        list_all (va_deletion pvcs vas) dels)"
proof -
  let ?k = "traced_k8s FK8s k8s" and ?a = "traced_fencer api"
  have rd: "emits fence_read (podPVCs ?k p)" "emits fence_read (stosVolumes ?a keys)" for keys
    by (auto intro!: emits_podPVCs emits_stosVolumes simp: fence_read_def)
  obtain r w' tr where run: "fencePod ?k ?a p vas (w, []) = (r, (w', tr))" by (metis prod.collapse)
  obtain o1 w1 reads where p1: "podPVCs ?k p (w, []) = (o1, (w1, reads))" by (metis prod.collapse)
  have reads: "list_all fence_read reads" by (rule emits_start [OF rd(1) p1])
  show ?thesis
  proof (cases "\<exists>pvcs. o1 = Ret (Inr pvcs)")
    case False
    with run p1 have "tr = reads"
      by (auto simp: fencePod_def tryE_run mapErr_run split: outcome.splits sum.splits)
    with reads run show ?thesis by simp
  next
    case True
    then obtain pvcs where pvcs: "o1 = Ret (Inr pvcs)" by blast
    obtain o2 w2 tr2 where p2: "stosVolumes ?a (volKeys pvcs) (w1, reads) = (o2, (w2, tr2))"
      by (metis prod.collapse)
    from emitsD [OF rd(2) p2] obtain gets where gets: "tr2 = reads @ gets" "list_all fence_read gets" by blast
    show ?thesis
    proof (cases "\<exists>vols. o2 = Ret (Inr vols) \<and> list_all IsHealthy vols")
      case False
      with run p1 pvcs p2 have "tr = tr2"
        by (auto simp: fencePod_def tryE_run mapErr_run retP_run Let_def split: outcome.splits sum.splits)
      with reads gets run show ?thesis by simp
    next
      case True
      then obtain vols where vols: "o2 = Ret (Inr vols)" "list_all IsHealthy vols" by blast
      from stosVolumes_trace [OF p2 [unfolded vols(1)]]
      have len: "length vols = length (volKeys pvcs)"
        and tr2: "tr2 = reads @ map2 (\<lambda>k v. FGetVolume k (Inr v)) (volKeys pvcs) vols" by auto
      from fencePod_healthy_trace [OF p1 [unfolded pvcs] p2 [unfolded vols(1)] vols(2) run] obtain dres dels where
        "tr = tr2 @ FK8s (KDeletePod p 0 dres) # dels" "list_all (va_deletion pvcs vas) dels" by blast
      with run p1 pvcs reads len tr2 vols show ?thesis by auto
    qed
  qed
qed

text \<open>
  C19. When a fencing action is started. For a key that is queued, the reconciler
  looks the node up in the cache as it is then, and starts exactly one action,
  for that node, when the Kubernetes node exists and the cached state is offline.
  A node missing in the cache, a failed conversion and a failed lookup (other
  than not found) are returned as errors, and nothing is started.
\<close>

theorem fencer_reconcile:
  "ActionReconcile (fenceActionController c) (fenceActionManager c) req w =
     (case Get (fc_now c w) (fc_cache c w) (key_String req) of
        None \<Rightarrow> (Ret (Some ErrNodeNotCached, None), w)
      | Some val \<Rightarrow>
          (case fc_Convert c val of
             Inl err \<Rightarrow> (Ret (Some (Opaque ''failed to convert cached object to Node'' err), None), w)
           | Inr n \<Rightarrow>
               (case k8s_GetNode (fc_Client c) (mk_key '''' (cr_Name n)) w of
                  (Inl err, w1) \<Rightarrow> (Ret (if IsNotFound err then None else Some err, None), w1)
                | (Inr kn, w1) \<Rightarrow>
                    (Ret (None, if Health (cr_Status n) = NodeHealthOffline then Some (n, [n]) else None), w1))))"
  by (simp add: ActionReconcile_def fenceActionController_def GetObject_def cacheGet_def RequireAction_def
      RunActionManager_def BuildActionManager_def IgnoreNotFound_def prog_simps bindP_def
      split: option.split sum.split prod.split)

text \<open>
  The cache files every node under its own key. The handler that feeds it keeps
  this, as do the sweeps of expired entries.
\<close>

definition cache_filed :: "NodeCR cache \<Rightarrow> bool" where
  "cache_filed c \<longleftrightarrow> (\<forall>k it. map_of (items c) k = Some it \<longrightarrow> k = key_String (node_key (Object it)))"

lemma cache_filed_New: "cache_filed (cache_New d)"
  by (simp add: cache_filed_def cache_New_def)

lemma cache_filed_Enqueue:
  "cache_filed c \<Longrightarrow> cache_filed (fst (EnqueueRequestFromCache now obj (c, q)))"
  by (auto simp: cache_filed_def EnqueueRequestFromCache_def CacheMiss_def Set_def Let_def AList.update_conv'
      split: option.splits if_splits)

lemma cache_filed_Delete: "cache_filed c \<Longrightarrow> cache_filed (Delete c k)"
  unfolding cache_filed_def Delete_def by (simp add: AList.delete_conv')

lemma cache_filed_DeleteExpired: "cache_filed c \<Longrightarrow> cache_filed (DeleteExpired now c)"
proof -
  have "cache_filed c \<Longrightarrow> cache_filed (fold (sweep_step now) kvs c)" for kvs
    by (induction kvs arbitrary: c) (simp_all add: sweep_step_def cache_filed_Delete)
  then show "cache_filed c \<Longrightarrow> cache_filed (DeleteExpired now c)" by (simp add: DeleteExpired_def)
qed

lemma cache_filed_Get: "cache_filed c \<Longrightarrow> Get now c (key_String (node_key n)) = Some m \<Longrightarrow> node_key m = node_key n"
proof -
  assume "cache_filed c" "Get now c (key_String (node_key n)) = Some m"
  then obtain it where "map_of (items c) (key_String (node_key n)) = Some it" "m = Object it"
    by (auto simp: Get_def split: option.splits if_splits)
  with \<open>cache_filed c\<close> have "key_String (node_key n) = key_String (node_key m)"
    unfolding cache_filed_def by blast
  then show ?thesis by (simp add: node_key_def key_String_def)
qed

lemma no_panic_podPVCs [simp, intro]: "no_panic (podPVCs k8s p)"
  unfolding podPVCs_def podPVCs_step_def
  by (auto intro!: no_panic_bindP no_panic_forP split: prod.splits option.splits sum.splits)

lemma no_panic_getTargetPods [simp, intro]: "no_panic (getTargetPods k8s n)"
  unfolding getTargetPods_def
  by (auto intro!: no_panic_tryP no_panic_forE no_panic_mapErr)

lemma no_panic_Check: "no_panic (Check c n)"
  unfolding Check_def by (auto intro!: no_panic_bindP split: option.splits sum.splits)

text \<open>The attachments a client lists all name their volume.\<close>

definition attachments_named :: "'w k8s_client \<Rightarrow> bool" where
  "attachments_named k8s \<longleftrightarrow>
     (\<forall>name w vas w'. k8s_ListVolumeAttachments k8s name w = (Inr vas, w') \<longrightarrow>
        (\<forall>va \<in> set vas. va_PersistentVolumeName va \<noteq> None))"

lemma pvcVA_no_panic: "\<forall>va \<in> set vas. va_PersistentVolumeName va \<noteq> None \<Longrightarrow> pvcVA c vas \<noteq> Panic"
  by (induction c vas rule: pvcVA.induct) (auto split: option.splits)

lemma no_panic_fencePod:
  assumes "\<And>key. no_panic (nf_GetVolume api key)"
    and "\<forall>va \<in> set vas. va_PersistentVolumeName va \<noteq> None"
  shows "no_panic (fencePod k8s api p vas)"
  using assms(1) pvcVA_no_panic [OF assms(2)]
  unfolding fencePod_def stosVolumes_def stosVolumes_step_def deleteVA_step_def Let_def
  by (auto intro!: no_panic_tryE no_panic_tryP no_panic_bindP no_panic_forE no_panic_forP no_panic_mapErr
      split: outcome.splits option.splits)

lemma no_panic_fenceNode:
  assumes "\<And>key. no_panic (nf_GetVolume api key)" and "attachments_named k8s"
  shows "no_panic (fenceNode k8s api n)"
proof -
  have "no_panic (tryE (getTargetPods k8s n) (\<lambda>podList.
          bindP (forP (\<lambda>p u. bindP (fencePod k8s api p vas) (\<lambda>_. retP ())) podList ()) (\<lambda>_. retP None)))"
    if "\<forall>va \<in> set vas. va_PersistentVolumeName va \<noteq> None" for vas
    using no_panic_fencePod [OF assms(1) that]
    by (auto intro!: no_panic_tryE no_panic_bindP no_panic_forP)
  note rest = this
  show ?thesis
    unfolding no_panic_def
  proof
    fix w
    obtain l w1 where l: "k8s_ListVolumeAttachments k8s (cr_Name n) w = (l, w1)" by (metis surj_pair)
    show "fst (fenceNode k8s api n w) \<noteq> Panic"
    proof (cases l)
      case (Inl e)
      with l show ?thesis by (simp add: fenceNode_def tryE_run callP_run retP_run)
    next
      case (Inr vas)
      with assms(2) l have "\<forall>va \<in> set vas. va_PersistentVolumeName va \<noteq> None"
        unfolding attachments_named_def by blast
      from rest [OF this] Inr l show ?thesis
        unfolding no_panic_def by (simp add: fenceNode_def tryE_run [of "callP _"] callP_run)
    qed
  qed
qed

text \<open>A check looks at the node's own cache entry and keeps the node's key.\<close>

lemma Check_keeps_key:
  assumes "\<And>w. cache_filed (fc_cache c w)" and "\<And>v m. fc_Convert c v = Inr m \<Longrightarrow> cr_Name m = cr_Name v"
    and "Check c n w = (Ret (r, n'), w')"
  shows "node_key n' = node_key n"
  using assms cache_filed_Get [OF assms(1)]
  by (auto simp: Check_def cacheGet_def bindP_run retP_run node_key_def
      split: option.splits sum.splits if_splits prod.splits outcome.splits)

lemma Check_done:
  assumes "Check c n w = (Ret (Inr False, n'), w')"
  shows "\<exists>val. Get (fc_now c w) (fc_cache c w) (key_String (node_key n)) = Some val \<and>
          fc_Convert c val = Inr n' \<and>
          (Health (cr_Status n') \<noteq> NodeHealthOffline \<and> w' = w \<or>
           getTargetPods (fc_Client c) n' w = (Ret (Inr []), w'))"
  using assms
  by (auto simp: Check_def cacheGet_def bindP_run retP_run
      split: option.splits sum.splits if_splits prod.splits outcome.splits)

text \<open>
  C20. How a fencing action of the node \<open>n\<close> ends. It runs until it succeeds or its
  context is done, and never returns an error. It succeeds only on a check of the
  cache entry of \<open>n\<close> itself that found the node no longer offline, or without any
  fenced pod with a StorageOS volume left on it; and a first check that finds it
  no longer offline ends the action at once, while one that finds it offline with
  pods left fences it again. It panics only when reading a volume does, or an
  attachment is listed without the name of its volume. The hypotheses are what the
  handler feeding the cache keeps, and that the conversion keeps the name.
\<close>

theorem fencing_action_end:
  assumes "\<And>w. cache_filed (fc_cache c w)" and "\<And>v m. fc_Convert c v = Inr m \<Longrightarrow> cr_Name m = cr_Name v"
  shows "(case RunAction (fenceActionManager c) n obj evs w of
     (Ret (Inl err), w') \<Rightarrow> False
   | (Ret (Inr (ActRunning n', e)), w') \<Rightarrow> ActionCtxDone \<notin> set evs \<and> e = None
   | (Ret (Inr (ActCancelled n', e)), w') \<Rightarrow> ActionCtxDone \<in> set evs \<and> e = None
   | (Ret (Inr (ActSucceeded n', e)), w') \<Rightarrow> e = None \<and> node_key n' = node_key n \<and>
       (\<exists>w0 val. Get (fc_now c w0) (fc_cache c w0) (key_String (node_key n)) = Some val \<and>
          fc_Convert c val = Inr n' \<and>
          (Health (cr_Status n') \<noteq> NodeHealthOffline \<and> w' = w0 \<or>
           getTargetPods (fc_Client c) n' w0 = (Ret (Inr []), w')))
   | (Panic, w') \<Rightarrow> (\<exists>key. \<not> no_panic (nf_GetVolume (fc_api c) key)) \<or> \<not> attachments_named (fc_Client c)) \<and>
   (\<forall>e w1 val n'. fenceNode (fc_Client c) (fc_api c) n w = (Ret e, w1) \<and>
      Get (fc_now c w1) (fc_cache c w1) (key_String (node_key n)) = Some val \<and> fc_Convert c val = Inr n' \<longrightarrow>
      (Health (cr_Status n') \<noteq> NodeHealthOffline \<longrightarrow>
         RunAction (fenceActionManager c) n obj (RetryPeriodElapsed # evs) w =
           (Ret (Inr (ActSucceeded n', None)), w1)) \<and>
      (\<forall>pods w2. Health (cr_Status n') = NodeHealthOffline \<and> pods \<noteq> [] \<and>
         getTargetPods (fc_Client c) n' w1 = (Ret (Inr pods), w2) \<longrightarrow>
         RunAction (fenceActionManager c) n obj (RetryPeriodElapsed # evs) w =
           RunAction (fenceActionManager c) n' obj evs w2))"
proof (intro conjI, goal_cases)
  case 1
  let ?am = "fenceActionManager c"
  obtain o1 w1 where r1: "fenceNode (fc_Client c) (fc_api c) n w = (o1, w1)" by (metis surj_pair)
  obtain o2 w2 where r2: "retry_loop ?am obj evs n w1 = (o2, w2)" by (metis surj_pair)
  show ?case
  proof (cases "o1 = Panic \<or> o2 = Panic")
    case True
    have "\<not> ((\<forall>key. no_panic (nf_GetVolume (fc_api c) key)) \<and> attachments_named (fc_Client c))"
    proof
      assume "(\<forall>key. no_panic (nf_GetVolume (fc_api c) key)) \<and> attachments_named (fc_Client c)"
      then have run: "no_panic (fenceNode (fc_Client c) (fc_api c) m)" for m
        by (auto intro: no_panic_fenceNode)
      then have "no_panic (retry_loop ?am obj evs n)"
        by (auto intro!: no_panic_retry_loop no_panic_Check)
      with run True r1 r2 show False by (metis fst_conv no_panic_def)
    qed
    with True r1 r2 show ?thesis by (cases o1) (auto simp: RunAction_def bindP_run)
  next
    case False
    then obtain e st where st: "o1 = Ret e" "o2 = Ret st" by (meson outcome.exhaust)
    have "case st of
          ActRunning s' \<Rightarrow> ActionCtxDone \<notin> set evs
        | ActCancelled s' \<Rightarrow> ActionCtxDone \<in> set evs
        | ActSucceeded s' \<Rightarrow>
            (\<exists>s0 w0. node_key s0 = node_key n \<and> am_Check ?am s0 obj w0 = (Ret (Inr False, s'), w2))"
      by (rule retry_loop_cases [OF r2 [unfolded st]])
         (simp_all, metis Check_keeps_key [OF assms])
    then have "case st of
          ActRunning s' \<Rightarrow> ActionCtxDone \<notin> set evs
        | ActCancelled s' \<Rightarrow> ActionCtxDone \<in> set evs
        | ActSucceeded n' \<Rightarrow> node_key n' = node_key n \<and>
            (\<exists>w0 val. Get (fc_now c w0) (fc_cache c w0) (key_String (node_key n)) = Some val \<and>
               fc_Convert c val = Inr n' \<and>
               (Health (cr_Status n') \<noteq> NodeHealthOffline \<and> w2 = w0 \<or>
                getTargetPods (fc_Client c) n' w0 = (Ret (Inr []), w2)))"
      by (cases st) (simp_all, metis Check_done Check_keeps_key [OF assms])
    with r1 r2 st show ?thesis
      by (cases st) (simp_all add: RunAction_def bindP_run retP_run)
  qed
next
  case 2
  show ?case
    by (auto simp: RunAction_def Check_def cacheGet_def bindP_run retP_run
        split: prod.split outcome.split)
qed

text \<open>A cluster without pods, and the cache the handler filled with an offline node.\<close>

definition sample_offline :: NodeCR where
  "sample_offline = nodeToCR (sample_node\<lparr>node_Health := NODEHEALTH_OFFLINE\<rparr>)"

definition sample_fence_controller :: "mem fence_controller" where
  "sample_fence_controller =
     \<lparr>fc_Client = empty_k8s\<lparr>k8s_ListPods := (\<lambda>n w. (Inr [], w)),
                              k8s_ListVolumeAttachments := (\<lambda>n w. (Inr [], w))\<rparr>,
      fc_api = client_node_fencer mem_cp NewTestAPIClient,
      fc_cache = (\<lambda>w. fst (EnqueueRequestFromCache 7 sample_offline (cache_New 60, []))),
      fc_now = (\<lambda>w. 9), fc_Convert = Inr\<rparr>"

theorem fencing_action_end_witness:
  "RunAction (fenceActionManager sample_fence_controller) sample_offline sample_offline
       [RetryPeriodElapsed, ActionCtxDone] sample_mem =
     (Ret (Inr (ActSucceeded sample_offline, None)), sample_mem) \<and>
   (\<exists>w0 val. Get (fc_now sample_fence_controller w0) (fc_cache sample_fence_controller w0)
        (key_String (node_key sample_offline)) = Some val)"
proof -
  have filed: "cache_filed (fc_cache sample_fence_controller w)" for w
    by (simp add: sample_fence_controller_def cache_filed_Enqueue cache_filed_New)
  have conv: "fc_Convert sample_fence_controller v = Inr m \<Longrightarrow> cr_Name m = cr_Name v" for v m
    by (simp add: sample_fence_controller_def)
  have run: "RunAction (fenceActionManager sample_fence_controller) sample_offline sample_offline
       [RetryPeriodElapsed, ActionCtxDone] sample_mem =
     (Ret (Inr (ActSucceeded sample_offline, None)), sample_mem)"
    by (simp add: RunAction_def sample_fence_controller_def fenceNode_def getTargetPods_def Check_def
        cacheGet_def EnqueueRequestFromCache_def CacheMiss_def cache_New_def Get_def Set_def Let_def
        prog_simps bindP_def callP_def)
  then show ?thesis
    using fencing_action_end [OF filed conv, where n = sample_offline and obj = sample_offline
        and evs = "[RetryPeriodElapsed, ActionCtxDone]" and w = sample_mem] by auto
qed

text \<open>
  C21. Node states reach the queue. A state that is not in the cache, or differs
  from the cached one, is cached and its key queued; from then on an equal state
  is not queued again while the entry lives, and is queued once more when it has
  expired, so that an offline node is looked at again at least once per expiry
  interval.
\<close>

theorem EnqueueRequestFromCache_changes:
  assumes "0 \<le> now" and "0 < defaultExpiration c"
    and "\<forall>cached. Get now c (key_String (node_key obj)) = Some cached \<longrightarrow> \<not> node_equal cached obj"
    and "node_equal obj obj'"
    and "EnqueueRequestFromCache now obj (c, q) = (c', q')"
  shows "node_key obj \<in> set q' \<and>
         Get now c' (key_String (node_key obj)) = Some obj \<and>
         (\<forall>t q1. now \<le> t \<and> t \<le> now + defaultExpiration c \<longrightarrow>
            EnqueueRequestFromCache t obj' (c', q1) = (c', q1)) \<and>
         (\<forall>t q1. now + defaultExpiration c < t \<longrightarrow>
            node_key obj \<in> set (snd (EnqueueRequestFromCache t obj' (c', q1))))"
proof -
  let ?k = "key_String (node_key obj)"
  have k: "node_key obj' = node_key obj" using assms(4) by (simp add: node_equal_def node_key_def)
  have c': "c' = Set now c ?k obj 0" and q': "q' = enqueue (node_key obj) q"
    using assms(3,5) by (auto simp: EnqueueRequestFromCache_def CacheMiss_def Let_def split: option.splits)
  have get: "Get t c' ?k = (if t \<le> now + defaultExpiration c then Some obj else None)" for t
    using assms(1,2) unfolding c' by (rule Get_Set_default)
  show ?thesis
    using assms(2,4) get q' k
    by (auto simp: EnqueueRequestFromCache_def CacheMiss_def Let_def enqueue_def)
qed

theorem EnqueueRequestFromCache_changes_witness:
  "node_key (nodeToCR sample_node) \<in>
     set (snd (EnqueueRequestFromCache 7 (nodeToCR sample_node) (cache_New 60, [])))"
proof -
  have "node_equal (nodeToCR sample_node) (nodeToCR sample_node)"
    by (simp add: node_equal_def nodeToCR_def sample_node_def Let_def)
  then show ?thesis
    using EnqueueRequestFromCache_changes
      [of 7 "cache_New 60" "nodeToCR sample_node" "nodeToCR sample_node" "[]"]
    by (cases "EnqueueRequestFromCache 7 (nodeToCR sample_node) (cache_New 60, [])")
       (simp add: cache_New_def Get_def)
qed

text \<open>
  C22. An attachment without a persistent volume name (an inline volume) at the
  head of the node's attachments makes the fencing of a pod panic after the pod
  has been deleted.
\<close>

theorem fencePod_inline_attachment_panics:
  assumes "podPVCs k8s p w = (Ret (Inr (cl # cls)), w1)"
    and "stosVolumes api (volKeys (cl # cls)) w1 = (Ret (Inr vols), w2)" and "list_all IsHealthy vols"
    and "k8s_DeletePod k8s p 0 w2 = (None, w3)"
    and "va_PersistentVolumeName va = None"
  shows "fencePod k8s api p (va # vas) w = (Panic, w3)"
  using assms
  by (simp add: fencePod_def tryE_run mapErr_run Let_def bindP_run deleteVA_step_def panicP_run)

definition sample_fence_k8s :: "mem k8s_client" where
  "sample_fence_k8s = empty_k8s\<lparr>k8s_GetPVC := (\<lambda>k w. (Inr sample_pvc, w))\<rparr>"

theorem fencePod_inline_attachment_panics_witness:
  "fencePod sample_fence_k8s (client_node_fencer mem_cp NewTestAPIClient) sample_pod
     [\<lparr>va_meta = empty_meta, va_Attacher = ''inline'', va_NodeName = ''worker-1'',
       va_PersistentVolumeName = None\<rparr>] sample_mem = (Panic, sample_mem)"
proof (rule fencePod_inline_attachment_panics)
  show "podPVCs sample_fence_k8s sample_pod sample_mem = (Ret (Inr [sample_pvc]), sample_mem)"
    by (simp add: podPVCs_def podPVCs_step_def sample_pod_def sample_fence_k8s_def sample_pvc_def
        smap_get_def empty_meta_def prog_simps ErrorOrNil_def bindP_def)
  show "stosVolumes (client_node_fencer mem_cp NewTestAPIClient) (volKeys [sample_pvc]) sample_mem =
          (Ret (Inr [volume_object sample_volume]), sample_mem)"
    by (simp add: stosVolumes_def stosVolumes_step_def volKeys_def sample_pvc_def empty_meta_def
        client_node_fencer_def GetVolume_def getVolume_sample tryP_run mapErr_run retP_run)
  show "list_all IsHealthy [volume_object sample_volume]"
    by (simp add: volume_object_def sample_volume_def)
qed (simp_all add: sample_fence_k8s_def empty_k8s_def)

end
