(* ===== verification/Shared_Volume.thy ===== *)
theory Shared_Volume
  imports Volumes K8s
begin

text \<open>
  Shared volumes in the client: \<open>internal/pkg/endpoint/endpoint.go\<close>,
  \<open>internal/pkg/storageos/shared_volume_types.go\<close> (the Kubernetes service and
  endpoints a shared volume stands for) and \<open>shared_volume.go\<close> (listing them and
  publishing their external endpoint).
\<close>

section \<open>Endpoints\<close>

definition SplitAddressPort :: "string \<Rightarrow> goerr + (string \<times> int)" where
  "SplitAddressPort endpoint =
     (case SplitHostPort endpoint of
        Inl err \<Rightarrow> Inl err
      | Inr (address, port) \<Rightarrow>
          (case Atoi port of
             Inl err \<Rightarrow> Inl err
           | Inr portNum \<Rightarrow> Inr (address, portNum)))"

section \<open>The shared volume and its Kubernetes objects\<close>

abbreviation NFSPort :: int32 where "NFSPort \<equiv> 2049"
abbreviation NFSPortName :: string where "NFSPortName \<equiv> ''nfs''"
abbreviation NFSProtocol :: string where "NFSProtocol \<equiv> ''TCP''"
abbreviation VolumeIDLabelName :: string where "VolumeIDLabelName \<equiv> ''storageos.com/volume-id''"
abbreviation LabelNFSMountEndpoint :: string where
  "LabelNFSMountEndpoint \<equiv> ''storageos.com/nfs/mount-endpoint''"
abbreviation LabelPVName :: string where "LabelPVName \<equiv> ''csi.storage.k8s.io/pv/name''"
abbreviation LabelPVCName :: string where "LabelPVCName \<equiv> ''csi.storage.k8s.io/pvc/name''"
abbreviation LabelPVCNamespace :: string where "LabelPVCNamespace \<equiv> ''csi.storage.k8s.io/pvc/namespace''"
abbreviation ServiceTypeClusterIP :: string where "ServiceTypeClusterIP \<equiv> ''ClusterIP''"

record SharedVolume =
  sv_ID :: string
  sv_ServiceName :: string
  sv_PVCName :: string
  sv_Namespace :: string
  sv_InternalEndpoint :: string
  sv_ExternalEndpoint :: string

definition NewSharedVolume ::
  "string \<Rightarrow> string \<Rightarrow> string \<Rightarrow> string \<Rightarrow> string \<Rightarrow> string \<Rightarrow> SharedVolume" where
  "NewSharedVolume ID pvName pvcName pvcNamespace intEndpoint extEndpoint =
     \<lparr>sv_ID = ID, sv_ServiceName = pvName, sv_PVCName = pvcName, sv_Namespace = pvcNamespace,
      sv_InternalEndpoint = intEndpoint, sv_ExternalEndpoint = extEndpoint\<rparr>"

text \<open>\<open>IsEqual\<close> on a possibly nil argument; the identity is not compared.\<close>

definition IsEqual :: "SharedVolume \<Rightarrow> SharedVolume option \<Rightarrow> bool" where
  "IsEqual v obj =
     (case obj of None \<Rightarrow> False
      | Some obj \<Rightarrow>
          \<not> (sv_ServiceName obj \<noteq> sv_ServiceName v \<or>
             sv_PVCName obj \<noteq> sv_PVCName v \<or>
             sv_Namespace obj \<noteq> sv_Namespace v \<or>
             sv_InternalEndpoint obj \<noteq> sv_InternalEndpoint v \<or>
             sv_ExternalEndpoint obj \<noteq> sv_ExternalEndpoint v))"

definition InternalAddress :: "SharedVolume \<Rightarrow> string" where
  "InternalAddress v =
     (case SplitAddressPort (sv_InternalEndpoint v) of Inl _ \<Rightarrow> '''' | Inr (address, _) \<Rightarrow> address)"

definition InternalPort :: "SharedVolume \<Rightarrow> int" where
  "InternalPort v =
     (case SplitAddressPort (sv_InternalEndpoint v) of Inl _ \<Rightarrow> 0 | Inr (_, port) \<Rightarrow> port)"

definition nfs_service_port :: "SharedVolume \<Rightarrow> service_port" where
  "nfs_service_port v =
     \<lparr>sp_Name = NFSPortName, sp_Protocol = NFSProtocol, sp_Port = NFSPort,
      sp_TargetPort = FromInt (InternalPort v), sp_NodePort = 0\<rparr>"

definition Service :: "SharedVolume \<Rightarrow> owner_reference \<Rightarrow> service" where
  "Service v ownerRef =
     \<lparr>svc_meta = empty_meta\<lparr>meta_Name := sv_ServiceName v, meta_Namespace := sv_Namespace v,
                            meta_Labels := SMap [(VolumeIDLabelName, sv_ID v)],
                            meta_OwnerReferences := [ownerRef]\<rparr>,
      svc_Type = ServiceTypeClusterIP,
      svc_Ports = [nfs_service_port v],
      svc_ClusterIP = ''''\<rparr>"

definition ServiceIsEqual :: "SharedVolume \<Rightarrow> service \<Rightarrow> bool" where
  "ServiceIsEqual v svc =
     (if meta_Name (svc_meta svc) \<noteq> sv_ServiceName v \<or>
         meta_Namespace (svc_meta svc) \<noteq> sv_Namespace v \<or>
         svc_Type svc \<noteq> ServiceTypeClusterIP
      then False
      else (case svc_Ports svc of
              [p] \<Rightarrow> \<not> (sp_Name p \<noteq> NFSPortName \<or> sp_Port p \<noteq> NFSPort \<or> sp_Protocol p \<noteq> NFSProtocol \<or>
                       intVal (sp_TargetPort p) \<noteq> to_int32 (InternalPort v))
            | _ \<Rightarrow> False))"

definition ServiceUpdate :: "SharedVolume \<Rightarrow> service \<Rightarrow> service" where
  "ServiceUpdate v svc =
     (case svc_Ports svc of
        [p] \<Rightarrow> svc\<lparr>svc_Ports := [p\<lparr>sp_TargetPort := FromInt (InternalPort v)\<rparr>]\<rparr>
      | _ \<Rightarrow> svc\<lparr>svc_Ports := [nfs_service_port v]\<rparr>)"

definition nfs_endpoint_subset :: "SharedVolume \<Rightarrow> endpoint_subset" where
  "nfs_endpoint_subset v =
     \<lparr>es_Addresses = [\<lparr>ea_IP = InternalAddress v, ea_Hostname = ''''\<rparr>],
      es_NotReadyAddresses = [],
      es_Ports = [\<lparr>ep_Name = NFSPortName, ep_Port = to_int32 (InternalPort v), ep_Protocol = NFSProtocol\<rparr>]\<rparr>"

definition Endpoints :: "SharedVolume \<Rightarrow> endpoints" where
  "Endpoints v =
     \<lparr>eps_meta = empty_meta\<lparr>meta_Name := sv_ServiceName v, meta_Namespace := sv_Namespace v,
                            meta_Labels := SMap [(VolumeIDLabelName, sv_ID v)]\<rparr>,
      eps_Subsets = [nfs_endpoint_subset v]\<rparr>"

definition EndpointsIsEqual :: "SharedVolume \<Rightarrow> endpoints \<Rightarrow> bool" where
  "EndpointsIsEqual v e =
     (if meta_Name (eps_meta e) \<noteq> sv_ServiceName v \<or> meta_Namespace (eps_meta e) \<noteq> sv_Namespace v
      then False
      else (case eps_Subsets e of
              [s] \<Rightarrow>
                (case es_Addresses s of
                   [] \<Rightarrow> False
                 | a # _ \<Rightarrow>
                     ea_IP a = InternalAddress v \<and>
                     (case es_Ports s of
                        [] \<Rightarrow> False
                      | p # _ \<Rightarrow> \<not> (ep_Name p \<noteq> NFSPortName \<or> ep_Port p \<noteq> to_int32 (InternalPort v) \<or>
                                   ep_Protocol p \<noteq> NFSProtocol)))
            | _ \<Rightarrow> False))"

definition EndpointsUpdate :: "SharedVolume \<Rightarrow> endpoints \<Rightarrow> endpoints" where
  "EndpointsUpdate v e =
     (case eps_Subsets e of
        [s] \<Rightarrow>
          (case (es_Addresses s, es_Ports s) of
             ([a], [p]) \<Rightarrow>
               e\<lparr>eps_Subsets := [s\<lparr>es_Addresses := [a\<lparr>ea_IP := InternalAddress v\<rparr>],
                                  es_Ports := [p\<lparr>ep_Port := to_int32 (InternalPort v)\<rparr>]\<rparr>]\<rparr>
           | _ \<Rightarrow> e\<lparr>eps_Subsets := [nfs_endpoint_subset v]\<rparr>)
      | _ \<Rightarrow> e\<lparr>eps_Subsets := [nfs_endpoint_subset v]\<rparr>)"

section \<open>Client operations\<close>

definition toSharedVolume :: "string \<Rightarrow> volume \<Rightarrow> goerr + SharedVolume" where
  "toSharedVolume namespace vol =
     (let pvName = smap_get0 (vol_Labels vol) LabelPVName;
          pvcName = smap_get0 (vol_Labels vol) LabelPVCName;
          pvcNamespace = smap_get0 (vol_Labels vol) LabelPVCNamespace
      in if pvName = '''' \<or> pvcName = '''' \<or> pvcNamespace = '''' then Inl ErrNotKubernetes
         else (case vol_NfsServiceEndpoint vol of
                 None \<Rightarrow> Inl ErrNotShared
               | Some ep \<Rightarrow>
                   (case SplitAddressPort ep of
                      Inl err \<Rightarrow> Inl (Wrap err ''invalid internal endpoint'')
                    | Inr _ \<Rightarrow>
                        Inr \<lparr>sv_ID = vol_Id vol, sv_ServiceName = pvName, sv_PVCName = pvcName,
                             sv_Namespace = pvcNamespace, sv_InternalEndpoint = ep,
                             sv_ExternalEndpoint = smap_get0 (vol_Labels vol) LabelNFSMountEndpoint\<rparr>)))"

text \<open>The volumes of a namespace that convert; the others are ignored.\<close>

definition sharedVolumesOf :: "namespace \<Rightarrow> volume list \<Rightarrow> SharedVolume list" where
  "sharedVolumesOf ns volumes =
     concat (map (\<lambda>vol. case toSharedVolume (ns_Name ns) vol of Inl _ \<Rightarrow> [] | Inr sv \<Rightarrow> [sv]) volumes)"

text \<open>
  A failed listing of a namespace still visits the volumes that came with the
  error and then ends the whole listing.
\<close>

primrec listSharedVolumes_loop ::
  "'w control_plane \<Rightarrow> ctx \<Rightarrow> namespace list \<Rightarrow> SharedVolume list \<Rightarrow> ('w, goerr + SharedVolume list) prog" where
  "listSharedVolumes_loop cp ctx [] sharedVolumes = retP (Inr sharedVolumes)"
| "listSharedVolumes_loop cp ctx (ns # namespaces) sharedVolumes =
     bindP (callP (api_ListVolumes cp ctx (ns_Id ns))) (\<lambda>(volumes, resp, err).
       case err of
         Some e \<Rightarrow>
           (case ErrorOrNil (Append [] (Some (MapAPIError e resp))) of
              Some errors \<Rightarrow> retP (Inl errors)
            | None \<Rightarrow> retP (Inr []))
       | None \<Rightarrow>
           listSharedVolumes_loop cp ctx namespaces (sharedVolumes @ sharedVolumesOf ns volumes))"

definition ListSharedVolumes :: "'w control_plane \<Rightarrow> client \<Rightarrow> ('w, goerr + SharedVolume list) prog" where
  "ListSharedVolumes cp c =
     (let ctx = AddToken c in
      tryP (apiP (api_ListNamespaces cp ctx)) (\<lambda>namespaces.
        listSharedVolumes_loop cp ctx namespaces []))"

definition SetExternalEndpoint ::
  "'w control_plane \<Rightarrow> client \<Rightarrow> string \<Rightarrow> string \<Rightarrow> string \<Rightarrow> ('w, error_or_nil) prog" where
  "SetExternalEndpoint cp c volID namespace endpoint =
     (let ctx = AddToken c in
      tryE (getVolumeByID cp ctx volID namespace) (\<lambda>curVol.
        let mountEndpoint = smap_get0 (vol_Labels curVol) LabelNFSMountEndpoint in
        if mountEndpoint = endpoint then retP None
        else tryE (apiP (api_UpdateNFSVolumeMountEndpoint cp ctx (vol_NamespaceID curVol) (vol_Id curVol)
                           endpoint (vol_Version curVol))) (\<lambda>_. retP None)))"

section \<open>Facts\<close>

lemma SplitAddressPort_plain:
  assumes "plain_part host" and "- (2 ^ 63) \<le> p" and "p < 2 ^ 63"
  shows "SplitAddressPort (host @ CHR '':'' # show_int p) = Inr (host, p)"
proof -
  show ?thesis
    using plain_show_int [of p] assms by (simp add: SplitAddressPort_def SplitHostPort_plain Atoi_show_int)
qed

lemma ServiceUpdate_sel [simp]:
  "svc_meta (ServiceUpdate v svc) = svc_meta svc"
  "svc_Type (ServiceUpdate v svc) = svc_Type svc"
  "svc_ClusterIP (ServiceUpdate v svc) = svc_ClusterIP svc"
  by (simp_all add: ServiceUpdate_def split: list.split)

lemma EndpointsUpdate_meta [simp]: "eps_meta (EndpointsUpdate v e) = eps_meta e"
  by (auto simp: EndpointsUpdate_def split: list.split)

lemma ServiceIsEqual_Service: "ServiceIsEqual v (Service v ref)"
  by (simp add: ServiceIsEqual_def Service_def nfs_service_port_def FromInt_def empty_meta_def)

lemma EndpointsIsEqual_Endpoints: "EndpointsIsEqual v (Endpoints v)"
  by (simp add: EndpointsIsEqual_def Endpoints_def nfs_endpoint_subset_def empty_meta_def)

lemma no_panic_listSharedVolumes_loop [simp, intro]: "no_panic (listSharedVolumes_loop cp x nss acc)"
  by (induction nss arbitrary: acc) (auto intro!: no_panic_bindP split: option.splits)

lemma no_panic_ListSharedVolumes [simp, intro]: "no_panic (ListSharedVolumes cp c)"
  unfolding ListSharedVolumes_def Let_def by (auto intro!: no_panic_tryP)

lemma no_panic_SetExternalEndpoint [simp, intro]: "no_panic (SetExternalEndpoint cp c i ns ep)"
  unfolding SetExternalEndpoint_def Let_def by (auto intro!: no_panic_tryE)

lemma toSharedVolume_endpoint:
  "toSharedVolume ns vol = Inr sv \<Longrightarrow>
     vol_NfsServiceEndpoint vol = Some (sv_InternalEndpoint sv) \<and>
     SplitAddressPort (sv_InternalEndpoint sv) = Inr (InternalAddress sv, InternalPort sv)"
  by (auto simp: toSharedVolume_def Let_def InternalAddress_def InternalPort_def
      split: if_splits option.splits sum.splits)

lemma sharedVolumesOf_iff:
  "sv \<in> set (sharedVolumesOf ns vols) \<longleftrightarrow> (\<exists>vol \<in> set vols. toSharedVolume (ns_Name ns) vol = Inr sv)"
  by (force simp: sharedVolumesOf_def split: sum.splits)

definition valid_endpoint :: "SharedVolume \<Rightarrow> bool" where
  "valid_endpoint sv \<longleftrightarrow>
     SplitAddressPort (sv_InternalEndpoint sv) = Inr (InternalAddress sv, InternalPort sv)"

lemma sharedVolumesOf_valid: "list_all valid_endpoint (sharedVolumesOf ns vols)"
  by (auto simp: list_all_iff sharedVolumesOf_iff valid_endpoint_def dest: toSharedVolume_endpoint)

lemma listSharedVolumes_loop_valid:
  "listSharedVolumes_loop cp x nss acc w = (Ret (Inr res), w') \<Longrightarrow>
     list_all valid_endpoint acc \<Longrightarrow> list_all valid_endpoint res"
proof (induction nss arbitrary: acc w)
  case Nil
  then show ?case by (simp add: retP_run)
next
  case (Cons ns nss)
  then show ?case
    using sharedVolumesOf_valid [of ns]
    by (auto simp: retP_run split: prod.splits option.splits)
qed

section \<open>Properties\<close>

text \<open>
  Every shared volume a successful listing returns has an internal endpoint
  that splits into an address and a port, so the fallback values of
  \<open>InternalAddress\<close> and \<open>InternalPort\<close> are never used for it, and its target port
  and endpoints address are the parts of that endpoint.
\<close>

theorem ListSharedVolumes_endpoints:
  "case ListSharedVolumes cp c w of
     (Ret (Inr svs), w') \<Rightarrow>
       list_all (\<lambda>sv. SplitAddressPort (sv_InternalEndpoint sv) = Inr (InternalAddress sv, InternalPort sv)) svs
   | (Ret (Inl e), w') \<Rightarrow> True
   | (Panic, w') \<Rightarrow> False"
proof -
  obtain r w' where r: "ListSharedVolumes cp c w = (Ret r, w')"
    by (rule no_panicE [OF no_panic_ListSharedVolumes])
  show ?thesis
  proof (cases r)
    case (Inr svs)
    with r have "list_all valid_endpoint svs"
      unfolding ListSharedVolumes_def Let_def
      by (auto simp: tryP_run split: prod.splits outcome.splits sum.splits
          dest: listSharedVolumes_loop_valid)
    with r Inr show ?thesis by (simp add: list_all_iff valid_endpoint_def)
  qed (use r in simp)
qed

end
