(* ===== verification/Shared_Volume_Controller.thy ===== *)
theory Shared_Volume_Controller
  imports Shared_Volume K8s_Trace Mem_K8s Cache
begin

text \<open>
  \<open>internal/controllers/sharedvolume/controller.go\<close>: the loop that keeps a
  Kubernetes service and endpoints for every shared volume and publishes the
  service's address to StorageOS. The polls of \<open>wait.Poll\<close> are bounded by the
  number of ticks that arrive before its timeout. The Kubernetes events of the
  recorder and the observation of the duration of a round are calls of the
  reconciler's record; log messages and tracing are left out.
\<close>

section \<open>The reconciler\<close>

record 'w volume_sharer =
  vs_ListSharedVolumes :: "('w, goerr + SharedVolume list) prog"
  vs_SetExternalEndpoint :: "string \<Rightarrow> string \<Rightarrow> string \<Rightarrow> ('w, error_or_nil) prog"

definition client_volume_sharer :: "'w control_plane \<Rightarrow> client \<Rightarrow> 'w volume_sharer" where
  "client_volume_sharer cp c =
     \<lparr>vs_ListSharedVolumes = ListSharedVolumes cp c, vs_SetExternalEndpoint = SetExternalEndpoint cp c\<rparr>"

text \<open>
  \<open>svr_now\<close> reads the clock, \<open>svr_Event\<close> is \<open>recorder.Event\<close> and
  \<open>svr_Observe\<close> is \<open>ReconcileDuration.Observe\<close>; the cache belongs to the loop and
  is passed along.
\<close>

record 'w sv_reconciler =
  svr_Client :: "'w k8s_client"
  svr_api :: "'w volume_sharer"
  svr_ticks :: nat
  svr_cacheExpiryInterval :: int
  svr_now :: "'w \<Rightarrow> int"
  svr_Event :: "service \<Rightarrow> string \<Rightarrow> string \<Rightarrow> string \<Rightarrow> ('w, unit) ext"
  svr_Observe :: "int \<Rightarrow> ('w, unit) ext"

section \<open>Waiting\<close>

text \<open>
  \<open>wait.WaitFor\<close>: the condition runs on every tick and once more when the channel
  is closed. The condition's state is the object it fetches into.
\<close>

primrec WaitFor ::
  "nat \<Rightarrow> ('s \<Rightarrow> ('w, (goerr + bool) \<times> 's) prog) \<Rightarrow> 's \<Rightarrow> ('w, error_or_nil \<times> 's) prog" where
  "WaitFor 0 cond s =
     bindP (cond s) (\<lambda>(r, s). case r of
       Inl err \<Rightarrow> retP (Some err, s)
     | Inr ok \<Rightarrow> if ok then retP (None, s) else retP (Some ErrWaitTimeout, s))"
| "WaitFor (Suc ticks) cond s =
     bindP (cond s) (\<lambda>(r, s). case r of
       Inl err \<Rightarrow> retP (Some err, s)
     | Inr ok \<Rightarrow> if ok then retP (None, s) else WaitFor ticks cond s)"

definition clusterIPReady :: "service \<Rightarrow> (goerr + bool) \<times> service" where
  "clusterIPReady svc = (if svc_ClusterIP svc = '''' then (Inr False, svc) else (Inr True, svc))"

definition waitForClusterIP ::
  "'w k8s_client \<Rightarrow> nat \<Rightarrow> objkey \<Rightarrow> service \<Rightarrow> ('w, error_or_nil \<times> service) prog" where
  "waitForClusterIP k8s ticks nn svc =
     WaitFor ticks (\<lambda>svc.
       bindP (callP (k8s_GetService k8s nn)) (\<lambda>r. case r of
         Inl err \<Rightarrow> if \<not> IsNotFound err then retP (Inl err, svc) else retP (clusterIPReady svc)
       | Inr got \<Rightarrow> retP (clusterIPReady got))) svc"

definition waitForAvailable ::
  "'w k8s_client \<Rightarrow> nat \<Rightarrow> objkey \<Rightarrow> endpoints \<Rightarrow> ('w, error_or_nil \<times> endpoints) prog" where
  "waitForAvailable k8s ticks nn obj =
     WaitFor ticks (\<lambda>obj.
       bindP (callP (k8s_GetEndpoints k8s nn)) (\<lambda>r. case r of
         Inl err \<Rightarrow> if \<not> IsNotFound err then retP (Inl err, obj) else retP (Inr True, obj)
       | Inr got \<Rightarrow> retP (Inr True, got))) obj"

section \<open>The service of a shared volume\<close>

definition frontend :: "service \<Rightarrow> string" where
  "frontend svc =
     (case svc_Ports svc of
        [p] \<Rightarrow> svc_ClusterIP svc @ '':'' @ show_int (sint (sp_Port p))
      | _ \<Rightarrow> '''')"

text \<open>
  The first half of \<open>ensureService\<close>: get or create the service, then update it when
  it differs. An update returns the service as the API server stored it.
\<close>

definition ensureService_service ::
  "'w sv_reconciler \<Rightarrow> SharedVolume \<Rightarrow> owner_reference \<Rightarrow> nat \<Rightarrow> ('w, goerr + service) prog" where
  "ensureService_service r sv ownerRef ticks =
     (let k8s = svr_Client r; nn = mk_key (sv_Namespace sv) (sv_ServiceName sv) in
      tryP (bindP (callP (k8s_GetService k8s nn)) (\<lambda>g. case g of
              Inr svc \<Rightarrow> retP (Inr svc)
            | Inl err \<Rightarrow>
                if IsNotFound err then
                  bindP (callP (k8s_CreateService k8s (Service sv ownerRef))) (\<lambda>e. case e of
                    Some e \<Rightarrow> retP (Inl (Wrap e ''failed to create service resource''))
                  | None \<Rightarrow>
                      bindP (waitForClusterIP k8s ticks nn empty_service) (\<lambda>(e, svc). case e of
                        Some e \<Rightarrow> retP (Inl (Wrap e ''failed to get service resource after create''))
                      | None \<Rightarrow>
                          bindP (callP (svr_Event r svc ''Normal'' ''Created''
                                   (''Created service for shared volume '' @ sv_Namespace sv @ ''/'' @ sv_ServiceName sv)))
                            (\<lambda>_. retP (Inr svc))))
                else retP (Inl (Wrap err ''failed to get service, aborting reconcile'')))) (\<lambda>svc.
      if \<not> ServiceIsEqual sv svc then
        mapErr (\<lambda>e. Wrap e ''failed to update service resource'')
          (callP (k8s_UpdateService k8s (ServiceUpdate sv svc)))
      else retP (Inr svc)))"

definition ensureService_endpoints ::
  "'w sv_reconciler \<Rightarrow> SharedVolume \<Rightarrow> service \<Rightarrow> nat \<Rightarrow> ('w, goerr + endpoints) prog" where
  "ensureService_endpoints r sv svc ticks =
     (let k8s = svr_Client r; nn = mk_key (sv_Namespace sv) (sv_ServiceName sv) in
      tryP (bindP (callP (k8s_GetEndpoints k8s nn)) (\<lambda>g. case g of
              Inr ep \<Rightarrow> retP (Inr ep)
            | Inl err \<Rightarrow>
                if IsNotFound err then
                  bindP (callP (k8s_CreateEndpoints k8s (Endpoints sv))) (\<lambda>e. case e of
                    Some e \<Rightarrow> retP (Inl (Wrap e ''failed to create endpoints resource''))
                  | None \<Rightarrow>
                      bindP (waitForAvailable k8s ticks nn empty_endpoints) (\<lambda>(e, ep). case e of
                        Some e \<Rightarrow> retP (Inl (Wrap e ''failed to get endpoints resource after create''))
                      | None \<Rightarrow> retP (Inr ep)))
                else retP (Inl (Wrap err ''failed to get endpoint, aborting reconcile'')))) (\<lambda>ep.
      if \<not> EndpointsIsEqual sv ep then
        tryP (mapErr (\<lambda>e. Wrap e ''failed to update endpoints resource'')
               (callP (k8s_UpdateEndpoints k8s (EndpointsUpdate sv ep)))) (\<lambda>ep.
          bindP (callP (svr_Event r svc ''Warning'' ''Updated''
                   (''Shared volume service target changed '' @ sv_Namespace sv @ ''/'' @ sv_ServiceName sv)))
            (\<lambda>_. retP (Inr ep)))
      else retP (Inr ep)))"

definition ensureService ::
  "'w sv_reconciler \<Rightarrow> SharedVolume \<Rightarrow> owner_reference \<Rightarrow> nat \<Rightarrow> ('w, goerr + string) prog" where
  "ensureService r sv ownerRef ticks =
     tryP (ensureService_service r sv ownerRef ticks) (\<lambda>svc.
     tryP (ensureService_endpoints r sv svc ticks) (\<lambda>ep.
       retP (Inr (frontend svc))))"

section \<open>The reconcile loop\<close>

definition nowP :: "'w sv_reconciler \<Rightarrow> ('w, int) prog" where
  "nowP r w = (Ret (svr_now r w), w)"

definition pvc_owner :: "pvc \<Rightarrow> owner_reference" where
  "pvc_owner c =
     \<lparr>or_APIVersion = ''v1'', or_Kind = ''PersistentVolumeClaim'',
      or_Name = meta_Name (pvc_meta c), or_UID = meta_UID (pvc_meta c)\<rparr>"

definition cacheVolume ::
  "'w sv_reconciler \<Rightarrow> SharedVolume \<Rightarrow> SharedVolume cache \<Rightarrow> ('w, SharedVolume cache) prog" where
  "cacheVolume r vol c =
     bindP (nowP r) (\<lambda>now. retP (Set now c (sv_ID vol) vol (svr_cacheExpiryInterval r)))"

definition reconcileVolume ::
  "'w sv_reconciler \<Rightarrow> SharedVolume \<Rightarrow> SharedVolume cache \<Rightarrow> ('w, SharedVolume cache) prog" where
  "reconcileVolume r vol c =
     bindP (nowP r) (\<lambda>now.
       if (case Get now c (sv_ID vol) of Some cachedVol \<Rightarrow> IsEqual cachedVol (Some vol) | None \<Rightarrow> False)
       then retP c
       else bindP (callP (k8s_GetPVC (svr_Client r) (mk_key (sv_Namespace vol) (sv_PVCName vol)))) (\<lambda>g. case g of
         Inl err \<Rightarrow> retP c
       | Inr claim \<Rightarrow>
           bindP (ensureService r vol (pvc_owner claim) (svr_ticks r)) (\<lambda>e. case e of
             Inl err \<Rightarrow> retP c
           | Inr externalEndpoint \<Rightarrow>
               if externalEndpoint \<noteq> sv_ExternalEndpoint vol then
                 bindP (vs_SetExternalEndpoint (svr_api r) (sv_ID vol) (sv_Namespace vol) externalEndpoint) (\<lambda>e.
                   case e of
                     Some err \<Rightarrow> retP c
                   | None \<Rightarrow> cacheVolume r (vol\<lparr>sv_ExternalEndpoint := externalEndpoint\<rparr>) c)
               else cacheVolume r vol c)))"

text \<open>One round: the cache afterwards, and whether a reset of the API client was requested.\<close>

definition Start_round ::
  "'w sv_reconciler \<Rightarrow> SharedVolume cache \<Rightarrow> ('w, SharedVolume cache \<times> bool) prog" where
  "Start_round r c =
     bindP (nowP r) (\<lambda>start.
     bindP (vs_ListSharedVolumes (svr_api r)) (\<lambda>l.
       case (case l of Inl err \<Rightarrow> ([], True) | Inr volumes \<Rightarrow> (volumes, False)) of (volumes, reset) \<Rightarrow>
         bindP (forP (reconcileVolume r) volumes c) (\<lambda>c.
         bindP (nowP r) (\<lambda>now.
         bindP (callP (svr_Observe r (now - start))) (\<lambda>_. retP (c, reset))))))"

datatype start_event = PollIntervalElapsed | StartCtxDone

datatype start_result = StartRunning "SharedVolume cache" nat | StartReturned "SharedVolume cache" nat

primrec Start :: "'w sv_reconciler \<Rightarrow> start_event list \<Rightarrow> SharedVolume cache \<Rightarrow> nat \<Rightarrow> ('w, start_result) prog" where
  "Start r [] c resets =
     bindP (Start_round r c) (\<lambda>(c, reset). retP (StartRunning c (if reset then Suc resets else resets)))"
| "Start r (ev # evs) c resets =
     bindP (Start_round r c) (\<lambda>(c, reset).
       (let resets = (if reset then Suc resets else resets) in
        case ev of
          PollIntervalElapsed \<Rightarrow> Start r evs c resets
        | StartCtxDone \<Rightarrow> retP (StartReturned c resets)))"

section \<open>Traces\<close>

datatype sv_event =
    SVK8s k8s_event
  | SVList "goerr + SharedVolume list"
  | SVSetExternalEndpoint string string string error_or_nil
  | SVRecorded service string string string
  | SVObserved int

definition traced_sharer :: "'w volume_sharer \<Rightarrow> ('w, sv_event) traced volume_sharer" where
  "traced_sharer api =
     \<lparr>vs_ListSharedVolumes = traceP SVList (vs_ListSharedVolumes api),
      vs_SetExternalEndpoint = (\<lambda>i ns ep. traceP (SVSetExternalEndpoint i ns ep) (vs_SetExternalEndpoint api i ns ep))\<rparr>"

definition traced_sv :: "'w sv_reconciler \<Rightarrow> ('w, sv_event) traced sv_reconciler" where
  "traced_sv r =
     \<lparr>svr_Client = traced_k8s SVK8s (svr_Client r), svr_api = traced_sharer (svr_api r),
      svr_ticks = svr_ticks r, svr_cacheExpiryInterval = svr_cacheExpiryInterval r,
      svr_now = (\<lambda>wt. svr_now r (fst wt)),
      svr_Event = (\<lambda>svc ty reason msg. traceX (\<lambda>_. SVRecorded svc ty reason msg) (svr_Event r svc ty reason msg)),
      svr_Observe = (\<lambda>d. traceX (\<lambda>_. SVObserved d) (svr_Observe r d))\<rparr>"

lemma traced_sv_sel [simp]:
  "svr_Client (traced_sv r) = traced_k8s SVK8s (svr_Client r)"
  "svr_api (traced_sv r) = traced_sharer (svr_api r)"
  "svr_ticks (traced_sv r) = svr_ticks r"
  "svr_cacheExpiryInterval (traced_sv r) = svr_cacheExpiryInterval r"
  "svr_Event (traced_sv r) svc ty reason msg =
     traceX (\<lambda>_. SVRecorded svc ty reason msg) (svr_Event r svc ty reason msg)"
  "svr_Observe (traced_sv r) d = traceX (\<lambda>_. SVObserved d) (svr_Observe r d)"
  by (simp_all add: traced_sv_def)

lemma traced_sharer_sel [simp]:
  "vs_ListSharedVolumes (traced_sharer api) = traceP SVList (vs_ListSharedVolumes api)"
  "vs_SetExternalEndpoint (traced_sharer api) i ns ep =
     traceP (SVSetExternalEndpoint i ns ep) (vs_SetExternalEndpoint api i ns ep)"
  by (simp_all add: traced_sharer_def)

lemma emits_nowP [emits_intros]: "emits P (nowP r)"
  by (simp add: emits_def nowP_def)

lemma emits_WaitFor [emits_intros]:
  assumes "\<And>s. emits P (cond s)"
  shows "emits P (WaitFor n cond s)"
  by (induction n arbitrary: s) (auto intro!: emits_intros assms split: sum.split)

text \<open>
  What \<open>ensureService\<close> may ask of Kubernetes for a shared volume: readings of the
  volume's service and endpoints, and writes whose service has one port that
  targets the internal port, and whose endpoints have one address and one port,
  those of the internal endpoint.
\<close>

definition svc_routes :: "SharedVolume \<Rightarrow> service \<Rightarrow> bool" where
  "svc_routes sv svc \<longleftrightarrow> (\<exists>p. svc_Ports svc = [p] \<and> sp_TargetPort p = FromInt (InternalPort sv))"

definition eps_routes :: "SharedVolume \<Rightarrow> endpoints \<Rightarrow> bool" where
  "eps_routes sv e \<longleftrightarrow>
     (\<exists>s a p. eps_Subsets e = [s] \<and> es_Addresses s = [a] \<and> es_Ports s = [p] \<and>
              ea_IP a = InternalAddress sv \<and> ep_Port p = to_int32 (InternalPort sv))"

primrec k8s_service_ok :: "SharedVolume \<Rightarrow> owner_reference \<Rightarrow> k8s_event \<Rightarrow> bool" where
  "k8s_service_ok sv ref (KGetNode k r) = False"
| "k8s_service_ok sv ref (KListPods k r) = False"
| "k8s_service_ok sv ref (KDeletePod p g r) = False"
| "k8s_service_ok sv ref (KListVolumeAttachments k r) = False"
| "k8s_service_ok sv ref (KDeleteVolumeAttachment va g r) = False"
| "k8s_service_ok sv ref (KGetPVC k r) = False"
| "k8s_service_ok sv ref (KUpdatePVC c r) = False"
| "k8s_service_ok sv ref (KGetPV k r) = False"
| "k8s_service_ok sv ref (KGetStorageClass k r) = False"
| "k8s_service_ok sv ref (KListStorageClasses r) = False"
| "k8s_service_ok sv ref (KGetService k r) = (k = mk_key (sv_Namespace sv) (sv_ServiceName sv))"
| "k8s_service_ok sv ref (KCreateService s r) = (s = Service sv ref)"
| "k8s_service_ok sv ref (KUpdateService s r) = svc_routes sv s"
| "k8s_service_ok sv ref (KGetEndpoints k r) = (k = mk_key (sv_Namespace sv) (sv_ServiceName sv))"
| "k8s_service_ok sv ref (KCreateEndpoints e r) = (e = Endpoints sv)"
| "k8s_service_ok sv ref (KUpdateEndpoints e r) = eps_routes sv e"
| "k8s_service_ok sv ref (KGetSecret k r) = False"
| "k8s_service_ok sv ref (KCreateSecret s r) = False"

primrec sv_event_ok :: "SharedVolume \<Rightarrow> owner_reference \<Rightarrow> sv_event \<Rightarrow> bool" where
  "sv_event_ok sv ref (SVK8s e) = k8s_service_ok sv ref e"
| "sv_event_ok sv ref (SVList r) = False"
| "sv_event_ok sv ref (SVSetExternalEndpoint i ns ep r) = False"
| "sv_event_ok sv ref (SVRecorded svc ty reason msg) \<longleftrightarrow>
     (ty, reason, msg) \<in>
       {(''Normal'', ''Created'', ''Created service for shared volume '' @ sv_Namespace sv @ ''/'' @ sv_ServiceName sv),
        (''Warning'', ''Updated'', ''Shared volume service target changed '' @ sv_Namespace sv @ ''/'' @ sv_ServiceName sv)}"
| "sv_event_ok sv ref (SVObserved d) = False"

lemma svc_routes_ServiceUpdate: "svc_routes sv (ServiceUpdate sv svc)"
  by (auto simp: svc_routes_def ServiceUpdate_def nfs_service_port_def split: list.split)

lemma eps_routes_EndpointsUpdate: "eps_routes sv (EndpointsUpdate sv e)"
  by (auto simp: eps_routes_def EndpointsUpdate_def nfs_endpoint_subset_def split: list.split)

lemma emits_ensureService_service:
  "emits (sv_event_ok sv ref) (ensureService_service (traced_sv r) sv ref n)"
  unfolding ensureService_service_def waitForClusterIP_def Let_def
  by (auto intro!: emits_intros svc_routes_ServiceUpdate split: sum.split option.split)

lemma emits_ensureService_endpoints:
  "emits (sv_event_ok sv ref) (ensureService_endpoints (traced_sv r) sv svc n)"
  unfolding ensureService_endpoints_def waitForAvailable_def Let_def
  by (auto intro!: emits_intros eps_routes_EndpointsUpdate split: sum.split option.split)

lemma cacheVolume_run:
  "cacheVolume r v c w = (Ret (Set (svr_now r w) c (sv_ID v) v (svr_cacheExpiryInterval r)), w)"
  by (simp add: cacheVolume_def bindP_run nowP_def retP_run)

text \<open>
  The service that a run settles on for a volume: one read under the volume's key and
  found as desired, or the one the API server answered an update with.
\<close>

definition service_of_run :: "SharedVolume \<Rightarrow> service \<Rightarrow> sv_event list \<Rightarrow> bool" where
  "service_of_run vol svc tr \<longleftrightarrow>
     SVK8s (KGetService (mk_key (sv_Namespace vol) (sv_ServiceName vol)) (Inr svc)) \<in> set tr \<and> ServiceIsEqual vol svc \<or>
     (\<exists>svc0. SVK8s (KUpdateService (ServiceUpdate vol svc0) (Inr svc)) \<in> set tr)"

lemma service_of_run_append: "service_of_run vol svc tr \<Longrightarrow> service_of_run vol svc (tr @ es)"
  by (auto simp: service_of_run_def)

text \<open>The wait for an address ends with a service that it read.\<close>

lemma waitForClusterIP_got:
  assumes "waitForClusterIP (traced_k8s SVK8s k8s) n nn svc (w, tr) = (Ret (None, got), (w', tr'))"
    and "svc_ClusterIP svc = ''''"
  shows "SVK8s (KGetService nn (Inr got)) \<in> set tr'"
  using assms
proof (induction n arbitrary: svc w tr)
  case 0
  then show ?case
    by (auto simp: waitForClusterIP_def clusterIPReady_def bindP_run retP_run traceX_run
        split: prod.splits sum.splits if_splits)
next
  case (Suc n)
  then show ?case
    by (auto simp: waitForClusterIP_def clusterIPReady_def bindP_run retP_run traceX_run
        split: prod.splits sum.splits if_splits)
qed

lemma ensureService_service_of_run:
  assumes "ensureService_service (traced_sv r) vol ref n (w, tr) = (Ret (Inr svc), (w', tr'))"
  shows "service_of_run vol svc tr'"
  using assms waitForClusterIP_got
  by (fastforce simp: ensureService_service_def Let_def tryP_run bindP_run retP_run mapErr_run callP_run
      traceX_run empty_service_def service_of_run_def
      split: prod.splits sum.splits if_splits option.splits outcome.splits)

lemma ensureService_of_run:
  assumes "ensureService (traced_sv r) vol ref n (w, tr) = (Ret (Inr ep), (w', tr'))"
  shows "\<exists>svc. service_of_run vol svc tr' \<and> ep = frontend svc"
proof -
  from assms obtain svc w1 tr1 eps where
      svc: "ensureService_service (traced_sv r) vol ref n (w, tr) = (Ret (Inr svc), (w1, tr1))"
      "ep = frontend svc" and
      eps: "ensureService_endpoints (traced_sv r) vol svc n (w1, tr1) = (Ret (Inr eps), (w', tr'))"
    by (auto simp: ensureService_def tryP_run retP_run split: prod.splits outcome.splits sum.splits)
  from emits_ensureService_endpoints [of vol ref r svc n] eps obtain es where "tr' = tr1 @ es"
    unfolding emits_def by (metis snd_conv)
  with ensureService_service_of_run [OF svc(1)] svc(2) show ?thesis
    by (auto intro: service_of_run_append)
qed

lemma no_panic_WaitFor: "(\<And>s. no_panic (cond s)) \<Longrightarrow> no_panic (WaitFor n cond s)"
  by (induction n arbitrary: s) (auto intro!: no_panic_bindP split: sum.split)

lemma no_panic_ensureService: "no_panic (ensureService r vol ref n)"
  unfolding ensureService_def ensureService_service_def ensureService_endpoints_def waitForClusterIP_def
    waitForAvailable_def Let_def
  by (auto intro!: no_panic_tryP no_panic_bindP no_panic_mapErr no_panic_WaitFor split: sum.split option.split)

section \<open>Properties\<close>

text \<open>
  C23. Every service and endpoints object written for a shared volume leads to
  that volume: whatever Kubernetes answers, \<open>ensureService\<close> reads only the
  volume's own service and endpoints, creates exactly the desired objects, and
  updates to a service with one port targeting the internal port and to endpoints
  with the internal address and port as the only ones.
\<close>

theorem ensureService_routes:
  "emits (sv_event_ok sv ref) (ensureService (traced_sv r) sv ref n)"
  unfolding ensureService_def
  by (auto intro!: emits_intros emits_ensureService_service emits_ensureService_endpoints)

text \<open>
  A shared volume whose service and endpoints are as desired is left alone:
  nothing but the two readings happens, and the public endpoint is the cluster IP
  with the NFS port 2049.
\<close>

lemma frontend_desired:
  assumes "ServiceIsEqual sv svc"
  shows "frontend svc = svc_ClusterIP svc @ '':2049''"
proof -
  have "show_int (sint (2049 :: int32)) = ''2049''" by code_simp
  with assms show ?thesis
    by (auto simp: frontend_def ServiceIsEqual_def split: list.splits if_splits)
qed

lemma ensureService_steady:
  assumes "k8s_GetService (svr_Client r) (mk_key (sv_Namespace sv) (sv_ServiceName sv)) w = (Inr svc, w1)"
    and "ServiceIsEqual sv svc"
    and "k8s_GetEndpoints (svr_Client r) (mk_key (sv_Namespace sv) (sv_ServiceName sv)) w1 = (Inr ep, w2)"
    and "EndpointsIsEqual sv ep"
  shows "ensureService r sv ref n w = (Ret (Inr (svc_ClusterIP svc @ '':2049'')), w2)"
  using assms
  by (simp add: ensureService_def ensureService_service_def ensureService_endpoints_def Let_def
      tryP_run bindP_run retP_run frontend_desired)

definition sample_sv :: SharedVolume where
  "sample_sv = NewSharedVolume ''vol1'' ''pvc-1'' ''data'' ''default'' ''10.0.0.1:25705'' ''''"

text \<open>
  C25. One pass over a volume. A volume cached as it is costs no call. Otherwise its
  claim is read, its service and endpoints are ensured, and the endpoint is that of
  the service read or updated in this pass. When it differs from the endpoint
  StorageOS knows it is published, by one call with the volume's identity and
  namespace, and the volume is cached with it only when StorageOS accepted; when it
  does not differ the volume is cached without a call. When the claim cannot be read,
  the service cannot be ensured or StorageOS refuses, the cache is left as it was and
  nothing more is asked for, so that the next round tries again. Only publishing can panic.
\<close>

theorem reconcileVolume_publishes:
  "case reconcileVolume (traced_sv r) vol c (w, []) of
     (Panic, w', tr) \<Rightarrow>
       \<exists>ep w2. fst (vs_SetExternalEndpoint (svr_api r) (sv_ID vol) (sv_Namespace vol) ep w2) = Panic
   | (Ret c', w', tr) \<Rightarrow>
       if (case Get (svr_now r w) c (sv_ID vol) of None \<Rightarrow> False | Some v \<Rightarrow> IsEqual v (Some vol))
       then c' = c \<and> w' = w \<and> tr = []
       else
         (case k8s_GetPVC (svr_Client r) (mk_key (sv_Namespace vol) (sv_PVCName vol)) w of
            (Inl e, w1) \<Rightarrow>
              c' = c \<and> tr = [SVK8s (KGetPVC (mk_key (sv_Namespace vol) (sv_PVCName vol)) (Inl e))]
          | (Inr claim, w1) \<Rightarrow>
              (case ensureService (traced_sv r) vol (pvc_owner claim) (svr_ticks r)
                      (w1, [SVK8s (KGetPVC (mk_key (sv_Namespace vol) (sv_PVCName vol)) (Inr claim))]) of
                 (Ret (Inr ep), w2, pre) \<Rightarrow>
                   (\<exists>svc. service_of_run vol svc pre \<and> ep = frontend svc) \<and>
                   (if ep = sv_ExternalEndpoint vol
                    then tr = pre \<and> c' = Set (svr_now r w') c (sv_ID vol) vol (svr_cacheExpiryInterval r)
                    else \<exists>err. tr = pre @ [SVSetExternalEndpoint (sv_ID vol) (sv_Namespace vol) ep err] \<and>
                           c' = (case err of
                                   Some e \<Rightarrow> c
                                 | None \<Rightarrow> Set (svr_now r w') c (sv_ID vol) (vol\<lparr>sv_ExternalEndpoint := ep\<rparr>)
                                             (svr_cacheExpiryInterval r)))
               | (Ret (Inl e), w2, pre) \<Rightarrow> c' = c \<and> tr = pre
               | (Panic, w2, pre) \<Rightarrow> False))"
proof -
  let ?key = "mk_key (sv_Namespace vol) (sv_PVCName vol)"
  obtain g w1 where g: "k8s_GetPVC (svr_Client r) ?key w = (g, w1)" by (metis surj_pair)
  have now: "svr_now (traced_sv r) (v, t) = svr_now r v" for v t by (simp add: traced_sv_def)
  show ?thesis
  proof (cases "case Get (svr_now r w) c (sv_ID vol) of None \<Rightarrow> False | Some v \<Rightarrow> IsEqual v (Some vol)")
    case True
    then show ?thesis by (simp add: reconcileVolume_def bindP_run nowP_def retP_run now)
  next
    case miss: False
    show ?thesis
    proof (cases g)
      case (Inl e)
      with g miss show ?thesis
        by (simp add: reconcileVolume_def bindP_run nowP_def retP_run traceX_run now)
    next
      case (Inr claim)
      from no_panic_ensureService obtain e w2 pre where
        e: "ensureService (traced_sv r) vol (pvc_owner claim) (svr_ticks r) (w1, [SVK8s (KGetPVC ?key g)]) =
              (Ret e, (w2, pre))"
        unfolding no_panic_def by (metis outcome.exhaust prod.collapse)
      show ?thesis
      proof (cases e)
        case (Inl err)
        with g miss \<open>g = Inr claim\<close> e show ?thesis
          by (simp add: reconcileVolume_def bindP_run nowP_def retP_run traceX_run now)
      next
        case (Inr ep)
        obtain o3 w3 where p: "vs_SetExternalEndpoint (svr_api r) (sv_ID vol) (sv_Namespace vol) ep w2 = (o3, w3)"
          by (metis surj_pair)
        from ensureService_of_run [OF e [unfolded Inr]] obtain svc where
          "service_of_run vol svc pre" "ep = frontend svc" by blast
        moreover have "o3 = Panic \<Longrightarrow>
            \<exists>ep w2. fst (vs_SetExternalEndpoint (svr_api r) (sv_ID vol) (sv_Namespace vol) ep w2) = Panic"
          using p by (metis fst_conv)
        ultimately show ?thesis
          using g miss \<open>g = Inr claim\<close> e Inr p
          by (cases o3)
             (auto simp: reconcileVolume_def bindP_run nowP_def retP_run traceX_run traceP_def cacheVolume_run now
               split: option.splits)
      qed
    qed
  qed
qed

text \<open>
  A reconciled volume is not looked at again while its cache entry lives: a
  volume cached at \<open>now\<close> and listed again unchanged costs no call to Kubernetes or
  StorageOS until the expiry interval is over.
\<close>

lemma reconcileVolume_cached:
  assumes "0 \<le> now" and "0 < svr_cacheExpiryInterval r" and "wf_cache c"
    and "IsEqual v (Some vol)" and "sv_ID vol = sv_ID v"
    and "svr_now r w \<le> now + svr_cacheExpiryInterval r"
  shows "reconcileVolume r vol (Set now c (sv_ID v) v (svr_cacheExpiryInterval r)) w =
           (Ret (Set now c (sv_ID v) v (svr_cacheExpiryInterval r)), w)"
proof -
  have "Get (svr_now r w) (Set now c (sv_ID v) v (svr_cacheExpiryInterval r)) (sv_ID vol) = Some v"
    using assms by (simp add: gc.get_put_same)
  with assms(4) show ?thesis
    by (simp add: reconcileVolume_def bindP_run nowP_def retP_run)
qed

text \<open>
  C27. After creating endpoints the wait for them to appear gives up at once: when
  the first look after the creation does not find them yet, the wait reports
  success, an update of endpoints without a name is sent, and its rejection ends
  the reconciliation of the volume.
\<close>

theorem waitForAvailable_gives_up:
  assumes "k8s_GetEndpoints (svr_Client r) (mk_key (sv_Namespace sv) (sv_ServiceName sv)) w = (Inl e1, w1)"
    and "IsNotFound e1"
    and "k8s_CreateEndpoints (svr_Client r) (Endpoints sv) w1 = (None, w2)"
    and "k8s_GetEndpoints (svr_Client r) (mk_key (sv_Namespace sv) (sv_ServiceName sv)) w2 = (Inl e2, w3)"
    and "IsNotFound e2"
    and "k8s_UpdateEndpoints (svr_Client r) (EndpointsUpdate sv empty_endpoints) w3 = (Inl e3, w4)"
  shows "waitForAvailable (svr_Client r) n (mk_key (sv_Namespace sv) (sv_ServiceName sv)) empty_endpoints w2 =
           (Ret (None, empty_endpoints), w3) \<and>
         ensureService_endpoints r sv svc n w =
           (Ret (Inl (Wrap e3 ''failed to update endpoints resource'')), w4) \<and>
         meta_Name (eps_meta (EndpointsUpdate sv empty_endpoints)) = ''''"
proof -
  have wait: "waitForAvailable (svr_Client r) n (mk_key (sv_Namespace sv) (sv_ServiceName sv)) empty_endpoints w2 =
           (Ret (None, empty_endpoints), w3)"
    using assms(4,5) by (cases n) (simp_all add: waitForAvailable_def bindP_run retP_run)
  have "\<not> EndpointsIsEqual sv empty_endpoints"
    by (simp add: EndpointsIsEqual_def empty_endpoints_def)
  with assms wait show ?thesis
    by (simp add: ensureService_endpoints_def Let_def tryP_run bindP_run retP_run mapErr_run
        empty_endpoints_def empty_meta_def)
qed

definition sample_svr :: "'w k8s_client \<Rightarrow> 'w volume_sharer \<Rightarrow> 'w sv_reconciler" where
  "sample_svr k8s api =
     \<lparr>svr_Client = k8s, svr_api = api, svr_ticks = 3, svr_cacheExpiryInterval = 60, svr_now = (\<lambda>w. 50),
      svr_Event = (\<lambda>svc ty reason msg w. ((), w)), svr_Observe = (\<lambda>d w. ((), w))\<rparr>"

lemma sample_svr_sel [simp]:
  "svr_Client (sample_svr k8s api) = k8s"
  "svr_api (sample_svr k8s api) = api"
  "svr_now (sample_svr k8s api) w = 50"
  "svr_cacheExpiryInterval (sample_svr k8s api) = 60"
  by (simp_all add: sample_svr_def)

theorem waitForAvailable_gives_up_witness:
  "ensureService_endpoints
     (sample_svr (empty_k8s\<lparr>k8s_UpdateEndpoints := (\<lambda>e w. (Inl (K8sError (ReasonOther ''Invalid'') ''name''), w))\<rparr>)
       (client_volume_sharer mem_cp NewTestAPIClient)) sample_sv empty_service 5 sample_mem =
   (Ret (Inl (Wrap (K8sError (ReasonOther ''Invalid'') ''name'') ''failed to update endpoints resource'')), sample_mem)"
  using waitForAvailable_gives_up
    [of "sample_svr (empty_k8s\<lparr>k8s_UpdateEndpoints := (\<lambda>e w. (Inl (K8sError (ReasonOther ''Invalid'') ''name''), w))\<rparr>)
          (client_volume_sharer mem_cp NewTestAPIClient)" sample_sv sample_mem not_found sample_mem sample_mem
        not_found sample_mem "K8sError (ReasonOther ''Invalid'') ''name''" sample_mem 5 empty_service]
  by (simp add: empty_k8s_def)

text \<open>
  The public endpoint of a service with one port splits back into the
  cluster IP and the port, for a cluster IP without colons and brackets; with a
  colon in it (an IPv6 address) the endpoint does not parse at all.
\<close>

theorem frontend_roundtrip:
  assumes "svc_Ports svc = [p]" and "CHR ''['' \<notin> set (svc_ClusterIP svc)" and "CHR '']'' \<notin> set (svc_ClusterIP svc)"
  shows "(if CHR '':'' \<in> set (svc_ClusterIP svc)
          then (\<exists>e. SplitAddressPort (frontend svc) = Inl e)
          else SplitAddressPort (frontend svc) = Inr (svc_ClusterIP svc, sint (sp_Port p)))"
proof (cases "CHR '':'' \<in> set (svc_ClusterIP svc)")
  case True
  then have "hd (svc_ClusterIP svc) \<noteq> CHR ''[''"
    using assms(2) by (cases "svc_ClusterIP svc") auto
  with True have "\<exists>e. SplitHostPort (svc_ClusterIP svc @ CHR '':'' # show_int (sint (sp_Port p))) = Inl e"
    using plain_show_int [of "sint (sp_Port p)"]
    by (subst SplitHostPort_too_many_colons) (auto simp: plain_part_def)
  with True assms(1) show ?thesis by (auto simp: frontend_def SplitAddressPort_def)
next
  case False
  have "- (2 ^ 31) \<le> sint (sp_Port p)" and "sint (sp_Port p) < 2 ^ 31"
    using sint_range_size [of "sp_Port p"] by (simp_all add: word_size)
  then have "SplitAddressPort (svc_ClusterIP svc @ CHR '':'' # show_int (sint (sp_Port p))) =
               Inr (svc_ClusterIP svc, sint (sp_Port p))"
    using False assms(2,3) by (intro SplitAddressPort_plain) (auto simp: plain_part_def)
  with False assms(1) show ?thesis by (simp add: frontend_def)
qed

theorem frontend_roundtrip_witness:
  "SplitAddressPort (frontend (Service sample_sv (pvc_owner sample_pvc)\<lparr>svc_ClusterIP := ''10.9.8.7''\<rparr>)) =
     Inr (''10.9.8.7'', 2049)"
  using frontend_roundtrip
    [of "Service sample_sv (pvc_owner sample_pvc)\<lparr>svc_ClusterIP := ''10.9.8.7''\<rparr>" "nfs_service_port sample_sv"]
  by (simp add: Service_def nfs_service_port_def)

end
