(* ===== verification/Aes.thy ===== *)
theory Aes
  imports Prelude
begin

text \<open>
  The block cipher behind \<open>crypto/aes\<close>, as FIPS 197 defines it and Go's standard
  library implements it: the key schedule of 128, 192 and 256 bit keys, the
  encryption and the decryption of a block of 16 bytes, and the proof that
  decryption inverts encryption. A state is the list of its 16 bytes in the
  order of the input block.
\<close>

unbundle bit_operations_syntax

section \<open>Bytes\<close>

definition xtime :: "byte \<Rightarrow> byte" where
  "xtime b = push_bit 1 b XOR (if bit b 7 then 0x1b else 0)"

definition sbox_table :: bytes where
  "sbox_table =
     [0x63, 0x7c, 0x77, 0x7b, 0xf2, 0x6b, 0x6f, 0xc5, 0x30, 0x01, 0x67, 0x2b, 0xfe, 0xd7, 0xab, 0x76,
      0xca, 0x82, 0xc9, 0x7d, 0xfa, 0x59, 0x47, 0xf0, 0xad, 0xd4, 0xa2, 0xaf, 0x9c, 0xa4, 0x72, 0xc0,
      0xb7, 0xfd, 0x93, 0x26, 0x36, 0x3f, 0xf7, 0xcc, 0x34, 0xa5, 0xe5, 0xf1, 0x71, 0xd8, 0x31, 0x15,
      0x04, 0xc7, 0x23, 0xc3, 0x18, 0x96, 0x05, 0x9a, 0x07, 0x12, 0x80, 0xe2, 0xeb, 0x27, 0xb2, 0x75,
      0x09, 0x83, 0x2c, 0x1a, 0x1b, 0x6e, 0x5a, 0xa0, 0x52, 0x3b, 0xd6, 0xb3, 0x29, 0xe3, 0x2f, 0x84,
      0x53, 0xd1, 0x00, 0xed, 0x20, 0xfc, 0xb1, 0x5b, 0x6a, 0xcb, 0xbe, 0x39, 0x4a, 0x4c, 0x58, 0xcf,
      0xd0, 0xef, 0xaa, 0xfb, 0x43, 0x4d, 0x33, 0x85, 0x45, 0xf9, 0x02, 0x7f, 0x50, 0x3c, 0x9f, 0xa8,
      0x51, 0xa3, 0x40, 0x8f, 0x92, 0x9d, 0x38, 0xf5, 0xbc, 0xb6, 0xda, 0x21, 0x10, 0xff, 0xf3, 0xd2,
      0xcd, 0x0c, 0x13, 0xec, 0x5f, 0x97, 0x44, 0x17, 0xc4, 0xa7, 0x7e, 0x3d, 0x64, 0x5d, 0x19, 0x73,
      0x60, 0x81, 0x4f, 0xdc, 0x22, 0x2a, 0x90, 0x88, 0x46, 0xee, 0xb8, 0x14, 0xde, 0x5e, 0x0b, 0xdb,
      0xe0, 0x32, 0x3a, 0x0a, 0x49, 0x06, 0x24, 0x5c, 0xc2, 0xd3, 0xac, 0x62, 0x91, 0x95, 0xe4, 0x79,
      0xe7, 0xc8, 0x37, 0x6d, 0x8d, 0xd5, 0x4e, 0xa9, 0x6c, 0x56, 0xf4, 0xea, 0x65, 0x7a, 0xae, 0x08,
      0xba, 0x78, 0x25, 0x2e, 0x1c, 0xa6, 0xb4, 0xc6, 0xe8, 0xdd, 0x74, 0x1f, 0x4b, 0xbd, 0x8b, 0x8a,
      0x70, 0x3e, 0xb5, 0x66, 0x48, 0x03, 0xf6, 0x0e, 0x61, 0x35, 0x57, 0xb9, 0x86, 0xc1, 0x1d, 0x9e,
      0xe1, 0xf8, 0x98, 0x11, 0x69, 0xd9, 0x8e, 0x94, 0x9b, 0x1e, 0x87, 0xe9, 0xce, 0x55, 0x28, 0xdf,
      0x8c, 0xa1, 0x89, 0x0d, 0xbf, 0xe6, 0x42, 0x68, 0x41, 0x99, 0x2d, 0x0f, 0xb0, 0x54, 0xbb, 0x16]"

definition inv_sbox_table :: bytes where
  "inv_sbox_table =
     [0x52, 0x09, 0x6a, 0xd5, 0x30, 0x36, 0xa5, 0x38, 0xbf, 0x40, 0xa3, 0x9e, 0x81, 0xf3, 0xd7, 0xfb,
      0x7c, 0xe3, 0x39, 0x82, 0x9b, 0x2f, 0xff, 0x87, 0x34, 0x8e, 0x43, 0x44, 0xc4, 0xde, 0xe9, 0xcb,
      0x54, 0x7b, 0x94, 0x32, 0xa6, 0xc2, 0x23, 0x3d, 0xee, 0x4c, 0x95, 0x0b, 0x42, 0xfa, 0xc3, 0x4e,
      0x08, 0x2e, 0xa1, 0x66, 0x28, 0xd9, 0x24, 0xb2, 0x76, 0x5b, 0xa2, 0x49, 0x6d, 0x8b, 0xd1, 0x25,
      0x72, 0xf8, 0xf6, 0x64, 0x86, 0x68, 0x98, 0x16, 0xd4, 0xa4, 0x5c, 0xcc, 0x5d, 0x65, 0xb6, 0x92,
      0x6c, 0x70, 0x48, 0x50, 0xfd, 0xed, 0xb9, 0xda, 0x5e, 0x15, 0x46, 0x57, 0xa7, 0x8d, 0x9d, 0x84,
      0x90, 0xd8, 0xab, 0x00, 0x8c, 0xbc, 0xd3, 0x0a, 0xf7, 0xe4, 0x58, 0x05, 0xb8, 0xb3, 0x45, 0x06,
      0xd0, 0x2c, 0x1e, 0x8f, 0xca, 0x3f, 0x0f, 0x02, 0xc1, 0xaf, 0xbd, 0x03, 0x01, 0x13, 0x8a, 0x6b,
      0x3a, 0x91, 0x11, 0x41, 0x4f, 0x67, 0xdc, 0xea, 0x97, 0xf2, 0xcf, 0xce, 0xf0, 0xb4, 0xe6, 0x73,
      0x96, 0xac, 0x74, 0x22, 0xe7, 0xad, 0x35, 0x85, 0xe2, 0xf9, 0x37, 0xe8, 0x1c, 0x75, 0xdf, 0x6e,
      0x47, 0xf1, 0x1a, 0x71, 0x1d, 0x29, 0xc5, 0x89, 0x6f, 0xb7, 0x62, 0x0e, 0xaa, 0x18, 0xbe, 0x1b,
      0xfc, 0x56, 0x3e, 0x4b, 0xc6, 0xd2, 0x79, 0x20, 0x9a, 0xdb, 0xc0, 0xfe, 0x78, 0xcd, 0x5a, 0xf4,
      0x1f, 0xdd, 0xa8, 0x33, 0x88, 0x07, 0xc7, 0x31, 0xb1, 0x12, 0x10, 0x59, 0x27, 0x80, 0xec, 0x5f,
      0x60, 0x51, 0x7f, 0xa9, 0x19, 0xb5, 0x4a, 0x0d, 0x2d, 0xe5, 0x7a, 0x9f, 0x93, 0xc9, 0x9c, 0xef,
      0xa0, 0xe0, 0x3b, 0x4d, 0xae, 0x2a, 0xf5, 0xb0, 0xc8, 0xeb, 0xbb, 0x3c, 0x83, 0x53, 0x99, 0x61,
      0x17, 0x2b, 0x04, 0x7e, 0xba, 0x77, 0xd6, 0x26, 0xe1, 0x69, 0x14, 0x63, 0x55, 0x21, 0x0c, 0x7d]"

definition sbox :: "byte \<Rightarrow> byte" where
  "sbox b = sbox_table ! unat b"

definition inv_sbox :: "byte \<Rightarrow> byte" where
  "inv_sbox b = inv_sbox_table ! unat b"

section \<open>The round transformations\<close>

definition SubBytes :: "bytes \<Rightarrow> bytes" where "SubBytes s = map sbox s"
definition InvSubBytes :: "bytes \<Rightarrow> bytes" where "InvSubBytes s = map inv_sbox s"

text \<open>Byte \<open>i\<close> is in row \<open>i mod 4\<close>, which moves by as many columns.\<close>

definition ShiftRows :: "bytes \<Rightarrow> bytes" where
  "ShiftRows s = map (\<lambda>i. s ! ((i + 4 * (i mod 4)) mod 16)) [0..<16]"

definition InvShiftRows :: "bytes \<Rightarrow> bytes" where
  "InvShiftRows s = map (\<lambda>i. s ! ((i + 12 * (i mod 4)) mod 16)) [0..<16]"

definition mul2 :: "byte \<Rightarrow> byte" where "mul2 b = xtime b"
definition mul3 :: "byte \<Rightarrow> byte" where "mul3 b = xtime b XOR b"
definition mul9 :: "byte \<Rightarrow> byte" where "mul9 b = xtime (xtime (xtime b)) XOR b"
definition mul11 :: "byte \<Rightarrow> byte" where "mul11 b = xtime (xtime (xtime b)) XOR xtime b XOR b"
definition mul13 :: "byte \<Rightarrow> byte" where "mul13 b = xtime (xtime (xtime b)) XOR xtime (xtime b) XOR b"
definition mul14 :: "byte \<Rightarrow> byte" where
  "mul14 b = xtime (xtime (xtime b)) XOR xtime (xtime b) XOR xtime b"

fun MixColumns :: "bytes \<Rightarrow> bytes" where
  "MixColumns (a # b # c # d # s) =
     (mul2 a XOR mul3 b XOR c XOR d) # (a XOR mul2 b XOR mul3 c XOR d) #
     (a XOR b XOR mul2 c XOR mul3 d) # (mul3 a XOR b XOR c XOR mul2 d) # MixColumns s"
| "MixColumns s = []"

fun InvMixColumns :: "bytes \<Rightarrow> bytes" where
  "InvMixColumns (a # b # c # d # s) =
     (mul14 a XOR mul11 b XOR mul13 c XOR mul9 d) # (mul9 a XOR mul14 b XOR mul11 c XOR mul13 d) #
     (mul13 a XOR mul9 b XOR mul14 c XOR mul11 d) # (mul11 a XOR mul13 b XOR mul9 c XOR mul14 d) #
     InvMixColumns s"
| "InvMixColumns s = []"

definition xor_bytes :: "bytes \<Rightarrow> bytes \<Rightarrow> bytes" where
  "xor_bytes a b = map2 (XOR) a b"

section \<open>Key schedule\<close>

text \<open>
  Word \<open>i\<close> of the schedule from the words before it, for a key of \<open>nk\<close> words.
\<close>

definition next_word :: "nat \<Rightarrow> bytes list \<Rightarrow> bytes" where
  "next_word nk ws =
     (let i = length ws; t = last ws;
          t' = (if i mod nk = 0
                then xor_bytes (SubBytes (rotate1 t)) [(xtime ^^ (i div nk - 1)) 1, 0, 0, 0]
                else if nk > 6 \<and> i mod nk = 4 then SubBytes t
                else t)
      in xor_bytes (ws ! (i - nk)) t')"

fun chunks :: "nat \<Rightarrow> 'a list \<Rightarrow> 'a list list" where
  "chunks n xs = (if n = 0 \<or> length xs < n then [] else take n xs # chunks n (drop n xs))"

declare chunks.simps [simp del]

definition expandKey :: "bytes \<Rightarrow> bytes list" where
  "expandKey key =
     (let nk = length key div 4;
          ws = ((\<lambda>ws. ws @ [next_word nk ws]) ^^ (4 * (nk + 7) - nk)) (chunks 4 key)
      in chunks 16 (concat ws))"

section \<open>Blocks\<close>

fun enc_rounds :: "bytes list \<Rightarrow> bytes \<Rightarrow> bytes" where
  "enc_rounds [] s = s"
| "enc_rounds [k] s = xor_bytes (ShiftRows (SubBytes s)) k"
| "enc_rounds (k # ks) s = enc_rounds ks (xor_bytes (MixColumns (ShiftRows (SubBytes s))) k)"

fun dec_rounds :: "bytes list \<Rightarrow> bytes \<Rightarrow> bytes" where
  "dec_rounds [] s = s"
| "dec_rounds [k] s = InvSubBytes (InvShiftRows (xor_bytes s k))"
| "dec_rounds (k # ks) s =
     InvSubBytes (InvShiftRows (InvMixColumns (xor_bytes (dec_rounds ks s) k)))"

definition aes_Encrypt :: "bytes \<Rightarrow> bytes \<Rightarrow> bytes" where
  "aes_Encrypt key b =
     (case expandKey key of [] \<Rightarrow> b | k # ks \<Rightarrow> enc_rounds ks (xor_bytes b k))"

definition aes_Decrypt :: "bytes \<Rightarrow> bytes \<Rightarrow> bytes" where
  "aes_Decrypt key b =
     (case expandKey key of [] \<Rightarrow> b | k # ks \<Rightarrow> xor_bytes (dec_rounds ks b) k)"

section \<open>Decryption inverts encryption\<close>

lemma sbox_inverse_table: "list_all (\<lambda>i. inv_sbox_table ! unat (sbox_table ! i) = word_of_nat i) [0..<256]"
  unfolding sbox_table_def inv_sbox_table_def by code_simp

lemma inv_sbox_sbox [simp]: "inv_sbox (sbox b) = b"
proof -
  have "unat b < 256" using unsigned_less [of b] by simp
  with sbox_inverse_table show ?thesis
    by (simp add: inv_sbox_def sbox_def list_all_iff)
qed

text \<open>Multiplication by a constant is linear, so the column matrices multiply out.\<close>

lemma xtime_xor [simp]: "xtime (a XOR b) = xtime a XOR xtime b"
  by (rule bit_word_eqI) (auto simp: xtime_def bit_simps)

lemma xtime_zero [simp]: "xtime 0 = 0"
  by (simp add: xtime_def)

lemma xor_left_self [simp]: "(a :: byte) XOR (a XOR b) = b"
  by (simp flip: xor.assoc)

lemmas mul_defs = mul2_def mul3_def mul9_def mul11_def mul13_def mul14_def

lemma InvMixColumns_MixColumns: "4 dvd length s \<Longrightarrow> InvMixColumns (MixColumns s) = s"
proof (induction s rule: MixColumns.induct)
  case (1 a b c d s)
  from "1.prems" have "4 dvd length s" by simp presburger
  with "1.IH" show ?case by (simp add: mul_defs ac_simps)
qed (auto dest: dvd_imp_le)

lemma length_MixColumns: "4 dvd length s \<Longrightarrow> length (MixColumns s) = length s"
proof (induction s rule: MixColumns.induct)
  case (1 a b c d s)
  from "1.prems" have "4 dvd length s" by simp presburger
  with "1.IH" show ?case by simp
qed (auto dest: dvd_imp_le)

lemma length_SubBytes [simp]: "length (SubBytes s) = length s"
  by (simp add: SubBytes_def)

lemma InvSubBytes_SubBytes [simp]: "InvSubBytes (SubBytes s) = s"
  by (simp add: InvSubBytes_def SubBytes_def comp_def)

lemma length_ShiftRows [simp]: "length (ShiftRows s) = 16"
  by (simp add: ShiftRows_def)

lemma length_InvShiftRows [simp]: "length (InvShiftRows s) = 16"
  by (simp add: InvShiftRows_def)

lemma shift_index_table:
  "list_all (\<lambda>i. let j = (i + 12 * (i mod 4)) mod 16 in (j + 4 * (j mod 4)) mod 16 = i) [0..<16]"
  by code_simp

lemma shift_index:
  assumes "i < (16 :: nat)"
  shows "((i + 12 * (i mod 4)) mod 16 + 4 * ((i + 12 * (i mod 4)) mod 16 mod 4)) mod 16 = i"
proof -
  from assms have "i \<in> set [0..<16]" by simp
  with shift_index_table [unfolded list_all_iff Let_def] show ?thesis by (rule bspec)
qed

lemma InvShiftRows_ShiftRows: "length s = 16 \<Longrightarrow> InvShiftRows (ShiftRows s) = s"
  by (rule nth_equalityI) (simp_all add: InvShiftRows_def ShiftRows_def shift_index del: mod_mod_trivial mod_mult_self1)

lemma length_xor_bytes [simp]: "length (xor_bytes a b) = min (length a) (length b)"
  by (simp add: xor_bytes_def)

lemma xor_bytes_cancel [simp]: "length a \<le> length k \<Longrightarrow> xor_bytes (xor_bytes a k) k = a"
  by (rule nth_equalityI) (simp_all add: xor_bytes_def xor.assoc)

text \<open>Undoing the rounds, for any list of round keys of 16 bytes.\<close>

lemma enc_rounds_length:
  "length s = 16 \<Longrightarrow> \<forall>k \<in> set ks. length k = 16 \<Longrightarrow> length (enc_rounds ks s) = 16"
  by (induction ks s rule: enc_rounds.induct) (simp_all add: length_MixColumns)

lemma dec_enc_rounds:
  "length s = 16 \<Longrightarrow> \<forall>k \<in> set ks. length k = 16 \<Longrightarrow> dec_rounds ks (enc_rounds ks s) = s"
  by (induction ks s rule: enc_rounds.induct)
     (simp_all add: length_MixColumns InvMixColumns_MixColumns InvShiftRows_ShiftRows)

lemma chunks_length: "k \<in> set (chunks n xs) \<Longrightarrow> length k = n"
  by (induction n xs rule: chunks.induct) (subst (asm) (2) chunks.simps, auto split: if_splits)

lemma expandKey_length: "\<forall>k \<in> set (expandKey key). length k = 16"
  by (auto simp: expandKey_def Let_def dest: chunks_length)

lemma aes_Decrypt_Encrypt: "length b = 16 \<Longrightarrow> aes_Decrypt key (aes_Encrypt key b) = b"
  using expandKey_length [of key]
  by (auto simp: aes_Decrypt_def aes_Encrypt_def dec_enc_rounds split: list.splits)

lemma length_aes_Encrypt: "length b = 16 \<Longrightarrow> length (aes_Encrypt key b) = 16"
  using expandKey_length [of key]
  by (auto simp: aes_Encrypt_def enc_rounds_length split: list.splits)

end
