(* ===== verification/Sha256.thy ===== *)
theory Sha256
  imports Aes
begin

text \<open>
  The hash functions of the standard library that the program uses: SHA-256
  (\<open>crypto/sha256\<close>, FIPS 180-4) and the HMAC over it (\<open>crypto/hmac\<close>), on
  lists of bytes.
\<close>

section \<open>SHA-256\<close>

type_synonym u32 = "32 word"

text \<open>
  The constants as the standard derives them: the first 32 bits of the fractional
  parts of the cube roots of the first 64 primes, and of the square roots of the
  first 8. \<open>iroot k n\<close> is the integer \<open>k\<close>-th root of \<open>n\<close>, for roots below \<open>2 ^ 36\<close>.
\<close>

definition iroot :: "nat \<Rightarrow> nat \<Rightarrow> nat" where
  "iroot k n = fold (\<lambda>b r. if (r + 2 ^ b) ^ k \<le> n then r + 2 ^ b else r) (rev [0..<36]) 0"

definition primes_below :: "nat \<Rightarrow> nat list" where
  "primes_below m = filter (\<lambda>n. list_all (\<lambda>d. n mod d \<noteq> 0) [2..<n]) [2..<m]"

definition sha_K :: "u32 list" where
  "sha_K = map (\<lambda>p. word_of_nat (iroot 3 (p * 2 ^ 96))) (take 64 (primes_below 312))"

definition sha_init :: "u32 list" where
  "sha_init = map (\<lambda>p. word_of_nat (iroot 2 (p * 2 ^ 64))) [2, 3, 5, 7, 11, 13, 17, 19]"

definition be32 :: "u32 \<Rightarrow> bytes" where
  "be32 x = map (\<lambda>i. ucast (drop_bit i x)) [24, 16, 8, 0]"

definition u32_of :: "bytes \<Rightarrow> u32" where
  "u32_of bs = fold (\<lambda>b x. push_bit 8 x OR ucast b) bs 0"

text \<open>A one bit, zeros, and the length in bits as 64 bits, up to a multiple of 64 bytes.\<close>

definition sha_pad :: "bytes \<Rightarrow> bytes" where
  "sha_pad m =
     m @ 0x80 # replicate ((119 - length m mod 64) mod 64) 0 @
     map (\<lambda>i. ucast (drop_bit i (word_of_nat (8 * length m) :: 64 word))) [56, 48, 40, 32, 24, 16, 8, 0]"

definition sigma0 :: "u32 \<Rightarrow> u32" where
  "sigma0 x = word_rotr 7 x XOR word_rotr 18 x XOR drop_bit 3 x"
definition sigma1 :: "u32 \<Rightarrow> u32" where
  "sigma1 x = word_rotr 17 x XOR word_rotr 19 x XOR drop_bit 10 x"
definition Sigma0 :: "u32 \<Rightarrow> u32" where
  "Sigma0 x = word_rotr 2 x XOR word_rotr 13 x XOR word_rotr 22 x"
definition Sigma1 :: "u32 \<Rightarrow> u32" where
  "Sigma1 x = word_rotr 6 x XOR word_rotr 11 x XOR word_rotr 25 x"

definition sha_extend :: "u32 list \<Rightarrow> u32 list" where
  "sha_extend w =
     (let t = length w in
      w @ [sigma1 (w ! (t - 2)) + w ! (t - 7) + sigma0 (w ! (t - 15)) + w ! (t - 16)])"

definition sha_schedule :: "bytes \<Rightarrow> u32 list" where
  "sha_schedule block = (sha_extend ^^ 48) (map u32_of (chunks 4 block))"

fun sha_round :: "u32 \<times> u32 \<Rightarrow> u32 list \<Rightarrow> u32 list" where
  "sha_round (k, w) [a, b, c, d, e, f, g, h] =
     (let t1 = h + Sigma1 e + ((e AND f) XOR (NOT e AND g)) + k + w;
          t2 = Sigma0 a + ((a AND b) XOR (a AND c) XOR (b AND c))
      in [t1 + t2, a, b, c, d + t1, e, f, g])"
| "sha_round _ s = s"

definition sha_block :: "bytes \<Rightarrow> u32 list \<Rightarrow> u32 list" where
  "sha_block block s = map2 (+) s (fold sha_round (zip sha_K (sha_schedule block)) s)"

definition sha256 :: "bytes \<Rightarrow> bytes" where
  "sha256 m = concat (map be32 (fold sha_block (chunks 64 (sha_pad m)) sha_init))"

section \<open>HMAC\<close>

definition hmac_key :: "bytes \<Rightarrow> bytes" where
  "hmac_key key =
     (let k = (if length key > 64 then sha256 key else key) in k @ replicate (64 - length k) 0)"

definition hmac_sha256 :: "bytes \<Rightarrow> bytes \<Rightarrow> bytes" where
  "hmac_sha256 key m =
     (let k = hmac_key key in
      sha256 (map (\<lambda>b. b XOR 0x5c) k @ sha256 (map (\<lambda>b. b XOR 0x36) k @ m)))"

section \<open>Sizes\<close>

lemma length_sha_round: "length (sha_round kw s) = length s"
  by (induction kw s rule: sha_round.induct) (simp_all add: Let_def)

lemma length_fold_sha_round: "length (fold sha_round kws s) = length s"
  by (induction kws arbitrary: s) (simp_all add: length_sha_round)

lemma length_fold_sha_block: "length (fold sha_block bs s) = length s"
  by (induction bs arbitrary: s) (simp_all add: sha_block_def length_fold_sha_round)

lemma length_concat_be32: "length (concat (map be32 xs)) = 4 * length xs"
  by (induction xs) (simp_all add: be32_def)

lemma length_sha256 [simp]: "length (sha256 m) = 32"
  by (simp add: sha256_def length_concat_be32 length_fold_sha_block sha_init_def)

lemma length_hmac_sha256 [simp]: "length (hmac_sha256 key m) = 32"
  by (simp add: hmac_sha256_def Let_def)

end
