(* ===== verification/Crypto.thy ===== *)
theory Crypto
  imports Sha256 Go_Std
begin

text \<open>
  \<open>internal/pkg/crypto/crypto.go\<close>: random keys, the intermediate key, CBC
  encryption and authentication codes, with the parts of the standard library
  below them (CBC mode, \<open>encoding/hex\<close>) and the vendored packages they use: the
  key derivation \<open>golang.org/x/crypto/hkdf\<close> and random identifiers
  \<open>github.com/google/uuid\<close>.

  The random source of the system is a parameter: it fails, or supplies the bytes
  that fill the buffer it is asked to fill.
\<close>

section \<open>Random bytes\<close>

type_synonym 'w randsrc = "('w, goerr + (nat \<Rightarrow> byte)) ext"

definition GenerateRandomBytes :: "'w randsrc \<Rightarrow> nat \<Rightarrow> ('w, goerr + bytes) prog" where
  "GenerateRandomBytes rand n = tryP (callP rand) (\<lambda>b. retP (Inr (map b [0..<n])))"

definition GenerateVMK :: "'w randsrc \<Rightarrow> ('w, goerr + bytes) prog" where
  "GenerateVMK rand = GenerateRandomBytes rand 64"

definition GenerateIV :: "'w randsrc \<Rightarrow> ('w, goerr + bytes) prog" where
  "GenerateIV rand = GenerateRandomBytes rand 32"

definition GenerateUserKey :: "'w randsrc \<Rightarrow> ('w, goerr + bytes) prog" where
  "GenerateUserKey rand = GenerateRandomBytes rand 32"

section \<open>Key derivation\<close>

text \<open>
  The reader of \<open>hkdf\<close> over SHA-256: the key of the expander, the info, the counter of the next
  block, the last block, and what of it has not been read. \<open>salt\<close> is \<open>None\<close> when it
  is nil.
\<close>

record hkdf =
  hk_expander :: bytes
  hk_size :: nat
  hk_info :: bytes
  hk_counter :: byte
  hk_prev :: bytes
  hk_buf :: bytes

definition hkdf_Extract :: "bytes \<Rightarrow> bytes option \<Rightarrow> bytes" where
  "hkdf_Extract secret salt =
     (let salt = (case salt of None \<Rightarrow> replicate 32 0 | Some s \<Rightarrow> s) in hmac_sha256 salt secret)"

definition hkdf_Expand :: "bytes \<Rightarrow> bytes \<Rightarrow> hkdf" where
  "hkdf_Expand prk info =
     \<lparr>hk_expander = prk, hk_size = 32, hk_info = info, hk_counter = 1,
      hk_prev = [], hk_buf = []\<rparr>"

definition hkdf_New :: "bytes \<Rightarrow> bytes option \<Rightarrow> bytes \<Rightarrow> hkdf" where
  "hkdf_New secret salt info = hkdf_Expand (hkdf_Extract secret salt) info"

text \<open>The next block of the expander.\<close>

definition hkdf_next :: "hkdf \<Rightarrow> hkdf" where
  "hkdf_next f =
     (let prev = hmac_sha256 (hk_expander f) (hk_prev f @ hk_info f @ [hk_counter f])
      in f\<lparr>hk_prev := prev, hk_counter := hk_counter f + 1, hk_buf := prev\<rparr>)"

text \<open>
  The loop of \<open>Read\<close>, while \<open>p\<close> bytes are still to be filled; \<open>n\<close> is the number of
  bytes of the buffer used last. It ends because every block has 32 bytes.
\<close>

function hkdf_fill :: "hkdf \<Rightarrow> nat \<Rightarrow> nat \<Rightarrow> bytes \<Rightarrow> bytes \<times> hkdf \<times> nat" where
  "hkdf_fill f n p out =
     (if p = 0 then (out, f, n)
      else (let f' = hkdf_next f; m = min p (length (hk_buf f'))
            in hkdf_fill f' m (p - m) (out @ take m (hk_buf f'))))"
  by pat_completeness auto

lemma length_hkdf_next [simp]: "length (hk_buf (hkdf_next f)) = 32"
  by (simp add: hkdf_next_def Let_def)

termination hkdf_fill
  by (relation "measure (\<lambda>(f, n, p, out). p)") auto

declare hkdf_fill.simps [simp del]

definition hkdf_Read :: "hkdf \<Rightarrow> nat \<Rightarrow> (goerr + bytes) \<times> hkdf" where
  "hkdf_Read f need =
     (let remains = length (hk_buf f) + unat (255 - hk_counter f + 1) * hk_size f in
      if remains < need then (Inl (StdError ''hkdf: entropy limit reached''), f)
      else (let n = min need (length (hk_buf f)) in
            case hkdf_fill f n (need - n) (take n (hk_buf f)) of
              (out, f', m) \<Rightarrow> (Inr out, f'\<lparr>hk_buf := drop m (hk_buf f')\<rparr>)))"

definition CreateIK :: "bytes \<Rightarrow> bytes \<Rightarrow> goerr + bytes" where
  "CreateIK userKey iv = fst (hkdf_Read (hkdf_New userKey (Some iv) []) 32)"

section \<open>CBC encryption\<close>

primrec cbc_encrypt :: "(bytes \<Rightarrow> bytes) \<Rightarrow> bytes \<Rightarrow> bytes list \<Rightarrow> bytes list" where
  "cbc_encrypt E iv [] = []"
| "cbc_encrypt E iv (b # bs) = (let c = E (xor_bytes b iv) in c # cbc_encrypt E c bs)"

primrec cbc_decrypt :: "(bytes \<Rightarrow> bytes) \<Rightarrow> bytes \<Rightarrow> bytes list \<Rightarrow> bytes list" where
  "cbc_decrypt D iv [] = []"
| "cbc_decrypt D iv (c # cs) = xor_bytes (D c) iv # cbc_decrypt D c cs"

abbreviation BlockSize :: nat where "BlockSize \<equiv> 16"

text \<open>\<open>aes.NewCipher\<close>: a cipher is given by its key.\<close>

definition aes_NewCipher :: "bytes \<Rightarrow> goerr + bytes" where
  "aes_NewCipher key =
     (if length key = 16 \<or> length key = 24 \<or> length key = 32 then Inr key
      else Inl (StdError (''crypto/aes: invalid key size '' @ show_nat (length key))))"

definition Encrypt :: "'w randsrc \<Rightarrow> bytes \<Rightarrow> bytes \<Rightarrow> ('w, goerr + bytes) prog" where
  "Encrypt rand plaintext key =
     (if length plaintext mod BlockSize \<noteq> 0
      then retP (Inl (StdError ''plaintext is not a multiple of the block size''))
      else case aes_NewCipher key of
        Inl err \<Rightarrow> retP (Inl err)
      | Inr block \<Rightarrow>
          tryP (GenerateRandomBytes rand BlockSize) (\<lambda>iv.
            retP (Inr (iv @ concat (cbc_encrypt (aes_Encrypt block) iv (chunks BlockSize plaintext))))))"

definition Decrypt :: "bytes \<Rightarrow> bytes \<Rightarrow> goerr + bytes" where
  "Decrypt ciphertext key =
     (case aes_NewCipher key of
        Inl err \<Rightarrow> Inl err
      | Inr block \<Rightarrow>
          if length ciphertext < BlockSize then Inl (StdError ''ciphertext too short'')
          else (let iv = take BlockSize ciphertext; ciphertext = drop BlockSize ciphertext in
                if length ciphertext mod BlockSize \<noteq> 0
                then Inl (StdError ''ciphertext is not a multiple of the block size'')
                else Inr (concat (cbc_decrypt (aes_Decrypt block) iv (chunks BlockSize ciphertext)))))"

section \<open>Authentication codes\<close>

text \<open>Writing to a hash never fails.\<close>

definition CreateHMAC :: "bytes \<Rightarrow> bytes \<Rightarrow> goerr + bytes" where
  "CreateHMAC message key = Inr (hmac_sha256 key message)"

definition CheckHMAC :: "bytes \<Rightarrow> bytes \<Rightarrow> bytes \<Rightarrow> goerr + bool" where
  "CheckHMAC message messageMAC key =
     (case CreateHMAC message key of
        Inl err \<Rightarrow> Inl err
      | Inr expectedMAC \<Rightarrow> Inr (messageMAC = expectedMAC))"

section \<open>Hexadecimal\<close>

definition hex_digit :: "nat \<Rightarrow> char" where
  "hex_digit n = ''0123456789abcdef'' ! n"

definition hex_EncodeToString :: "bytes \<Rightarrow> string" where
  "hex_EncodeToString bs = concat (map (\<lambda>b. [hex_digit (unat b div 16), hex_digit (unat b mod 16)]) bs)"

text \<open>\<open>fromHexChar\<close>, with both cases of letters.\<close>

definition fromHexChar :: "char \<Rightarrow> nat option" where
  "fromHexChar c =
     (let n = of_char c :: nat in
      if 48 \<le> n \<and> n \<le> 57 then Some (n - 48)
      else if 97 \<le> n \<and> n \<le> 102 then Some (n - 97 + 10)
      else if 65 \<le> n \<and> n \<le> 70 then Some (n - 65 + 10)
      else None)"

definition InvalidByteError :: "char \<Rightarrow> goerr" where
  "InvalidByteError c = StdError (''encoding/hex: invalid byte: '' @ [c])"

fun hex_DecodeString :: "string \<Rightarrow> goerr + bytes" where
  "hex_DecodeString [] = Inr []"
| "hex_DecodeString [c] =
     (case fromHexChar c of
        None \<Rightarrow> Inl (InvalidByteError c)
      | Some a \<Rightarrow> Inl (StdError ''encoding/hex: odd length hex string''))"
| "hex_DecodeString (c # d # s) =
     (case fromHexChar c of
        None \<Rightarrow> Inl (InvalidByteError c)
      | Some a \<Rightarrow>
          (case fromHexChar d of
             None \<Rightarrow> Inl (InvalidByteError d)
           | Some b \<Rightarrow>
               (case hex_DecodeString s of
                  Inl err \<Rightarrow> Inl err
                | Inr bs \<Rightarrow> Inr (word_of_nat (16 * a + b) # bs))))"

section \<open>Random identifiers\<close>

definition NewRandomFromReader :: "'w randsrc \<Rightarrow> ('w, goerr + bytes) prog" where
  "NewRandomFromReader r =
     tryP (GenerateRandomBytes r 16) (\<lambda>uuid.
       let uuid = uuid[6 := (uuid ! 6 AND 0x0f) OR 0x40];
           uuid = uuid[8 := (uuid ! 8 AND 0x3f) OR 0x80]
       in retP (Inr uuid))"

text \<open>\<open>New\<close> is \<open>Must (NewRandom ())\<close>: it panics when the random source fails.\<close>

definition uuid_New :: "'w randsrc \<Rightarrow> ('w, bytes) prog" where
  "uuid_New rand =
     bindP (NewRandomFromReader rand) (\<lambda>r. case r of Inl err \<Rightarrow> panicP | Inr uuid \<Rightarrow> retP uuid)"

definition uuid_String :: "bytes \<Rightarrow> string" where
  "uuid_String u =
     hex_EncodeToString (take 4 u) @ ''-'' @
     hex_EncodeToString (take 2 (drop 4 u)) @ ''-'' @
     hex_EncodeToString (take 2 (drop 6 u)) @ ''-'' @
     hex_EncodeToString (take 2 (drop 8 u)) @ ''-'' @
     hex_EncodeToString (drop 10 u)"

section \<open>Block ciphers in CBC mode\<close>

text \<open>What CBC relies on: a cipher on blocks of a fixed size with its inverse.\<close>

locale block_cipher =
  fixes E D :: "bytes \<Rightarrow> bytes" and size :: nat
  assumes size_pos: "0 < size"
    and length_E: "length b = size \<Longrightarrow> length (E b) = size"
    and D_E: "length b = size \<Longrightarrow> D (E b) = b"
begin

lemma cbc_blocks:
  assumes "length iv = size" and "\<forall>b \<in> set bs. length b = size"
  shows "cbc_decrypt D iv (cbc_encrypt E iv bs) = bs \<and>
         (\<forall>c \<in> set (cbc_encrypt E iv bs). length c = size)"
  using assms
proof (induction bs arbitrary: iv)
  case (Cons b bs)
  let ?c = "E (xor_bytes b iv)"
  from Cons.prems have b: "length b = size" and x: "length (xor_bytes b iv) = size" by simp_all
  from x have c: "length ?c = size" by (rule length_E)
  have "cbc_decrypt D ?c (cbc_encrypt E ?c bs) = bs \<and>
        (\<forall>c \<in> set (cbc_encrypt E ?c bs). length c = size)"
    using Cons.prems by (intro Cons.IH c) simp
  with x c b Cons.prems(1) show ?case by (simp add: D_E Let_def)
qed simp

lemma length_cbc: "length (cbc_encrypt E iv bs) = length bs"
  by (induction bs arbitrary: iv) (simp_all add: Let_def)

end

lemma chunks_concat: "0 < n \<Longrightarrow> \<forall>b \<in> set bs. length b = n \<Longrightarrow> chunks n (concat bs) = bs"
  by (induction bs) (simp_all add: chunks.simps)

lemma concat_chunks: "0 < n \<Longrightarrow> n dvd length xs \<Longrightarrow> concat (chunks n xs) = xs"
proof (induction n xs rule: chunks.induct)
  case (1 n xs)
  show ?case
  proof (cases "length xs < n")
    case True
    with 1 have "xs = []" by (auto dest: dvd_imp_le)
    with True show ?thesis by (simp add: chunks.simps)
  next
    case False
    with "1.prems" have "n dvd length (drop n xs)" by (simp add: dvd_diff_nat)
    with 1 False have "concat (chunks n (drop n xs)) = drop n xs" by simp
    with False "1.prems" show ?thesis by (subst chunks.simps) simp
  qed
qed

lemma length_concat_same: "\<forall>b \<in> set bs. length b = n \<Longrightarrow> length (concat bs) = n * length bs"
  by (induction bs) simp_all

interpretation aes: block_cipher "aes_Encrypt key" "aes_Decrypt key" BlockSize for key
  by unfold_locales (simp_all add: length_aes_Encrypt aes_Decrypt_Encrypt)

lemma length_GenerateRandomBytes:
  "GenerateRandomBytes rand n w = (Ret (Inr b), w') \<Longrightarrow> length b = n"
  by (auto simp: GenerateRandomBytes_def prog_simps split: sum.splits)

lemma no_panic_GenerateRandomBytes [simp, intro]: "no_panic (GenerateRandomBytes rand n)"
  unfolding GenerateRandomBytes_def by auto

text \<open>What \<open>Encrypt\<close> returns, \<open>Decrypt\<close> turns back.\<close>

lemma Encrypt_Decrypt:
  assumes "Encrypt rand p key w = (Ret (Inr c), w')"
  shows "Decrypt c key = Inr p \<and> length c = BlockSize + length p"
proof -
  from assms obtain iv where key: "aes_NewCipher key = Inr key" and p: "BlockSize dvd length p"
    and iv: "length iv = BlockSize"
    and c: "c = iv @ concat (cbc_encrypt (aes_Encrypt key) iv (chunks BlockSize p))"
    by (auto simp: Encrypt_def prog_simps aes_NewCipher_def mod_eq_0_iff_dvd
        dest: length_GenerateRandomBytes split: if_splits prod.splits outcome.splits sum.splits)
  have blocks: "\<forall>b \<in> set (chunks BlockSize p). length b = BlockSize"
    by (auto dest: chunks_length)
  note cbc = aes.cbc_blocks [where key = key, OF iv blocks]
  have "length (concat (cbc_encrypt (aes_Encrypt key) iv (chunks BlockSize p))) =
        length (concat (chunks BlockSize p))"
    using cbc blocks by (simp add: length_concat_same [where n = BlockSize] aes.length_cbc)
  also have "\<dots> = length p" using p by (simp add: concat_chunks)
  finally show ?thesis
    using key iv c p cbc
    by (simp add: Decrypt_def chunks_concat concat_chunks mod_eq_0_iff_dvd)
qed

section \<open>Key derivation follows RFC 5869\<close>

text \<open>
  The blocks \<open>T(i)\<close> of the specification and the at most 255 blocks of output.
\<close>

primrec rfc_T :: "bytes \<Rightarrow> bytes \<Rightarrow> nat \<Rightarrow> bytes" where
  "rfc_T prk info 0 = []"
| "rfc_T prk info (Suc i) = hmac_sha256 prk (rfc_T prk info i @ info @ [word_of_nat (Suc i)])"

definition rfc_from :: "bytes \<Rightarrow> bytes \<Rightarrow> nat \<Rightarrow> bytes" where
  "rfc_from prk info i = concat (map (rfc_T prk info) [i..<256])"

definition rfc_okm :: "bytes \<Rightarrow> bytes \<Rightarrow> bytes" where
  "rfc_okm prk info = rfc_from prk info 1"

lemma length_rfc_T: "0 < i \<Longrightarrow> length (rfc_T prk info i) = 32"
  by (cases i) simp_all

lemma length_rfc_from: "0 < i \<Longrightarrow> length (rfc_from prk info i) = 32 * (256 - i)"
  unfolding rfc_from_def by (subst length_concat_same [where n = 32]) (auto simp: length_rfc_T)

lemma rfc_from_step: "i < 256 \<Longrightarrow> rfc_from prk info i = rfc_T prk info i @ rfc_from prk info (Suc i)"
  by (simp add: rfc_from_def upt_conv_Cons)

text \<open>
  A reader after \<open>i\<close> blocks: its last block is \<open>T(i)\<close>, and the counter says which
  block is next (256 as a byte is 0).
\<close>

definition hkdf_at :: "bytes \<Rightarrow> bytes \<Rightarrow> nat \<Rightarrow> hkdf \<Rightarrow> bool" where
  "hkdf_at prk info i f \<longleftrightarrow>
     hk_expander f = prk \<and> hk_size f = 32 \<and> hk_info f = info \<and> hk_prev f = rfc_T prk info i \<and>
     hk_counter f = word_of_nat (Suc i) \<and> i \<le> 255"

lemma hkdf_at_next:
  assumes "hkdf_at prk info i f" and "i < 255"
  shows "hkdf_at prk info (Suc i) (hkdf_next f)" and "hk_buf (hkdf_next f) = rfc_T prk info (Suc i)"
  using assms by (simp_all add: hkdf_at_def hkdf_next_def Let_def)

lemma hkdf_fill_run:
  assumes "hkdf_at prk info i f" and "p \<le> 32 * (255 - i)"
    and "hkdf_fill f n p out = (out', f', m)"
  shows "out' = out @ take p (rfc_from prk info (Suc i)) \<and>
         (\<exists>j. hkdf_at prk info j f' \<and>
              (if p = 0 then f' = f \<and> m = n \<and> j = i
               else drop m (hk_buf f') @ rfc_from prk info (Suc j) = drop p (rfc_from prk info (Suc i))))"
  using assms
proof (induction f n p out arbitrary: i rule: hkdf_fill.induct)
  case (1 f n p out)
  show ?case
  proof (cases "p = 0")
    case True
    with 1 show ?thesis by (auto simp: hkdf_fill.simps)
  next
    case False
    let ?f = "hkdf_next f" and ?m = "min p 32" and ?r = "rfc_from prk info"
    from False "1.prems" have i: "i < 255" by auto
    note nx = hkdf_at_next [OF "1.prems"(1) i]
    have T: "length (rfc_T prk info (Suc i)) = 32" by (simp add: length_rfc_T)
    have split: "?r (Suc i) = rfc_T prk info (Suc i) @ ?r (Suc (Suc i))"
      using i by (intro rfc_from_step) simp
    from "1.prems"(3) False
    have rest: "hkdf_fill ?f ?m (p - ?m) (out @ take ?m (hk_buf ?f)) = (out', f', m)"
      by (simp add: hkdf_fill.simps [of f] Let_def)
    have "p - ?m \<le> 32 * (255 - Suc i)" using "1.prems"(2) by auto
    from "1.IH" [of ?f ?m, OF False refl _ nx(1) this rest]
    have "out' = (out @ take ?m (hk_buf ?f)) @ take (p - ?m) (?r (Suc (Suc i))) \<and>
         (\<exists>j. hkdf_at prk info j f' \<and>
              (if p - ?m = 0 then f' = ?f \<and> m = ?m \<and> j = Suc i
               else drop m (hk_buf f') @ ?r (Suc j) = drop (p - ?m) (?r (Suc (Suc i)))))"
      by simp
    then show ?thesis
      using False nx(2) T by (auto simp: split min_def split: if_splits)
  qed
qed

text \<open>A reader that has delivered the first \<open>a\<close> bytes.\<close>

definition hkdf_reads :: "bytes \<Rightarrow> bytes \<Rightarrow> nat \<Rightarrow> hkdf \<Rightarrow> bool" where
  "hkdf_reads prk info a f \<longleftrightarrow>
     a \<le> 8160 \<and>
     (\<exists>i. hkdf_at prk info i f \<and> hk_buf f @ rfc_from prk info (Suc i) = drop a (rfc_okm prk info))"

lemma length_rfc_okm: "length (rfc_okm prk info) = 8160"
  by (simp add: rfc_okm_def length_rfc_from)

lemma hkdf_reads_Expand: "hkdf_reads prk info 0 (hkdf_Expand prk info)"
  by (auto simp: hkdf_reads_def hkdf_at_def hkdf_Expand_def rfc_okm_def intro!: exI [of _ 0])

lemma counter_remains:
  assumes "i \<le> 255"
  shows "unat (255 - word_of_nat (Suc i) + 1 :: byte) = 255 - i"
proof -
  have "(255 - word_of_nat (Suc i) + 1 :: byte) = word_of_nat (255 - i)"
    using assms by (simp add: of_nat_diff)
  then show ?thesis using assms by (simp only: unat_of_nat) simp
qed

lemma hkdf_Read_at:
  assumes reads: "hkdf_reads prk info a f"
  shows "case hkdf_Read f n of
           (Inr out, f') \<Rightarrow> a + n \<le> 8160 \<and> out = take n (drop a (rfc_okm prk info)) \<and>
                            hkdf_reads prk info (a + n) f'
         | (Inl err, f') \<Rightarrow> 8160 < a + n \<and> f' = f"
proof -
  from reads obtain i where at: "hkdf_at prk info i f" and a: "a \<le> 8160"
    and buf: "hk_buf f @ rfc_from prk info (Suc i) = drop a (rfc_okm prk info)"
    by (auto simp: hkdf_reads_def)
  from arg_cong [OF buf, of length]
  have len: "length (hk_buf f) + 32 * (255 - i) = 8160 - a"
    by (simp add: length_rfc_from length_rfc_okm)
  have remains: "length (hk_buf f) + unat (255 - hk_counter f + 1) * hk_size f = 8160 - a"
    using at len counter_remains [of i] by (simp add: hkdf_at_def)
  show ?thesis
  proof (cases "8160 - a < n")
    case True
    then show ?thesis unfolding hkdf_Read_def remains by simp
  next
    case False
    let ?n = "min n (length (hk_buf f))"
    obtain out f' m where fill: "hkdf_fill f ?n (n - ?n) (take ?n (hk_buf f)) = (out, f', m)"
      by (metis prod_cases3)
    have "n - ?n \<le> 32 * (255 - i)" using False len by auto
    from hkdf_fill_run [OF at this fill]
    obtain j where out: "out = take ?n (hk_buf f) @ take (n - ?n) (rfc_from prk info (Suc i))"
      and at': "hkdf_at prk info j f'"
      and rest: "if n - ?n = 0 then f' = f \<and> m = ?n \<and> j = i
                 else drop m (hk_buf f') @ rfc_from prk info (Suc j) =
                      drop (n - ?n) (rfc_from prk info (Suc i))"
      by auto
    have o: "out = take n (drop a (rfc_okm prk info))"
      unfolding out buf [symmetric] by (auto simp: min_def)
    have "drop m (hk_buf f') @ rfc_from prk info (Suc j) =
          drop n (hk_buf f @ rfc_from prk info (Suc i))"
      using rest by (auto simp: min_def split: if_splits)
    also have "\<dots> = drop (a + n) (rfc_okm prk info)"
      by (simp add: buf add.commute)
    finally have "hkdf_reads prk info (a + n) (f'\<lparr>hk_buf := drop m (hk_buf f')\<rparr>)"
      using at' a False by (auto simp: hkdf_reads_def hkdf_at_def)
    with False a o show ?thesis unfolding hkdf_Read_def remains by (simp add: fill)
  qed
qed

lemma CreateIK_eq: "CreateIK userKey iv = Inr (take 32 (rfc_okm (hmac_sha256 iv userKey) []))"
proof -
  have "hkdf_reads (hmac_sha256 iv userKey) [] 0 (hkdf_New userKey (Some iv) [])"
    by (simp add: hkdf_New_def hkdf_Extract_def hkdf_reads_Expand)
  from hkdf_Read_at [OF this, of 32] show ?thesis
    by (auto simp: CreateIK_def split: prod.splits sum.splits)
qed

lemma length_CreateIK: "CreateIK userKey iv = Inr ik \<Longrightarrow> length ik = 32"
  by (auto simp: CreateIK_eq length_rfc_okm)

section \<open>Hexadecimal round trip\<close>

lemma fromHexChar_table: "list_all (\<lambda>n. fromHexChar (hex_digit n) = Some n) [0..<16]"
  by code_simp

lemma fromHexChar_hex_digit: "n < 16 \<Longrightarrow> fromHexChar (hex_digit n) = Some n"
  using fromHexChar_table by (simp add: list_all_iff)

lemma hex_roundtrip [simp]: "hex_DecodeString (hex_EncodeToString bs) = Inr bs"
proof (induction bs)
  case Nil
  show ?case by (simp add: hex_EncodeToString_def)
next
  case (Cons b bs)
  have "unat b < 256" using unsigned_less [of b] by simp
  then have d: "fromHexChar (hex_digit (unat b div 16)) = Some (unat b div 16)"
    and m: "fromHexChar (hex_digit (unat b mod 16)) = Some (unat b mod 16)"
    by (simp_all add: fromHexChar_hex_digit less_mult_imp_div_less)
  have "word_of_nat (16 * (unat b div 16) + unat b mod 16) = b"
    by (simp only: mult_div_mod_eq) simp
  with Cons.IH d m show ?case by (simp add: hex_EncodeToString_def)
qed

lemma hex_EncodeToString_inject: "hex_EncodeToString a = hex_EncodeToString b \<longleftrightarrow> a = b"
  by (metis hex_roundtrip sum.inject(2))

section \<open>Properties\<close>

text \<open>
  C29. Encryption round trip, with AES itself. For a plaintext of whole blocks and a
  key of 16, 24 or 32 bytes, \<open>Encrypt\<close> fails only when the random source does, and
  otherwise returns a ciphertext one block longer that \<open>Decrypt\<close> turns back into
  the plaintext; for any other plaintext or key it fails before it asks for random
  bytes. It never panics.
\<close>

theorem Encrypt_roundtrip:
  "if length p mod 16 = 0 \<and> length key \<in> {16, 24, 32}
   then case fst (rand w) of
          Inl err \<Rightarrow> Encrypt rand p key w = (Ret (Inl err), snd (rand w))
        | Inr b \<Rightarrow> (\<exists>c. Encrypt rand p key w = (Ret (Inr c), snd (rand w)) \<and>
                        take 16 c = map b [0..<16] \<and> length c = 16 + length p \<and>
                        Decrypt c key = Inr p)
   else \<exists>err. Encrypt rand p key w = (Ret (Inl err), w)"
proof (cases "length p mod 16 = 0 \<and> length key \<in> {16, 24, 32}")
  case True
  then have key: "aes_NewCipher key = Inr key" and p: "length p mod 16 = 0"
    by (auto simp: aes_NewCipher_def)
  show ?thesis
  proof (cases "fst (rand w)")
    case (Inl err)
    with key p True show ?thesis by (auto simp: Encrypt_def GenerateRandomBytes_def prog_simps)
  next
    case (Inr b)
    let ?iv = "map b [0..<16]"
    have "Encrypt rand p key w =
        (Ret (Inr (?iv @ concat (cbc_encrypt (aes_Encrypt key) ?iv (chunks 16 p)))), snd (rand w))"
      using Inr key p by (simp add: Encrypt_def GenerateRandomBytes_def prog_simps)
    with Encrypt_Decrypt [OF this] show ?thesis using Inr True by simp
  qed
next
  case False
  then show ?thesis
    by (auto simp: Encrypt_def aes_NewCipher_def prog_simps)
qed

text \<open>
  C30. The key derivation is the one of RFC 5869: reading \<open>a\<close> and then \<open>b\<close> bytes from
  a new reader returns the first \<open>a\<close> bytes of the specified output and the \<open>b\<close> bytes
  after them, however the reads fall on the blocks, up to 255 blocks of 32 bytes;
  a read beyond that fails and leaves the reader as it was.
\<close>

theorem hkdf_Read_rfc5869:
  "case hkdf_Read (hkdf_New secret (Some salt) info) a of
     (r, f) \<Rightarrow>
       (if a \<le> 8160
        then r = Inr (take a (rfc_okm (hmac_sha256 salt secret) info)) \<and>
             (case hkdf_Read f b of
                (r', f') \<Rightarrow>
                  if a + b \<le> 8160 then r' = Inr (take b (drop a (rfc_okm (hmac_sha256 salt secret) info)))
                  else isl r' \<and> f' = f)
        else isl r \<and> f = hkdf_New secret (Some salt) info)"
proof -
  let ?prk = "hmac_sha256 salt secret" and ?f0 = "hkdf_New secret (Some salt) info"
  have new: "hkdf_reads ?prk info 0 ?f0"
    by (simp add: hkdf_New_def hkdf_Extract_def hkdf_reads_Expand)
  obtain r f where r: "hkdf_Read ?f0 a = (r, f)" by fastforce
  obtain r' f' where r': "hkdf_Read f b = (r', f')" by fastforce
  show ?thesis
  proof (cases r)
    case (Inl err)
    with hkdf_Read_at [OF new, of a] r show ?thesis by auto
  next
    case (Inr out)
    with hkdf_Read_at [OF new, of a] r
    have out: "out = take a (rfc_okm ?prk info)" "a \<le> 8160" and f: "hkdf_reads ?prk info a f" by auto
    from hkdf_Read_at [OF f, of b] r' r Inr out show ?thesis
      by (cases r') auto
  qed
qed

end
