(* ===== verification/Key_Manager.thy ===== *)
theory Key_Manager
  imports Crypto K8s_Trace Mem_K8s
begin

text \<open>
  \<open>controllers/pvc-mutator/encryption/keys/manager.go\<close>: the manager that creates
  the namespace key and the volume keys of encrypted volumes as secrets.
\<close>

section \<open>Operations\<close>

definition secret_new :: "objkey \<Rightarrow> (string \<times> bytes) list \<Rightarrow> smap \<Rightarrow> secret" where
  "secret_new key data labels =
     \<lparr>sec_Kind = ''Secret'', sec_APIVersion = ''v1'',
      sec_meta = empty_meta\<lparr>meta_Name := key_Name key, meta_Namespace := key_Namespace key,
                            meta_Labels := labels\<rparr>,
      sec_Data = Some data\<rparr>"

definition keyFromSecret :: "secret \<Rightarrow> goerr + string" where
  "keyFromSecret s =
     (case sec_Data s of
        None \<Rightarrow> Inl ErrNoKeyInSecret
      | Some data \<Rightarrow>
          (case map_of data ''key'' of
             Some key \<Rightarrow> if 0 < length key then Inr (hex_EncodeToString key) else Inl ErrNoKeyInSecret
           | None \<Rightarrow> Inl ErrNoKeyInSecret))"

definition ensureNamespaceKey ::
  "'w k8s_client \<Rightarrow> 'w randsrc \<Rightarrow> objkey \<Rightarrow> smap \<Rightarrow> ('w, goerr + string) prog" where
  "ensureNamespaceKey k8s rand nsKeyRef labels =
     bindP (callP (k8s_GetSecret k8s nsKeyRef)) (\<lambda>r. case r of
       Inr existing \<Rightarrow> retP (keyFromSecret existing)
     | Inl err \<Rightarrow>
         if \<not> IsNotFound err then retP (Inl err)
         else tryP (GenerateUserKey rand) (\<lambda>key.
              tryP (callP (k8s_CreateSecret k8s (secret_new nsKeyRef [(''key'', key)] labels))) (\<lambda>secret.
                retP (keyFromSecret secret))))"

text \<open>The generated keys of a volume, and the secret that holds them.\<close>

definition volumeKeyData :: "'w randsrc \<Rightarrow> string \<Rightarrow> ('w, goerr + (string \<times> bytes) list) prog" where
  "volumeKeyData rand nsKey =
     tryP (GenerateIV rand) (\<lambda>iv.
     tryP (GenerateVMK rand) (\<lambda>vmk.
     tryP (retP (hex_DecodeString nsKey)) (\<lambda>nskeyBytes.
     tryP (retP (CreateIK nskeyBytes iv)) (\<lambda>ik.
     tryP (Encrypt rand vmk ik) (\<lambda>vuk.
     tryP (retP (CreateHMAC vmk iv)) (\<lambda>hmac.
       retP (Inr [(''key'', vmk), (''iv'', iv), (''vuk'', vuk), (''hmac'', hmac)])))))))"

definition createVolumeKey ::
  "'w k8s_client \<Rightarrow> 'w randsrc \<Rightarrow> objkey \<Rightarrow> string \<Rightarrow> smap \<Rightarrow> ('w, error_or_nil) prog" where
  "createVolumeKey k8s rand volKeyRef nsKey labels =
     tryE (volumeKeyData rand nsKey) (\<lambda>data.
     tryE (callP (k8s_CreateSecret k8s (secret_new volKeyRef data labels))) (\<lambda>_.
       retP None))"

definition KeyManager_Ensure ::
  "'w k8s_client \<Rightarrow> 'w randsrc \<Rightarrow> objkey \<Rightarrow> objkey \<Rightarrow> smap \<Rightarrow> smap \<Rightarrow> ('w, error_or_nil) prog" where
  "KeyManager_Ensure k8s rand nsKeyRef volKeyRef nsSecretLabels volSecretLabels =
     bindP (callP (k8s_GetSecret k8s volKeyRef)) (\<lambda>r. case r of
       Inr s \<Rightarrow> retP None
     | Inl err \<Rightarrow>
         if \<not> IsNotFound err then retP (Some err)
         else tryE (ensureNamespaceKey k8s rand nsKeyRef nsSecretLabels) (\<lambda>nsKey.
              createVolumeKey k8s rand volKeyRef nsKey volSecretLabels))"

section \<open>What the secrets hold\<close>

text \<open>
  A namespace secret as the manager creates it, and a volume secret whose parts
  belong together: the volume key is the master key encrypted under the
  intermediate key of the namespace key, and the code authenticates the master key.
\<close>

definition new_namespace_secret :: "objkey \<Rightarrow> smap \<Rightarrow> secret \<Rightarrow> bool" where
  "new_namespace_secret ref labels s \<longleftrightarrow>
     (\<exists>key. length key = 32 \<and> s = secret_new ref [(''key'', key)] labels)"

definition volume_data_ok :: "bytes \<Rightarrow> (string \<times> bytes) list option \<Rightarrow> bool" where
  "volume_data_ok nsKey data \<longleftrightarrow>
     (\<exists>vmk iv vuk mac ik.
        data = Some [(''key'', vmk), (''iv'', iv), (''vuk'', vuk), (''hmac'', mac)] \<and>
        length vmk = 64 \<and> length iv = 32 \<and> length vuk = 80 \<and>
        CreateIK nsKey iv = Inr ik \<and> Decrypt vuk ik = Inr vmk \<and> CheckHMAC vmk mac iv = Inr True)"

definition new_volume_secret :: "objkey \<Rightarrow> smap \<Rightarrow> bytes \<Rightarrow> secret \<Rightarrow> bool" where
  "new_volume_secret ref labels nsKey s \<longleftrightarrow>
     volume_data_ok nsKey (sec_Data s) \<and> s = secret_new ref (the (sec_Data s)) labels"

lemma keyFromSecret_iff:
  "keyFromSecret s = Inr k \<longleftrightarrow>
     (\<exists>data key. sec_Data s = Some data \<and> map_of data ''key'' = Some key \<and> key \<noteq> [] \<and>
                 k = hex_EncodeToString key)"
  by (auto simp: keyFromSecret_def split: option.splits)

lemma key_secret_new [simp]: "meta_key (sec_meta (secret_new ref data labels)) = ref"
  by (cases ref) (simp add: secret_new_def meta_key_def)

lemma data_secret_new [simp]: "sec_Data (secret_new ref data labels) = Some data"
  by (simp add: secret_new_def)

lemma no_panic_Encrypt [simp, intro]: "no_panic (Encrypt rand p key)"
  unfolding Encrypt_def by (auto intro!: no_panic_tryP split: sum.split)

lemma no_panic_volumeKeyData [simp, intro]: "no_panic (volumeKeyData rand nsKey)"
  unfolding volumeKeyData_def GenerateIV_def GenerateVMK_def by (auto intro!: no_panic_tryP)

text \<open>The parts of the generated data belong together.\<close>

lemma volumeKeyData_ok:
  assumes "volumeKeyData rand nsKey w = (Ret (Inr data), w')"
  obtains nk where "hex_DecodeString nsKey = Inr nk" and "volume_data_ok nk (Some data)"
proof -
  from assms obtain iv vmk nk ik vuk w1 w2 where
    riv: "GenerateRandomBytes rand 32 w = (Ret (Inr iv), w1)"
    and rvmk: "GenerateRandomBytes rand 64 w1 = (Ret (Inr vmk), w2)"
    and nk: "hex_DecodeString nsKey = Inr nk" and ik: "CreateIK nk iv = Inr ik"
    and vuk: "Encrypt rand vmk ik w2 = (Ret (Inr vuk), w')"
    and data: "data = [(''key'', vmk), (''iv'', iv), (''vuk'', vuk), (''hmac'', hmac_sha256 iv vmk)]"
    by (auto simp: volumeKeyData_def GenerateIV_def GenerateVMK_def CreateHMAC_def tryP_run retP_run
        split: prod.splits outcome.splits sum.splits)
  from riv rvmk have iv: "length iv = 32" and vmk: "length vmk = 64"
    by (auto dest: length_GenerateRandomBytes)
  from Encrypt_Decrypt [OF vuk] vmk have "Decrypt vuk ik = Inr vmk" and "length vuk = 80" by simp_all
  with iv vmk ik have "volume_data_ok nk (Some data)"
    by (auto simp: volume_data_ok_def data CheckHMAC_def CreateHMAC_def)
  with nk show thesis by (rule that)
qed

lemma emits_GenerateRandomBytes [emits_intros]: "emits P (GenerateRandomBytes (liftX rand) n)"
  unfolding GenerateRandomBytes_def by (auto intro!: emits_intros)

lemma emits_volumeKeyData: "emits P (volumeKeyData (liftX rand) nsKey)"
  unfolding volumeKeyData_def GenerateIV_def GenerateVMK_def Encrypt_def
  by (auto intro!: emits_intros split: sum.split)

lemma emits_False_trace: "emits (\<lambda>_. False) m \<Longrightarrow> m (w, tr) = (r, (w', tr')) \<Longrightarrow> tr' = tr"
  by (drule emitsD) (auto simp: list_all_iff)

section \<open>The protocol with the Kubernetes API\<close>

text \<open>
  What the manager may do, as rules over the calls it makes and their answers: first
  for the volume secret once the namespace key is known, then for the namespace
  secret, then for a whole request.
\<close>

definition err_of :: "goerr + 'a \<Rightarrow> error_or_nil" where
  "err_of r = (case r of Inl err \<Rightarrow> Some err | Inr x \<Rightarrow> None)"

inductive volume_phase :: "objkey \<Rightarrow> smap \<Rightarrow> bytes \<Rightarrow> k8s_event list \<Rightarrow> error_or_nil \<Rightarrow> bool"
  for vol labels nk where
  not_generated: "volume_phase vol labels nk [] (Some err)"
| create: "new_volume_secret vol labels nk s \<Longrightarrow> volume_phase vol labels nk [KCreateSecret s r] (err_of r)"

inductive namespace_phase ::
  "objkey \<Rightarrow> objkey \<Rightarrow> smap \<Rightarrow> smap \<Rightarrow> k8s_event list \<Rightarrow> error_or_nil \<Rightarrow> bool"
  for ns vol nsLabels volLabels where
  found: "keyFromSecret s = Inr (hex_EncodeToString nk) \<Longrightarrow> volume_phase vol volLabels nk tr res \<Longrightarrow>
    namespace_phase ns vol nsLabels volLabels (KGetSecret ns (Inr s) # tr) res"
| unusable: "keyFromSecret s = Inl err \<Longrightarrow>
    namespace_phase ns vol nsLabels volLabels [KGetSecret ns (Inr s)] (Some err)"
| failed: "\<not> IsNotFound err \<Longrightarrow>
    namespace_phase ns vol nsLabels volLabels [KGetSecret ns (Inl err)] (Some err)"
| not_generated: "IsNotFound e \<Longrightarrow>
    namespace_phase ns vol nsLabels volLabels [KGetSecret ns (Inl e)] (Some err)"
| not_created: "IsNotFound e \<Longrightarrow> new_namespace_secret ns nsLabels s \<Longrightarrow>
    namespace_phase ns vol nsLabels volLabels
      [KGetSecret ns (Inl e), KCreateSecret s (Inl err)] (Some err)"
| created_unusable: "IsNotFound e \<Longrightarrow> new_namespace_secret ns nsLabels s \<Longrightarrow>
    keyFromSecret s' = Inl err \<Longrightarrow>
    namespace_phase ns vol nsLabels volLabels
      [KGetSecret ns (Inl e), KCreateSecret s (Inr s')] (Some err)"
| created: "IsNotFound e \<Longrightarrow> new_namespace_secret ns nsLabels s \<Longrightarrow>
    keyFromSecret s' = Inr (hex_EncodeToString nk) \<Longrightarrow> volume_phase vol volLabels nk tr res \<Longrightarrow>
    namespace_phase ns vol nsLabels volLabels
      (KGetSecret ns (Inl e) # KCreateSecret s (Inr s') # tr) res"

inductive ensure_protocol ::
  "objkey \<Rightarrow> objkey \<Rightarrow> smap \<Rightarrow> smap \<Rightarrow> k8s_event list \<Rightarrow> error_or_nil \<Rightarrow> bool"
  for ns vol nsLabels volLabels where
  present: "ensure_protocol ns vol nsLabels volLabels [KGetSecret vol (Inr s)] None"
| failed: "\<not> IsNotFound err \<Longrightarrow>
    ensure_protocol ns vol nsLabels volLabels [KGetSecret vol (Inl err)] (Some err)"
| absent: "IsNotFound err \<Longrightarrow> namespace_phase ns vol nsLabels volLabels tr res \<Longrightarrow>
    ensure_protocol ns vol nsLabels volLabels (KGetSecret vol (Inl err) # tr) res"

inductive_cases volume_phaseE: "volume_phase vol labels nk tr res"
inductive_cases namespace_phaseE: "namespace_phase ns vol nsLabels volLabels tr res"
inductive_cases ensure_protocolE: "ensure_protocol ns vol nsLabels volLabels tr res"

lemma createVolumeKey_phase:
  assumes "createVolumeKey (traced_k8s id k8s) (liftX rand) vol (hex_EncodeToString nk) labels (w, tr0) =
             (res, (w', tr'))"
  obtains r tr where "res = Ret r" and "tr' = tr0 @ tr" and "volume_phase vol labels nk tr r"
proof -
  obtain d wt where "volumeKeyData (liftX rand) (hex_EncodeToString nk) (w, tr0) = (Ret d, wt)"
    using no_panic_volumeKeyData by (rule no_panicE)
  then obtain w1 tr1 where
    d: "volumeKeyData (liftX rand) (hex_EncodeToString nk) (w, tr0) = (Ret d, (w1, tr1))"
    by (cases wt) simp
  note tr1 = emits_False_trace [OF emits_volumeKeyData d]
  show thesis
  proof (cases d)
    case (Inl err)
    with d tr1 assms have "res = Ret (Some err)" "tr' = tr0 @ []"
      by (simp_all add: createVolumeKey_def tryE_run)
    then show thesis by (rule that) (rule volume_phase.not_generated)
  next
    case (Inr data)
    let ?s = "secret_new vol data labels"
    from d Inr have "volume_data_ok nk (Some data)"
      by (auto elim!: volumeKeyData_ok)
    then have s: "new_volume_secret vol labels nk ?s" by (simp add: new_volume_secret_def)
    let ?r = "fst (k8s_CreateSecret k8s ?s w1)"
    have "res = Ret (err_of ?r)" and "tr' = tr0 @ [KCreateSecret ?s ?r]"
      using assms d Inr tr1
      by (auto simp: createVolumeKey_def tryE_run retP_run err_of_def traceX_run split: sum.splits)
    then show thesis by (rule that) (rule volume_phase.create [OF s])
  qed
qed

lemma length_GenerateUserKey: "GenerateUserKey rand w = (Ret (Inr key), w') \<Longrightarrow> length key = 32"
  unfolding GenerateUserKey_def by (rule length_GenerateRandomBytes)

text \<open>
  The calls made for the namespace key, and its outcome: an error ends the phase, a
  key lets it go on with any run of the volume phase.
\<close>

definition namespace_result ::
  "objkey \<Rightarrow> objkey \<Rightarrow> smap \<Rightarrow> smap \<Rightarrow> k8s_event list \<Rightarrow> goerr + string \<Rightarrow> bool" where
  "namespace_result ns vol nsLabels volLabels tr r \<longleftrightarrow>
     (case r of
        Inl e \<Rightarrow> namespace_phase ns vol nsLabels volLabels tr (Some e)
      | Inr k \<Rightarrow> (\<exists>nk. k = hex_EncodeToString nk \<and>
          (\<forall>tr1 res. volume_phase vol volLabels nk tr1 res \<longrightarrow>
             namespace_phase ns vol nsLabels volLabels (tr @ tr1) res)))"

lemma namespace_result_found:
  "namespace_result ns vol nl vl [KGetSecret ns (Inr s)] (keyFromSecret s)"
proof (cases "keyFromSecret s")
  case (Inr k)
  then obtain nk where "k = hex_EncodeToString nk" by (auto simp: keyFromSecret_iff)
  with Inr show ?thesis by (auto simp: namespace_result_def intro: namespace_phase.found)
qed (simp add: namespace_result_def namespace_phase.unusable)

lemma namespace_result_created:
  assumes "IsNotFound e" and "new_namespace_secret ns nl s"
  shows "namespace_result ns vol nl vl [KGetSecret ns (Inl e), KCreateSecret s c]
           (case c of Inl err \<Rightarrow> Inl err | Inr s' \<Rightarrow> keyFromSecret s')"
proof (cases c)
  case (Inl err)
  with assms show ?thesis by (simp add: namespace_result_def namespace_phase.not_created)
next
  case (Inr s')
  show ?thesis
  proof (cases "keyFromSecret s'")
    case (Inr k)
    then obtain nk where "k = hex_EncodeToString nk" by (auto simp: keyFromSecret_iff)
    with Inr \<open>c = Inr s'\<close> assms show ?thesis
      by (auto simp: namespace_result_def intro: namespace_phase.created)
  qed (use assms Inr in \<open>auto simp: namespace_result_def intro: namespace_phase.created_unusable\<close>)
qed

lemma ensureNamespaceKey_create:
  assumes run: "tryP (GenerateUserKey (liftX rand)) (\<lambda>key.
      tryP (callP (k8s_CreateSecret (traced_k8s id k8s) (secret_new ns [(''key'', key)] nl)))
        (\<lambda>secret. retP (keyFromSecret secret))) (w, tr0 @ [KGetSecret ns (Inl e)]) = (res, (w', tr'))"
    and e: "IsNotFound e"
  shows "\<exists>r tr. res = Ret r \<and> tr' = tr0 @ tr \<and> namespace_result ns vol nl vl tr r"
proof -
  let ?tr1 = "tr0 @ [KGetSecret ns (Inl e)]"
  obtain u wt where "GenerateUserKey (liftX rand) (w, ?tr1) = (Ret u, wt)"
    unfolding GenerateUserKey_def using no_panic_GenerateRandomBytes by (rule no_panicE)
  then obtain w2 tr2 where u: "GenerateUserKey (liftX rand) (w, ?tr1) = (Ret u, (w2, tr2))"
    by (cases wt) simp
  then have tr2: "tr2 = ?tr1"
    unfolding GenerateUserKey_def by (rule emits_False_trace [OF emits_GenerateRandomBytes])
  show ?thesis
  proof (cases u)
    case (Inl err)
    with u tr2 e run show ?thesis
      by (auto simp: tryP_run namespace_result_def intro: namespace_phase.not_generated)
  next
    case (Inr k)
    let ?s = "secret_new ns [(''key'', k)] nl"
    let ?c = "fst (k8s_CreateSecret k8s ?s w2)"
    from u Inr have s: "new_namespace_secret ns nl ?s"
      by (auto simp: new_namespace_secret_def dest!: length_GenerateUserKey)
    have "res = Ret (case ?c of Inl err \<Rightarrow> Inl err | Inr s' \<Rightarrow> keyFromSecret s') \<and>
          tr' = tr0 @ [KGetSecret ns (Inl e), KCreateSecret ?s ?c]"
      using u Inr tr2 run by (auto simp: tryP_run traceX_run retP_run split: sum.splits)
    with namespace_result_created [OF e s] show ?thesis by blast
  qed
qed

lemma ensureNamespaceKey_result:
  assumes run: "ensureNamespaceKey (traced_k8s id k8s) (liftX rand) ns nl (w, tr0) = (res, (w', tr'))"
  shows "\<exists>r tr. res = Ret r \<and> tr' = tr0 @ tr \<and> namespace_result ns vol nl vl tr r"
proof (cases "fst (k8s_GetSecret k8s ns w)")
  case (Inr s)
  with run have "res = Ret (keyFromSecret s) \<and> tr' = tr0 @ [KGetSecret ns (Inr s)]"
    by (simp add: ensureNamespaceKey_def prog_simps traceX_run)
  with namespace_result_found show ?thesis by blast
next
  case (Inl e)
  show ?thesis
  proof (cases "IsNotFound e")
    case False
    with Inl run show ?thesis
      by (auto simp: ensureNamespaceKey_def prog_simps traceX_run namespace_result_def
          intro: namespace_phase.failed)
  next
    case True
    with Inl run show ?thesis
      by (intro ensureNamespaceKey_create [OF _ True]) (simp add: ensureNamespaceKey_def traceX_run)
  qed
qed

text \<open>
  C31. \<open>Ensure\<close> follows the protocol: whatever Kubernetes and the random source
  answer, the calls it makes and the error it returns are those of the rules. A
  volume secret that exists ends the request at once and is never touched; no secret
  is ever updated or deleted; a namespace key is created only when none was found,
  and never after a failed lookup; a volume secret is created at most once, with a
  key of 64 bytes whose encrypted form decrypts under the namespace key that was
  read or created in this request, and whose authentication code is valid.
\<close>

theorem KeyManager_Ensure_protocol:
  "case KeyManager_Ensure (traced_k8s id k8s) (liftX rand) ns vol nsLabels volLabels (w, []) of
     (Ret res, (w', tr)) \<Rightarrow> ensure_protocol ns vol nsLabels volLabels tr res
   | (Panic, _) \<Rightarrow> False"
proof -
  let ?g = "fst (k8s_GetSecret k8s vol w)" and ?w1 = "snd (k8s_GetSecret k8s vol w)"
  show ?thesis
  proof (cases ?g)
    case (Inr s)
    then show ?thesis
      by (auto simp: KeyManager_Ensure_def prog_simps traceX_run intro: ensure_protocol.present)
  next
    case (Inl e)
    show ?thesis
    proof (cases "IsNotFound e")
      case False
      with Inl show ?thesis
        by (auto simp: KeyManager_Ensure_def prog_simps traceX_run intro: ensure_protocol.failed)
    next
      case True
      obtain n w2 tr2 where n: "ensureNamespaceKey (traced_k8s id k8s) (liftX rand) ns nsLabels
          (?w1, [KGetSecret vol (Inl e)]) = (n, (w2, tr2))" by (metis prod.collapse)
      with ensureNamespaceKey_result obtain r tr where r: "n = Ret r" "tr2 = [KGetSecret vol (Inl e)] @ tr"
        and res: "namespace_result ns vol nsLabels volLabels tr r" by metis
      show ?thesis
      proof (cases r)
        case (Inl err)
        with True \<open>?g = Inl e\<close> n r res show ?thesis
          by (auto simp: KeyManager_Ensure_def bindP_run tryE_run traceX_run namespace_result_def
              intro: ensure_protocol.absent)
      next
        case (Inr k)
        with res obtain nk where k: "k = hex_EncodeToString nk" and go:
          "\<And>tr1 res. volume_phase vol volLabels nk tr1 res \<Longrightarrow>
             namespace_phase ns vol nsLabels volLabels (tr @ tr1) res"
          by (auto simp: namespace_result_def)
        obtain v w3 tr3 where v: "createVolumeKey (traced_k8s id k8s) (liftX rand) vol k volLabels
            (w2, tr2) = (v, (w3, tr3))" by (metis prod.collapse)
        then obtain r' tr' where "v = Ret r'" "tr3 = tr2 @ tr'" "volume_phase vol volLabels nk tr' r'"
          unfolding k by (rule createVolumeKey_phase)
        with go True Inr \<open>?g = Inl e\<close> n r v k show ?thesis
          by (auto simp: KeyManager_Ensure_def bindP_run tryE_run traceX_run
              intro: ensure_protocol.absent)
      qed
    qed
  qed
qed

section \<open>A store of secrets\<close>

text \<open>
  What is documented of the API server: a lookup that succeeds returns what is
  stored, a creation that succeeds stores the object with the data it was given, and
  nothing that is stored is replaced or removed by a creation. Other clients may add
  secrets at any moment.
\<close>

locale secret_store =
  fixes k8s :: "'w k8s_client" and rand :: "'w randsrc" and store :: "'w \<Rightarrow> objkey \<rightharpoonup> secret"
  assumes get_keeps: "store w \<subseteq>\<^sub>m store (snd (k8s_GetSecret k8s key w))"
    and get_found: "fst (k8s_GetSecret k8s key w) = Inr s \<Longrightarrow> store (snd (k8s_GetSecret k8s key w)) key = Some s"
    and create_keeps: "store w \<subseteq>\<^sub>m store (snd (k8s_CreateSecret k8s s w))"
    and create_stores: "fst (k8s_CreateSecret k8s s w) = Inr s' \<Longrightarrow>
      store (snd (k8s_CreateSecret k8s s w)) (meta_key (sec_meta s)) = Some s' \<and> sec_Data s' = sec_Data s"
    and rand_keeps: "store w \<subseteq>\<^sub>m store (snd (rand w))"
begin

abbreviation grows :: "'w \<Rightarrow> ('w, 'a) prog \<Rightarrow> bool" where
  "grows w m \<equiv> store w \<subseteq>\<^sub>m store (snd (m w))"

definition keeps :: "('w, 'a) prog \<Rightarrow> bool" where
  "keeps m \<longleftrightarrow> (\<forall>w. grows w m)"

lemma keeps_retP: "keeps (retP a)"
  by (simp add: keeps_def retP_run)

lemma keeps_callP: "(\<And>w. store w \<subseteq>\<^sub>m store (snd (f w))) \<Longrightarrow> keeps (callP f)"
  by (simp add: keeps_def)

lemma keeps_bindP: "keeps m \<Longrightarrow> (\<And>a. keeps (f a)) \<Longrightarrow> keeps (bindP m f)"
  unfolding keeps_def bindP_run by (auto split: prod.split outcome.split) (metis map_le_trans snd_conv)+

lemma keeps_tryP: "keeps m \<Longrightarrow> (\<And>a. keeps (f a)) \<Longrightarrow> keeps (tryP m f)"
  unfolding tryP_def by (auto intro!: keeps_bindP keeps_retP split: sum.split)

lemma keeps_tryE: "keeps m \<Longrightarrow> (\<And>a. keeps (f a)) \<Longrightarrow> keeps (tryE m f)"
  unfolding tryE_def by (auto intro!: keeps_bindP keeps_retP split: sum.split)

lemmas keeps_rules = keeps_retP keeps_callP keeps_bindP keeps_tryP keeps_tryE
  get_keeps create_keeps rand_keeps

lemma keeps_random: "keeps (GenerateRandomBytes rand n)"
  unfolding GenerateRandomBytes_def by (auto intro!: keeps_rules)

lemma keeps_volumeKeyData: "keeps (volumeKeyData rand nsKey)"
  unfolding volumeKeyData_def GenerateIV_def GenerateVMK_def Encrypt_def
  by (auto intro!: keeps_rules keeps_random split: sum.split)

lemma keeps_createVolumeKey: "keeps (createVolumeKey k8s rand vol nsKey labels)"
  unfolding createVolumeKey_def by (auto intro!: keeps_rules keeps_volumeKeyData)

lemma keeps_ensureNamespaceKey: "keeps (ensureNamespaceKey k8s rand ns labels)"
  unfolding ensureNamespaceKey_def GenerateUserKey_def
  by (auto intro!: keeps_rules keeps_random split: sum.split)

lemma keeps_Ensure: "keeps (KeyManager_Ensure k8s rand ns vol nsLabels volLabels)"
  unfolding KeyManager_Ensure_def
  by (auto intro!: keeps_rules keeps_ensureNamespaceKey keeps_createVolumeKey split: sum.split)

lemma keepsD: "keeps m \<Longrightarrow> m w = (r, w') \<Longrightarrow> store w k = Some s \<Longrightarrow> store w' k = Some s"
  unfolding keeps_def map_le_def by (metis domI snd_conv)

lemma ensureNamespaceKey_stored:
  assumes "ensureNamespaceKey k8s rand ns labels w = (Ret (Inr k), w')"
  shows "\<exists>s. store w' ns = Some s \<and> keyFromSecret s = Inr k"
  using assms get_found [of ns w] create_stores
  by (auto simp: ensureNamespaceKey_def prog_simps split: sum.splits if_splits prod.splits outcome.splits)
     fastforce

lemma createVolumeKey_stored:
  assumes "createVolumeKey k8s rand vol (hex_EncodeToString nk) labels w = (Ret None, w')"
  shows "\<exists>s. store w' vol = Some s \<and> volume_data_ok nk (sec_Data s)"
proof -
  from assms obtain data w1 s where d: "volumeKeyData rand (hex_EncodeToString nk) w = (Ret (Inr data), w1)"
    and s: "fst (k8s_CreateSecret k8s (secret_new vol data labels) w1) = Inr s"
    and w': "w' = snd (k8s_CreateSecret k8s (secret_new vol data labels) w1)"
    by (auto simp: createVolumeKey_def prog_simps split: sum.splits prod.splits outcome.splits)
  from volumeKeyData_ok [OF d] have "volume_data_ok nk (Some data)" by auto
  with create_stores [OF s] w' show ?thesis by auto
qed

lemma Ensure_stored:
  assumes run: "KeyManager_Ensure k8s rand ns vol nsLabels volLabels w = (Ret None, w')"
  shows "case fst (k8s_GetSecret k8s vol w) of
           Inr s \<Rightarrow> store w' vol = Some s
         | Inl e \<Rightarrow> \<exists>s sn nk. store w' vol = Some s \<and> store w' ns = Some sn \<and>
                            keyFromSecret sn = Inr (hex_EncodeToString nk) \<and>
                            volume_data_ok nk (sec_Data s)"
proof (cases "fst (k8s_GetSecret k8s vol w)")
  case (Inr s)
  with run get_found [OF Inr] show ?thesis by (simp add: KeyManager_Ensure_def prog_simps)
next
  case (Inl e)
  with run obtain w1 k w2 where n: "ensureNamespaceKey k8s rand ns nsLabels w1 = (Ret (Inr k), w2)"
    and v: "createVolumeKey k8s rand vol k volLabels w2 = (Ret None, w')"
    by (auto simp: KeyManager_Ensure_def prog_simps split: sum.splits prod.splits outcome.splits if_splits)
  from ensureNamespaceKey_stored [OF n] obtain sn where sn: "store w2 ns = Some sn" "keyFromSecret sn = Inr k"
    by auto
  then obtain nk where nk: "k = hex_EncodeToString nk" by (auto simp: keyFromSecret_iff)
  from createVolumeKey_stored [OF v [unfolded nk]] keepsD [OF keeps_createVolumeKey v sn(1)] sn nk Inl
  show ?thesis by auto
qed

end

text \<open>A store in memory, alone with the manager, and a random source that never fails.\<close>

definition mem_secrets :: "(objkey \<rightharpoonup> secret) k8s_client" where
  "mem_secrets = empty_k8s
     \<lparr>k8s_GetSecret := (\<lambda>key m. (case m key of Some s \<Rightarrow> Inr s | None \<Rightarrow> Inl not_found, m)),
      k8s_CreateSecret := (\<lambda>s m.
        let key = meta_key (sec_meta s) in
        case m key of
          Some old \<Rightarrow> (Inl (K8sError ReasonAlreadyExists ''already exists''), m)
        | None \<Rightarrow> (Inr s, m(key \<mapsto> s)))\<rparr>"

definition fixed_rand :: "'w randsrc" where
  "fixed_rand w = (Inr word_of_nat, w)"

lemma mem_secrets_sel [simp]:
  "k8s_GetSecret mem_secrets key m = (case m key of Some s \<Rightarrow> Inr s | None \<Rightarrow> Inl not_found, m)"
  "k8s_CreateSecret mem_secrets s m =
     (case m (meta_key (sec_meta s)) of
        Some old \<Rightarrow> (Inl (K8sError ReasonAlreadyExists ''already exists''), m)
      | None \<Rightarrow> (Inr s, m(meta_key (sec_meta s) \<mapsto> s)))"
  by (simp_all add: mem_secrets_def Let_def)

interpretation mem: secret_store mem_secrets fixed_rand "\<lambda>m. m"
  by unfold_locales (auto simp: fixed_rand_def map_le_def split: option.splits)

definition fixed_bytes :: "nat \<Rightarrow> bytes" where
  "fixed_bytes n = map word_of_nat [0..<n]"

lemma length_fixed_bytes [simp]: "length (fixed_bytes n) = n"
  by (simp add: fixed_bytes_def)

lemma fixed_random: "GenerateRandomBytes fixed_rand n m = (Ret (Inr (fixed_bytes n)), m)"
  by (simp only: GenerateRandomBytes_def fixed_rand_def fixed_bytes_def prog_simps) simp

lemma fixed_Encrypt:
  "length p mod 16 = 0 \<Longrightarrow> length key = 32 \<Longrightarrow> \<exists>c. Encrypt fixed_rand p key m = (Ret (Inr c), m)"
  by (simp add: Encrypt_def aes_NewCipher_def tryP_run retP_run fixed_random)

lemma mem_volumeKeyData:
  assumes "hex_DecodeString nsKey = Inr nk"
  shows "\<exists>data. volumeKeyData fixed_rand nsKey m = (Ret (Inr data), m)"
proof -
  obtain ik where ik: "CreateIK nk (fixed_bytes 32) = Inr ik" by (simp add: CreateIK_eq)
  obtain c where "Encrypt fixed_rand (fixed_bytes 64) ik m = (Ret (Inr c), m)"
    using fixed_Encrypt [of "fixed_bytes 64" ik m] length_CreateIK [OF ik] by auto
  with ik assms show ?thesis
    by (simp add: volumeKeyData_def GenerateIV_def GenerateVMK_def CreateHMAC_def fixed_random prog_simps)
qed

lemma mem_ensureNamespaceKey:
  "ensureNamespaceKey mem_secrets fixed_rand ns nl Map.empty =
     (Ret (Inr (hex_EncodeToString (fixed_bytes 32))), [ns \<mapsto> secret_new ns [(''key'', fixed_bytes 32)] nl])"
proof -
  have "fixed_bytes 32 \<noteq> []" using length_fixed_bytes [of 32] by force
  then show ?thesis
    by (simp add: ensureNamespaceKey_def GenerateUserKey_def fixed_random prog_simps keyFromSecret_def)
qed

lemma mem_Ensure:
  assumes "ns \<noteq> vol"
  shows "\<exists>m. KeyManager_Ensure mem_secrets fixed_rand ns vol nl vl Map.empty = (Ret None, m)"
proof -
  let ?s = "secret_new ns [(''key'', fixed_bytes 32)] nl"
  obtain data where d: "volumeKeyData fixed_rand (hex_EncodeToString (fixed_bytes 32)) [ns \<mapsto> ?s] =
      (Ret (Inr data), [ns \<mapsto> ?s])"
    using mem_volumeKeyData [OF hex_roundtrip, of "fixed_bytes 32" "[ns \<mapsto> ?s]"] by (elim exE)
  from mem_ensureNamespaceKey [of ns nl] d assms show ?thesis
    by (auto simp: KeyManager_Ensure_def createVolumeKey_def prog_simps)
qed

text \<open>
  C32. After a successful \<open>Ensure\<close> the volume's key can be used: with an API server
  that stores what it accepts and never loses or replaces a secret through a
  creation, and with other clients adding secrets at any moment, the volume secret
  exists. If it was not there before, its encrypted key decrypts under the namespace
  key stored in that namespace, so that two requests that race for the namespace
  key never leave a volume key behind that was made with the key that lost. Nothing
  stored is changed, and what holds keeps holding whatever is added later.
\<close>

theorem KeyManager_Ensure_store:
  assumes "secret_store k8s rand store"
    and "KeyManager_Ensure k8s rand ns vol nsLabels volLabels w = (Ret None, w')"
    and "store w' \<subseteq>\<^sub>m store later"
  shows "store w \<subseteq>\<^sub>m store later \<and>
         (case fst (k8s_GetSecret k8s vol w) of
            Inr s \<Rightarrow> store later vol = Some s
          | Inl e \<Rightarrow> \<exists>s sn nk. store later vol = Some s \<and> store later ns = Some sn \<and>
                             keyFromSecret sn = Inr (hex_EncodeToString nk) \<and>
                             volume_data_ok nk (sec_Data s))"
proof
  have "store w \<subseteq>\<^sub>m store w'"
    using secret_store.keeps_Ensure [OF assms(1)] assms(1,2)
    by (metis secret_store.keeps_def snd_conv)
  then show "store w \<subseteq>\<^sub>m store later" using assms(3) by (rule map_le_trans)
  have "store later k = Some s" if "store w' k = Some s" for k s
    using that assms(3) by (auto simp: map_le_def dom_def)
  then show "case fst (k8s_GetSecret k8s vol w) of
            Inr s \<Rightarrow> store later vol = Some s
          | Inl e \<Rightarrow> \<exists>s sn nk. store later vol = Some s \<and> store later ns = Some sn \<and>
                             keyFromSecret sn = Inr (hex_EncodeToString nk) \<and>
                             volume_data_ok nk (sec_Data s)"
    using secret_store.Ensure_stored [OF assms(1,2)] by (auto split: sum.splits)
qed

theorem KeyManager_Ensure_store_witness:
  "\<exists>m s sn nk.
     KeyManager_Ensure mem_secrets fixed_rand (mk_key ''default'' ''storageos-namespace-key'')
       (mk_key ''default'' ''storageos-volume-key-1'') NilMap NilMap Map.empty = (Ret None, m) \<and>
     m (mk_key ''default'' ''storageos-volume-key-1'') = Some s \<and>
     m (mk_key ''default'' ''storageos-namespace-key'') = Some sn \<and>
     keyFromSecret sn = Inr (hex_EncodeToString nk) \<and> volume_data_ok nk (sec_Data s)"
proof -
  let ?ns = "mk_key ''default'' ''storageos-namespace-key''"
    and ?vol = "mk_key ''default'' ''storageos-volume-key-1''"
  obtain m where m: "KeyManager_Ensure mem_secrets fixed_rand ?ns ?vol NilMap NilMap Map.empty = (Ret None, m)"
    using mem_Ensure [of ?ns ?vol] by auto
  show ?thesis
    using KeyManager_Ensure_store [OF mem.secret_store_axioms m, of m] m by auto
qed

end
