(* ===== verification/Mutators.thy ===== *)
theory Mutators
  imports Key_Manager Provisioner
begin

text \<open>
  The admission webhooks: \<open>controllers/pod-mutator\<close> (the handler and
  \<open>scheduler/scheduler.go\<close>) and \<open>controllers/pvc-mutator\<close> (the handler,
  \<open>encryption/keygen.go\<close> and \<open>storageclass/annotation.go\<close>), with the default
  labels of \<open>internal/pkg/labels\<close>. Decoding a request, encoding an object and the
  difference of two encodings are parameters. A mutator changes the object it is given in
  place; the object after an error is never used and is left out.
\<close>

section \<open>Admission\<close>

datatype 'p admission_response = Errored int goerr | PatchResponse "'p list"

record 'raw admission_request =
  req_Namespace :: string
  req_Raw :: 'raw

text \<open>Decoder, encoder and \<open>jsonpatch.CreatePatch\<close>.\<close>

record ('raw, 'p, 'o) codec =
  cd_Decode :: "'raw \<Rightarrow> goerr + 'o"
  cd_Marshal :: "'o \<Rightarrow> goerr + 'raw"
  cd_CreatePatch :: "'raw \<Rightarrow> 'raw \<Rightarrow> goerr + 'p list"

type_synonym ('w, 'o) mutator = "'o \<Rightarrow> string \<Rightarrow> ('w, goerr + 'o) prog"

definition PatchResponseFromRaw :: "('raw, 'p, 'o) codec \<Rightarrow> 'raw \<Rightarrow> 'raw \<Rightarrow> 'p admission_response" where
  "PatchResponseFromRaw cd original current =
     (case cd_CreatePatch cd original current of
        Inl err \<Rightarrow> Errored 500 err
      | Inr patches \<Rightarrow> PatchResponse patches)"

text \<open>The loop over the mutators, which both handlers have.\<close>

definition run_mutators :: "('w, 'o) mutator list \<Rightarrow> string \<Rightarrow> 'o \<Rightarrow> ('w, goerr + 'o) prog" where
  "run_mutators ms namespace obj = forE (\<lambda>m obj. m obj namespace) ms obj"

definition PodMutator_Handle ::
  "('raw, 'p, pod) codec \<Rightarrow> ('w, pod) mutator list \<Rightarrow> 'raw admission_request \<Rightarrow> ('w, 'p admission_response) prog" where
  "PodMutator_Handle cd mutators req =
     (case cd_Decode cd (req_Raw req) of
        Inl err \<Rightarrow> retP (Errored 400 err)
      | Inr p \<Rightarrow>
          bindP (run_mutators mutators (req_Namespace req) p) (\<lambda>r. case r of
            Inl err \<Rightarrow> retP (Errored 500 err)
          | Inr p' \<Rightarrow>
              (case cd_Marshal cd p' of
                 Inl err \<Rightarrow> retP (Errored 500 err)
               | Inr marshaledPod \<Rightarrow> retP (PatchResponseFromRaw cd (req_Raw req) marshaledPod))))"

definition PVCMutator_Handle ::
  "('raw, 'p, pvc) codec \<Rightarrow> ('w, pvc) mutator list \<Rightarrow> 'raw admission_request \<Rightarrow> ('w, 'p admission_response) prog" where
  "PVCMutator_Handle cd mutators req =
     (case cd_Decode cd (req_Raw req) of
        Inl err \<Rightarrow> retP (Errored 400 err)
      | Inr c \<Rightarrow>
          bindP (run_mutators mutators (req_Namespace req) c) (\<lambda>r. case r of
            Inl err \<Rightarrow> retP (Errored 500 err)
          | Inr c' \<Rightarrow>
              (case cd_Marshal cd c' of
                 Inl err \<Rightarrow> retP (Errored 500 err)
               | Inr marshaledPVC \<Rightarrow> retP (PatchResponseFromRaw cd (req_Raw req) marshaledPVC))))"

section \<open>The pod scheduler\<close>

abbreviation PodSchedulerAnnotationKey :: string where
  "PodSchedulerAnnotationKey \<equiv> ''storageos.com/scheduler''"

record 'w scheduler_setter =
  ps_Provisioners :: "string list"
  ps_SchedulerName :: string
  ps_SchedulerAnnotationKey :: string
  ps_Client :: "'w k8s_client"

definition NewPodSchedulerSetter :: "'w k8s_client \<Rightarrow> string \<Rightarrow> 'w scheduler_setter" where
  "NewPodSchedulerSetter k8s scheduler =
     \<lparr>ps_Provisioners = [DriverName], ps_SchedulerName = scheduler,
      ps_SchedulerAnnotationKey = PodSchedulerAnnotationKey, ps_Client = k8s\<rparr>"

text \<open>The body of the loop that collects the managed volumes.\<close>

definition managed_step ::
  "'w k8s_client \<Rightarrow> string \<Rightarrow> pod_volume \<Rightarrow> pod_volume list \<Rightarrow> ('w, goerr + pod_volume list) prog" where
  "managed_step k8s namespace vol managedVols =
     tryP (mapErr (\<lambda>e. Wrap e ''failed to determine if the volume is managed'')
             (IsStorageOSVolume k8s vol namespace)) (\<lambda>ok.
       retP (Inr (if ok then managedVols @ [vol] else managedVols)))"

definition MutatePod :: "'w scheduler_setter \<Rightarrow> ('w, pod) mutator" where
  "MutatePod s p namespace =
     (if ps_SchedulerName s = '''' then retP (Inr p)
      else if (case smap_get (meta_Annotations (pod_meta p)) (ps_SchedulerAnnotationKey s) of
                 Some val \<Rightarrow> (case ParseBool val of Inr enabled \<Rightarrow> \<not> enabled | Inl err \<Rightarrow> False)
               | None \<Rightarrow> False)
      then retP (Inr p)
      else tryP (forE (managed_step (ps_Client s) namespace) (pod_Volumes p) []) (\<lambda>managedVols.
             if length managedVols = 0 then retP (Inr p)
             else retP (Inr (p\<lparr>pod_SchedulerName := ps_SchedulerName s\<rparr>))))"

section \<open>Storage class annotation\<close>

text \<open>\<open>pvc.Annotations[k] = v\<close> after the map has been made when it was nil.\<close>

definition annotate :: "string \<Rightarrow> string \<Rightarrow> pvc \<Rightarrow> pvc" where
  "annotate k v c =
     c\<lparr>pvc_meta := (pvc_meta c)\<lparr>meta_Annotations :=
         SMap (AList.update k v (entries (meta_Annotations (pvc_meta c))))\<rparr>\<rparr>"

definition AnnotationSetter_MutatePVC :: "'w k8s_client \<Rightarrow> ('w, pvc) mutator" where
  "AnnotationSetter_MutatePVC k8s c namespace =
     tryP (mapErr (\<lambda>e. Wrap e ''failed to check pvc provisioner'') (StorageClassForPVC k8s c)) (\<lambda>storageClass.
       if \<not> IsProvisionedStorageClass storageClass [DriverName] then retP (Inr c)
       else retP (Inr (annotate StorageClassUUIDAnnotationKey (meta_UID (sc_meta storageClass)) c)))"

section \<open>Encryption keys\<close>

abbreviation SecretNameAnnotationKey :: string where
  "SecretNameAnnotationKey \<equiv> ''storageos.com/encryption-secret-name''"
abbreviation SecretNamespaceAnnotationKey :: string where
  "SecretNamespaceAnnotationKey \<equiv> ''storageos.com/encryption-secret-namespace''"
abbreviation VolumeSecretNamePrefix :: string where
  "VolumeSecretNamePrefix \<equiv> ''storageos-volume-key''"
abbreviation VolumeSecretPVCNameLabel :: string where
  "VolumeSecretPVCNameLabel \<equiv> ''storageos.com/pvc''"
abbreviation NamespaceSecretName :: string where
  "NamespaceSecretName \<equiv> ''storageos-namespace-key''"

text \<open>\<open>ks_rand\<close> is the random source behind \<open>uuid.New\<close>.\<close>

record 'w key_setter =
  ks_enabledLabel :: string
  ks_secretNameAnnotationKey :: string
  ks_secretNamespaceAnnotationKey :: string
  ks_labels :: smap
  ks_Client :: "'w k8s_client"
  ks_keys :: "objkey \<Rightarrow> objkey \<Rightarrow> smap \<Rightarrow> smap \<Rightarrow> ('w, error_or_nil) prog"
  ks_rand :: "'w randsrc"

definition NewKeySetter :: "'w k8s_client \<Rightarrow> 'w randsrc \<Rightarrow> smap \<Rightarrow> 'w key_setter" where
  "NewKeySetter k8s rand labels =
     \<lparr>ks_enabledLabel = ReservedLabelEncryption,
      ks_secretNameAnnotationKey = SecretNameAnnotationKey,
      ks_secretNamespaceAnnotationKey = SecretNamespaceAnnotationKey,
      ks_labels = labels, ks_Client = k8s, ks_keys = KeyManager_Ensure k8s rand, ks_rand = rand\<rparr>"

fun isEnabled :: "string \<Rightarrow> smap list \<Rightarrow> goerr + bool" where
  "isEnabled enabledLabel [] = Inr False"
| "isEnabled enabledLabel (hayStack # hayStacks) =
     (case smap_get hayStack enabledLabel of
        Some val \<Rightarrow> ParseBool val
      | None \<Rightarrow> isEnabled enabledLabel hayStacks)"

definition VolumeSecretLabels :: "smap \<Rightarrow> string \<Rightarrow> smap" where
  "VolumeSecretLabels labels pvcName =
     (let copied = range_copy (\<lambda>k. True) (entries labels) [] in
      SMap (if pvcName \<noteq> '''' then AList.update VolumeSecretPVCNameLabel pvcName copied else copied))"

definition NamespaceSecretKeyRef :: "string \<Rightarrow> objkey" where
  "NamespaceSecretKeyRef pvcNamespace = mk_key pvcNamespace NamespaceSecretName"

definition GenerateVolumeSecretName :: "'w randsrc \<Rightarrow> ('w, string) prog" where
  "GenerateVolumeSecretName rand =
     bindP (uuid_New rand) (\<lambda>u. retP (VolumeSecretNamePrefix @ ''-'' @ uuid_String u))"

definition VolumeSecretKeyRef :: "'w key_setter \<Rightarrow> pvc \<Rightarrow> string \<Rightarrow> ('w, objkey) prog" where
  "VolumeSecretKeyRef s c pvcNamespace =
     (let annotations = meta_Annotations (pvc_meta c) in
      bindP (case smap_get annotations (ks_secretNameAnnotationKey s) of
               Some name \<Rightarrow> if name = '''' then GenerateVolumeSecretName (ks_rand s) else retP name
             | None \<Rightarrow> GenerateVolumeSecretName (ks_rand s)) (\<lambda>name.
        retP (case smap_get annotations (ks_secretNamespaceAnnotationKey s) of
                Some namespace \<Rightarrow> mk_key (if namespace = '''' then pvcNamespace else namespace) name
              | None \<Rightarrow> mk_key pvcNamespace name)))"

text \<open>The second half of \<open>MutatePVC\<close>, once encryption is known to be enabled and allowed.\<close>

definition KeySetter_setKeys :: "'w key_setter \<Rightarrow> ('w, pvc) mutator" where
  "KeySetter_setKeys s c namespace =
     bindP (VolumeSecretKeyRef s c namespace) (\<lambda>volKeyRef.
     bindP (ks_keys s (NamespaceSecretKeyRef namespace) volKeyRef (ks_labels s)
              (VolumeSecretLabels (ks_labels s) (meta_Name (pvc_meta c)))) (\<lambda>e. case e of
       Some err \<Rightarrow> retP (Inl (Wrap err ''failed to ensure encryption key present for pvc''))
     | None \<Rightarrow>
         retP (Inr (annotate (ks_secretNamespaceAnnotationKey s) (key_Namespace volKeyRef)
                     (annotate (ks_secretNameAnnotationKey s) (key_Name volKeyRef) c)))))"

definition KeySetter_MutatePVC :: "'w key_setter \<Rightarrow> ('w, pvc) mutator" where
  "KeySetter_MutatePVC s c namespace =
     tryP (mapErr (\<lambda>e. Wrap e ''failed to retrieve storageclass of pvc'') (StorageClassForPVC (ks_Client s) c)) (\<lambda>storageClass.
     if \<not> IsProvisionedStorageClass storageClass [DriverName] then retP (Inr c)
     else case isEnabled (ks_enabledLabel s) [meta_Labels (pvc_meta c), sc_Parameters storageClass] of
       Inl err \<Rightarrow> retP (Inl (Wrap err (''failed to parse boolean value for '' @ [CHR 0x22] @ ks_enabledLabel s @
                                     [CHR 0x22] @ '' pvc label or storageclass parameter'')))
     | Inr enabled \<Rightarrow>
         if \<not> enabled then retP (Inr c)
         else if (case smap_get (meta_Annotations (pvc_meta c)) (ks_secretNamespaceAnnotationKey s) of
                    Some requested \<Rightarrow> requested \<noteq> namespace | None \<Rightarrow> False)
         then retP (Inl ErrCrossNamespace)
         else KeySetter_setKeys s c namespace)"

section \<open>Default labels and the mutators of the program\<close>

text \<open>The names and default values of \<open>internal/pkg/labels/labels.go\<close>.\<close>

abbreviation AppName :: string where "AppName \<equiv> ''app.kubernetes.io/name''"
abbreviation AppComponent :: string where "AppComponent \<equiv> ''app.kubernetes.io/component''"
abbreviation AppPartOf :: string where "AppPartOf \<equiv> ''app.kubernetes.io/part-of''"
abbreviation AppManagedBy :: string where "AppManagedBy \<equiv> ''app.kubernetes.io/managed-by''"
abbreviation DefaultAppName :: string where "DefaultAppName \<equiv> ''storageos''"
abbreviation DefaultAppComponent :: string where "DefaultAppComponent \<equiv> ''storageos-api-manager''"
abbreviation DefaultAppPartOf :: string where "DefaultAppPartOf \<equiv> ''storageos''"
abbreviation DefaultAppManagedBy :: string where "DefaultAppManagedBy \<equiv> ''storageos-operator''"

definition labels_Default :: smap where
  "labels_Default =
     SMap [(AppName, DefaultAppName), (AppComponent, DefaultAppComponent), (AppPartOf, DefaultAppPartOf),
           (AppManagedBy, DefaultAppManagedBy)]"

definition pvc_mutators :: "'w k8s_client \<Rightarrow> 'w randsrc \<Rightarrow> ('w, pvc) mutator list" where
  "pvc_mutators k8s rand =
     [KeySetter_MutatePVC (NewKeySetter k8s rand labels_Default), AnnotationSetter_MutatePVC k8s]"

definition pod_mutators :: "'w k8s_client \<Rightarrow> string \<Rightarrow> ('w, pod) mutator list" where
  "pod_mutators k8s schedulerName = [MutatePod (NewPodSchedulerSetter k8s schedulerName)]"

section \<open>The pod webhook\<close>

text \<open>
  The annotation with which a pod opts out has one of the spellings of false.
\<close>

definition opted_out :: "pod \<Rightarrow> bool" where
  "opted_out p \<longleftrightarrow>
     (\<exists>v. smap_get (meta_Annotations (pod_meta p)) ''storageos.com/scheduler'' = Some v \<and>
          v \<in> {''0'', ''f'', ''F'', ''false'', ''FALSE'', ''False''})"

text \<open>
  The reading of the class of a claim, with the class found: by its name, or the
  first default one of the list when the claim names none.
\<close>

definition class_read :: "pvc \<Rightarrow> k8s_event \<Rightarrow> storage_class option \<Rightarrow> bool" where
  "class_read c ev found \<longleftrightarrow>
     (if PVCStorageClassName c = '''' then
        \<exists>r. ev = KListStorageClasses r \<and>
            found = (case r of
                       Inl e \<Rightarrow> None
                     | Inr items \<Rightarrow> find (\<lambda>sc. smap_get (meta_Annotations (sc_meta sc))
                         ''storageclass.kubernetes.io/is-default-class'' = Some ''true'') items)
      else
        \<exists>r. ev = KGetStorageClass (mk_key '''' (PVCStorageClassName c)) r \<and>
            found = (case r of Inl e \<Rightarrow> None | Inr sc \<Rightarrow> Some sc))"

text \<open>
  The readings for one volume of a pod, and whether its class belongs to the StorageOS
  driver: none for a volume without a claim; otherwise the claim of that name in the
  pod's namespace, and then its class. A reading that fails gives no answer.
\<close>

inductive volume_read :: "string \<Rightarrow> pod_volume \<Rightarrow> k8s_event list \<Rightarrow> bool option \<Rightarrow> bool"
  for namespace vol where
  no_claim: "pvol_ClaimName vol = None \<Longrightarrow> volume_read namespace vol [] (Some False)"
| claim_failed: "pvol_ClaimName vol = Some claim \<Longrightarrow>
    volume_read namespace vol [KGetPVC (mk_key namespace claim) (Inl e)] None"
| class_failed: "pvol_ClaimName vol = Some claim \<Longrightarrow> class_read c ev None \<Longrightarrow>
    volume_read namespace vol [KGetPVC (mk_key namespace claim) (Inr c), ev] None"
| class_found: "pvol_ClaimName vol = Some claim \<Longrightarrow> class_read c ev (Some sc) \<Longrightarrow>
    volume_read namespace vol [KGetPVC (mk_key namespace claim) (Inr c), ev]
      (Some (sc_Provisioner sc = ''csi.storageos.com''))"

text \<open>The readings for all volumes in order, and whether one of them is managed, up to the first that fails.\<close>

inductive pod_read :: "string \<Rightarrow> pod_volume list \<Rightarrow> k8s_event list \<Rightarrow> bool option \<Rightarrow> bool"
  for namespace where
  no_volumes: "pod_read namespace [] [] (Some False)"
| failed: "volume_read namespace vol es None \<Longrightarrow> pod_read namespace (vol # vols) es None"
| one_more: "volume_read namespace vol es (Some b) \<Longrightarrow> pod_read namespace vols es' res \<Longrightarrow>
    pod_read namespace (vol # vols) (es @ es') (map_option (\<lambda>b'. b \<or> b') res)"

lemma class_read_not_write: "class_read c ev found \<Longrightarrow> \<not> k8s_write ev"
  by (auto simp: class_read_def split: if_splits)

lemma volume_read_not_write: "volume_read namespace vol es res \<Longrightarrow> list_all (\<lambda>e. \<not> k8s_write e) es"
  by (induction rule: volume_read.induct) (auto dest: class_read_not_write)

lemma pod_read_not_write: "pod_read namespace vols es res \<Longrightarrow> list_all (\<lambda>e. \<not> k8s_write e) es"
  by (induction rule: pod_read.induct) (auto dest: volume_read_not_write)

lemma StorageClassForPVC_reads:
  "\<exists>r w' ev. StorageClassForPVC (traced_k8s (\<lambda>e. e) k8s) c (w, tr) = (Ret r, (w', tr @ [ev])) \<and>
     class_read c ev (case r of Inl e \<Rightarrow> None | Inr sc \<Rightarrow> Some sc)"
proof (cases "PVCStorageClassName c = ''''")
  case True
  show ?thesis
  proof (cases "fst (k8s_ListStorageClasses k8s w)")
    case (Inl e)
    with True show ?thesis
      by (auto simp: class_read_def StorageClassForPVC_def DefaultStorageClass_def Let_def
          tryP_run mapErr_run traceX_run)
  next
    case (Inr items)
    with True show ?thesis
      by (cases "find (\<lambda>sc. smap_get (meta_Annotations (sc_meta sc)) DefaultStorageClassKey = Some ''true'') items")
         (auto simp: class_read_def StorageClassForPVC_def DefaultStorageClass_def Let_def
           tryP_run mapErr_run retP_run traceX_run)
  qed
next
  case False
  then show ?thesis
    by (auto simp: class_read_def StorageClassForPVC_def StorageClass_def Let_def mapErr_run traceX_run
        split: sum.splits)
qed

lemma IsStorageOSVolume_reads:
  "\<exists>r w' es. IsStorageOSVolume (traced_k8s (\<lambda>e. e) k8s) vol namespace (w, tr) = (Ret r, (w', tr @ es)) \<and>
     volume_read namespace vol es (case r of Inl e \<Rightarrow> None | Inr b \<Rightarrow> Some b)"
proof (cases "pvol_ClaimName vol")
  case None
  then show ?thesis
    by (auto simp: IsStorageOSVolume_def IsProvisionedVolume_def retP_run intro: volume_read.no_claim)
next
  case (Some claim)
  let ?key = "mk_key namespace claim"
  show ?thesis
  proof (cases "fst (k8s_GetPVC k8s ?key w)")
    case (Inl e)
    with Some show ?thesis
      by (auto simp: IsStorageOSVolume_def IsProvisionedVolume_def tryP_run mapErr_run traceX_run
          intro: volume_read.claim_failed)
  next
    case (Inr c)
    obtain r w' ev where "StorageClassForPVC (traced_k8s (\<lambda>e. e) k8s) c
        (snd (k8s_GetPVC k8s ?key w), tr @ [KGetPVC ?key (Inr c)]) = (Ret r, (w', (tr @ [KGetPVC ?key (Inr c)]) @ [ev]))"
      and "class_read c ev (case r of Inl e \<Rightarrow> None | Inr sc \<Rightarrow> Some sc)"
      using StorageClassForPVC_reads [of k8s c "snd (k8s_GetPVC k8s ?key w)" "tr @ [KGetPVC ?key (Inr c)]"] by blast
    with Some Inr show ?thesis
      by (cases r)
         (auto simp: IsStorageOSVolume_def IsProvisionedVolume_def IsProvisionedPVC_def IsProvisionedStorageClass_def
           tryP_run mapErr_run traceX_run retP_run intro: volume_read.class_failed volume_read.class_found)
  qed
qed

lemma managed_loop:
  "\<exists>r w' es res. forE (managed_step (traced_k8s (\<lambda>e. e) k8s) namespace) vols acc (w, tr) = (Ret r, (w', tr @ es)) \<and>
      pod_read namespace vols es res \<and>
      (case r of Inl e \<Rightarrow> res = None | Inr managed \<Rightarrow> \<exists>b. res = Some b \<and> (managed = [] \<longleftrightarrow> acc = [] \<and> \<not> b))"
proof (induction vols arbitrary: acc w tr)
  case Nil
  show ?case by (auto simp: retP_run intro: pod_read.no_volumes)
next
  case (Cons vol vols)
  let ?step = "managed_step (traced_k8s (\<lambda>e. e) k8s) namespace"
  obtain r w1 es where v: "IsStorageOSVolume (traced_k8s (\<lambda>e. e) k8s) vol namespace (w, tr) = (Ret r, (w1, tr @ es))"
    and read: "volume_read namespace vol es (case r of Inl e \<Rightarrow> None | Inr b \<Rightarrow> Some b)"
    using IsStorageOSVolume_reads [of k8s vol namespace w tr] by blast
  show ?case
  proof (cases r)
    case (Inl e)
    with v have "?step vol acc (w, tr) =
        (Ret (Inl (Wrap e ''failed to determine if the volume is managed'')), (w1, tr @ es))"
      by (simp add: managed_step_def tryP_run mapErr_run)
    with read Inl show ?thesis by (auto simp: tryP_run intro: pod_read.failed)
  next
    case (Inr ok)
    let ?acc = "if ok then acc @ [vol] else acc"
    from v Inr have step: "?step vol acc (w, tr) = (Ret (Inr ?acc), (w1, tr @ es))"
      by (simp add: managed_step_def tryP_run mapErr_run retP_run)
    from Cons.IH [of ?acc w1 "tr @ es"] obtain r' w' es' res where
      loop: "forE ?step vols ?acc (w1, tr @ es) = (Ret r', (w', (tr @ es) @ es'))"
      "pod_read namespace vols es' res"
      "case r' of Inl e \<Rightarrow> res = None | Inr managed \<Rightarrow> \<exists>b. res = Some b \<and> (managed = [] \<longleftrightarrow> ?acc = [] \<and> \<not> b)"
      by blast
    have "pod_read namespace (vol # vols) (es @ es') (map_option (\<lambda>b'. ok \<or> b') res)"
      using read Inr loop(2) by (auto intro: pod_read.one_more)
    moreover have "forE ?step (vol # vols) acc (w, tr) = (Ret r', (w', tr @ es @ es'))"
      using step loop(1) by (simp add: tryP_run)
    moreover have "case r' of Inl e \<Rightarrow> map_option (\<lambda>b'. ok \<or> b') res = None
        | Inr managed \<Rightarrow> \<exists>b. map_option (\<lambda>b'. ok \<or> b') res = Some b \<and> (managed = [] \<longleftrightarrow> acc = [] \<and> \<not> b)"
      using loop(3) by (cases r') (auto split: if_splits)
    ultimately show ?thesis by blast
  qed
qed

text \<open>
  C33. The scheduler of a pod. When no scheduler is configured, or the pod opts out
  with a false annotation, the pod is left alone and nothing is asked. Otherwise the
  volumes of the pod are looked at one after the other: the claim of each is read in
  the pod's namespace and then the claim's class, and nothing else is asked. When one
  of these readings fails, so does the mutation, at once. When all could be made, the
  pod comes back with exactly the scheduler name changed if the class of one of its
  claims belongs to the StorageOS driver, and unchanged if none does. The mutator
  never changes anything in Kubernetes and never panics.
\<close>

theorem MutatePod_effect:
  "case MutatePod (NewPodSchedulerSetter (traced_k8s (\<lambda>e. e) k8s) scheduler) p namespace (w, []) of
     (Panic, _) \<Rightarrow> False
   | (Ret r, (w', tr)) \<Rightarrow>
       list_all (\<lambda>e. \<not> k8s_write e) tr \<and>
       (if scheduler = '''' \<or> opted_out p then r = Inr p \<and> tr = [] \<and> w' = w
        else \<exists>res. pod_read namespace (pod_Volumes p) tr res \<and>
               (case res of
                  None \<Rightarrow> \<exists>e. r = Inl e
                | Some managed \<Rightarrow> r = Inr (if managed then p\<lparr>pod_SchedulerName := scheduler\<rparr> else p)))"
proof -
  have out: "(case smap_get (meta_Annotations (pod_meta p)) PodSchedulerAnnotationKey of
        Some val \<Rightarrow> (case ParseBool val of Inr enabled \<Rightarrow> \<not> enabled | Inl err \<Rightarrow> False)
      | None \<Rightarrow> False) \<longleftrightarrow> opted_out p"
    by (auto simp: opted_out_def ParseBool_def split: option.splits)
  obtain r w' es res where loop: "forE (managed_step (traced_k8s (\<lambda>e. e) k8s) namespace) (pod_Volumes p) [] (w, []) =
      (Ret r, (w', es))" and read: "pod_read namespace (pod_Volumes p) es res"
    and res: "case r of Inl e \<Rightarrow> res = None | Inr managed \<Rightarrow> \<exists>b. res = Some b \<and> (managed = [] \<longleftrightarrow> \<not> b)"
    using managed_loop [of k8s namespace "pod_Volumes p" "[]" w "[]"] by (simp cong: sum.case_cong) blast
  show ?thesis
  proof (cases "scheduler = '''' \<or> opted_out p")
    case True
    then show ?thesis by (auto simp: MutatePod_def NewPodSchedulerSetter_def out [simplified] retP_run)
  next
    case False
    with loop have "MutatePod (NewPodSchedulerSetter (traced_k8s (\<lambda>e. e) k8s) scheduler) p namespace (w, []) =
        (Ret (case r of Inl e \<Rightarrow> Inl e
              | Inr managed \<Rightarrow> Inr (if managed = [] then p else p\<lparr>pod_SchedulerName := scheduler\<rparr>)), (w', es))"
      by (auto simp: MutatePod_def NewPodSchedulerSetter_def out [simplified] tryP_run retP_run split: sum.split)
    with False read pod_read_not_write [OF read] res show ?thesis
      by (cases r) (auto intro!: exI [of _ res])
  qed
qed

section \<open>The contract of a claim mutator\<close>

text \<open>
  A mutator of claims changes nothing but the annotations with its own keys, and
  keeps the annotations a well-formed map.
\<close>

definition claim_frame :: "string set \<Rightarrow> pvc \<Rightarrow> pvc \<Rightarrow> bool" where
  "claim_frame K c c' \<longleftrightarrow>
     (\<exists>annotations.
        c' = c\<lparr>pvc_meta := (pvc_meta c)\<lparr>meta_Annotations := annotations\<rparr>\<rparr> \<and>
        (\<forall>k. k \<notin> K \<longrightarrow> smap_get annotations k = smap_get (meta_Annotations (pvc_meta c)) k) \<and>
        (wf_smap (meta_Annotations (pvc_meta c)) \<longrightarrow> wf_smap annotations))"

lemma claim_frame_refl [simp]: "claim_frame K c c"
  by (auto simp: claim_frame_def intro!: exI [of _ "meta_Annotations (pvc_meta c)"])

lemma claim_frame_trans: "claim_frame K c c1 \<Longrightarrow> claim_frame K c1 c2 \<Longrightarrow> claim_frame K c c2"
  unfolding claim_frame_def by auto

lemma claim_frame_mono: "claim_frame K c c' \<Longrightarrow> K \<subseteq> L \<Longrightarrow> claim_frame L c c'"
  unfolding claim_frame_def by blast

lemma claim_frame_annotate: "k \<in> K \<Longrightarrow> claim_frame K c (annotate k v c)"
  by (auto simp: claim_frame_def annotate_def smap_get_def wf_smap_def AList.update_conv' AList.distinct_update)

lemma annotation_annotate [simp]:
  "smap_get (meta_Annotations (pvc_meta (annotate k v c))) k' =
     (if k' = k then Some v else smap_get (meta_Annotations (pvc_meta c)) k')"
  by (simp add: annotate_def smap_get_def AList.update_conv')

locale claim_mutator =
  fixes mutate :: "('w, pvc) mutator" and keys :: "string set"
  assumes frame: "mutate c namespace w = (Ret (Inr c'), w') \<Longrightarrow> claim_frame keys c c'"

lemma run_mutators_frame:
  assumes "\<forall>m \<in> set ms. \<exists>K. claim_mutator m K \<and> K \<subseteq> L"
    and "run_mutators ms namespace c w = (Ret (Inr c'), w')"
  shows "claim_frame L c c'"
  using assms
proof (induction ms arbitrary: c w)
  case Nil
  then show ?case by (simp add: run_mutators_def retP_run)
next
  case (Cons m ms)
  from Cons.prems(2) obtain c1 w1 where m: "m c namespace w = (Ret (Inr c1), w1)"
    and ms: "run_mutators ms namespace c1 w1 = (Ret (Inr c'), w')"
    by (auto simp: run_mutators_def tryP_run split: prod.splits outcome.splits sum.splits)
  from Cons.prems(1) obtain K where "claim_mutator m K" "K \<subseteq> L" by auto
  then have "claim_frame L c c1" by (metis claim_mutator.frame m claim_frame_mono)
  moreover have "claim_frame L c1 c'" using Cons.prems(1) ms by (intro Cons.IH) auto
  ultimately show ?case by (rule claim_frame_trans)
qed

interpretation annotation_setter: claim_mutator "AnnotationSetter_MutatePVC k8s" "{StorageClassUUIDAnnotationKey}"
  for k8s :: "'w k8s_client"
  by unfold_locales
     (auto simp: AnnotationSetter_MutatePVC_def tryP_run mapErr_run retP_run intro: claim_frame_annotate
       split: prod.splits outcome.splits sum.splits if_splits)

interpretation key_setter: claim_mutator "KeySetter_MutatePVC s"
    "{ks_secretNameAnnotationKey s, ks_secretNamespaceAnnotationKey s}"
  for s :: "'w key_setter"
  by unfold_locales
     (auto simp: KeySetter_MutatePVC_def KeySetter_setKeys_def tryP_run mapErr_run retP_run bindP_run
       intro!: claim_frame_trans [OF claim_frame_annotate claim_frame_annotate]
       split: prod.splits outcome.splits sum.splits if_splits option.splits)

section \<open>Secrets stay in the namespace of the claim\<close>

text \<open>
  The calls the claim webhook may make for a claim of \<open>namespace\<close>: readings of storage
  classes, and secrets of that namespace. Nothing but secrets is created, nothing
  is updated or deleted.
\<close>

primrec claim_event_ok :: "string \<Rightarrow> k8s_event \<Rightarrow> bool" where
  "claim_event_ok ns (KGetStorageClass k r) = True"
| "claim_event_ok ns (KListStorageClasses r) = True"
| "claim_event_ok ns (KGetSecret k r) = (key_Namespace k = ns)"
| "claim_event_ok ns (KCreateSecret s r) = (meta_Namespace (sec_meta s) = ns)"
| "claim_event_ok ns (KGetNode k r) = False"
| "claim_event_ok ns (KListPods k r) = False"
| "claim_event_ok ns (KDeletePod p g r) = False"
| "claim_event_ok ns (KListVolumeAttachments k r) = False"
| "claim_event_ok ns (KDeleteVolumeAttachment va g r) = False"
| "claim_event_ok ns (KGetPVC k r) = False"
| "claim_event_ok ns (KUpdatePVC c r) = False"
| "claim_event_ok ns (KGetPV k r) = False"
| "claim_event_ok ns (KGetService k r) = False"
| "claim_event_ok ns (KCreateService s r) = False"
| "claim_event_ok ns (KUpdateService s r) = False"
| "claim_event_ok ns (KGetEndpoints k r) = False"
| "claim_event_ok ns (KCreateEndpoints e r) = False"
| "claim_event_ok ns (KUpdateEndpoints e r) = False"

lemma namespace_secret_new [simp]: "meta_Namespace (sec_meta (secret_new ref data labels)) = key_Namespace ref"
  by (simp add: secret_new_def)

lemma emits_StorageClassForPVC:
  assumes "\<And>k r. P (KGetStorageClass k r)" and "\<And>r. P (KListStorageClasses r)"
  shows "emits P (StorageClassForPVC (traced_k8s (\<lambda>e. e) k8s) c)"
  unfolding StorageClassForPVC_def StorageClass_def DefaultStorageClass_def Let_def
  by (auto intro!: emits_intros assms split: option.split)

lemma emits_KeyManager_Ensure:
  assumes "key_Namespace ns = n" and "key_Namespace vol = n"
  shows "emits (claim_event_ok n) (KeyManager_Ensure (traced_k8s (\<lambda>e. e) k8s) (liftX rand) ns vol nl vl)"
  unfolding KeyManager_Ensure_def ensureNamespaceKey_def createVolumeKey_def GenerateUserKey_def
  by (auto intro!: emits_intros emits_volumeKeyData simp: assms split: sum.split)

lemma NewKeySetter_sel [simp]:
  "ks_enabledLabel (NewKeySetter k8s rand labels) = ReservedLabelEncryption"
  "ks_secretNameAnnotationKey (NewKeySetter k8s rand labels) = SecretNameAnnotationKey"
  "ks_secretNamespaceAnnotationKey (NewKeySetter k8s rand labels) = SecretNamespaceAnnotationKey"
  "ks_labels (NewKeySetter k8s rand labels) = labels"
  "ks_Client (NewKeySetter k8s rand labels) = k8s"
  "ks_keys (NewKeySetter k8s rand labels) = KeyManager_Ensure k8s rand"
  "ks_rand (NewKeySetter k8s rand labels) = rand"
  by (simp_all add: NewKeySetter_def)

lemma emits_VolumeSecretKeyRef:
  "emits P (VolumeSecretKeyRef (NewKeySetter k8s (liftX rand) labels) c namespace)"
  unfolding VolumeSecretKeyRef_def GenerateVolumeSecretName_def uuid_New_def NewRandomFromReader_def
    Let_def NewKeySetter_sel
  by (auto intro!: emits_intros split: option.split sum.split)

lemma VolumeSecretKeyRef_namespace:
  assumes "VolumeSecretKeyRef s c namespace w = (Ret ref, w')"
    and "case smap_get (meta_Annotations (pvc_meta c)) (ks_secretNamespaceAnnotationKey s) of
           Some requested \<Rightarrow> requested = namespace | None \<Rightarrow> True"
  shows "key_Namespace ref = namespace"
  using assms by (auto simp: VolumeSecretKeyRef_def Let_def bindP_run retP_run
      split: prod.splits outcome.splits option.splits if_splits)

lemma emits_setKeys:
  assumes "case smap_get (meta_Annotations (pvc_meta c)) SecretNamespaceAnnotationKey of
             Some requested \<Rightarrow> requested = namespace | None \<Rightarrow> True"
  shows "emits (claim_event_ok namespace)
     (KeySetter_setKeys (NewKeySetter (traced_k8s (\<lambda>e. e) k8s) (liftX rand) labels) c namespace)"
proof -
  let ?s = "NewKeySetter (traced_k8s (\<lambda>e. e) k8s) (liftX rand) labels"
  have "key_Namespace ref = namespace" if "VolumeSecretKeyRef ?s c namespace wt = (Ret ref, wt')" for wt ref wt'
    using VolumeSecretKeyRef_namespace [OF that] assms by simp
  then show ?thesis
    unfolding KeySetter_setKeys_def
    by (intro emits_bindP_post [where R = "\<lambda>ref. key_Namespace ref = namespace"] emits_VolumeSecretKeyRef)
       (auto intro!: emits_intros emits_KeyManager_Ensure simp: NamespaceSecretKeyRef_def split: option.split)
qed

lemma emits_KeySetter:
  "emits (claim_event_ok namespace)
     (KeySetter_MutatePVC (NewKeySetter (traced_k8s (\<lambda>e. e) k8s) (liftX rand) labels) c namespace)"
  unfolding KeySetter_MutatePVC_def
  by (auto intro!: emits_intros emits_StorageClassForPVC emits_setKeys split: sum.split option.split)

section \<open>The claim webhook\<close>

abbreviation webhook_annotations :: "string set" where
  "webhook_annotations \<equiv>
     {''storageos.com/storageclass'', ''storageos.com/encryption-secret-name'',
      ''storageos.com/encryption-secret-namespace''}"

lemma pvc_mutators_frame:
  assumes "run_mutators (pvc_mutators k8s rand) namespace c w = (Ret (Inr c'), w')"
  shows "claim_frame webhook_annotations c c'"
proof (rule run_mutators_frame [OF _ assms], intro ballI)
  fix m assume "m \<in> set (pvc_mutators k8s rand)"
  then consider "m = KeySetter_MutatePVC (NewKeySetter k8s rand labels_Default)"
    | "m = AnnotationSetter_MutatePVC k8s" by (auto simp: pvc_mutators_def)
  then show "\<exists>K. claim_mutator m K \<and> K \<subseteq> webhook_annotations"
  proof cases
    case 1
    with key_setter.claim_mutator_axioms [of "NewKeySetter k8s rand labels_Default"]
    show ?thesis by (intro exI [of _ "{SecretNameAnnotationKey, SecretNamespaceAnnotationKey}"]) simp
  next
    case 2
    with annotation_setter.claim_mutator_axioms [of k8s]
    show ?thesis by (intro exI [of _ "{StorageClassUUIDAnnotationKey}"]) simp
  qed
qed

lemma emits_pvc_mutators:
  "emits (claim_event_ok namespace)
     (run_mutators (pvc_mutators (traced_k8s (\<lambda>e. e) k8s) (liftX rand)) namespace c)"
  unfolding run_mutators_def pvc_mutators_def
  by (intro emits_forE)
     (auto simp: AnnotationSetter_MutatePVC_def intro!: emits_intros emits_KeySetter emits_StorageClassForPVC)

text \<open>With a random source that never fails, nothing panics.\<close>

lemma no_panic_uuid_New: "(\<And>w. \<exists>b. fst (rand w) = Inr b) \<Longrightarrow> no_panic (uuid_New rand)"
  unfolding no_panic_def uuid_New_def NewRandomFromReader_def GenerateRandomBytes_def
  by (auto simp: bindP_run tryP_run retP_run Let_def split: sum.splits) (metis sum.distinct(1))

lemma no_panic_KeyManager_Ensure: "no_panic (KeyManager_Ensure k8s rand ns vol nl vl)"
  unfolding KeyManager_Ensure_def ensureNamespaceKey_def createVolumeKey_def GenerateUserKey_def
  by (auto intro!: no_panic_bindP no_panic_tryP no_panic_tryE split: sum.split)

lemma no_panic_pvc_mutators:
  assumes "\<And>w. \<exists>b. fst (rand w) = Inr b"
  shows "no_panic (run_mutators (pvc_mutators k8s rand) namespace c)"
proof -
  have "no_panic (VolumeSecretKeyRef (NewKeySetter k8s rand labels_Default) c namespace)" for c
    unfolding VolumeSecretKeyRef_def GenerateVolumeSecretName_def Let_def
    by (auto intro!: no_panic_bindP no_panic_uuid_New assms split: option.split)
  then have "no_panic (KeySetter_MutatePVC (NewKeySetter k8s rand labels_Default) c namespace)" for c
    unfolding KeySetter_MutatePVC_def KeySetter_setKeys_def
    by (auto intro!: no_panic_bindP no_panic_tryP no_panic_KeyManager_Ensure split: sum.split option.split)
  moreover have "no_panic (AnnotationSetter_MutatePVC k8s c namespace)" for c
    unfolding AnnotationSetter_MutatePVC_def by (auto intro!: no_panic_tryP)
  ultimately show ?thesis
    unfolding run_mutators_def pvc_mutators_def by (intro no_panic_forE) auto
qed

lemma webhook_panics_only_on_rand:
  assumes "fst (run_mutators (pvc_mutators k8s (liftX rand)) namespace c wt) = Panic"
  shows "\<exists>w1. isl (fst (rand w1))"
proof (rule ccontr)
  assume "\<nexists>w1. isl (fst (rand w1))"
  then have "\<exists>b. fst (rand w1) = Inr b" for w1 by (cases "fst (rand w1)") (metis sum.disc(1))+
  then have "no_panic (run_mutators (pvc_mutators k8s (liftX rand)) namespace c)"
    by (intro no_panic_pvc_mutators) (auto simp: liftX_def split: prod.split, metis fst_conv)
  with assms show False unfolding no_panic_def by blast
qed

lemma run_pvc_mutators:
  "run_mutators (pvc_mutators k8s rand) namespace c =
     tryP (KeySetter_MutatePVC (NewKeySetter k8s rand labels_Default) c namespace) (\<lambda>c1.
     tryP (AnnotationSetter_MutatePVC k8s c1 namespace) (\<lambda>c2. retP (Inr c2)))"
  by (simp add: run_mutators_def pvc_mutators_def fun_eq_iff tryP_run retP_run split: prod.split outcome.split sum.split)

lemma no_panic_AnnotationSetter: "no_panic (AnnotationSetter_MutatePVC k8s c namespace)"
  unfolding AnnotationSetter_MutatePVC_def by (auto intro!: no_panic_tryP)

text \<open>
  C34. The claim webhook. A request that cannot be decoded is answered with 400
  before any call. Otherwise the key setter and then the annotation setter run, in
  that order; the error of either is answered with 500 and that error, without a
  patch and without running what comes after, and so is a claim that cannot be encoded
  or compared. The answer of a request that passes is the difference between the
  request and the encoding of a claim that differs from the decoded one in nothing but
  the three annotations of StorageOS. Every call made for a claim of a namespace reads
  storage classes, or reads or creates secrets of that very namespace; nothing is
  updated or deleted. The handler panics only when the random source fails. So a class
  that cannot be read for the annotation fails the creation of the claim, other than
  the documentation of the annotation mutator has it.
\<close>

theorem pvc_webhook:
  "let k = traced_k8s (\<lambda>e. e) k8s; ns = req_Namespace req;
       handled = PVCMutator_Handle cd (pvc_mutators k (liftX rand)) req (w, [])
   in list_all (claim_event_ok ns) (snd (snd handled)) \<and>
      (case cd_Decode cd (req_Raw req) of
         Inl err \<Rightarrow> handled = (Ret (Errored 400 err), (w, []))
       | Inr c \<Rightarrow>
           (case KeySetter_MutatePVC (NewKeySetter k (liftX rand) labels_Default) c ns (w, []) of
              (Panic, wt) \<Rightarrow> handled = (Panic, wt) \<and> (\<exists>w1. isl (fst (rand w1)))
            | (Ret (Inl err), wt) \<Rightarrow> handled = (Ret (Errored 500 err), wt)
            | (Ret (Inr c1), wt) \<Rightarrow>
                (case AnnotationSetter_MutatePVC k c1 ns wt of
                   (Panic, wt') \<Rightarrow> False
                 | (Ret (Inl err), wt') \<Rightarrow> handled = (Ret (Errored 500 err), wt')
                 | (Ret (Inr c2), wt') \<Rightarrow>
                     claim_frame webhook_annotations c c2 \<and>
                     handled =
                       (Ret (case cd_Marshal cd c2 of
                               Inl err \<Rightarrow> Errored 500 err
                             | Inr raw \<Rightarrow>
                                 (case cd_CreatePatch cd (req_Raw req) raw of
                                    Inl err \<Rightarrow> Errored 500 err
                                  | Inr patches \<Rightarrow> PatchResponse patches)), wt'))))"
proof (cases "cd_Decode cd (req_Raw req)")
  case (Inl err)
  then show ?thesis by (simp add: PVCMutator_Handle_def retP_run)
next
  case (Inr c)
  let ?k = "traced_k8s (\<lambda>e. e) k8s" and ?ns = "req_Namespace req"
  let ?run = "run_mutators (pvc_mutators ?k (liftX rand)) ?ns c"
  let ?h = "PVCMutator_Handle cd (pvc_mutators ?k (liftX rand)) req (w, [])"
  obtain r w' tr where run: "?run (w, []) = (r, (w', tr))" by (metis prod.collapse)
  have h: "?h = (case r of
        Panic \<Rightarrow> (Panic, (w', tr))
      | Ret (Inl err) \<Rightarrow> (Ret (Errored 500 err), (w', tr))
      | Ret (Inr c2) \<Rightarrow>
          (Ret (case cd_Marshal cd c2 of Inl err \<Rightarrow> Errored 500 err
                | Inr raw \<Rightarrow> (case cd_CreatePatch cd (req_Raw req) raw of
                     Inl err \<Rightarrow> Errored 500 err | Inr patches \<Rightarrow> PatchResponse patches)), (w', tr)))"
    using run Inr
    by (simp add: PVCMutator_Handle_def PatchResponseFromRaw_def bindP_run retP_run
        split: outcome.split sum.split)
  have "snd (snd ?h) = tr" unfolding h by (simp split: outcome.split sum.split)
  then have ok: "list_all (claim_event_ok ?ns) (snd (snd ?h))"
    using emits_start [OF emits_pvc_mutators run] by simp
  have panic: "r = Panic \<Longrightarrow> \<exists>w1. isl (fst (rand w1))"
    using webhook_panics_only_on_rand [of ?k rand ?ns c "(w, [])"] run by simp
  have frame: "r = Ret (Inr c2) \<Longrightarrow> claim_frame webhook_annotations c c2" for c2
    using pvc_mutators_frame [of ?k "liftX rand" ?ns c "(w, [])" c2] run by simp
  obtain r1 wt where r1: "KeySetter_MutatePVC (NewKeySetter ?k (liftX rand) labels_Default) c ?ns (w, []) = (r1, wt)"
    by (metis surj_pair)
  show ?thesis
  proof (cases r1)
    case Panic
    with run r1 have "r = Panic" "wt = (w', tr)" by (simp_all add: run_pvc_mutators tryP_run)
    with ok h panic Inr r1 Panic show ?thesis by (simp add: Let_def)
  next
    case (Ret x)
    show ?thesis
    proof (cases x)
      case (Inl err)
      with run r1 Ret have "r = Ret (Inl err)" "wt = (w', tr)" by (simp_all add: run_pvc_mutators tryP_run)
      with ok h \<open>cd_Decode cd (req_Raw req) = Inr c\<close> r1 Ret Inl show ?thesis by (simp add: Let_def)
    next
      case c1: (Inr c1)
      obtain r2 wt' where r2: "AnnotationSetter_MutatePVC ?k c1 ?ns wt = (Ret r2, wt')"
        using no_panic_AnnotationSetter by (rule no_panicE)
      with run r1 Ret c1 have "r = Ret r2" "wt' = (w', tr)"
        by (auto simp: run_pvc_mutators tryP_run retP_run split: sum.splits)
      with ok h frame Inr r1 r2 Ret c1 show ?thesis by (cases r2) (simp_all add: Let_def)
    qed
  qed
qed

text \<open>Whether a claim of a class must have a key, with the label of the claim before the parameter of the class.\<close>

definition truthy :: "string \<Rightarrow> bool" where
  "truthy v \<longleftrightarrow> v \<in> {''1'', ''t'', ''T'', ''true'', ''TRUE'', ''True''}"

definition wants_key :: "pvc \<Rightarrow> storage_class \<Rightarrow> bool" where
  "wants_key c sc \<longleftrightarrow>
     sc_Provisioner sc = ''csi.storageos.com'' \<and>
     (case smap_get (meta_Labels (pvc_meta c)) ''storageos.com/encryption'' of
        Some v \<Rightarrow> truthy v
      | None \<Rightarrow> (case smap_get (sc_Parameters sc) ''storageos.com/encryption'' of
                  Some v \<Rightarrow> truthy v | None \<Rightarrow> False))"

lemma ParseBool_truthy: "ParseBool v = Inr b \<Longrightarrow> b \<longleftrightarrow> truthy v"
  by (auto simp: ParseBool_def truthy_def split: if_splits)

lemma isEnabled_wants_key:
  assumes "isEnabled ReservedLabelEncryption [meta_Labels (pvc_meta c), sc_Parameters sc] = Inr b"
    and "sc_Provisioner sc = DriverName"
  shows "b \<longleftrightarrow> wants_key c sc"
  using assms by (auto simp: wants_key_def dest: ParseBool_truthy split: option.splits)

text \<open>
  C35. A claim that is admitted for encryption has its key. When the class of a
  claim was read and the claim is admitted, a claim that wants a key (its own label
  first, the parameter of its class otherwise) comes back with annotations that
  name a secret of the claim's own namespace, and that secret is in the store; any
  other claim comes back as it was, without any call after the reading of the
  class. That a claim without the label gets a key when the parameter of its class
  asks for one is what the code does; the documentation of the mutator says that
  claims without the label are left unchanged.
\<close>

theorem KeySetter_keys:
  assumes "secret_store k8s rand store"
    and "StorageClassForPVC k8s c w = (Ret (Inr sc), w1)"
    and "KeySetter_MutatePVC (NewKeySetter k8s rand labels) c namespace w = (Ret (Inr c'), w')"
  shows "if wants_key c sc
         then \<exists>name s. smap_get (meta_Annotations (pvc_meta c')) ''storageos.com/encryption-secret-name'' = Some name \<and>
                smap_get (meta_Annotations (pvc_meta c')) ''storageos.com/encryption-secret-namespace'' = Some namespace \<and>
                store w' (mk_key namespace name) = Some s
         else c' = c \<and> w' = w1"
proof (cases "sc_Provisioner sc = DriverName")
  case False
  with assms(2,3) show ?thesis
    by (simp add: KeySetter_MutatePVC_def IsProvisionedStorageClass_def wants_key_def tryP_run mapErr_run retP_run)
next
  case True
  let ?s = "NewKeySetter k8s rand labels"
  from assms(2,3) True obtain b where
    b: "isEnabled ReservedLabelEncryption [meta_Labels (pvc_meta c), sc_Parameters sc] = Inr b"
    by (auto simp: KeySetter_MutatePVC_def IsProvisionedStorageClass_def tryP_run mapErr_run retP_run
        simp del: isEnabled.simps split: sum.splits)
  show ?thesis
  proof (cases b)
    case False
    with b assms(2,3) True isEnabled_wants_key [OF b True] show ?thesis
      by (simp add: KeySetter_MutatePVC_def IsProvisionedStorageClass_def tryP_run mapErr_run retP_run
          del: isEnabled.simps)
  next
    case True
    with b assms(2,3) \<open>sc_Provisioner sc = DriverName\<close>
    have ns: "case smap_get (meta_Annotations (pvc_meta c)) SecretNamespaceAnnotationKey of
              Some requested \<Rightarrow> requested = namespace | None \<Rightarrow> True"
      and set: "KeySetter_setKeys ?s c namespace w1 = (Ret (Inr c'), w')"
      by (auto simp: KeySetter_MutatePVC_def IsProvisionedStorageClass_def tryP_run mapErr_run retP_run
          simp del: isEnabled.simps split: option.splits if_splits)
    from set obtain ref w2 w3 where ref: "VolumeSecretKeyRef ?s c namespace w1 = (Ret ref, w2)"
      and keys: "KeyManager_Ensure k8s rand (NamespaceSecretKeyRef namespace) ref labels w3 w2 = (Ret None, w')"
      and c': "c' = annotate SecretNamespaceAnnotationKey (key_Namespace ref)
                      (annotate SecretNameAnnotationKey (key_Name ref) c)"
      by (auto simp: KeySetter_setKeys_def bindP_run retP_run split: prod.splits outcome.splits option.splits)
    have "key_Namespace ref = namespace"
      using VolumeSecretKeyRef_namespace [OF ref] ns by simp
    then have r: "mk_key namespace (key_Name ref) = ref" by (cases ref) simp
    have "\<exists>s. store w' (mk_key namespace (key_Name ref)) = Some s"
      using secret_store.Ensure_stored [OF assms(1) keys] unfolding r by (auto split: sum.splits)
    with True isEnabled_wants_key [OF b \<open>sc_Provisioner sc = DriverName\<close>] c' show ?thesis
      using \<open>key_Namespace ref = namespace\<close> by simp
  qed
qed

definition encrypted_claim :: pvc where
  "encrypted_claim = sample_pvc\<lparr>pvc_meta := (pvc_meta sample_pvc)
     \<lparr>meta_Labels := SMap [(''storageos.com/encryption'', ''true'')],
      meta_Annotations := SMap [(''storageos.com/encryption-secret-name'', ''my-key'')]\<rparr>\<rparr>"

definition class_store :: "(objkey \<rightharpoonup> secret) k8s_client" where
  "class_store = mem_secrets\<lparr>k8s_GetStorageClass := (\<lambda>k m. (Inr sample_storage_class, m))\<rparr>"

lemma class_store_keys: "KeyManager_Ensure class_store = KeyManager_Ensure mem_secrets"
  unfolding KeyManager_Ensure_def [abs_def] ensureNamespaceKey_def [abs_def] createVolumeKey_def [abs_def]
    class_store_def
  by (simp cong: sum.case_cong if_cong)

lemma class_store_axioms: "secret_store class_store fixed_rand (\<lambda>m. m)"
  using mem.secret_store_axioms unfolding secret_store_def by (simp add: class_store_def)

lemma class_store_class:
  "StorageClassForPVC class_store encrypted_claim m = (Ret (Inr sample_storage_class), m)"
  by (simp add: StorageClassForPVC_def StorageClass_def PVCStorageClassName_def class_store_def
      encrypted_claim_def sample_pvc_def mapErr_run)

theorem KeySetter_keys_witness:
  "\<exists>c' m s. KeySetter_MutatePVC (NewKeySetter class_store fixed_rand labels_Default) encrypted_claim
              ''default'' Map.empty = (Ret (Inr c'), m) \<and>
     smap_get (meta_Annotations (pvc_meta c')) ''storageos.com/encryption-secret-name'' = Some ''my-key'' \<and>
     m (mk_key ''default'' ''my-key'') = Some s"
proof -
  let ?ns = "NamespaceSecretKeyRef ''default''" and ?vol = "mk_key ''default'' ''my-key''"
  obtain m where m: "KeyManager_Ensure mem_secrets fixed_rand ?ns ?vol labels_Default
      (VolumeSecretLabels labels_Default ''data'') Map.empty = (Ret None, m)"
    using mem_Ensure [of ?ns ?vol] by (auto simp: NamespaceSecretKeyRef_def)
  let ?c = "annotate SecretNamespaceAnnotationKey ''default''
              (annotate SecretNameAnnotationKey ''my-key'' encrypted_claim)"
  have claim: "smap_get (meta_Annotations (pvc_meta encrypted_claim)) SecretNamespaceAnnotationKey = None"
    "smap_get (meta_Annotations (pvc_meta encrypted_claim)) SecretNameAnnotationKey = Some ''my-key''"
    "meta_Name (pvc_meta encrypted_claim) = ''data''"
    "smap_get (meta_Labels (pvc_meta encrypted_claim)) ''storageos.com/encryption'' = Some ''true''"
    by (simp_all add: encrypted_claim_def sample_pvc_def smap_get_def)
  have sc: "sc_Provisioner sample_storage_class = ''csi.storageos.com''"
    by (simp add: sample_storage_class_def)
  have run: "KeySetter_MutatePVC (NewKeySetter class_store fixed_rand labels_Default) encrypted_claim
      ''default'' Map.empty = (Ret (Inr ?c), m)"
    by (simp add: KeySetter_MutatePVC_def KeySetter_setKeys_def VolumeSecretKeyRef_def tryP_run mapErr_run
        bindP_run retP_run class_store_class claim sc m class_store_keys IsProvisionedStorageClass_def
        ParseBool_def)
  have "wants_key encrypted_claim sample_storage_class"
    by (simp add: wants_key_def claim sc truthy_def)
  with KeySetter_keys [OF class_store_axioms class_store_class run] run show ?thesis by auto
qed

text \<open>
  A claim may name the secret of its namespace as its own. The manager then finds that
  secret, or creates it as the namespace key and cannot create it again as the volume
  key: the API server refuses to create what exists.
\<close>

definition creates_once :: "'w k8s_client \<Rightarrow> ('w \<Rightarrow> objkey \<rightharpoonup> secret) \<Rightarrow> bool" where
  "creates_once k8s store \<longleftrightarrow>
     (\<forall>w s. store w (meta_key (sec_meta s)) \<noteq> None \<longrightarrow> isl (fst (k8s_CreateSecret k8s s w)))"

lemma truthy_ParseBool: "truthy v \<Longrightarrow> ParseBool v = Inr True"
  by (auto simp: truthy_def ParseBool_def)

lemma no_panic_ensureNamespaceKey: "no_panic (ensureNamespaceKey k8s rand ns labels)"
  unfolding ensureNamespaceKey_def GenerateUserKey_def
  by (auto intro!: no_panic_bindP no_panic_tryP split: sum.split)

lemma createVolumeKey_conflict:
  assumes "secret_store k8s rand store" and "creates_once k8s store" and "store w vol = Some s"
  shows "\<exists>err w'. createVolumeKey k8s rand vol nsKey labels w = (Ret (Some err), w') \<and> store w' vol = Some s"
proof -
  obtain d w1 where d: "volumeKeyData rand nsKey w = (Ret d, w1)"
    using no_panic_volumeKeyData by (rule no_panicE)
  have s1: "store w1 vol = Some s"
    using secret_store.keepsD [OF assms(1) secret_store.keeps_volumeKeyData [OF assms(1)] d assms(3)] .
  show ?thesis
  proof (cases d)
    case (Inl err)
    with d s1 show ?thesis by (auto simp: createVolumeKey_def tryE_run)
  next
    case (Inr data)
    obtain r w2 where r: "k8s_CreateSecret k8s (secret_new vol data labels) w1 = (r, w2)" by (metis surj_pair)
    with assms(2) s1 obtain e where e: "r = Inl e"
      unfolding creates_once_def by (metis fst_conv isl_def key_secret_new option.distinct(1))
    have "store w1 \<subseteq>\<^sub>m store w2"
      using assms(1) r unfolding secret_store_def by (metis snd_conv)
    with s1 have "store w2 vol = Some s" by (auto simp: map_le_def dom_def)
    with d Inr r e show ?thesis by (auto simp: createVolumeKey_def tryE_run)
  qed
qed

lemma Ensure_same_secret:
  assumes "secret_store k8s rand store" and "creates_once k8s store"
    and "k8s_GetSecret k8s ref w = (Inl e, w2)"
  shows "\<exists>err w'. KeyManager_Ensure k8s rand ref ref nl vl w = (Ret (Some err), w') \<and>
    (\<forall>e' w3 key w4 s w5. IsNotFound e \<and> k8s_GetSecret k8s ref w2 = (Inl e', w3) \<and> IsNotFound e' \<and>
       GenerateUserKey rand w3 = (Ret (Inr key), w4) \<and>
       k8s_CreateSecret k8s (secret_new ref [(''key'', key)] nl) w4 = (Inr s, w5) \<longrightarrow>
       store w' ref = Some s \<and> sec_Data s = Some [(''key'', key)])"
proof (cases "IsNotFound e")
  case False
  with assms(3) show ?thesis by (simp add: KeyManager_Ensure_def bindP_run retP_run)
next
  case True
  obtain n w5 where n: "ensureNamespaceKey k8s rand ref nl w2 = (Ret n, w5)"
    using no_panic_ensureNamespaceKey by (rule no_panicE)
  show ?thesis
  proof (cases n)
    case (Inr k)
    from secret_store.ensureNamespaceKey_stored [OF assms(1) n [unfolded Inr]]
    obtain s where s: "store w5 ref = Some s" by blast
    from createVolumeKey_conflict [OF assms(1,2) s, of k vl] obtain err w' where
      v: "createVolumeKey k8s rand ref k vl w5 = (Ret (Some err), w')" "store w' ref = Some s" by blast
    have "KeyManager_Ensure k8s rand ref ref nl vl w = (Ret (Some err), w')"
      using True assms(3) n Inr v by (simp add: KeyManager_Ensure_def bindP_run tryE_run)
    moreover have "s' = s \<and> sec_Data s' = Some [(''key'', key)]"
      if "k8s_GetSecret k8s ref w2 = (Inl e', w3)" "IsNotFound e'" "GenerateUserKey rand w3 = (Ret (Inr key), w4)"
        "k8s_CreateSecret k8s (secret_new ref [(''key'', key)] nl) w4 = (Inr s', w5')" for e' w3 key w4 s' w5'
    proof -
      have "w5' = w5" using that n by (simp add: ensureNamespaceKey_def bindP_run tryP_run retP_run)
      moreover have "store w5' ref = Some s' \<and> sec_Data s' = Some [(''key'', key)]"
        using secret_store.create_stores [OF assms(1), of "secret_new ref [(''key'', key)] nl" w4 s'] that(4) by simp
      ultimately show ?thesis using s by simp
    qed
    ultimately show ?thesis using v(2) by blast
  next
    case (Inl err)
    have "KeyManager_Ensure k8s rand ref ref nl vl w = (Ret (Some err), w5)"
      using True assms(3) n Inl by (simp add: KeyManager_Ensure_def bindP_run tryE_run)
    moreover have "store w5 ref = Some s \<and> sec_Data s = Some [(''key'', key)]"
      if "k8s_GetSecret k8s ref w2 = (Inl e', w3)" "IsNotFound e'" "GenerateUserKey rand w3 = (Ret (Inr key), w4)"
        "k8s_CreateSecret k8s (secret_new ref [(''key'', key)] nl) w4 = (Inr s, w5')" for e' w3 key w4 s w5'
    proof -
      have "w5' = w5" using that n by (simp add: ensureNamespaceKey_def bindP_run tryP_run retP_run)
      then show ?thesis
        using secret_store.create_stores [OF assms(1), of "secret_new ref [(''key'', key)] nl" w4 s] that(4) by simp
    qed
    ultimately show ?thesis by blast
  qed
qed

text \<open>A claim that wants a key and names the secret of its namespace is left to the key manager.\<close>

lemma KeySetter_namespace_secret_run:
  assumes "StorageClassForPVC k8s c w = (Ret (Inr sc), w1)" and "wants_key c sc"
    and "smap_get (meta_Annotations (pvc_meta c)) SecretNameAnnotationKey = Some NamespaceSecretName"
    and "smap_get (meta_Annotations (pvc_meta c)) SecretNamespaceAnnotationKey \<in> {None, Some namespace}"
  shows "KeySetter_MutatePVC (NewKeySetter k8s rand labels) c namespace w =
    (case KeyManager_Ensure k8s rand (mk_key namespace NamespaceSecretName) (mk_key namespace NamespaceSecretName) labels
            (VolumeSecretLabels labels (meta_Name (pvc_meta c))) w1 of
       (Panic, w') \<Rightarrow> (Panic, w')
     | (Ret None, w') \<Rightarrow>
         (Ret (Inr (annotate SecretNamespaceAnnotationKey namespace (annotate SecretNameAnnotationKey NamespaceSecretName c))), w')
     | (Ret (Some err), w') \<Rightarrow> (Ret (Inl (Wrap err ''failed to ensure encryption key present for pvc'')), w'))"
proof -
  have on: "isEnabled ReservedLabelEncryption [meta_Labels (pvc_meta c), sc_Parameters sc] = Inr True"
    and sc: "sc_Provisioner sc = DriverName"
    using assms(2) truthy_ParseBool by (auto simp: wants_key_def split: option.splits)
  have "VolumeSecretKeyRef (NewKeySetter k8s rand labels) c namespace w1 = (Ret (mk_key namespace NamespaceSecretName), w1)"
    using assms(3,4) by (auto simp: VolumeSecretKeyRef_def Let_def retP_run bindP_run)
  moreover have "\<not> (case smap_get (meta_Annotations (pvc_meta c)) SecretNamespaceAnnotationKey of
        Some requested \<Rightarrow> requested \<noteq> namespace | None \<Rightarrow> False)"
    using assms(4) by auto
  ultimately have "KeySetter_MutatePVC (NewKeySetter k8s rand labels) c namespace w =
      KeySetter_setKeys (NewKeySetter k8s rand labels) c namespace w1"
    using assms(1) on sc
    by (simp add: KeySetter_MutatePVC_def IsProvisionedStorageClass_def tryP_run mapErr_run del: isEnabled.simps)
  then show ?thesis
    using \<open>VolumeSecretKeyRef _ _ _ _ = _\<close>
    by (simp add: KeySetter_setKeys_def NamespaceSecretKeyRef_def bindP_run retP_run
        split: prod.split outcome.split option.split)
qed

text \<open>
  C36. A claim that wants a key and names the secret of its namespace as its volume
  secret is admitted by the key setter exactly when that secret is found, whatever it holds.
  When it is not, the claim is failed; but a namespace key that was created on the way
  stays in the store, with nothing in it but the namespace key. So the same claim,
  repeated, is admitted with a secret that has no encrypted volume key, no
  initialisation vector and no authentication code. This holds with every API server
  that stores what it accepts and refuses to create what exists.
\<close>

theorem KeySetter_namespace_secret:
  assumes "secret_store k8s rand store" and "creates_once k8s store"
    and "StorageClassForPVC k8s c w = (Ret (Inr sc), w1)" and "wants_key c sc"
    and "smap_get (meta_Annotations (pvc_meta c)) ''storageos.com/encryption-secret-name'' =
           Some ''storageos-namespace-key''"
    and "smap_get (meta_Annotations (pvc_meta c)) ''storageos.com/encryption-secret-namespace'' \<in> {None, Some namespace}"
  shows "let ref = mk_key namespace ''storageos-namespace-key'';
             run = KeySetter_MutatePVC (NewKeySetter k8s rand labels) c namespace
         in case k8s_GetSecret k8s ref w1 of
              (Inr s, w2) \<Rightarrow>
                run w = (Ret (Inr (annotate ''storageos.com/encryption-secret-namespace'' namespace
                  (annotate ''storageos.com/encryption-secret-name'' ''storageos-namespace-key'' c))), w2) \<and>
                store w2 ref = Some s
            | (Inl e, w2) \<Rightarrow>
                \<exists>err w'. run w = (Ret (Inl err), w') \<and>
                  (\<forall>e' w3 key w4 s w5. IsNotFound e \<and> k8s_GetSecret k8s ref w2 = (Inl e', w3) \<and> IsNotFound e' \<and>
                     GenerateUserKey rand w3 = (Ret (Inr key), w4) \<and>
                     k8s_CreateSecret k8s (secret_new ref [(''key'', key)] labels) w4 = (Inr s, w5) \<longrightarrow>
                     store w' ref = Some s \<and> sec_Data s = Some [(''key'', key)])"
proof -
  let ?ref = "mk_key namespace NamespaceSecretName" and ?vl = "VolumeSecretLabels labels (meta_Name (pvc_meta c))"
  note run = KeySetter_namespace_secret_run [OF assms(3-6)]
  obtain g w2 where g: "k8s_GetSecret k8s ?ref w1 = (g, w2)" by (metis surj_pair)
  show ?thesis
  proof (cases g)
    case (Inr s)
    have "store w2 ?ref = Some s"
      using secret_store.get_found [OF assms(1), of ?ref w1 s] g Inr by simp
    moreover have "KeyManager_Ensure k8s rand ?ref ?ref labels ?vl w1 = (Ret None, w2)"
      using g Inr by (simp add: KeyManager_Ensure_def bindP_run retP_run)
    ultimately show ?thesis using g Inr by (simp add: run Let_def)
  next
    case (Inl e)
    from Ensure_same_secret [OF assms(1,2) g [unfolded Inl], of labels ?vl] obtain err w' where
      "KeyManager_Ensure k8s rand ?ref ?ref labels ?vl w1 = (Ret (Some err), w')"
      and "\<forall>e' w3 key w4 s w5. IsNotFound e \<and> k8s_GetSecret k8s ?ref w2 = (Inl e', w3) \<and> IsNotFound e' \<and>
             GenerateUserKey rand w3 = (Ret (Inr key), w4) \<and>
             k8s_CreateSecret k8s (secret_new ?ref [(''key'', key)] labels) w4 = (Inr s, w5) \<longrightarrow>
             store w' ?ref = Some s \<and> sec_Data s = Some [(''key'', key)]"
      by blast
    with g Inl show ?thesis by (simp add: run Let_def)
  qed
qed

definition same_secret_claim :: pvc where
  "same_secret_claim = sample_pvc\<lparr>pvc_meta := (pvc_meta sample_pvc)
     \<lparr>meta_Labels := SMap [(''storageos.com/encryption'', ''true'')],
      meta_Annotations := SMap [(''storageos.com/encryption-secret-name'', ''storageos-namespace-key'')]\<rparr>\<rparr>"

theorem KeySetter_namespace_secret_witness:
  "\<exists>err m s c'.
     KeySetter_MutatePVC (NewKeySetter class_store fixed_rand labels_Default) same_secret_claim ''default'' Map.empty =
       (Ret (Inl err), m) \<and>
     m (mk_key ''default'' ''storageos-namespace-key'') = Some s \<and> sec_Data s = Some [(''key'', fixed_bytes 32)] \<and>
     KeySetter_MutatePVC (NewKeySetter class_store fixed_rand labels_Default) same_secret_claim ''default'' m =
       (Ret (Inr c'), m)"
proof -
  let ?ref = "mk_key ''default'' ''storageos-namespace-key''"
    and ?run = "KeySetter_MutatePVC (NewKeySetter class_store fixed_rand labels_Default) same_secret_claim ''default''"
  have once: "creates_once class_store (\<lambda>m. m)"
    by (auto simp: creates_once_def class_store_def mem_secrets_def Let_def)
  have cls: "StorageClassForPVC class_store same_secret_claim m = (Ret (Inr sample_storage_class), m)" for m
    by (simp add: StorageClassForPVC_def StorageClass_def PVCStorageClassName_def class_store_def
        same_secret_claim_def sample_pvc_def mapErr_run)
  have want: "wants_key same_secret_claim sample_storage_class"
    by (simp add: wants_key_def same_secret_claim_def sample_pvc_def sample_storage_class_def truthy_def smap_get_def)
  have ann: "smap_get (meta_Annotations (pvc_meta same_secret_claim)) SecretNameAnnotationKey = Some NamespaceSecretName"
    "smap_get (meta_Annotations (pvc_meta same_secret_claim)) SecretNamespaceAnnotationKey \<in> {None, Some ''default''}"
    by (simp_all add: same_secret_claim_def sample_pvc_def smap_get_def)
  note result = KeySetter_namespace_secret [OF class_store_axioms once cls want ann, where labels = labels_Default]
  have get: "k8s_GetSecret class_store k m = k8s_GetSecret mem_secrets k m"
    and create: "k8s_CreateSecret class_store x m = k8s_CreateSecret mem_secrets x m" for k x m
    by (simp_all add: class_store_def)
  from result [of Map.empty] obtain err m where first: "?run Map.empty = (Ret (Inl err), m)"
    and s: "\<exists>s. m ?ref = Some s \<and> sec_Data s = Some [(''key'', fixed_bytes 32)]"
    by (auto simp: Let_def get create GenerateUserKey_def fixed_random)
  then obtain s where "m ?ref = Some s" "sec_Data s = Some [(''key'', fixed_bytes 32)]" by blast
  with result [of m] first show ?thesis by (auto simp: Let_def get)
qed

section \<open>The mutator of the webhook tests\<close>

text \<open>
  \<open>controllers/test_helpers.go\<close>: a mutator that sets one annotation or fails, with
  which the tests of the two webhooks are run.
\<close>

record testMutator =
  tm_key :: string
  tm_value :: string
  tm_error :: bool

definition testMutator_MutatePod :: "testMutator \<Rightarrow> ('w, pod) mutator" where
  "testMutator_MutatePod m p namespace =
     (if tm_error m then retP (Inl (StdError ''error''))
      else retP (Inr (p\<lparr>pod_meta := (pod_meta p)\<lparr>meta_Annotations :=
             SMap (AList.update (tm_key m) (tm_value m) (entries (meta_Annotations (pod_meta p))))\<rparr>\<rparr>)))"

definition testMutator_MutatePVC :: "testMutator \<Rightarrow> ('w, pvc) mutator" where
  "testMutator_MutatePVC m c namespace =
     (if tm_error m then retP (Inl (StdError ''error''))
      else retP (Inr (annotate (tm_key m) (tm_value m) c)))"

interpretation test_mutator: claim_mutator "testMutator_MutatePVC m" "{tm_key m}"
  for m :: testMutator
  by unfold_locales (auto simp: testMutator_MutatePVC_def retP_run intro: claim_frame_annotate split: if_splits)

text \<open>
  The webhook runs its mutators in order and stops at the first that fails: with these,
  the claim has the annotations of all of them, a later one winning over an earlier one
  with the same key, or the answer is the error.
\<close>

lemma run_testMutators:
  "run_mutators (map testMutator_MutatePVC ms) namespace c w =
     (Ret (if list_ex tm_error ms then Inl (StdError ''error'')
           else Inr (fold (\<lambda>m. annotate (tm_key m) (tm_value m)) ms c)), w)"
  by (induction ms arbitrary: c) (simp_all add: run_mutators_def testMutator_MutatePVC_def tryP_run retP_run)

end
