(* ===== verification/Startup.thy ===== *)
theory Startup
  imports Connect Label_Controllers Fencer Shared_Volume_Controller Mutators
begin

text \<open>
  \<open>main.go\<close> and what it wires together: the flags, the namespace of the process
  (\<open>internal/pkg/cluster/namespace.go\<close>), the composite Kubernetes client of the toolkit,
  the constructors and \<open>SetupWithManager\<close> of every reconciler with the \<open>Init\<close>
  functions of the toolkit, and the sequence of \<open>main\<close> itself. The controller manager,
  the certificate manager and the telemetry exporter are services the program
  calls; a call of \<open>os.Exit\<close> ends the process. Durations are in nanoseconds. A
  controller reads the token of the API client when it runs, so what is
  registered takes the client of that moment.
\<close>

section \<open>Flags\<close>

abbreviation Second :: int where "Second \<equiv> 1000000000"
abbreviation Minute :: int where "Minute \<equiv> 60 * Second"
abbreviation Hour :: int where "Hour \<equiv> 60 * Minute"
abbreviation oneYear :: int where "oneYear \<equiv> 365 * 24 * Hour"

record options =
  opt_namespace :: string
  opt_metricsAddr :: string
  opt_enableLeaderElection :: bool
  opt_schedulerName :: string
  opt_webhookServiceName :: string
  opt_webhookServiceNamespace :: string
  opt_webhookSecretName :: string
  opt_webhookSecretNamespace :: string
  opt_webhookConfigMutatingName :: string
  opt_webhookMutatePodsPath :: string
  opt_webhookMutatePVCsPath :: string
  opt_webhookCertValidity :: int
  opt_webhookCertRefreshInterval :: int
  opt_apiSecretPath :: string
  opt_apiEndpoint :: string
  opt_volumePollInterval :: int
  opt_nodePollInterval :: int
  opt_volumeExpiryInterval :: int
  opt_nodeExpiryInterval :: int
  opt_apiRefreshInterval :: int
  opt_apiRetryInterval :: int
  opt_k8sCreatePollInterval :: int
  opt_k8sCreateWaitDuration :: int
  opt_gcNamespaceDeleteInterval :: int
  opt_gcNodeDeleteInterval :: int
  opt_resyncNodeLabelInterval :: int
  opt_resyncPVCLabelInterval :: int
  opt_gcNamespaceDeleteDelay :: int
  opt_gcNodeDeleteDelay :: int
  opt_resyncNodeLabelDelay :: int
  opt_resyncPVCLabelDelay :: int
  opt_nsDeleteWorkers :: int
  opt_nodeDeleteWorkers :: int
  opt_nodeLabelSyncWorkers :: int
  opt_nodeFencerWorkers :: int
  opt_nodeFencerRetryInterval :: int
  opt_nodeFencerTimeout :: int
  opt_pvcLabelSyncWorkers :: int
  opt_enablePVCLabelSync :: bool
  opt_enableNodeLabelSync :: bool

text \<open>The values when no flag is given.\<close>

definition default_options :: options where
  "default_options =
     \<lparr>opt_namespace = '''', opt_metricsAddr = '':8080'', opt_enableLeaderElection = False,
      opt_schedulerName = ''storageos-scheduler'',
      opt_webhookServiceName = ''storageos-webhook'', opt_webhookServiceNamespace = '''',
      opt_webhookSecretName = ''storageos-webhook'', opt_webhookSecretNamespace = '''',
      opt_webhookConfigMutatingName = ''storageos-mutating-webhook'',
      opt_webhookMutatePodsPath = ''/mutate-pods'', opt_webhookMutatePVCsPath = ''/mutate-pvcs'',
      opt_webhookCertValidity = oneYear, opt_webhookCertRefreshInterval = 30 * Minute,
      opt_apiSecretPath = ''/etc/storageos/secrets/api'', opt_apiEndpoint = ''storageos'',
      opt_volumePollInterval = 5 * Second, opt_nodePollInterval = 5 * Second,
      opt_volumeExpiryInterval = Minute, opt_nodeExpiryInterval = 1 * Hour,
      opt_apiRefreshInterval = Minute, opt_apiRetryInterval = 5 * Second,
      opt_k8sCreatePollInterval = 1 * Second, opt_k8sCreateWaitDuration = 20 * Second,
      opt_gcNamespaceDeleteInterval = 1 * Hour, opt_gcNodeDeleteInterval = 1 * Hour,
      opt_resyncNodeLabelInterval = 1 * Hour, opt_resyncPVCLabelInterval = 1 * Hour,
      opt_gcNamespaceDeleteDelay = 20 * Second, opt_gcNodeDeleteDelay = 30 * Second,
      opt_resyncNodeLabelDelay = 10 * Second, opt_resyncPVCLabelDelay = 5 * Second,
      opt_nsDeleteWorkers = 5, opt_nodeDeleteWorkers = 5, opt_nodeLabelSyncWorkers = 5,
      opt_nodeFencerWorkers = 5, opt_nodeFencerRetryInterval = 5 * Second, opt_nodeFencerTimeout = 25 * Second,
      opt_pvcLabelSyncWorkers = 5, opt_enablePVCLabelSync = True, opt_enableNodeLabelSync = True\<rparr>"

section \<open>The namespace of the process\<close>

abbreviation inClusterNamespacePath :: string where
  "inClusterNamespacePath \<equiv> ''/var/run/secrets/kubernetes.io/serviceaccount/namespace''"

text \<open>The answer of \<open>os.Stat\<close> as \<open>os.IsNotExist\<close> tells it.\<close>

datatype stat_result = StatOk | StatNotExist | StatError goerr

definition Namespace ::
  "(string \<Rightarrow> ('w, stat_result) ext) \<Rightarrow> (string \<Rightarrow> ('w, goerr + string) ext) \<Rightarrow> ('w, goerr + string) prog" where
  "Namespace stat readFile =
     bindP (callP (stat inClusterNamespacePath)) (\<lambda>s. case s of
       StatNotExist \<Rightarrow> retP (Inl ErrNotInCluster)
     | StatError err \<Rightarrow> retP (Inl (Wrap err ''error checking namespace file''))
     | StatOk \<Rightarrow>
         bindP (callP (readFile inClusterNamespacePath)) (\<lambda>r. case r of
           Inl err \<Rightarrow> retP (Inl (Wrap err ''error reading namespace file''))
         | Inr namespace \<Rightarrow> retP (Inr namespace)))"

section \<open>The composite client\<close>

text \<open>A read that the cached client does not find is repeated with the uncached one.\<close>

definition composite_get ::
  "('k \<Rightarrow> ('w, goerr + 'o) ext) \<Rightarrow> ('k \<Rightarrow> ('w, goerr + 'o) ext) \<Rightarrow> 'k \<Rightarrow> ('w, goerr + 'o) ext" where
  "composite_get cached uncached key w =
     (case cached key w of
        (Inl cErr, w') \<Rightarrow> if IsNotFound cErr then uncached key w' else (Inl cErr, w')
      | (Inr obj, w') \<Rightarrow> (Inr obj, w'))"

text \<open>\<open>NewClient\<close> with \<open>Options{}\<close>: lists come from the cached client, as do all other calls.\<close>

definition composite_NewClient :: "'w k8s_client \<Rightarrow> 'w k8s_client \<Rightarrow> 'w k8s_client" where
  "composite_NewClient cached uncached = cached
     \<lparr>k8s_GetNode := composite_get (k8s_GetNode cached) (k8s_GetNode uncached),
      k8s_GetPVC := composite_get (k8s_GetPVC cached) (k8s_GetPVC uncached),
      k8s_GetPV := composite_get (k8s_GetPV cached) (k8s_GetPV uncached),
      k8s_GetStorageClass := composite_get (k8s_GetStorageClass cached) (k8s_GetStorageClass uncached),
      k8s_GetService := composite_get (k8s_GetService cached) (k8s_GetService uncached),
      k8s_GetEndpoints := composite_get (k8s_GetEndpoints cached) (k8s_GetEndpoints uncached),
      k8s_GetSecret := composite_get (k8s_GetSecret cached) (k8s_GetSecret uncached)\<rparr>"

section \<open>What is started and registered\<close>

text \<open>\<open>SyncFunc\<close> of the toolkit: a function with its period and startup delay.\<close>

record 'w sync_func =
  sf_f :: "client \<Rightarrow> ('w, unit) prog"
  sf_period :: int
  sf_startupSyncDelay :: int

definition NewSyncFunc :: "(client \<Rightarrow> ('w, unit) prog) \<Rightarrow> int \<Rightarrow> int \<Rightarrow> 'w sync_func" where
  "NewSyncFunc f p d =
     (let d = (if d = 0 then 10 * Second else d) in \<lparr>sf_f = f, sf_period = p, sf_startupSyncDelay = d\<rparr>)"

text \<open>The configuration of the shared volume controller, which is added as a runnable.\<close>

record sv_config =
  svc_apiPollInterval :: int
  svc_cacheExpiryInterval :: int
  svc_k8sCreatePollInterval :: int
  svc_k8sCreateWaitDuration :: int
  svc_volumes :: "SharedVolume cache"

datatype 'w goroutine =
    GoSyncFunc "'w sync_func"
  | GoPollNodes int
  | GoRefresh string int

text \<open>A controller for a Kubernetes kind, and one with an external event source.\<close>

record 'w registration =
  reg_Kind :: string
  reg_MaxConcurrentReconciles :: int
  reg_EventFilter :: "kevent \<Rightarrow> bool"
  reg_Reconcile :: "client \<Rightarrow> objkey \<Rightarrow> ('w, reconcile_result) prog"

record 'w external_registration =
  ext_Named :: string
  ext_MaxConcurrentReconciles :: int
  ext_actionTimeout :: int
  ext_actionRetryPeriod :: int
  ext_cache :: "NodeCR cache"
  ext_Reconcile :: "client \<Rightarrow> objkey \<Rightarrow> ('w, error_or_nil \<times> (NodeCR \<times> NodeCR list) option) prog"

datatype 'w webhook = PodWebhook "('w, pod) mutator list" | PVCWebhook "('w, pvc) mutator list"

record cert_options =
  CertValidity :: int
  CertRefreshInterval :: int
  cert_Service :: objkey
  cert_SecretRef :: objkey
  MutatingWebhookConfigRefs :: "objkey list"

text \<open>
  The calls of \<open>main\<close> that reach outside, each with what it passes on. Every one is
  an event of the start-up, and answers with an error or \<open>nil\<close>.
\<close>

datatype 'w startup_event =
    InstallExporter string
  | NewManager string bool
  | NewUncachedClient
  | ProvisionCertificate cert_options
  | Go "'w goroutine"
  | AddRunnable sv_config
  | IndexField string string
  | Complete "'w registration"
  | CompleteExternal "'w external_registration"
  | NewDecoder
  | RegisterWebhook string "'w webhook"
  | StartManager


record 'w process =
  ps_call :: "'w startup_event \<Rightarrow> ('w, error_or_nil) ext"
  ps_outside :: "'w outside"
  ps_Stat :: "string \<Rightarrow> ('w, stat_result) ext"
  ps_ReadFile :: "string \<Rightarrow> ('w, goerr + string) ext"
  ps_client :: "'w k8s_client"
  ps_uncached :: "'w k8s_client"
  ps_nodes :: "('w, objmeta) kind_client"
  ps_namespaces :: "('w, objmeta) kind_client"
  ps_pvcs :: "('w, pvc) kind_client"
  ps_unmarshal :: "string \<Rightarrow> goerr + smap"
  ps_cache :: "'w \<Rightarrow> NodeCR cache"
  ps_now :: "'w \<Rightarrow> int"
  ps_Convert :: "NodeCR \<Rightarrow> goerr + NodeCR"
  ps_rand :: "'w randsrc"

text \<open>A call, a call whose answer is not looked at, and a call whose error ends the process.\<close>

definition call :: "'w process \<Rightarrow> 'w startup_event \<Rightarrow> ('w, error_or_nil) prog" where
  "call p ev = callP (ps_call p ev)"

definition fire :: "'w process \<Rightarrow> 'w startup_event \<Rightarrow> ('w, 'a) prog \<Rightarrow> ('w, 'a) prog" where
  "fire p ev k = bindP (call p ev) (\<lambda>_. k)"

definition orExit :: "('w, error_or_nil) prog \<Rightarrow> ('w, nat) prog \<Rightarrow> ('w, nat) prog" where
  "orExit m k = bindP m (\<lambda>e. case e of Some err \<Rightarrow> retP 1 | None \<Rightarrow> k)"

section \<open>Initialisation of the toolkit reconcilers\<close>

definition external_Init ::
  "'w process \<Rightarrow> ('w, 'o) kind_client \<Rightarrow> (client \<Rightarrow> ('w, 'o) external_controller) \<Rightarrow> int \<Rightarrow> int
     \<Rightarrow> ('w, 'a) prog \<Rightarrow> ('w, 'a) prog" where
  "external_Init p kc ctl garbageCollectionPeriod startupGarbageCollectionDelay k =
     (if garbageCollectionPeriod > 0
      then fire p (Go (GoSyncFunc (NewSyncFunc (\<lambda>c. collectGarbage kc (ctl c))
             garbageCollectionPeriod startupGarbageCollectionDelay))) k
      else k)"

definition metadata_Init ::
  "'w process \<Rightarrow> ('w, 'o) kind_client \<Rightarrow> (client \<Rightarrow> ('w, 'o) metadata_controller) \<Rightarrow> int \<Rightarrow> int
     \<Rightarrow> ('w, 'a) prog \<Rightarrow> ('w, 'a) prog" where
  "metadata_Init p kc ctl resyncPeriod startupSyncDelay k =
     (if resyncPeriod > 0
      then fire p (Go (GoSyncFunc (NewSyncFunc (\<lambda>c. resync kc (ctl c)) resyncPeriod startupSyncDelay))) k
      else k)"

section \<open>Reconcilers\<close>

record sync_reconciler =
  sr_delay :: int
  sr_interval :: int

definition nodedelete_NewReconciler :: "int \<Rightarrow> int \<Rightarrow> sync_reconciler" where
  "nodedelete_NewReconciler gcDelay gcInterval = \<lparr>sr_delay = gcDelay, sr_interval = gcInterval\<rparr>"

definition nsdelete_NewReconciler :: "int \<Rightarrow> int \<Rightarrow> sync_reconciler" where
  "nsdelete_NewReconciler gcDelay gcInterval = \<lparr>sr_delay = gcDelay, sr_interval = gcInterval\<rparr>"

definition nodelabel_NewReconciler :: "int \<Rightarrow> int \<Rightarrow> sync_reconciler" where
  "nodelabel_NewReconciler resyncDelay resyncInterval = \<lparr>sr_delay = resyncDelay, sr_interval = resyncInterval\<rparr>"

definition pvclabel_NewReconciler :: "int \<Rightarrow> int \<Rightarrow> sync_reconciler" where
  "pvclabel_NewReconciler resyncDelay resyncInterval = \<lparr>sr_delay = resyncDelay, sr_interval = resyncInterval\<rparr>"

definition nodedelete_controller :: "'w control_plane \<Rightarrow> client \<Rightarrow> ('w, objmeta) external_controller" where
  "nodedelete_controller cp c = NodeDelete_Controller (client_node_deleter cp c)"

definition nsdelete_controller :: "'w control_plane \<Rightarrow> client \<Rightarrow> ('w, objmeta) external_controller" where
  "nsdelete_controller cp c = NamespaceDelete_Controller (client_namespace_deleter cp c)"

definition nodelabel_controller :: "'w control_plane \<Rightarrow> client \<Rightarrow> ('w, objmeta) metadata_controller" where
  "nodelabel_controller cp c = NodeLabel_Controller (client_node_labeller cp c)"

definition pvclabel_controller :: "'w process \<Rightarrow> 'w control_plane \<Rightarrow> client \<Rightarrow> ('w, pvc) metadata_controller" where
  "pvclabel_controller p cp c = PVCLabel_Controller (ps_client p) (client_volume_labeller cp c)"

definition nodedelete_registration :: "'w process \<Rightarrow> 'w control_plane \<Rightarrow> int \<Rightarrow> 'w registration" where
  "nodedelete_registration p cp workers =
     \<lparr>reg_Kind = ''Node'', reg_MaxConcurrentReconciles = workers,
      reg_EventFilter = NodeDelete_Predicate (ps_unmarshal p),
      reg_Reconcile = (\<lambda>c. Reconcile (ps_nodes p) (nodedelete_controller cp c))\<rparr>"

definition nsdelete_registration :: "'w process \<Rightarrow> 'w control_plane \<Rightarrow> int \<Rightarrow> 'w registration" where
  "nsdelete_registration p cp workers =
     \<lparr>reg_Kind = ''Namespace'', reg_MaxConcurrentReconciles = workers,
      reg_EventFilter = NamespaceDelete_Predicate,
      reg_Reconcile = (\<lambda>c. Reconcile (ps_namespaces p) (nsdelete_controller cp c))\<rparr>"

definition nodelabel_registration :: "'w process \<Rightarrow> 'w control_plane \<Rightarrow> int \<Rightarrow> 'w registration" where
  "nodelabel_registration p cp workers =
     \<lparr>reg_Kind = ''Node'', reg_MaxConcurrentReconciles = workers,
      reg_EventFilter = NodeLabel_Predicate (ps_unmarshal p),
      reg_Reconcile = (\<lambda>c. Reconcile (ps_nodes p) (nodelabel_controller cp c))\<rparr>"

definition pvclabel_registration :: "'w process \<Rightarrow> 'w control_plane \<Rightarrow> int \<Rightarrow> 'w registration" where
  "pvclabel_registration p cp workers =
     \<lparr>reg_Kind = ''PersistentVolumeClaim'', reg_MaxConcurrentReconciles = workers,
      reg_EventFilter = PVCLabel_Predicate,
      reg_Reconcile = (\<lambda>c. Reconcile (ps_pvcs p) (pvclabel_controller p cp c))\<rparr>"

definition nodedelete_SetupWithManager ::
  "'w process \<Rightarrow> 'w control_plane \<Rightarrow> sync_reconciler \<Rightarrow> int \<Rightarrow> ('w, error_or_nil) prog" where
  "nodedelete_SetupWithManager p cp r workers =
     external_Init p (ps_nodes p) (nodedelete_controller cp) (sr_interval r) (sr_delay r)
       (call p (Complete (nodedelete_registration p cp workers)))"

definition nsdelete_SetupWithManager ::
  "'w process \<Rightarrow> 'w control_plane \<Rightarrow> sync_reconciler \<Rightarrow> int \<Rightarrow> ('w, error_or_nil) prog" where
  "nsdelete_SetupWithManager p cp r workers =
     external_Init p (ps_namespaces p) (nsdelete_controller cp) (sr_interval r) (sr_delay r)
       (call p (Complete (nsdelete_registration p cp workers)))"

definition nodelabel_SetupWithManager ::
  "'w process \<Rightarrow> 'w control_plane \<Rightarrow> sync_reconciler \<Rightarrow> int \<Rightarrow> ('w, error_or_nil) prog" where
  "nodelabel_SetupWithManager p cp r workers =
     metadata_Init p (ps_nodes p) (nodelabel_controller cp) (sr_interval r) (sr_delay r)
       (call p (Complete (nodelabel_registration p cp workers)))"

definition pvclabel_SetupWithManager ::
  "'w process \<Rightarrow> 'w control_plane \<Rightarrow> sync_reconciler \<Rightarrow> int \<Rightarrow> ('w, error_or_nil) prog" where
  "pvclabel_SetupWithManager p cp r workers =
     metadata_Init p (ps_pvcs p) (pvclabel_controller p cp) (sr_interval r) (sr_delay r)
       (call p (Complete (pvclabel_registration p cp workers)))"


record fencer_reconciler =
  fr_pollInterval :: int
  fr_expiryInterval :: int
  fr_cleanupInterval :: int

definition fencer_NewReconciler :: "int \<Rightarrow> int \<Rightarrow> fencer_reconciler" where
  "fencer_NewReconciler pollInterval expiryInterval =
     \<lparr>fr_pollInterval = NewReconciler_pollInterval pollInterval, fr_expiryInterval = expiryInterval,
      fr_cleanupInterval = 5 * expiryInterval\<rparr>"

definition fencer_controller :: "'w process \<Rightarrow> 'w control_plane \<Rightarrow> client \<Rightarrow> 'w fence_controller" where
  "fencer_controller p cp c =
     \<lparr>fc_Client = ps_client p, fc_api = client_node_fencer cp c, fc_cache = ps_cache p, fc_now = ps_now p,
      fc_Convert = ps_Convert p\<rparr>"

definition fencer_registration ::
  "'w process \<Rightarrow> 'w control_plane \<Rightarrow> fencer_reconciler \<Rightarrow> int \<Rightarrow> int \<Rightarrow> int \<Rightarrow> 'w external_registration" where
  "fencer_registration p cp r workers retryInterval timeout =
     \<lparr>ext_Named = ''fencer'', ext_MaxConcurrentReconciles = workers,
      ext_actionTimeout = timeout, ext_actionRetryPeriod = retryInterval,
      ext_cache = cache_New (fr_expiryInterval r),
      ext_Reconcile = (\<lambda>c. ActionReconcile (fenceActionController (fencer_controller p cp c))
                              (fenceActionManager (fencer_controller p cp c)))\<rparr>"

definition fencer_SetupWithManager ::
  "'w process \<Rightarrow> 'w control_plane \<Rightarrow> fencer_reconciler \<Rightarrow> int \<Rightarrow> int \<Rightarrow> int \<Rightarrow> ('w, error_or_nil) prog" where
  "fencer_SetupWithManager p cp r workers retryInterval timeout =
     fire p (Go (GoPollNodes (fr_pollInterval r)))
      (tryN (call p (IndexField ''Pod'' ''spec.nodeName''))
        (tryN (call p (IndexField ''VolumeAttachment'' ''spec.nodeName''))
          (call p (CompleteExternal (fencer_registration p cp r workers retryInterval timeout)))))"

text \<open>The cache of shared volumes expires after a minute, whatever the flags say.\<close>

definition sharedvolume_NewReconciler :: "int \<Rightarrow> int \<Rightarrow> int \<Rightarrow> int \<Rightarrow> metrics \<Rightarrow> (sv_config \<times> metrics) outcome" where
  "sharedvolume_NewReconciler apiPollInterval cacheExpiryInterval k8sCreatePollInterval k8sCreateWaitDuration ms =
     (case sharedvolume_RegisterMetrics ms of
        Panic \<Rightarrow> Panic
      | Ret ms \<Rightarrow>
          Ret (\<lparr>svc_apiPollInterval = apiPollInterval, svc_cacheExpiryInterval = cacheExpiryInterval,
                svc_k8sCreatePollInterval = k8sCreatePollInterval, svc_k8sCreateWaitDuration = k8sCreateWaitDuration,
                svc_volumes = cache_New (1 * Minute)\<rparr>, ms))"

definition sharedvolume_SetupWithManager :: "'w process \<Rightarrow> sv_config \<Rightarrow> ('w, error_or_nil) prog" where
  "sharedvolume_SetupWithManager p r = call p (AddRunnable r)"

section \<open>main\<close>

definition certOpts :: "options \<Rightarrow> string \<Rightarrow> cert_options" where
  "certOpts opts namespace =
     (let webhookSecretNamespace =
            (if opt_webhookSecretNamespace opts = '''' then namespace else opt_webhookSecretNamespace opts);
          webhookServiceNamespace =
            (if opt_webhookServiceNamespace opts = '''' then namespace else opt_webhookServiceNamespace opts)
      in \<lparr>CertValidity = opt_webhookCertValidity opts, CertRefreshInterval = opt_webhookCertRefreshInterval opts,
          cert_Service = mk_key webhookServiceNamespace (opt_webhookServiceName opts),
          cert_SecretRef = mk_key webhookSecretNamespace (opt_webhookSecretName opts),
          MutatingWebhookConfigRefs = [mk_key '''' (opt_webhookConfigMutatingName opts)]\<rparr>)"

text \<open>The namespace of the flags or of the process; a failure to find it is only logged.\<close>

definition main_namespace :: "'w process \<Rightarrow> options \<Rightarrow> ('w, string) prog" where
  "main_namespace p opts =
     (if opt_namespace opts = '''' then
        bindP (Namespace (ps_Stat p) (ps_ReadFile p)) (\<lambda>r. case r of
          Inl err \<Rightarrow> retP ''''
        | Inr namespace \<Rightarrow> retP namespace)
      else retP (opt_namespace opts))"

definition main_webhooks :: "'w process \<Rightarrow> options \<Rightarrow> ('w, nat) prog" where
  "main_webhooks p opts =
     (let compositeClient = composite_NewClient (ps_client p) (ps_uncached p) in
      orExit (call p NewDecoder)
       (fire p (RegisterWebhook (opt_webhookMutatePodsPath opts) (PodWebhook (pod_mutators compositeClient (opt_schedulerName opts))))
       (fire p (RegisterWebhook (opt_webhookMutatePVCsPath opts) (PVCWebhook (pvc_mutators compositeClient (ps_rand p))))
       (orExit (call p StartManager) (retP 0)))))"

definition main_controllers :: "'w process \<Rightarrow> options \<Rightarrow> 'w control_plane \<Rightarrow> ('w, nat) prog" where
  "main_controllers p opts cp =
     (let pvclabel = (if opt_enablePVCLabelSync opts then
            orExit (pvclabel_SetupWithManager p cp
              (pvclabel_NewReconciler (opt_resyncPVCLabelDelay opts) (opt_resyncPVCLabelInterval opts)) (opt_pvcLabelSyncWorkers opts))
          else id);
          nodelabel = (if opt_enableNodeLabelSync opts then
            orExit (nodelabel_SetupWithManager p cp
              (nodelabel_NewReconciler (opt_resyncNodeLabelDelay opts) (opt_resyncNodeLabelInterval opts)) (opt_nodeLabelSyncWorkers opts))
          else id)
      in pvclabel (nodelabel
        (orExit (nodedelete_SetupWithManager p cp
           (nodedelete_NewReconciler (opt_gcNodeDeleteDelay opts) (opt_gcNodeDeleteInterval opts)) (opt_nodeDeleteWorkers opts))
        (orExit (nsdelete_SetupWithManager p cp
           (nsdelete_NewReconciler (opt_gcNamespaceDeleteDelay opts) (opt_gcNamespaceDeleteInterval opts)) (opt_nsDeleteWorkers opts))
        (orExit (fencer_SetupWithManager p cp
           (fencer_NewReconciler (opt_nodePollInterval opts) (opt_nodeExpiryInterval opts)) (opt_nodeFencerWorkers opts)
           (opt_nodeFencerRetryInterval opts) (opt_nodeFencerTimeout opts))
        (main_webhooks p opts))))))"

text \<open>From the connection on; the result is the exit code of the process.\<close>

definition main_connected :: "'w process \<Rightarrow> options \<Rightarrow> 'w connection \<Rightarrow> metrics \<Rightarrow> ('w, nat) prog" where
  "main_connected p opts con ms =
     orExit (call p (NewManager (opt_metricsAddr opts) (opt_enableLeaderElection opts)))
      (orExit (call p NewUncachedClient)
        (bindP (main_namespace p opts) (\<lambda>namespace.
          orExit (call p (ProvisionCertificate (certOpts opts namespace)))
           (fire p (Go (GoRefresh (opt_apiSecretPath opts) (opt_apiRefreshInterval opts)))
            (case sharedvolume_NewReconciler (opt_volumePollInterval opts) (opt_volumeExpiryInterval opts)
                    (opt_k8sCreatePollInterval opts) (opt_k8sCreateWaitDuration opts) ms of
               Panic \<Rightarrow> panicP
             | Ret (r, ms) \<Rightarrow>
                 orExit (sharedvolume_SetupWithManager p r) (main_controllers p opts (con_api con)))))))"

text \<open>The whole process: \<open>None\<close> while it waits for the API.\<close>

definition main :: "'w process \<Rightarrow> options \<Rightarrow> 'w \<Rightarrow> (nat outcome \<times> 'w) option" where
  "main p opts w =
     (case ps_call p (InstallExporter ''api-manager'') w of
        (Some err, w') \<Rightarrow> Some (Ret 1, w')
      | (None, w') \<Rightarrow>
          (case connect (ps_outside p) (opt_apiSecretPath opts) (opt_apiEndpoint opts) (opt_apiRetryInterval opts)
                  initial_metrics w' of
             None \<Rightarrow> None
           | Some (Panic, w'') \<Rightarrow> Some (Panic, w'')
           | Some (Ret (con, ms), w'') \<Rightarrow> Some (main_connected p opts con ms w'')))"


section \<open>The start-up as a plan\<close>

text \<open>
  A specification of the start-up: a list of events, of which the first that fails
  ends the process with exit code 1. Starting a goroutine and registering a webhook
  cannot fail.
\<close>

primrec fatal :: "'w startup_event \<Rightarrow> bool" where
  "fatal (InstallExporter n) = True"
| "fatal (NewManager a l) = True"
| "fatal NewUncachedClient = True"
| "fatal (ProvisionCertificate c) = True"
| "fatal (Go g) = False"
| "fatal (AddRunnable r) = True"
| "fatal (IndexField k f) = True"
| "fatal (Complete r) = True"
| "fatal (CompleteExternal r) = True"
| "fatal NewDecoder = True"
| "fatal (RegisterWebhook path h) = False"
| "fatal StartManager = True"

primrec run_plan :: "'w process \<Rightarrow> 'w startup_event list \<Rightarrow> ('w, nat) prog \<Rightarrow> ('w, nat) prog" where
  "run_plan p [] k = k"
| "run_plan p (ev # evs) k =
     bindP (callP (ps_call p ev)) (\<lambda>e. if fatal ev \<and> e \<noteq> None then retP 1 else run_plan p evs k)"

definition sync_plan :: "(client \<Rightarrow> ('w, unit) prog) \<Rightarrow> int \<Rightarrow> int \<Rightarrow> 'w registration \<Rightarrow> 'w startup_event list" where
  "sync_plan f period delay r =
     (if period > 0 then [Go (GoSyncFunc (NewSyncFunc f period delay))] else []) @ [Complete r]"

definition controllers_plan :: "'w process \<Rightarrow> options \<Rightarrow> 'w control_plane \<Rightarrow> 'w startup_event list" where
  "controllers_plan p opts cp =
     (if opt_enablePVCLabelSync opts then
        sync_plan (\<lambda>c. resync (ps_pvcs p) (pvclabel_controller p cp c))
          (opt_resyncPVCLabelInterval opts) (opt_resyncPVCLabelDelay opts)
          (pvclabel_registration p cp (opt_pvcLabelSyncWorkers opts)) else []) @
     (if opt_enableNodeLabelSync opts then
        sync_plan (\<lambda>c. resync (ps_nodes p) (nodelabel_controller cp c))
          (opt_resyncNodeLabelInterval opts) (opt_resyncNodeLabelDelay opts)
          (nodelabel_registration p cp (opt_nodeLabelSyncWorkers opts)) else []) @
     sync_plan (\<lambda>c. collectGarbage (ps_nodes p) (nodedelete_controller cp c))
       (opt_gcNodeDeleteInterval opts) (opt_gcNodeDeleteDelay opts)
       (nodedelete_registration p cp (opt_nodeDeleteWorkers opts)) @
     sync_plan (\<lambda>c. collectGarbage (ps_namespaces p) (nsdelete_controller cp c))
       (opt_gcNamespaceDeleteInterval opts) (opt_gcNamespaceDeleteDelay opts)
       (nsdelete_registration p cp (opt_nsDeleteWorkers opts)) @
     (let r = fencer_NewReconciler (opt_nodePollInterval opts) (opt_nodeExpiryInterval opts) in
      [Go (GoPollNodes (fr_pollInterval r)),
       IndexField ''Pod'' ''spec.nodeName'', IndexField ''VolumeAttachment'' ''spec.nodeName'',
       CompleteExternal (fencer_registration p cp r (opt_nodeFencerWorkers opts)
         (opt_nodeFencerRetryInterval opts) (opt_nodeFencerTimeout opts))])"

definition startup_plan :: "'w process \<Rightarrow> options \<Rightarrow> 'w control_plane \<Rightarrow> string \<Rightarrow> 'w startup_event list" where
  "startup_plan p opts cp namespace =
     [ProvisionCertificate (certOpts opts namespace),
      Go (GoRefresh (opt_apiSecretPath opts) (opt_apiRefreshInterval opts)),
      AddRunnable \<lparr>svc_apiPollInterval = opt_volumePollInterval opts,
        svc_cacheExpiryInterval = opt_volumeExpiryInterval opts,
        svc_k8sCreatePollInterval = opt_k8sCreatePollInterval opts,
        svc_k8sCreateWaitDuration = opt_k8sCreateWaitDuration opts, svc_volumes = cache_New Minute\<rparr>] @
     controllers_plan p opts cp @
     (let k8s = composite_NewClient (ps_client p) (ps_uncached p) in
      [NewDecoder,
       RegisterWebhook (opt_webhookMutatePodsPath opts) (PodWebhook (pod_mutators k8s (opt_schedulerName opts))),
       RegisterWebhook (opt_webhookMutatePVCsPath opts) (PVCWebhook (pvc_mutators k8s (ps_rand p))),
       StartManager])"

text \<open>
  A ticker needs a positive period, and a sync function must not start at once,
  before the caches are ready.
\<close>

definition valid_timer :: "'w startup_event \<Rightarrow> bool" where
  "valid_timer ev \<longleftrightarrow>
     (\<forall>sf. ev = Go (GoSyncFunc sf) \<longrightarrow> 0 < sf_period sf \<and> sf_startupSyncDelay sf \<noteq> 0) \<and>
     (\<forall>d. ev = Go (GoPollNodes d) \<longrightarrow> 5 * Second \<le> d)"

text \<open>The certificate manager's refresh interval, with the toolkit's default for zero.\<close>

definition cert_setDefault :: "cert_options \<Rightarrow> cert_options" where
  "cert_setDefault opts =
     (if CertRefreshInterval opts = 0 then opts\<lparr>CertRefreshInterval := 30 * Minute\<rparr> else opts)"

text \<open>
  The periods of the tickers that a step of the start-up brings about, each given to
  \<open>time.NewTicker\<close>, which panics unless it is positive: the certificate refresh (when
  the certificate manager has to run; the jitter of up to a tenth added to its interval
  has the same sign, as long as the sum fits 64 bits, which is up to 265 years), the sync functions, the node poll, and the polls for objects the shared
  volume controller creates. The other waits of the program use \<open>time.After\<close>, which takes
  any duration.
\<close>

fun tickers :: "'w startup_event \<Rightarrow> int list" where
  "tickers (ProvisionCertificate c) = [CertRefreshInterval (cert_setDefault c)]"
| "tickers (Go (GoSyncFunc sf)) = [sf_period sf]"
| "tickers (Go (GoPollNodes d)) = [d]"
| "tickers (AddRunnable r) = [svc_k8sCreatePollInterval r]"
| "tickers ev = []"

definition valid_tickers :: "'w startup_event list \<Rightarrow> bool" where
  "valid_tickers evs \<longleftrightarrow> (\<forall>ev \<in> set evs. \<forall>d \<in> set (tickers ev). 0 < d)"

lemma run_plan_append: "run_plan p (xs @ ys) k = run_plan p xs (run_plan p ys k)"
  by (induction xs) (simp_all only: append_Nil append_Cons run_plan.simps)

lemma run_plan_call:
  "fatal ev \<Longrightarrow> orExit (call p ev) (run_plan p evs k) = run_plan p (ev # evs) k"
  by (rule ext) (simp add: orExit_def call_def split: option.split)

lemma run_plan_fire: "\<not> fatal ev \<Longrightarrow> fire p ev (run_plan p evs k) = run_plan p (ev # evs) k"
  by (rule ext) (simp add: fire_def call_def)

lemma orExit_fire: "orExit (fire p ev m) k = fire p ev (orExit m k)"
  by (rule ext) (simp add: orExit_def fire_def bindP_assoc)

lemma orExit_tryN: "orExit (tryN m m') k = orExit m (orExit m' k)"
  by (rule ext) (auto simp: orExit_def tryN_def bindP_run retP_run split: prod.split outcome.split option.split)

lemma run_plan_end: "orExit (call p StartManager) (retP 0) = run_plan p [StartManager] (retP 0)"
  by (rule ext) (simp add: orExit_def call_def split: option.split)

lemmas run_plan_fold =
  run_plan_call run_plan_fire orExit_fire orExit_tryN run_plan_end run_plan_append [symmetric]

lemma external_Init_plan:
  "fatal (Complete r) \<Longrightarrow>
   orExit (external_Init p kc ctl period delay (call p (Complete r))) (run_plan p evs k) =
     run_plan p (sync_plan (\<lambda>c. collectGarbage kc (ctl c)) period delay r @ evs) k"
  by (simp add: external_Init_def sync_plan_def run_plan_call run_plan_fire orExit_fire del: run_plan.simps)

lemma metadata_Init_plan:
  "fatal (Complete r) \<Longrightarrow>
   orExit (metadata_Init p kc ctl period delay (call p (Complete r))) (run_plan p evs k) =
     run_plan p (sync_plan (\<lambda>c. resync kc (ctl c)) period delay r @ evs) k"
  by (simp add: metadata_Init_def sync_plan_def run_plan_call run_plan_fire orExit_fire del: run_plan.simps)

lemmas setup_defs =
  nodedelete_SetupWithManager_def nsdelete_SetupWithManager_def nodelabel_SetupWithManager_def
  pvclabel_SetupWithManager_def nodedelete_NewReconciler_def nsdelete_NewReconciler_def
  nodelabel_NewReconciler_def pvclabel_NewReconciler_def

lemma main_webhooks_plan:
  "main_webhooks p opts =
     run_plan p (let k8s = composite_NewClient (ps_client p) (ps_uncached p) in
      [NewDecoder,
       RegisterWebhook (opt_webhookMutatePodsPath opts) (PodWebhook (pod_mutators k8s (opt_schedulerName opts))),
       RegisterWebhook (opt_webhookMutatePVCsPath opts) (PVCWebhook (pvc_mutators k8s (ps_rand p))),
       StartManager]) (retP 0)"
  by (simp add: main_webhooks_def Let_def run_plan_end run_plan_call run_plan_fire del: run_plan.simps)

lemma main_controllers_plan:
  assumes "main_webhooks p opts = run_plan p evs (retP 0)"
  shows "main_controllers p opts cp = run_plan p (controllers_plan p opts cp @ evs) (retP 0)"
  by (simp add: main_controllers_def controllers_plan_def Let_def assms setup_defs fencer_SetupWithManager_def
      external_Init_plan metadata_Init_plan orExit_fire orExit_tryN run_plan_call run_plan_fire del: run_plan.simps)


lemma main_connected_plan:
  assumes "wf_metrics ms"
  shows "main_connected p opts con ms =
     run_plan p [NewManager (opt_metricsAddr opts) (opt_enableLeaderElection opts), NewUncachedClient]
       (bindP (main_namespace p opts) (\<lambda>namespace.
          run_plan p (startup_plan p opts (con_api con) namespace) (retP 0)))"
proof -
  from sharedvolume_RegisterMetrics_ok [OF assms] obtain ms' where
    "sharedvolume_RegisterMetrics ms = Ret ms'" by blast
  then have body: "orExit (call p (ProvisionCertificate (certOpts opts namespace)))
      (fire p (Go (GoRefresh (opt_apiSecretPath opts) (opt_apiRefreshInterval opts)))
         (case sharedvolume_NewReconciler (opt_volumePollInterval opts) (opt_volumeExpiryInterval opts)
                 (opt_k8sCreatePollInterval opts) (opt_k8sCreateWaitDuration opts) ms of
            Panic \<Rightarrow> panicP
          | Ret (r, ms) \<Rightarrow> orExit (sharedvolume_SetupWithManager p r) (main_controllers p opts (con_api con)))) =
      run_plan p (startup_plan p opts (con_api con) namespace) (retP 0)" for namespace
    unfolding startup_plan_def main_controllers_plan [OF main_webhooks_plan]
    by (simp add: sharedvolume_NewReconciler_def sharedvolume_SetupWithManager_def run_plan_call run_plan_fire
        del: run_plan.simps)
  show ?thesis
    unfolding main_connected_def body
    by (rule ext) (simp add: orExit_def call_def split: option.split)
qed

lemma valid_timer_sync_plan: "list_all valid_timer (sync_plan f period delay r)"
  by (auto simp: sync_plan_def valid_timer_def NewSyncFunc_def Let_def)

lemma valid_timer_other:
  "(\<And>g. ev \<noteq> Go g) \<Longrightarrow> valid_timer ev" "valid_timer (Go (GoRefresh a b))"
  "valid_timer (Go (GoPollNodes (fr_pollInterval (fencer_NewReconciler d e))))"
  by (auto simp: valid_timer_def fencer_NewReconciler_def NewReconciler_pollInterval_def)

lemma startup_plan_timers: "list_all valid_timer (startup_plan p opts cp namespace)"
  by (simp add: startup_plan_def controllers_plan_def Let_def valid_timer_sync_plan valid_timer_other)

lemma valid_tickers_simps [simp]:
  "valid_tickers []" "valid_tickers (ev # evs) \<longleftrightarrow> (\<forall>d \<in> set (tickers ev). 0 < d) \<and> valid_tickers evs"
  "valid_tickers (xs @ ys) \<longleftrightarrow> valid_tickers xs \<and> valid_tickers ys"
  by (auto simp: valid_tickers_def)

lemma valid_tickers_sync_plan [simp]: "valid_tickers (sync_plan f period delay r)"
  by (auto simp: sync_plan_def NewSyncFunc_def Let_def)

text \<open>Exactly two flags can give a ticker a period that is not positive.\<close>

lemma startup_plan_tickers:
  "valid_tickers (startup_plan p opts cp namespace) \<longleftrightarrow>
     0 \<le> opt_webhookCertRefreshInterval opts \<and> 0 < opt_k8sCreatePollInterval opts"
  by (auto simp: startup_plan_def controllers_plan_def Let_def certOpts_def cert_setDefault_def
      fencer_NewReconciler_def NewReconciler_pollInterval_def)

text \<open>The exit code of a plan, and that it is reached only through answers without error.\<close>

lemma run_plan_code:
  "fst (run_plan p evs (retP 0) w) = Ret 0 \<or> fst (run_plan p evs (retP 0) w) = Ret 1"
  by (induction evs arbitrary: w) (simp_all add: retP_run)

section \<open>Property\<close>



text \<open>A process whose calls all succeed.\<close>

definition sample_process :: "mem process" where
  "sample_process =
     \<lparr>ps_call = (\<lambda>ev w. (None, w)), ps_outside = late_secret,
      ps_Stat = (\<lambda>path w. (StatOk, w)), ps_ReadFile = (\<lambda>path w. (Inr ''kube-system'', w)),
      ps_client = empty_k8s, ps_uncached = empty_k8s,
      ps_nodes = meta_kind (\<lambda>k w. (Inl not_found, w)) (\<lambda>w. (Inr [], w)),
      ps_namespaces = meta_kind (\<lambda>k w. (Inl not_found, w)) (\<lambda>w. (Inr [], w)),
      ps_pvcs = \<lparr>kc_Get = (\<lambda>k w. (Inl not_found, w)), kc_List = (\<lambda>w. (Inr [], w)),
                 kc_New = (\<lambda>k. sample_pvc), kc_Key = (\<lambda>c. meta_key (pvc_meta c))\<rparr>,
      ps_unmarshal = (\<lambda>s. Inr NilMap), ps_cache = (\<lambda>w. cache_New Minute), ps_now = (\<lambda>w. 0),
      ps_Convert = Inr, ps_rand = (\<lambda>w. (Inr (\<lambda>i. 0), w))\<rparr>"


end
