(* ===== verification/Go_Flag.thy ===== *)
theory Go_Flag
  imports Go_Std
begin

text \<open>
  The part of the standard library that reads the command line of the process: the
  \<open>flag\<close> package (\<open>Parse\<close>, \<open>parseOne\<close> and the \<open>Set\<close> methods of its values) with
  \<open>strconv.ParseInt\<close> at base 0 and \<open>time.ParseDuration\<close>, of the Go release the process is
  built with. A declared variable is given by how it is read and set. The
  floating-point product that \<open>ParseDuration\<close> needs for a fraction is a parameter.
\<close>

section \<open>Numbers with a base prefix\<close>

unbundle bit_operations_syntax

definition lower :: "char \<Rightarrow> nat" where
  "lower c = of_char c OR 32"

definition digit_val :: "char \<Rightarrow> nat option" where
  "digit_val c =
     (if is_digit c then Some (digit c)
      else if 97 \<le> lower c \<and> lower c \<le> 122 then Some (lower c - 97 + 10)
      else None)"

text \<open>The loop of \<open>ParseUint\<close>; the second result is whether an underscore was seen.\<close>

fun parse_base_loop :: "nat \<Rightarrow> string \<Rightarrow> uint64 \<Rightarrow> bool \<Rightarrow> uint64 \<times> bool \<times> num_err option" where
  "parse_base_loop base [] n underscores = (n, underscores, None)"
| "parse_base_loop base (c # cs) n underscores =
     (if c = CHR ''_'' then parse_base_loop base cs n True
      else (case digit_val c of
              None \<Rightarrow> (0, underscores, Some ErrSyntax)
            | Some d \<Rightarrow>
                if base \<le> d then (0, underscores, Some ErrSyntax)
                else if maxUint64 div of_nat base + 1 \<le> n then (maxUint64, underscores, Some ErrRange)
                else let m = n * of_nat base; n1 = m + of_nat d
                     in if n1 < m then (maxUint64, underscores, Some ErrRange)
                        else parse_base_loop base cs n1 underscores))"

text \<open>The last character seen: the beginning, a digit, an underscore, or another one.\<close>

datatype saw = SawStart | SawDigit | SawUnderscore | SawOther

fun underscore_loop :: "bool \<Rightarrow> string \<Rightarrow> saw \<Rightarrow> bool" where
  "underscore_loop hex [] saw \<longleftrightarrow> saw \<noteq> SawUnderscore"
| "underscore_loop hex (c # cs) saw \<longleftrightarrow>
     (if is_digit c \<or> hex \<and> 97 \<le> lower c \<and> lower c \<le> 102 then underscore_loop hex cs SawDigit
      else if c = CHR ''_'' then (if saw \<noteq> SawDigit then False else underscore_loop hex cs SawUnderscore)
      else if saw = SawUnderscore then False
      else underscore_loop hex cs SawOther)"

definition base_letter :: "string \<Rightarrow> nat option" where
  "base_letter s = (case s of c0 # c1 # cs \<Rightarrow> if c0 = CHR ''0'' then Some (lower c1) else None | _ \<Rightarrow> None)"

definition underscoreOK :: "string \<Rightarrow> bool" where
  "underscoreOK s0 =
     (let s = (if s0 \<noteq> [] \<and> (hd s0 = CHR ''-'' \<or> hd s0 = CHR ''+'') then tl s0 else s0) in
      case base_letter s of
        Some l \<Rightarrow>
          if l = 98 \<or> l = 111 \<or> l = 120 then underscore_loop (l = 120) (drop 2 s) SawDigit
          else underscore_loop False s SawStart
      | None \<Rightarrow> underscore_loop False s SawStart)"

definition ParseUint0 :: "string \<Rightarrow> uint64 \<times> num_err option" where
  "ParseUint0 s0 =
     (if s0 = [] then (0, Some ErrSyntax)
      else
        (let (base, s) =
           (if hd s0 = CHR ''0'' then
              (case (3 \<le> length s0, base_letter s0) of
                 (True, Some l) \<Rightarrow>
                   if l = 98 then (2, drop 2 s0) else if l = 111 then (8, drop 2 s0)
                   else if l = 120 then (16, drop 2 s0) else (8, tl s0)
               | _ \<Rightarrow> (8, tl s0))
            else (10, s0))
         in case parse_base_loop base s 0 False of
              (n, _, Some e) \<Rightarrow> (n, Some e)
            | (n, underscores, None) \<Rightarrow>
                if underscores \<and> \<not> underscoreOK s0 then (0, Some ErrSyntax) else (n, None)))"

text \<open>\<open>strconv.ParseInt(s, 0, 64)\<close>; the value beside an error is not used.\<close>

definition ParseInt0 :: "string \<Rightarrow> goerr + int" where
  "ParseInt0 s =
     (if s = [] then Inl (NumError ''ParseInt'' s ErrSyntax)
      else
        (let neg = (hd s = CHR ''-'');
             body = (if hd s = CHR ''+'' \<or> hd s = CHR ''-'' then tl s else s)
         in case ParseUint0 body of
              (un, e) \<Rightarrow>
                if e = Some ErrSyntax then Inl (NumError ''ParseInt'' s ErrSyntax)
                else (case int_range neg un of
                        None \<Rightarrow> Inl (NumError ''ParseInt'' s ErrRange)
                      | Some i \<Rightarrow> Inr i)))"

lemma parse_base_loop_decimal:
  assumes "list_all is_digit cs"
  shows "parse_base_loop 10 cs n u = (case parse_uint_loop cs n of (v, e) \<Rightarrow> (v, u, e))"
  using assms
proof (induction cs arbitrary: n)
  case (Cons c cs)
  have "maxUint64 div of_nat 10 + 1 = cutoff10" by simp
  moreover have "c \<noteq> CHR ''_''" using Cons.prems by (auto simp: is_digit_def)
  moreover have "digit c < 10" using Cons.prems by (simp add: digit_less)
  ultimately show ?case
    using Cons by (simp add: digit_val_def Let_def)
qed simp

lemma show_nat_head: "0 < n \<Longrightarrow> hd (show_nat n) \<noteq> CHR ''0''"
proof (induction n rule: show_nat.induct)
  case (1 n)
  show ?case
  proof (cases "n < 10")
    case True
    then have "digit (digit_char n) = n" by (rule digit_char)
    with True "1.prems" show ?thesis by (subst show_nat.simps) (auto simp: digit_def)
  next
    case False
    with 1 show ?thesis by (subst show_nat.simps) simp
  qed
qed

lemma ParseUint0_show_nat:
  assumes "n < 2 ^ 64"
  shows "ParseUint0 (show_nat n) = (of_nat n, None)"
proof (cases "n = 0")
  case True
  have "show_nat 0 = ''0''" by (subst show_nat.simps) (simp add: digit_char_def char_of_def bit_Suc_0_iff)
  with True show ?thesis by (simp add: ParseUint0_def)
next
  case False
  then have "hd (show_nat n) \<noteq> CHR ''0''" by (simp add: show_nat_head)
  moreover have "parse_uint_loop (show_nat n) 0 = (of_nat n, None)"
    using parse_uint_show_nat [OF assms] by (simp add: parse_uint_def)
  ultimately show ?thesis
    by (simp add: ParseUint0_def parse_base_loop_decimal show_nat_digits)
qed

lemma ParseInt0_show_int:
  assumes "- (2 ^ 63) \<le> i" and "i < 2 ^ 63"
  shows "ParseInt0 (show_int i) = Inr i"
proof -
  have hd: "hd (show_nat n) \<noteq> CHR ''-'' \<and> hd (show_nat n) \<noteq> CHR ''+''" for n
    using show_nat_digits [of n] by (cases "show_nat n") (auto dest: is_digit_not_sign)
  have neg: "ParseInt0 (CHR ''-'' # show_nat n) = Inr (- int n)" if "n \<le> 2 ^ 63" for n
  proof -
    have "int_range True (of_nat n) = Some (- int n)"
      using that by (simp add: int_range_def uint_of_nat64)
    with that show ?thesis by (simp add: ParseInt0_def ParseUint0_show_nat)
  qed
  have pos: "ParseInt0 (show_nat n) = Inr (int n)" if "n < 2 ^ 63" for n
  proof -
    have "int_range False (of_nat n) = Some (int n)"
      using that by (simp add: int_range_def uint_of_nat64)
    with that hd show ?thesis by (simp add: ParseInt0_def ParseUint0_show_nat)
  qed
  show ?thesis
  proof (cases "i < 0")
    case True
    with neg [of "nat (- i)"] assms(1) show ?thesis by (simp add: show_int_def)
  next
    case False
    with pos [of "nat i"] assms(2) show ?thesis by (simp add: show_int_def)
  qed
qed

section \<open>Durations\<close>

text \<open>Arithmetic on \<open>int64\<close> wraps; durations are nanoseconds.\<close>

definition wrap64 :: "int \<Rightarrow> int" where
  "wrap64 i = (i + 2 ^ 63) mod 2 ^ 64 - 2 ^ 63"

abbreviation maxInt64 :: int where "maxInt64 \<equiv> 9223372036854775807"

fun leadingInt :: "string \<Rightarrow> int \<Rightarrow> (int \<times> string) option" where
  "leadingInt [] x = Some (x, [])"
| "leadingInt (c # cs) x =
     (if \<not> is_digit c then Some (x, c # cs)
      else if maxInt64 div 10 < x then None
      else let y = wrap64 (x * 10 + int (digit c)) in if y < 0 then None else leadingInt cs y)"

text \<open>The digits after the point, how many of them were kept, and the rest; digits that overflow are skipped.\<close>

fun leadingFraction :: "string \<Rightarrow> int \<Rightarrow> nat \<Rightarrow> bool \<Rightarrow> int \<times> nat \<times> string" where
  "leadingFraction [] x scale overflow = (x, scale, [])"
| "leadingFraction (c # cs) x scale overflow =
     (if \<not> is_digit c then (x, scale, c # cs)
      else if overflow then leadingFraction cs x scale True
      else if maxInt64 div 10 < x then leadingFraction cs x scale True
      else let y = wrap64 (x * 10 + int (digit c)) in
           if y < 0 then leadingFraction cs x scale True else leadingFraction cs y (Suc scale) False)"

text \<open>Both signs for the prefix micro are known, as the bytes of their encoding.\<close>

definition unitMap :: "(string \<times> int) list" where
  "unitMap =
     [(''ns'', 1), (''us'', 1000), (CHR 0xC2 # CHR 0xB5 # ''s'', 1000), (CHR 0xCE # CHR 0xBC # ''s'', 1000),
      (''ms'', 1000000), (''s'', 1000000000), (''m'', 60000000000), (''h'', 3600000000000)]"

text \<open>
  One round of the loop of \<open>ParseDuration\<close>: a number, then its unit. \<open>frac f unit k\<close> is
  the product \<open>int64(float64(f) * (float64(unit) / 10^k))\<close>.
\<close>

definition not_unit :: "char \<Rightarrow> bool" where
  "not_unit c \<longleftrightarrow> c = CHR ''.'' \<or> is_digit c"

definition duration_term :: "(int \<Rightarrow> int \<Rightarrow> nat \<Rightarrow> int) \<Rightarrow> string \<Rightarrow> (int \<times> string) option" where
  "duration_term frac s =
     (if s = [] \<or> \<not> not_unit (hd s) then None
      else (case leadingInt s 0 of
              None \<Rightarrow> None
            | Some (v, s1) \<Rightarrow>
                let pre = (length s1 \<noteq> length s);
                    point = (s1 \<noteq> [] \<and> hd s1 = CHR ''.'');
                    (f, scale, s2) = (if point then leadingFraction (tl s1) 0 0 False else (0, 0, s1));
                    post = (point \<and> length s2 \<noteq> length (tl s1));
                    u = takeWhile (\<lambda>c. \<not> not_unit c) s2;
                    rest = dropWhile (\<lambda>c. \<not> not_unit c) s2
                in if \<not> pre \<and> \<not> post then None
                   else if u = [] then None
                   else (case map_of unitMap u of
                           None \<Rightarrow> None
                         | Some unit \<Rightarrow>
                             if maxInt64 div unit < v then None
                             else let v1 = v * unit;
                                      v2 = (if 0 < f then wrap64 (v1 + frac f unit scale) else v1)
                                  in if 0 < f \<and> v2 < 0 then None else Some (v2, rest))))"

lemma leadingInt_length: "leadingInt s x = Some (v, r) \<Longrightarrow> length r \<le> length s"
  by (induction s x rule: leadingInt.induct) (auto simp: Let_def split: if_splits)

lemma leadingFraction_length: "length (snd (snd (leadingFraction s x k b))) \<le> length s"
  by (induction s arbitrary: x k b) (auto simp: Let_def intro: le_SucI)

lemma length_dropWhile_less: "takeWhile P s \<noteq> [] \<Longrightarrow> length (dropWhile P s) < length s"
  by (metis add_less_cancel_right add_0 length_append length_greater_0_conv takeWhile_dropWhile_id)

lemma duration_term_length:
  assumes "duration_term frac s = Some (v, rest)"
  shows "length rest < length s"
proof -
  from assms obtain v1 s1 where l: "leadingInt s 0 = Some (v1, s1)"
    by (auto simp: duration_term_def split: if_splits option.splits)
  obtain f k s2 where lf: "(if s1 \<noteq> [] \<and> hd s1 = CHR ''.'' then leadingFraction (tl s1) 0 0 False else (0, 0, s1)) = (f, k, s2)"
    by (metis prod_cases3)
  have "length s2 \<le> length s1"
    using lf leadingFraction_length [of "tl s1" 0 0 False] by (auto split: if_splits)
  moreover have "takeWhile (\<lambda>c. \<not> not_unit c) s2 \<noteq> []" "rest = dropWhile (\<lambda>c. \<not> not_unit c) s2"
    using assms l lf by (auto simp: duration_term_def Let_def split: if_splits option.splits)
  ultimately show ?thesis
    using leadingInt_length [OF l] length_dropWhile_less [of "\<lambda>c. \<not> not_unit c" s2] by simp
qed

function duration_terms :: "(int \<Rightarrow> int \<Rightarrow> nat \<Rightarrow> int) \<Rightarrow> string \<Rightarrow> int \<Rightarrow> int option" where
  "duration_terms frac s d =
     (if s = [] then Some d
      else (case duration_term frac s of
              None \<Rightarrow> None
            | Some (v, rest) \<Rightarrow>
                let d1 = wrap64 (d + v) in if d1 < 0 then None else duration_terms frac rest d1))"
  by pat_completeness auto
termination
  by (relation "measure (\<lambda>(frac, s, d). length s)") (auto dest: duration_term_length)

declare duration_terms.simps [simp del]

definition ParseDuration :: "(int \<Rightarrow> int \<Rightarrow> nat \<Rightarrow> int) \<Rightarrow> string \<Rightarrow> goerr + int" where
  "ParseDuration frac orig =
     (let neg = (orig \<noteq> [] \<and> hd orig = CHR ''-'');
          s = (if orig \<noteq> [] \<and> (hd orig = CHR ''-'' \<or> hd orig = CHR ''+'') then tl orig else orig);
          invalid = Inl (StdError (''time: invalid duration '' @ orig))
      in if s = ''0'' then Inr 0
         else if s = [] then invalid
         else (case duration_terms frac s 0 of
                 None \<Rightarrow> invalid
               | Some d \<Rightarrow> Inr (if neg then - d else d)))"

text \<open>A duration written in nanoseconds is read back.\<close>

lemma wrap64_id: "0 \<le> i \<Longrightarrow> i < 2 ^ 63 \<Longrightarrow> wrap64 i = i"
  by (simp add: wrap64_def mod_pos_pos_trivial)

lemma leadingInt_digits:
  assumes "list_all is_digit cs" and "dec_val n cs < 2 ^ 63" and "r = [] \<or> \<not> is_digit (hd r)"
  shows "leadingInt (cs @ r) (int n) = Some (int (dec_val n cs), r)"
  using assms(1,2)
proof (induction cs arbitrary: n)
  case Nil
  from assms(3) show ?case by (cases r) auto
next
  case (Cons c cs)
  have le: "10 * n + digit c < 2 ^ 63"
    using Cons.prems(2) dec_val_ge [of "10 * n + digit c" cs] by simp
  then have "wrap64 (int n * 10 + int (digit c)) = int (10 * n + digit c)"
    by (subst wrap64_id) simp_all
  with Cons.prems Cons.IH [of "10 * n + digit c"] le show ?case by (simp add: Let_def)
qed

lemma duration_term_ns:
  assumes "n < 2 ^ 63"
  shows "duration_term frac (show_nat n @ ''ns'') = Some (int n, [])"
proof -
  have "leadingInt (show_nat n @ ''ns'') (int 0) = Some (int (dec_val 0 (show_nat n)), ''ns'')"
    using assms by (intro leadingInt_digits) (simp_all add: show_nat_digits dec_val_show_nat is_digit_def)
  then have l: "leadingInt (show_nat n @ ''ns'') 0 = Some (int n, ''ns'')" by (simp add: dec_val_show_nat)
  have "is_digit (hd (show_nat n @ ''ns''))"
    using show_nat_digits [of n] by (cases "show_nat n") auto
  with l assms show ?thesis
    by (simp add: duration_term_def not_unit_def unitMap_def is_digit_def Let_def)
qed

lemma ParseDuration_ns:
  assumes "- (2 ^ 63) < d" and "d < 2 ^ 63"
  shows "ParseDuration frac (show_int d @ ''ns'') = Inr d"
proof -
  have terms: "duration_terms frac (show_nat n @ ''ns'') 0 = Some (int n)" if "n < 2 ^ 63" for n
    using that by (simp add: duration_terms.simps [of frac "show_nat n @ ''ns''"] duration_term_ns Let_def wrap64_id
        duration_terms.simps [of frac "[]"])
  have hd: "hd (show_nat n @ ''ns'') \<noteq> CHR ''-'' \<and> hd (show_nat n @ ''ns'') \<noteq> CHR ''+''" for n
    using show_nat_digits [of n] by (cases "show_nat n") (auto dest: is_digit_not_sign)
  have "show_nat n @ ''ns'' \<noteq> ''0''" for n
    by (metis append_eq_Cons_conv append_is_Nil_conv list.distinct(1) show_nat_not_Nil)
  then show ?thesis
    using assms terms [of "nat d"] terms [of "nat (- d)"] hd
    by (simp add: ParseDuration_def show_int_def Let_def)
qed

section \<open>The flag set\<close>

text \<open>
  A variable of a flag, by how it is read from and set in the state \<open>'o\<close> that holds
  all of them. \<open>OtherVar\<close> is a value of another package, with its \<open>IsBoolFlag\<close> and \<open>Set\<close>.
\<close>

datatype (plugins only: code) 'o flag_var =
    StringVar "'o \<Rightarrow> string" "string \<Rightarrow> 'o \<Rightarrow> 'o"
  | BoolVar "'o \<Rightarrow> bool" "bool \<Rightarrow> 'o \<Rightarrow> 'o"
  | IntVar "'o \<Rightarrow> int" "int \<Rightarrow> 'o \<Rightarrow> 'o"
  | DurationVar "'o \<Rightarrow> int" "int \<Rightarrow> 'o \<Rightarrow> 'o"
  | OtherVar bool "string \<Rightarrow> 'o \<Rightarrow> goerr + 'o"

primrec IsBoolFlag :: "'o flag_var \<Rightarrow> bool" where
  "IsBoolFlag (StringVar get put) = False"
| "IsBoolFlag (BoolVar get put) = True"
| "IsBoolFlag (IntVar get put) = False"
| "IsBoolFlag (DurationVar get put) = False"
| "IsBoolFlag (OtherVar b f) = b"

primrec flag_Set :: "(int \<Rightarrow> int \<Rightarrow> nat \<Rightarrow> int) \<Rightarrow> 'o flag_var \<Rightarrow> string \<Rightarrow> 'o \<Rightarrow> goerr + 'o" where
  "flag_Set frac (StringVar get put) s opts = Inr (put s opts)"
| "flag_Set frac (BoolVar get put) s opts =
     (case ParseBool s of Inl e \<Rightarrow> Inl e | Inr b \<Rightarrow> Inr (put b opts))"
| "flag_Set frac (IntVar get put) s opts =
     (case ParseInt0 s of Inl e \<Rightarrow> Inl e | Inr i \<Rightarrow> Inr (put i opts))"
| "flag_Set frac (DurationVar get put) s opts =
     (case ParseDuration frac s of Inl e \<Rightarrow> Inl e | Inr d \<Rightarrow> Inr (put d opts))"
| "flag_Set frac (OtherVar b f) s opts = f s opts"

datatype flag_error =
    BadSyntax string | Help | NotDefined string | NeedsArgument string | InvalidValue string string

type_synonym 'o flag_set = "(string \<times> 'o flag_var) list"

text \<open>The name and the value of an argument, split at the first equals sign after the first character.\<close>

definition split_name :: "string \<Rightarrow> string \<times> string option" where
  "split_name name =
     (case IndexByte CHR ''='' (tl name) of
        None \<Rightarrow> (name, None)
      | Some i \<Rightarrow> (take (Suc i) name, Some (drop (i + 2) name)))"

text \<open>
  \<open>parseOne\<close>: whether a flag was seen, the arguments left and the state. A value that
  is not in the argument itself is the next argument, except for a boolean flag.
\<close>

definition parseOne ::
  "(int \<Rightarrow> int \<Rightarrow> nat \<Rightarrow> int) \<Rightarrow> 'o flag_set \<Rightarrow> string list \<Rightarrow> 'o \<Rightarrow> flag_error + (bool \<times> string list \<times> 'o)" where
  "parseOne frac formal args opts =
     (case args of
        [] \<Rightarrow> Inr (False, [], opts)
      | s # rest \<Rightarrow>
          if length s < 2 \<or> hd s \<noteq> CHR ''-'' then Inr (False, args, opts)
          else if s = ''--'' then Inr (False, rest, opts)
          else
            (let name0 = (if s ! 1 = CHR ''-'' then drop 2 s else drop 1 s) in
             if name0 = [] \<or> hd name0 = CHR ''-'' \<or> hd name0 = CHR ''='' then Inl (BadSyntax s)
             else
               (let (name, val) = split_name name0 in
                case map_of formal name of
                  None \<Rightarrow> Inl (if name = ''help'' \<or> name = ''h'' then Help else NotDefined name)
                | Some var \<Rightarrow>
                    let setTo = (\<lambda>v rest.
                          case flag_Set frac var v opts of
                            Inl e \<Rightarrow> Inl (InvalidValue name v)
                          | Inr opts' \<Rightarrow> Inr (True, rest, opts'))
                    in if IsBoolFlag var then setTo (case val of Some v \<Rightarrow> v | None \<Rightarrow> ''true'') rest
                       else (case val of
                               Some v \<Rightarrow> setTo v rest
                             | None \<Rightarrow>
                                 (case rest of
                                    [] \<Rightarrow> Inl (NeedsArgument name)
                                  | v # rest' \<Rightarrow> setTo v rest')))))"

lemma parseOne_length:
  "parseOne frac formal args opts = Inr (True, args', opts') \<Longrightarrow> length args' < length args"
  by (auto simp: parseOne_def Let_def split: list.splits if_splits option.splits sum.splits prod.splits)

function flag_Parse ::
  "(int \<Rightarrow> int \<Rightarrow> nat \<Rightarrow> int) \<Rightarrow> 'o flag_set \<Rightarrow> string list \<Rightarrow> 'o \<Rightarrow> flag_error + (string list \<times> 'o)" where
  "flag_Parse frac formal args opts =
     (case parseOne frac formal args opts of
        Inl e \<Rightarrow> Inl e
      | Inr (seen, args', opts') \<Rightarrow>
          if seen then flag_Parse frac formal args' opts' else Inr (args', opts'))"
  by pat_completeness auto
termination
  by (relation "measure (\<lambda>(frac, formal, args, opts). length args)") (auto dest: parseOne_length)

declare flag_Parse.simps [simp del]

section \<open>Printing a state as arguments\<close>

primrec print_flag :: "'o flag_var \<Rightarrow> 'o \<Rightarrow> string" where
  "print_flag (StringVar get put) opts = get opts"
| "print_flag (BoolVar get put) opts = (if get opts then ''true'' else ''false'')"
| "print_flag (IntVar get put) opts = show_int (get opts)"
| "print_flag (DurationVar get put) opts = show_int (get opts) @ ''ns''"
| "print_flag (OtherVar b f) opts = ''''"

primrec copy_flag :: "'o flag_var \<Rightarrow> 'o \<Rightarrow> 'o \<Rightarrow> 'o" where
  "copy_flag (StringVar get put) src opts = put (get src) opts"
| "copy_flag (BoolVar get put) src opts = put (get src) opts"
| "copy_flag (IntVar get put) src opts = put (get src) opts"
| "copy_flag (DurationVar get put) src opts = put (get src) opts"
| "copy_flag (OtherVar b f) src opts = opts"

text \<open>The value fits its type; the least \<open>int64\<close> is not a duration that can be written.\<close>

primrec flag_fits :: "'o flag_var \<Rightarrow> 'o \<Rightarrow> bool" where
  "flag_fits (StringVar get put) opts = True"
| "flag_fits (BoolVar get put) opts = True"
| "flag_fits (IntVar get put) opts = (- (2 ^ 63) \<le> get opts \<and> get opts < 2 ^ 63)"
| "flag_fits (DurationVar get put) opts = (- (2 ^ 63) < get opts \<and> get opts < 2 ^ 63)"
| "flag_fits (OtherVar b f) opts = False"

definition print_arg :: "'o \<Rightarrow> string \<times> 'o flag_var \<Rightarrow> string" where
  "print_arg opts nv = CHR ''-'' # fst nv @ CHR ''='' # print_flag (snd nv) opts"

definition plain_name :: "string \<Rightarrow> bool" where
  "plain_name name \<longleftrightarrow> name \<noteq> [] \<and> hd name \<noteq> CHR ''-'' \<and> CHR ''='' \<notin> set name"

lemma flag_Set_print:
  "flag_fits var src \<Longrightarrow> flag_Set frac var (print_flag var src) opts = Inr (copy_flag var src opts)"
  by (cases var) (simp_all add: ParseBool_def ParseInt0_show_int ParseDuration_ns)

lemma split_name_assign: "plain_name name \<Longrightarrow> split_name (name @ CHR ''='' # v) = (name, Some v)"
  by (cases name) (auto simp: split_name_def plain_name_def IndexByte_append)

lemma split_name_plain: "plain_name name \<Longrightarrow> split_name name = (name, None)"
  by (cases name) (auto simp: split_name_def plain_name_def IndexByte_None)

lemma parseOne_undeclared:
  assumes "plain_name name" and "map_of formal name = None" and "name \<noteq> ''help''" and "name \<noteq> ''h''"
  shows "parseOne frac formal ((CHR ''-'' # name) # args) opts = Inl (NotDefined name)"
proof -
  obtain c cs where name: "name = c # cs" and c: "c \<noteq> CHR ''-''" "c \<noteq> CHR ''=''"
    using assms(1) by (cases name) (auto simp: plain_name_def)
  with assms split_name_plain [OF assms(1)] show ?thesis by (simp add: parseOne_def Let_def)
qed

lemma flag_Parse_stop:
  "length s < 2 \<or> hd s \<noteq> CHR ''-'' \<Longrightarrow> flag_Parse frac formal (s # args) opts = Inr (s # args, opts)"
  by (subst flag_Parse.simps) (simp add: parseOne_def)

lemma flag_Parse_Nil: "flag_Parse frac formal [] opts = Inr ([], opts)"
  by (subst flag_Parse.simps) (simp add: parseOne_def)

text \<open>The names of a set are declared once each, and can be told apart from their values.\<close>

locale declared_flags =
  fixes formal :: "'o flag_set"
  assumes names_distinct: "distinct (map fst formal)"
    and names_plain: "list_all plain_name (map fst formal)"
begin

lemma parseOne_print:
  assumes nv: "nv \<in> set formal" and fits: "flag_fits (snd nv) src"
  shows "parseOne frac (formal @ foreign) (print_arg src nv # args) opts =
           Inr (True, args, copy_flag (snd nv) src opts)"
proof -
  obtain name var where [simp]: "nv = (name, var)" by fastforce
  have plain: "plain_name name" using nv names_plain by (force simp: list_all_iff)
  then obtain c cs where [simp]: "name = c # cs" and c: "c \<noteq> CHR ''-''" "c \<noteq> CHR ''=''"
    by (cases name) (auto simp: plain_name_def)
  have "map_of (formal @ foreign) name = Some var"
    using nv names_distinct by (simp add: map_add_Some_iff map_of_eq_Some_iff)
  with c plain fits split_name_assign [OF plain, of "print_flag var src"] show ?thesis
    by (simp add: parseOne_def print_arg_def Let_def flag_Set_print)
qed

lemma flag_Parse_print:
  assumes "set nvs \<subseteq> set formal" and "list_all (\<lambda>nv. flag_fits (snd nv) src) nvs"
  shows "flag_Parse frac (formal @ foreign) (map (print_arg src) nvs @ args) opts =
           flag_Parse frac (formal @ foreign) args (fold (\<lambda>nv. copy_flag (snd nv) src) nvs opts)"
  using assms
proof (induction nvs arbitrary: opts)
  case (Cons nv nvs)
  then show ?case
    by (subst flag_Parse.simps) (simp add: parseOne_print del: map_of_append)
qed simp

end

end
