(* ===== verification/Flags.thy ===== *)
theory Flags
  imports Startup Go_Flag
begin

text \<open>
  The command line of the process: the flags that \<open>main.go\<close> declares, read by the model
  of the \<open>flag\<close> package. Flags that other packages put into the same set, such as those of
  the logger, are a parameter.
\<close>

definition main_flags :: "options flag_set" where
  "main_flags =
     [ (''metrics-addr'', StringVar opt_metricsAddr (\<lambda>v. opt_metricsAddr_update (\<lambda>_. v))),
      (''enable-leader-election'', BoolVar opt_enableLeaderElection (\<lambda>v. opt_enableLeaderElection_update (\<lambda>_. v))),
      (''namespace'', StringVar opt_namespace (\<lambda>v. opt_namespace_update (\<lambda>_. v))),
      (''scheduler-name'', StringVar opt_schedulerName (\<lambda>v. opt_schedulerName_update (\<lambda>_. v))),
      (''webhook-service-name'', StringVar opt_webhookServiceName (\<lambda>v. opt_webhookServiceName_update (\<lambda>_. v))),
      (''webhook-service-namespace'', StringVar opt_webhookServiceNamespace (\<lambda>v. opt_webhookServiceNamespace_update (\<lambda>_. v))),
      (''webhook-secret-name'', StringVar opt_webhookSecretName (\<lambda>v. opt_webhookSecretName_update (\<lambda>_. v))),
      (''webhook-secret-namespace'', StringVar opt_webhookSecretNamespace (\<lambda>v. opt_webhookSecretNamespace_update (\<lambda>_. v))),
      (''webhook-config-mutating'', StringVar opt_webhookConfigMutatingName (\<lambda>v. opt_webhookConfigMutatingName_update (\<lambda>_. v))),
      (''webhook-mutate-pods-path'', StringVar opt_webhookMutatePodsPath (\<lambda>v. opt_webhookMutatePodsPath_update (\<lambda>_. v))),
      (''webhook-mutate-pvcs-path'', StringVar opt_webhookMutatePVCsPath (\<lambda>v. opt_webhookMutatePVCsPath_update (\<lambda>_. v))),
      (''webhook-cert-validity'', DurationVar opt_webhookCertValidity (\<lambda>v. opt_webhookCertValidity_update (\<lambda>_. v))),
      (''webhook-cert-refresh-interval'', DurationVar opt_webhookCertRefreshInterval (\<lambda>v. opt_webhookCertRefreshInterval_update (\<lambda>_. v))),
      (''api-secret-path'', StringVar opt_apiSecretPath (\<lambda>v. opt_apiSecretPath_update (\<lambda>_. v))),
      (''api-endpoint'', StringVar opt_apiEndpoint (\<lambda>v. opt_apiEndpoint_update (\<lambda>_. v))),
      (''volume-poll-interval'', DurationVar opt_volumePollInterval (\<lambda>v. opt_volumePollInterval_update (\<lambda>_. v))),
      (''node-poll-interval'', DurationVar opt_nodePollInterval (\<lambda>v. opt_nodePollInterval_update (\<lambda>_. v))),
      (''volume-expiry-interval'', DurationVar opt_volumeExpiryInterval (\<lambda>v. opt_volumeExpiryInterval_update (\<lambda>_. v))),
      (''node-expiry-interval'', DurationVar opt_nodeExpiryInterval (\<lambda>v. opt_nodeExpiryInterval_update (\<lambda>_. v))),
      (''api-refresh-interval'', DurationVar opt_apiRefreshInterval (\<lambda>v. opt_apiRefreshInterval_update (\<lambda>_. v))),
      (''api-retry-interval'', DurationVar opt_apiRetryInterval (\<lambda>v. opt_apiRetryInterval_update (\<lambda>_. v))),
      (''k8s-create-poll-interval'', DurationVar opt_k8sCreatePollInterval (\<lambda>v. opt_k8sCreatePollInterval_update (\<lambda>_. v))),
      (''k8s-create-wait-duration'', DurationVar opt_k8sCreateWaitDuration (\<lambda>v. opt_k8sCreateWaitDuration_update (\<lambda>_. v))),
      (''namespace-delete-gc-interval'', DurationVar opt_gcNamespaceDeleteInterval (\<lambda>v. opt_gcNamespaceDeleteInterval_update (\<lambda>_. v))),
      (''node-delete-gc-interval'', DurationVar opt_gcNodeDeleteInterval (\<lambda>v. opt_gcNodeDeleteInterval_update (\<lambda>_. v))),
      (''node-label-resync-interval'', DurationVar opt_resyncNodeLabelInterval (\<lambda>v. opt_resyncNodeLabelInterval_update (\<lambda>_. v))),
      (''pvc-label-resync-interval'', DurationVar opt_resyncPVCLabelInterval (\<lambda>v. opt_resyncPVCLabelInterval_update (\<lambda>_. v))),
      (''namespace-delete-gc-delay'', DurationVar opt_gcNamespaceDeleteDelay (\<lambda>v. opt_gcNamespaceDeleteDelay_update (\<lambda>_. v))),
      (''node-delete-gc-delay'', DurationVar opt_gcNodeDeleteDelay (\<lambda>v. opt_gcNodeDeleteDelay_update (\<lambda>_. v))),
      (''node-label-resync-delay'', DurationVar opt_resyncNodeLabelDelay (\<lambda>v. opt_resyncNodeLabelDelay_update (\<lambda>_. v))),
      (''pvc-label-resync-delay'', DurationVar opt_resyncPVCLabelDelay (\<lambda>v. opt_resyncPVCLabelDelay_update (\<lambda>_. v))),
      (''node-fencer-workers'', IntVar opt_nodeFencerWorkers (\<lambda>v. opt_nodeFencerWorkers_update (\<lambda>_. v))),
      (''node-fencer-retry-interval'', DurationVar opt_nodeFencerRetryInterval (\<lambda>v. opt_nodeFencerRetryInterval_update (\<lambda>_. v))),
      (''node-fencer-timeout'', DurationVar opt_nodeFencerTimeout (\<lambda>v. opt_nodeFencerTimeout_update (\<lambda>_. v))),
      (''node-delete-workers'', IntVar opt_nodeDeleteWorkers (\<lambda>v. opt_nodeDeleteWorkers_update (\<lambda>_. v))),
      (''namespace-delete-workers'', IntVar opt_nsDeleteWorkers (\<lambda>v. opt_nsDeleteWorkers_update (\<lambda>_. v))),
      (''node-label-sync-workers'', IntVar opt_nodeLabelSyncWorkers (\<lambda>v. opt_nodeLabelSyncWorkers_update (\<lambda>_. v))),
      (''pvc-label-sync-workers'', IntVar opt_pvcLabelSyncWorkers (\<lambda>v. opt_pvcLabelSyncWorkers_update (\<lambda>_. v))),
      (''enable-pvc-label-sync'', BoolVar opt_enablePVCLabelSync (\<lambda>v. opt_enablePVCLabelSync_update (\<lambda>_. v))),
      (''enable-node-label-sync'', BoolVar opt_enableNodeLabelSync (\<lambda>v. opt_enableNodeLabelSync_update (\<lambda>_. v)))
     ]"

text \<open>
  The start of \<open>main\<close>: the set exits on an error, with code 0 after a request for help.
  Arguments that are left over are not looked at.
\<close>

definition main_args ::
  "(int \<Rightarrow> int \<Rightarrow> nat \<Rightarrow> int) \<Rightarrow> options flag_set \<Rightarrow> 'w process \<Rightarrow> string list \<Rightarrow> 'w \<Rightarrow> (nat outcome \<times> 'w) option" where
  "main_args frac foreign p args w =
     (case flag_Parse frac (main_flags @ foreign) args default_options of
        Inl e \<Rightarrow> Some (Ret (if e = Help then 0 else 2), w)
      | Inr (_, opts) \<Rightarrow> main p opts w)"

definition options_args :: "options \<Rightarrow> string list" where
  "options_args opts = map (print_arg opts) main_flags"

definition options_fit :: "options \<Rightarrow> bool" where
  "options_fit opts \<longleftrightarrow> list_all (\<lambda>nv. flag_fits (snd nv) opts) main_flags"

interpretation main_fs: declared_flags main_flags
proof
  show "distinct (map fst main_flags)" unfolding main_flags_def by code_simp
  show "list_all plain_name (map fst main_flags)" unfolding main_flags_def by code_simp
qed

lemma copy_all_flags: "fold (\<lambda>nv. copy_flag (snd nv) opts) main_flags opts0 = opts"
  by (cases opts; cases opts0) (simp add: main_flags_def)

lemma flag_Parse_options:
  "options_fit opts \<Longrightarrow>
     flag_Parse frac (main_flags @ foreign) (options_args opts @ args) opts0 =
     flag_Parse frac (main_flags @ foreign) args opts"
  unfolding options_args_def options_fit_def
  by (subst main_fs.flag_Parse_print) (simp_all add: copy_all_flags)

section \<open>Properties\<close>

text \<open>
  C9. The command line decides the configuration, and only up to its first argument
  that is not a flag. Every configuration whose values fit can be given on it, and the
  process then runs with exactly that one, whatever follows a first argument without
  a dash. A flag that nobody declared ends the process with code 2 before anything
  else has happened. A boolean flag takes no argument of its own: \<open>-enable-pvc-label-sync
  false\<close> leaves the controller on and makes the process ignore the rest of its
  arguments.
\<close>

theorem command_line:
  assumes fit: "options_fit opts"
    and stop: "args = [] \<or> length (hd args) < 2 \<or> hd (hd args) \<noteq> CHR ''-''"
    and undeclared: "plain_name name" "map_of (main_flags @ foreign) name = None" "name \<noteq> ''help''" "name \<noteq> ''h''"
  shows "main_args frac foreign p (options_args opts @ args) w = main p opts w \<and>
         main_args frac foreign p (options_args opts @ (CHR ''-'' # name) # rest) w = Some (Ret 2, w) \<and>
         main_args frac foreign p
           (options_args (opts\<lparr>opt_enablePVCLabelSync := False\<rparr>) @
            ''-enable-pvc-label-sync'' # ''false'' # rest) w =
         main p (opts\<lparr>opt_enablePVCLabelSync := True\<rparr>) w"
proof (intro conjI)
  show "main_args frac foreign p (options_args opts @ args) w = main p opts w"
    using stop flag_Parse_options [OF fit, of frac foreign args]
    by (cases args) (auto simp: main_args_def flag_Parse_Nil flag_Parse_stop)
  show "main_args frac foreign p (options_args opts @ (CHR ''-'' # name) # rest) w = Some (Ret 2, w)"
    by (simp add: main_args_def flag_Parse_options [OF fit]
        flag_Parse.simps [of frac "main_flags @ foreign" "(CHR ''-'' # name) # rest"]
        parseOne_undeclared [OF undeclared] del: map_of_append)
  let ?off = "opts\<lparr>opt_enablePVCLabelSync := False\<rparr>"
  have off: "options_fit ?off" using fit by (simp add: options_fit_def main_flags_def)
  have "map_of (main_flags @ foreign) ''enable-pvc-label-sync'' =
      Some (BoolVar opt_enablePVCLabelSync (\<lambda>v. opt_enablePVCLabelSync_update (\<lambda>_. v)))"
    by (simp add: main_flags_def)
  then have "parseOne frac (main_flags @ foreign) (''-enable-pvc-label-sync'' # ''false'' # rest) ?off =
      Inr (True, ''false'' # rest, opts\<lparr>opt_enablePVCLabelSync := True\<rparr>)"
    by (simp add: parseOne_def split_name_def Let_def ParseBool_def del: map_of_append)
  then show "main_args frac foreign p (options_args ?off @ ''-enable-pvc-label-sync'' # ''false'' # rest) w =
      main p (opts\<lparr>opt_enablePVCLabelSync := True\<rparr>) w"
    by (simp add: main_args_def flag_Parse_options [OF off]
        flag_Parse.simps [of frac "main_flags @ foreign" "''-enable-pvc-label-sync'' # ''false'' # rest"]
        flag_Parse_stop del: map_of_append)
qed

theorem command_line_witness:
  "main_args (\<lambda>f unit k. 0) [] sample_process
     (options_args (default_options\<lparr>opt_nodeFencerWorkers := 2\<rparr>) @ [''serve'', ''-namespace=storage'']) sample_mem =
     main sample_process (default_options\<lparr>opt_nodeFencerWorkers := 2\<rparr>) sample_mem \<and>
   main_args (\<lambda>f unit k. 0) [] sample_process
     (options_args (default_options\<lparr>opt_nodeFencerWorkers := 2\<rparr>) @ [''-workers'']) sample_mem =
     Some (Ret 2, sample_mem)"
proof -
  have fit: "options_fit (default_options\<lparr>opt_nodeFencerWorkers := 2\<rparr>)"
    by (simp add: options_fit_def main_flags_def default_options_def)
  have name: "plain_name ''workers''" "map_of (main_flags @ []) ''workers'' = None"
    by (simp_all add: plain_name_def main_flags_def)
  show ?thesis
    using command_line [OF fit _ name, of "[''serve'', ''-namespace=storage'']" "\<lambda>f unit k. 0" sample_process sample_mem "[]"]
    by simp
qed

end
