(* ===== verification/Mock_Client.thy ===== *)
theory Mock_Client
  imports Delete_Controllers Label_Controllers Fencer Shared_Volume_Controller Crypto
begin

text \<open>
  \<open>internal/pkg/storageos/mock_client.go\<close>: the in-memory StorageOS that the tests of
  the controllers run against. It implements the interfaces of all controllers,
  with its state as the world. Maps are association lists in the order in which an
  execution visits them; the lock serialises the operations. Fields named \<open>Err\<close>
  are set by a test to make an operation fail.
\<close>

section \<open>State\<close>

record mock_client =
  mc_sharedvols :: "(string \<times> SharedVolume) list"
  mc_namespaces :: "(objkey \<times> sobject) list"
  mc_nodes :: "(objkey \<times> sobject) list"
  mc_volumes :: "(objkey \<times> sobject) list"
  mc_nodeLabels :: smap
  mc_DeleteNamespaceCallCount :: "(objkey \<times> nat) list"
  mc_DeleteNodeCallCount :: "(objkey \<times> nat) list"
  mc_ListNamespacesErr :: error_or_nil
  mc_DeleteNamespaceErr :: error_or_nil
  mc_GetNodeErr :: error_or_nil
  mc_NodeObjectsErr :: error_or_nil
  mc_ListNodesErr :: error_or_nil
  mc_DeleteNodeErr :: error_or_nil
  mc_EnsureNodeLabelsErr :: error_or_nil
  mc_GetNodeLabelsErr :: error_or_nil
  mc_GetVolumeErr :: error_or_nil
  mc_VolumeObjectsErr :: error_or_nil
  mc_EnsureVolumeLabelsErr :: error_or_nil
  mc_SharedVolsErr :: error_or_nil
  mc_SharedVolErr :: error_or_nil
  mc_SetEndpointErr :: error_or_nil

definition NewMockClient :: mock_client where
  "NewMockClient =
     \<lparr>mc_sharedvols = [], mc_namespaces = [], mc_nodes = [], mc_volumes = [], mc_nodeLabels = SMap [],
      mc_DeleteNamespaceCallCount = [], mc_DeleteNodeCallCount = [],
      mc_ListNamespacesErr = None, mc_DeleteNamespaceErr = None, mc_GetNodeErr = None, mc_NodeObjectsErr = None,
      mc_ListNodesErr = None, mc_DeleteNodeErr = None, mc_EnsureNodeLabelsErr = None,
      mc_GetNodeLabelsErr = None, mc_GetVolumeErr = None, mc_VolumeObjectsErr = None,
      mc_EnsureVolumeLabelsErr = None, mc_SharedVolsErr = None, mc_SharedVolErr = None,
      mc_SetEndpointErr = None\<rparr>"

text \<open>\<open>MockObject{...}\<close> behind the object interface, with zero values for what is not set.\<close>

definition mock_object :: "string \<Rightarrow> string \<Rightarrow> string \<Rightarrow> smap \<Rightarrow> bool \<Rightarrow> sobject" where
  "mock_object ident name ns labels healthy =
     \<lparr>GetID = ident, GetName = name, GetNamespace = ns, GetLabels = labels, IsHealthy = healthy\<rparr>"

definition incr_count :: "objkey \<Rightarrow> (objkey \<times> nat) list \<Rightarrow> (objkey \<times> nat) list" where
  "incr_count key m = AList.update key (Suc (case map_of m key of Some n \<Rightarrow> n | None \<Rightarrow> 0)) m"

section \<open>Namespaces\<close>

definition Mock_ListNamespaces :: "(mock_client, goerr + sobject list) ext" where
  "Mock_ListNamespaces c =
     (case mc_ListNamespacesErr c of
        Some err \<Rightarrow> (Inl err, c)
      | None \<Rightarrow> (Inr (map snd (mc_namespaces c)), c))"

definition Mock_AddNamespace :: "objkey \<Rightarrow> (mock_client, error_or_nil) ext" where
  "Mock_AddNamespace key c =
     (None, c\<lparr>mc_namespaces := AList.update key (mock_object '''' (key_Name key) '''' NilMap False) (mc_namespaces c)\<rparr>)"

definition Mock_NamespaceExists :: "objkey \<Rightarrow> mock_client \<Rightarrow> bool" where
  "Mock_NamespaceExists key c = (map_of (mc_namespaces c) key \<noteq> None)"

definition Mock_DeleteNamespace :: "objkey \<Rightarrow> (mock_client, error_or_nil) ext" where
  "Mock_DeleteNamespace key c0 =
     (let c = c0\<lparr>mc_DeleteNamespaceCallCount := incr_count key (mc_DeleteNamespaceCallCount c0)\<rparr> in
      case mc_DeleteNamespaceErr c of
        Some err \<Rightarrow> (Some err, c)
      | None \<Rightarrow>
          if \<not> Mock_NamespaceExists key c then (Some ErrNamespaceNotFound, c)
          else (None, c\<lparr>mc_namespaces := AList.delete key (mc_namespaces c)\<rparr>))"

section \<open>Nodes\<close>

definition Mock_NodeObjects :: "(mock_client, goerr + (objkey \<times> sobject) list) ext" where
  "Mock_NodeObjects c =
     (case mc_NodeObjectsErr c of Some err \<Rightarrow> (Inl err, c) | None \<Rightarrow> (Inr (mc_nodes c), c))"

definition mock_nodeCR :: "sobject \<Rightarrow> NodeCR" where
  "mock_nodeCR n =
     \<lparr>cr_Name = GetName n, cr_UID = '''', cr_ResourceVersion = '''', cr_CreationTimestamp = 0,
      cr_Labels = NilMap,
      cr_Spec = \<lparr>IoEndpoint = '''', SupervisorEndpoint = '''', GossipEndpoint = '''', ClusteringEndpoint = ''''\<rparr>,
      cr_Status = \<lparr>Health = (if \<not> IsHealthy n then NodeHealthOffline else NodeHealthOnline),
                   Capacity = \<lparr>cap_Total = 0, cap_Free = 0, cap_Available = 0\<rparr>\<rparr>\<rparr>"

definition Mock_ListNodes :: "(mock_client, goerr + NodeCR list) ext" where
  "Mock_ListNodes c =
     (case mc_ListNodesErr c of
        Some err \<Rightarrow> (Inl err, c)
      | None \<Rightarrow> (Inr (map (\<lambda>(k, n). mock_nodeCR n) (mc_nodes c)), c))"

definition Mock_AddNode :: "sobject \<Rightarrow> (mock_client, error_or_nil) ext" where
  "Mock_AddNode obj c = (None, c\<lparr>mc_nodes := AList.update (ObjectKeyFromObject obj) obj (mc_nodes c)\<rparr>)"

definition Mock_NodeExists :: "objkey \<Rightarrow> mock_client \<Rightarrow> bool" where
  "Mock_NodeExists key c = (map_of (mc_nodes c) key \<noteq> None)"

definition Mock_DeleteNode :: "objkey \<Rightarrow> (mock_client, error_or_nil) ext" where
  "Mock_DeleteNode key c0 =
     (let c = c0\<lparr>mc_DeleteNodeCallCount := incr_count key (mc_DeleteNodeCallCount c0)\<rparr> in
      case mc_DeleteNodeErr c of
        Some err \<Rightarrow> (Some err, c)
      | None \<Rightarrow>
          if \<not> Mock_NodeExists key c then (Some ErrNodeNotFound, c)
          else (None, c\<lparr>mc_nodes := AList.delete key (mc_nodes c)\<rparr>))"

text \<open>The labels that are kept, and an error for every other reserved one.\<close>

primrec mock_labels ::
  "(string \<Rightarrow> bool) \<Rightarrow> (string \<times> string) list \<Rightarrow> (string \<times> string) list \<Rightarrow> goerr list
     \<Rightarrow> (string \<times> string) list \<times> goerr list" where
  "mock_labels allowed [] acc errs = (acc, errs)"
| "mock_labels allowed (kv # kvs) acc errs =
     (if \<not> IsReservedLabel (fst kv) \<or> allowed (fst kv)
      then mock_labels allowed kvs (AList.update (fst kv) (snd kv) acc) errs
      else mock_labels allowed kvs acc (Append errs (Some ErrReservedLabelUnknown)))"

definition Mock_EnsureNodeLabels :: "objkey \<Rightarrow> smap \<Rightarrow> (mock_client, error_or_nil) ext" where
  "Mock_EnsureNodeLabels key labels c =
     (case mc_EnsureNodeLabelsErr c of
        Some err \<Rightarrow> (Some err, c)
      | None \<Rightarrow>
          (case mock_labels (\<lambda>k. k = ReservedLabelComputeOnly) (entries labels) [] [] of
             (newLabels, errs) \<Rightarrow> (ErrorOrNil errs, c\<lparr>mc_nodeLabels := SMap newLabels\<rparr>)))"

definition Mock_GetNodeLabels :: "objkey \<Rightarrow> (mock_client, goerr + smap) ext" where
  "Mock_GetNodeLabels key c =
     (case mc_GetNodeLabelsErr c of Some err \<Rightarrow> (Inl err, c) | None \<Rightarrow> (Inr (mc_nodeLabels c), c))"

definition Mock_UpdateNodeHealth :: "objkey \<Rightarrow> bool \<Rightarrow> (mock_client, bool) ext" where
  "Mock_UpdateNodeHealth key healthy c =
     (case map_of (mc_nodes c) key of
        None \<Rightarrow> (False, c)
      | Some n \<Rightarrow>
          (True, c\<lparr>mc_nodes := AList.update key
             (mock_object (GetID n) (GetName n) (GetNamespace n) (GetLabels n) healthy) (mc_nodes c)\<rparr>))"

section \<open>Volumes\<close>

definition Mock_AddVolume :: "sobject \<Rightarrow> (mock_client, error_or_nil) ext" where
  "Mock_AddVolume obj c = (None, c\<lparr>mc_volumes := AList.update (ObjectKeyFromObject obj) obj (mc_volumes c)\<rparr>)"

definition Mock_UpdateVolumeHealth :: "objkey \<Rightarrow> bool \<Rightarrow> (mock_client, bool) ext" where
  "Mock_UpdateVolumeHealth key healthy c =
     (case map_of (mc_volumes c) key of
        None \<Rightarrow> (False, c)
      | Some n \<Rightarrow>
          (True, c\<lparr>mc_volumes := AList.update key
             (mock_object (GetID n) (GetName n) (GetNamespace n) (GetLabels n) healthy) (mc_volumes c)\<rparr>))"

definition Mock_GetVolume :: "objkey \<Rightarrow> (mock_client, goerr + sobject) ext" where
  "Mock_GetVolume key c =
     (case mc_GetVolumeErr c of
        Some err \<Rightarrow> (Inl err, c)
      | None \<Rightarrow> (case map_of (mc_volumes c) key of None \<Rightarrow> (Inl ErrVolumeNotFound, c) | Some obj \<Rightarrow> (Inr obj, c)))"

text \<open>The error looked at is the one for listing nodes.\<close>

definition Mock_VolumeObjects :: "(mock_client, goerr + (objkey \<times> sobject) list) ext" where
  "Mock_VolumeObjects c =
     (case mc_ListNodesErr c of Some err \<Rightarrow> (Inl err, c) | None \<Rightarrow> (Inr (mc_volumes c), c))"

definition Mock_EnsureVolumeLabels :: "objkey \<Rightarrow> smap \<Rightarrow> (mock_client, error_or_nil) ext" where
  "Mock_EnsureVolumeLabels key labels c =
     (case mc_EnsureVolumeLabelsErr c of
        Some err \<Rightarrow> (Some err, c)
      | None \<Rightarrow>
          (case mock_labels (\<lambda>k. k = ReservedLabelReplicas \<or> k = ReservedLabelFailureMode) (entries labels) [] [] of
             (newLabels, errs) \<Rightarrow>
               (case map_of (mc_volumes c) key of
                  None \<Rightarrow> (Some ErrVolumeNotFound, c)
                | Some n \<Rightarrow>
                    (ErrorOrNil errs, c\<lparr>mc_volumes := AList.update key
                       (mock_object (GetID n) (GetName n) (GetNamespace n) (SMap newLabels) False) (mc_volumes c)\<rparr>))))"

section \<open>Shared volumes\<close>

definition mock_vol_key :: "string \<Rightarrow> string \<Rightarrow> string" where
  "mock_vol_key namespace ident = namespace @ ''/'' @ ident"

definition Mock_ListSharedVolumes :: "(mock_client, goerr + SharedVolume list) ext" where
  "Mock_ListSharedVolumes c =
     (case mc_SharedVolsErr c of Some err \<Rightarrow> (Inl err, c) | None \<Rightarrow> (Inr (map snd (mc_sharedvols c)), c))"

definition Mock_SetExternalEndpoint :: "string \<Rightarrow> string \<Rightarrow> string \<Rightarrow> (mock_client, error_or_nil) ext" where
  "Mock_SetExternalEndpoint ident namespace endpoint c =
     (case mc_SetEndpointErr c of
        Some err \<Rightarrow> (Some err, c)
      | None \<Rightarrow>
          (case map_of (mc_sharedvols c) (mock_vol_key namespace ident) of
             None \<Rightarrow> (Some ErrNotFound, c)
           | Some v \<Rightarrow>
               (None, c\<lparr>mc_sharedvols := AList.update (mock_vol_key namespace ident)
                  (v\<lparr>sv_ExternalEndpoint := endpoint\<rparr>) (mc_sharedvols c)\<rparr>)))"

definition Mock_Get :: "string \<Rightarrow> string \<Rightarrow> (mock_client, goerr + SharedVolume) ext" where
  "Mock_Get ident namespace c =
     (case mc_SharedVolErr c of
        Some err \<Rightarrow> (Inl err, c)
      | None \<Rightarrow>
          (case map_of (mc_sharedvols c) (mock_vol_key namespace ident) of
             None \<Rightarrow> (Inl ErrNotFound, c)
           | Some v \<Rightarrow> (Inr v, c)))"

definition Mock_Set :: "SharedVolume \<Rightarrow> (mock_client, SharedVolume) ext" where
  "Mock_Set v c =
     (v, c\<lparr>mc_sharedvols := AList.update (mock_vol_key (sv_Namespace v) (sv_ID v)) v (mc_sharedvols c)\<rparr>)"

definition Mock_Delete :: "string \<Rightarrow> string \<Rightarrow> (mock_client, unit) ext" where
  "Mock_Delete ident namespace c =
     ((), c\<lparr>mc_sharedvols := AList.delete (mock_vol_key namespace ident) (mc_sharedvols c)\<rparr>)"

text \<open>\<open>Reset\<close> keeps the volumes and five of the errors.\<close>

definition Mock_Reset :: "(mock_client, unit) ext" where
  "Mock_Reset c =
     ((), c\<lparr>mc_sharedvols := [], mc_namespaces := [], mc_nodes := [], mc_nodeLabels := SMap [],
            mc_DeleteNamespaceCallCount := [], mc_DeleteNodeCallCount := [],
            mc_ListNamespacesErr := None, mc_DeleteNamespaceErr := None, mc_ListNodesErr := None,
            mc_DeleteNodeErr := None, mc_EnsureNodeLabelsErr := None, mc_GetNodeLabelsErr := None,
            mc_SharedVolErr := None, mc_SharedVolsErr := None, mc_SetEndpointErr := None\<rparr>)"

section \<open>Random volumes\<close>

text \<open>\<open>intn n\<close> is \<open>rand.Intn(n)\<close>.\<close>

definition randomString :: "(nat \<Rightarrow> ('w, nat) ext) \<Rightarrow> nat \<Rightarrow> ('w, string) prog" where
  "randomString intn n =
     forP (\<lambda>i b. bindP (callP (intn 26)) (\<lambda>k. retP (b @ [''abcdefghijklmnopqrstuvwxyz'' ! k]))) [0..<n] ''''"

definition RandomVol :: "(nat \<Rightarrow> ('w, nat) ext) \<Rightarrow> 'w randsrc \<Rightarrow> ('w, SharedVolume) prog" where
  "RandomVol intn rand =
     bindP (randomString intn 32) (\<lambda>ident.
     bindP (uuid_New rand) (\<lambda>u.
     bindP (randomString intn 8) (\<lambda>pvcName.
     bindP (callP (intn 100)) (\<lambda>a. bindP (callP (intn 253)) (\<lambda>b. bindP (callP (intn 253)) (\<lambda>c.
     bindP (callP (intn 253)) (\<lambda>d. bindP (callP (intn 65534)) (\<lambda>p.
       retP \<lparr>sv_ID = ident, sv_ServiceName = ''pvc-'' @ uuid_String u, sv_PVCName = pvcName,
             sv_Namespace = ''default'',
             sv_InternalEndpoint = show_nat (a + 1) @ ''.'' @ show_nat (b + 1) @ ''.'' @ show_nat (c + 1) @ ''.'' @
               show_nat (d + 1) @ '':'' @ show_nat (p + 1),
             sv_ExternalEndpoint = ''''\<rparr>))))))))"

section \<open>The interfaces of the controllers\<close>

definition mock_node_deleter :: "mock_client node_deleter" where
  "mock_node_deleter =
     \<lparr>nd_DeleteNode = (\<lambda>key. callP (Mock_DeleteNode key)), nd_ListNodes = callP Mock_ListNodes\<rparr>"

definition mock_namespace_deleter :: "mock_client namespace_deleter" where
  "mock_namespace_deleter =
     \<lparr>nsd_DeleteNamespace = (\<lambda>key. callP (Mock_DeleteNamespace key)),
      nsd_ListNamespaces = callP Mock_ListNamespaces\<rparr>"

definition mock_node_labeller :: "mock_client node_labeller" where
  "mock_node_labeller =
     \<lparr>nlr_EnsureNodeLabels = (\<lambda>key labels. callP (Mock_EnsureNodeLabels key labels)),
      nlr_NodeObjects = callP Mock_NodeObjects\<rparr>"

definition mock_volume_labeller :: "mock_client volume_labeller" where
  "mock_volume_labeller =
     \<lparr>vlr_EnsureVolumeLabels = (\<lambda>key labels. callP (Mock_EnsureVolumeLabels key labels)),
      vlr_VolumeObjects = callP Mock_VolumeObjects\<rparr>"

definition mock_node_fencer :: "mock_client node_fencer" where
  "mock_node_fencer =
     \<lparr>nf_ListNodes = callP Mock_ListNodes, nf_GetVolume = (\<lambda>key. callP (Mock_GetVolume key))\<rparr>"

definition mock_volume_sharer :: "mock_client volume_sharer" where
  "mock_volume_sharer =
     \<lparr>vs_ListSharedVolumes = callP Mock_ListSharedVolumes,
      vs_SetExternalEndpoint = (\<lambda>ident ns e. callP (Mock_SetExternalEndpoint ident ns e))\<rparr>"

section \<open>Well-formedness\<close>

text \<open>
  Every map has one entry per key, and nodes, volumes and shared volumes are filed
  under the key that the object itself gives.
\<close>

definition filed :: "('v \<Rightarrow> 'k) \<Rightarrow> ('k \<times> 'v) list \<Rightarrow> bool" where
  "filed key m \<longleftrightarrow> distinct (map fst m) \<and> list_all (\<lambda>(k, v). k = key v) m"

definition wf_mock :: "mock_client \<Rightarrow> bool" where
  "wf_mock c \<longleftrightarrow>
     filed (\<lambda>v. mock_vol_key (sv_Namespace v) (sv_ID v)) (mc_sharedvols c) \<and>
     filed ObjectKeyFromObject (mc_nodes c) \<and> filed ObjectKeyFromObject (mc_volumes c) \<and>
     distinct (map fst (mc_namespaces c)) \<and> wf_smap (mc_nodeLabels c)"

text \<open>The fields with which a test makes operations fail.\<close>

datatype err_field =
    ListNamespacesErr | DeleteNamespaceErr | GetNodeErr | NodeObjectsErr | ListNodesErr | DeleteNodeErr
  | EnsureNodeLabelsErr | GetNodeLabelsErr | GetVolumeErr | VolumeObjectsErr | EnsureVolumeLabelsErr
  | SharedVolsErr | SharedVolErr | SetEndpointErr

primrec mock_err :: "mock_client \<Rightarrow> err_field \<Rightarrow> error_or_nil" where
  "mock_err c ListNamespacesErr = mc_ListNamespacesErr c"
| "mock_err c DeleteNamespaceErr = mc_DeleteNamespaceErr c"
| "mock_err c GetNodeErr = mc_GetNodeErr c"
| "mock_err c NodeObjectsErr = mc_NodeObjectsErr c"
| "mock_err c ListNodesErr = mc_ListNodesErr c"
| "mock_err c DeleteNodeErr = mc_DeleteNodeErr c"
| "mock_err c EnsureNodeLabelsErr = mc_EnsureNodeLabelsErr c"
| "mock_err c GetNodeLabelsErr = mc_GetNodeLabelsErr c"
| "mock_err c GetVolumeErr = mc_GetVolumeErr c"
| "mock_err c VolumeObjectsErr = mc_VolumeObjectsErr c"
| "mock_err c EnsureVolumeLabelsErr = mc_EnsureVolumeLabelsErr c"
| "mock_err c SharedVolsErr = mc_SharedVolsErr c"
| "mock_err c SharedVolErr = mc_SharedVolErr c"
| "mock_err c SetEndpointErr = mc_SetEndpointErr c"

primrec set_mock_err :: "err_field \<Rightarrow> error_or_nil \<Rightarrow> mock_client \<Rightarrow> mock_client" where
  "set_mock_err ListNamespacesErr e c = c\<lparr>mc_ListNamespacesErr := e\<rparr>"
| "set_mock_err DeleteNamespaceErr e c = c\<lparr>mc_DeleteNamespaceErr := e\<rparr>"
| "set_mock_err GetNodeErr e c = c\<lparr>mc_GetNodeErr := e\<rparr>"
| "set_mock_err NodeObjectsErr e c = c\<lparr>mc_NodeObjectsErr := e\<rparr>"
| "set_mock_err ListNodesErr e c = c\<lparr>mc_ListNodesErr := e\<rparr>"
| "set_mock_err DeleteNodeErr e c = c\<lparr>mc_DeleteNodeErr := e\<rparr>"
| "set_mock_err EnsureNodeLabelsErr e c = c\<lparr>mc_EnsureNodeLabelsErr := e\<rparr>"
| "set_mock_err GetNodeLabelsErr e c = c\<lparr>mc_GetNodeLabelsErr := e\<rparr>"
| "set_mock_err GetVolumeErr e c = c\<lparr>mc_GetVolumeErr := e\<rparr>"
| "set_mock_err VolumeObjectsErr e c = c\<lparr>mc_VolumeObjectsErr := e\<rparr>"
| "set_mock_err EnsureVolumeLabelsErr e c = c\<lparr>mc_EnsureVolumeLabelsErr := e\<rparr>"
| "set_mock_err SharedVolsErr e c = c\<lparr>mc_SharedVolsErr := e\<rparr>"
| "set_mock_err SharedVolErr e c = c\<lparr>mc_SharedVolErr := e\<rparr>"
| "set_mock_err SetEndpointErr e c = c\<lparr>mc_SetEndpointErr := e\<rparr>"

text \<open>
  What the tests and controllers do to the state, with the answers they get: an error or
  nil, whether the object was found, or nothing.
\<close>

datatype mock_op =
    AddNamespace objkey | DelNamespace objkey
  | AddNode sobject | DelNode objkey | NodeLabels objkey smap | NodeHealth objkey bool
  | AddVolume sobject | VolumeHealth objkey bool | VolumeLabels objkey smap
  | SetShared SharedVolume | SetEndpoint string string string | DelShared string string | ResetAll
  | Inject err_field error_or_nil

datatype mock_answer = AnsErr error_or_nil | AnsFound bool | AnsNone

primrec mock_do :: "mock_op \<Rightarrow> mock_client \<Rightarrow> mock_answer \<times> mock_client" where
  "mock_do (AddNamespace key) c = map_prod AnsErr id (Mock_AddNamespace key c)"
| "mock_do (DelNamespace key) c = map_prod AnsErr id (Mock_DeleteNamespace key c)"
| "mock_do (AddNode obj) c = map_prod AnsErr id (Mock_AddNode obj c)"
| "mock_do (DelNode key) c = map_prod AnsErr id (Mock_DeleteNode key c)"
| "mock_do (NodeLabels key labels) c = map_prod AnsErr id (Mock_EnsureNodeLabels key labels c)"
| "mock_do (NodeHealth key healthy) c = map_prod AnsFound id (Mock_UpdateNodeHealth key healthy c)"
| "mock_do (AddVolume obj) c = map_prod AnsErr id (Mock_AddVolume obj c)"
| "mock_do (VolumeHealth key healthy) c = map_prod AnsFound id (Mock_UpdateVolumeHealth key healthy c)"
| "mock_do (VolumeLabels key labels) c = map_prod AnsErr id (Mock_EnsureVolumeLabels key labels c)"
| "mock_do (SetShared v) c = map_prod (\<lambda>_. AnsNone) id (Mock_Set v c)"
| "mock_do (SetEndpoint ident ns e) c = map_prod AnsErr id (Mock_SetExternalEndpoint ident ns e c)"
| "mock_do (DelShared ident ns) c = map_prod (\<lambda>_. AnsNone) id (Mock_Delete ident ns c)"
| "mock_do ResetAll c = map_prod (\<lambda>_. AnsNone) id (Mock_Reset c)"
| "mock_do (Inject f e) c = (AnsNone, set_mock_err f e c)"

definition mock_step :: "mock_op \<Rightarrow> mock_client \<Rightarrow> mock_client" where
  "mock_step op c = snd (mock_do op c)"

section \<open>A specification with maps\<close>

text \<open>
  What the in-memory StorageOS is meant to be: finite maps of objects, the labels that
  were last put on a node, the numbers of deletions asked for, and the errors injected.
\<close>

record spec_state =
  sp_sharedvols :: "string \<rightharpoonup> SharedVolume"
  sp_namespaces :: "objkey \<rightharpoonup> sobject"
  sp_nodes :: "objkey \<rightharpoonup> sobject"
  sp_volumes :: "objkey \<rightharpoonup> sobject"
  sp_nodeLabels :: smap
  sp_nsDeletes :: "objkey \<Rightarrow> nat"
  sp_nodeDeletes :: "objkey \<Rightarrow> nat"
  sp_err :: "err_field \<Rightarrow> error_or_nil"

definition spec_init :: spec_state where
  "spec_init =
     \<lparr>sp_sharedvols = Map.empty, sp_namespaces = Map.empty, sp_nodes = Map.empty, sp_volumes = Map.empty,
      sp_nodeLabels = SMap [], sp_nsDeletes = (\<lambda>_. 0), sp_nodeDeletes = (\<lambda>_. 0), sp_err = (\<lambda>_. None)\<rparr>"

text \<open>The labels kept: those not reserved and the allowed ones; every other is an error.\<close>

definition label_kept :: "string set \<Rightarrow> string \<Rightarrow> bool" where
  "label_kept allowed k \<longleftrightarrow> \<not> IsReservedLabel k \<or> k \<in> allowed"

definition kept_labels :: "string set \<Rightarrow> smap \<Rightarrow> smap" where
  "kept_labels allowed labels =
     SMap (fold (\<lambda>kv. AList.update (fst kv) (snd kv)) (filter (\<lambda>kv. label_kept allowed (fst kv)) (entries labels)) [])"

definition label_errors :: "string set \<Rightarrow> smap \<Rightarrow> error_or_nil" where
  "label_errors allowed labels =
     ErrorOrNil (map (\<lambda>_. ErrReservedLabelUnknown) (filter (\<lambda>kv. \<not> label_kept allowed (fst kv)) (entries labels)))"

definition with_health :: "bool \<Rightarrow> sobject \<Rightarrow> sobject" where
  "with_health healthy n = n\<lparr>IsHealthy := healthy\<rparr>"

text \<open>The errors that a reset leaves as they were.\<close>

definition kept_by_reset :: "err_field set" where
  "kept_by_reset = {GetNodeErr, NodeObjectsErr, GetVolumeErr, VolumeObjectsErr, EnsureVolumeLabelsErr}"

primrec spec_do :: "mock_op \<Rightarrow> spec_state \<Rightarrow> mock_answer \<times> spec_state" where
  "spec_do (AddNamespace key) s =
     (AnsErr None, s\<lparr>sp_namespaces := (sp_namespaces s)(key \<mapsto> mock_object '''' (key_Name key) '''' NilMap False)\<rparr>)"
| "spec_do (DelNamespace key) s =
     (let s = s\<lparr>sp_nsDeletes := (sp_nsDeletes s)(key := Suc (sp_nsDeletes s key))\<rparr> in
      case sp_err s DeleteNamespaceErr of
        Some e \<Rightarrow> (AnsErr (Some e), s)
      | None \<Rightarrow> if key \<in> dom (sp_namespaces s)
                then (AnsErr None, s\<lparr>sp_namespaces := (sp_namespaces s)(key := None)\<rparr>)
                else (AnsErr (Some ErrNamespaceNotFound), s))"
| "spec_do (AddNode n) s = (AnsErr None, s\<lparr>sp_nodes := (sp_nodes s)(ObjectKeyFromObject n \<mapsto> n)\<rparr>)"
| "spec_do (DelNode key) s =
     (let s = s\<lparr>sp_nodeDeletes := (sp_nodeDeletes s)(key := Suc (sp_nodeDeletes s key))\<rparr> in
      case sp_err s DeleteNodeErr of
        Some e \<Rightarrow> (AnsErr (Some e), s)
      | None \<Rightarrow> if key \<in> dom (sp_nodes s)
                then (AnsErr None, s\<lparr>sp_nodes := (sp_nodes s)(key := None)\<rparr>)
                else (AnsErr (Some ErrNodeNotFound), s))"
| "spec_do (NodeLabels key labels) s =
     (case sp_err s EnsureNodeLabelsErr of
        Some e \<Rightarrow> (AnsErr (Some e), s)
      | None \<Rightarrow> (AnsErr (label_errors {ReservedLabelComputeOnly} labels),
                s\<lparr>sp_nodeLabels := kept_labels {ReservedLabelComputeOnly} labels\<rparr>))"
| "spec_do (NodeHealth key healthy) s =
     (AnsFound (key \<in> dom (sp_nodes s)),
      s\<lparr>sp_nodes := (sp_nodes s)(key := map_option (with_health healthy) (sp_nodes s key))\<rparr>)"
| "spec_do (AddVolume n) s = (AnsErr None, s\<lparr>sp_volumes := (sp_volumes s)(ObjectKeyFromObject n \<mapsto> n)\<rparr>)"
| "spec_do (VolumeHealth key healthy) s =
     (AnsFound (key \<in> dom (sp_volumes s)),
      s\<lparr>sp_volumes := (sp_volumes s)(key := map_option (with_health healthy) (sp_volumes s key))\<rparr>)"
| "spec_do (VolumeLabels key labels) s =
     (let allowed = {ReservedLabelReplicas, ReservedLabelFailureMode} in
      case sp_err s EnsureVolumeLabelsErr of
        Some e \<Rightarrow> (AnsErr (Some e), s)
      | None \<Rightarrow>
          (case sp_volumes s key of
             None \<Rightarrow> (AnsErr (Some ErrVolumeNotFound), s)
           | Some n \<Rightarrow> (AnsErr (label_errors allowed labels),
               s\<lparr>sp_volumes := (sp_volumes s)(key \<mapsto> n\<lparr>GetLabels := kept_labels allowed labels, IsHealthy := False\<rparr>)\<rparr>)))"
| "spec_do (SetShared v) s =
     (AnsNone, s\<lparr>sp_sharedvols := (sp_sharedvols s)(mock_vol_key (sv_Namespace v) (sv_ID v) \<mapsto> v)\<rparr>)"
| "spec_do (SetEndpoint ident ns e) s =
     (case sp_err s SetEndpointErr of
        Some err \<Rightarrow> (AnsErr (Some err), s)
      | None \<Rightarrow>
          (case sp_sharedvols s (mock_vol_key ns ident) of
             None \<Rightarrow> (AnsErr (Some ErrNotFound), s)
           | Some v \<Rightarrow> (AnsErr None,
               s\<lparr>sp_sharedvols := (sp_sharedvols s)(mock_vol_key ns ident \<mapsto> v\<lparr>sv_ExternalEndpoint := e\<rparr>)\<rparr>)))"
| "spec_do (DelShared ident ns) s =
     (AnsNone, s\<lparr>sp_sharedvols := (sp_sharedvols s)(mock_vol_key ns ident := None)\<rparr>)"
| "spec_do ResetAll s =
     (AnsNone, spec_init\<lparr>sp_volumes := sp_volumes s, sp_err := (\<lambda>f. if f \<in> kept_by_reset then sp_err s f else None)\<rparr>)"
| "spec_do (Inject f e) s = (AnsNone, s\<lparr>sp_err := (sp_err s)(f := e)\<rparr>)"

text \<open>The specification's view of the state, and of the answers to the operations that only read.\<close>

definition call_count :: "(objkey \<times> nat) list \<Rightarrow> objkey \<Rightarrow> nat" where
  "call_count m key = (case map_of m key of Some n \<Rightarrow> n | None \<Rightarrow> 0)"

definition mock_abs :: "mock_client \<Rightarrow> spec_state" where
  "mock_abs c =
     \<lparr>sp_sharedvols = map_of (mc_sharedvols c), sp_namespaces = map_of (mc_namespaces c),
      sp_nodes = map_of (mc_nodes c), sp_volumes = map_of (mc_volumes c), sp_nodeLabels = mc_nodeLabels c,
      sp_nsDeletes = call_count (mc_DeleteNamespaceCallCount c),
      sp_nodeDeletes = call_count (mc_DeleteNodeCallCount c), sp_err = mock_err c\<rparr>"

definition or_injected :: "error_or_nil \<Rightarrow> 'a \<Rightarrow> goerr + 'a" where
  "or_injected e x = (case e of Some e \<Rightarrow> Inl e | None \<Rightarrow> Inr x)"

definition looked_up :: "error_or_nil \<Rightarrow> goerr \<Rightarrow> 'a option \<Rightarrow> goerr + 'a" where
  "looked_up e missing x = (case e of Some e \<Rightarrow> Inl e | None \<Rightarrow> (case x of None \<Rightarrow> Inl missing | Some x \<Rightarrow> Inr x))"

definition mock_reads :: "mock_client \<Rightarrow> spec_state \<Rightarrow> bool" where
  "mock_reads c s \<longleftrightarrow>
     (\<exists>nss. Mock_ListNamespaces c = (or_injected (sp_err s ListNamespacesErr) nss, c) \<and>
            set nss = ran (sp_namespaces s) \<and> length nss = card (dom (sp_namespaces s))) \<and>
     (\<exists>objs. Mock_NodeObjects c = (or_injected (sp_err s NodeObjectsErr) objs, c) \<and> map_of objs = sp_nodes s \<and>
             Mock_ListNodes c = (or_injected (sp_err s ListNodesErr) (map (mock_nodeCR \<circ> snd) objs), c)) \<and>
     (\<exists>objs. Mock_VolumeObjects c = (or_injected (sp_err s ListNodesErr) objs, c) \<and> map_of objs = sp_volumes s) \<and>
     (\<exists>vols. Mock_ListSharedVolumes c = (or_injected (sp_err s SharedVolsErr) vols, c) \<and>
             set vols = ran (sp_sharedvols s) \<and> length vols = card (dom (sp_sharedvols s))) \<and>
     (\<forall>key. Mock_NamespaceExists key c \<longleftrightarrow> key \<in> dom (sp_namespaces s)) \<and>
     (\<forall>key. Mock_NodeExists key c \<longleftrightarrow> key \<in> dom (sp_nodes s)) \<and>
     (\<forall>key. Mock_GetNodeLabels key c = (or_injected (sp_err s GetNodeLabelsErr) (sp_nodeLabels s), c)) \<and>
     (\<forall>key. Mock_GetVolume key c = (looked_up (sp_err s GetVolumeErr) ErrVolumeNotFound (sp_volumes s key), c)) \<and>
     (\<forall>ident ns. Mock_Get ident ns c =
        (looked_up (sp_err s SharedVolErr) ErrNotFound (sp_sharedvols s (mock_vol_key ns ident)), c))"

lemma list_all_update: "list_all P m \<Longrightarrow> P (k, v) \<Longrightarrow> list_all P (AList.update k v m)"
  by (induction m) auto

lemma filed_update: "filed key m \<Longrightarrow> k = key v \<Longrightarrow> filed key (AList.update k v m)"
  by (simp add: filed_def AList.distinct_update list_all_update)

lemma filed_delete: "filed key m \<Longrightarrow> filed key (AList.delete k m)"
  by (induction m) (auto simp: filed_def AList.delete_eq)

lemma filed_lookup: "filed key m \<Longrightarrow> map_of m k = Some v \<Longrightarrow> key v = k"
  by (auto simp: filed_def list_all_iff dest!: map_of_SomeD)

lemma filed_Nil [simp]: "filed key []"
  by (simp add: filed_def)

lemma distinct_mock_labels:
  "distinct (map fst acc) \<Longrightarrow> distinct (map fst (fst (mock_labels allowed kvs acc errs)))"
  by (induction kvs arbitrary: acc errs) (simp_all add: AList.distinct_update)

lemma wf_NewMockClient: "wf_mock NewMockClient"
  by (simp add: wf_mock_def NewMockClient_def wf_smap_def)

lemmas mock_op_defs =
  Mock_AddNamespace_def Mock_DeleteNamespace_def Mock_AddNode_def Mock_DeleteNode_def
  Mock_EnsureNodeLabels_def Mock_UpdateNodeHealth_def Mock_AddVolume_def Mock_UpdateVolumeHealth_def
  Mock_EnsureVolumeLabels_def Mock_Set_def Mock_SetExternalEndpoint_def Mock_Delete_def Mock_Reset_def

lemma key_mock_object [simp]:
  "ObjectKeyFromObject (mock_object ident name ns labels healthy) = mk_key ns name"
  by (simp add: ObjectKeyFromObject_def mock_object_def)

lemma same_key: "filed ObjectKeyFromObject m \<Longrightarrow> map_of m k = Some n \<Longrightarrow> mk_key (GetNamespace n) (GetName n) = k"
  by (drule (1) filed_lookup) (simp add: ObjectKeyFromObject_def)

lemma filed_replace:
  "filed ObjectKeyFromObject m \<Longrightarrow> map_of m k = Some n \<Longrightarrow>
     filed ObjectKeyFromObject (AList.update k (mock_object ident (GetName n) (GetNamespace n) l h) m)"
  by (rule filed_update) (simp_all add: same_key)

lemma filed_endpoint:
  assumes "filed (\<lambda>v. mock_vol_key (sv_Namespace v) (sv_ID v)) m" and "map_of m k = Some v"
  shows "filed (\<lambda>v. mock_vol_key (sv_Namespace v) (sv_ID v)) (AList.update k (v\<lparr>sv_ExternalEndpoint := e\<rparr>) m)"
  using filed_lookup [OF assms] assms(1) by (intro filed_update) simp_all

lemma set_mock_err_sel [simp]:
  "mc_sharedvols (set_mock_err f e c) = mc_sharedvols c" "mc_namespaces (set_mock_err f e c) = mc_namespaces c"
  "mc_nodes (set_mock_err f e c) = mc_nodes c" "mc_volumes (set_mock_err f e c) = mc_volumes c"
  "mc_nodeLabels (set_mock_err f e c) = mc_nodeLabels c"
  "mc_DeleteNamespaceCallCount (set_mock_err f e c) = mc_DeleteNamespaceCallCount c"
  "mc_DeleteNodeCallCount (set_mock_err f e c) = mc_DeleteNodeCallCount c"
  "mock_err (set_mock_err f e c) = (mock_err c)(f := e)"
proof -
  show "mock_err (set_mock_err f e c) = (mock_err c)(f := e)"
  proof
    fix g show "mock_err (set_mock_err f e c) g = ((mock_err c)(f := e)) g"
      by (cases f; cases g) simp_all
  qed
qed (cases f; simp)+

lemma wf_mock_step: "wf_mock c \<Longrightarrow> wf_mock (mock_step op c)"
proof (cases op)
  case (NodeLabels key labels)
  assume "wf_mock c"
  with NodeLabels distinct_mock_labels [of "[]" "\<lambda>k. k = ReservedLabelComputeOnly" "entries labels" "[]"]
  show ?thesis
    by (auto simp: mock_step_def wf_mock_def Mock_EnsureNodeLabels_def wf_smap_def split: option.split prod.split)
next
  case (Inject f e)
  then show "wf_mock c \<Longrightarrow> ?thesis" by (simp add: mock_step_def wf_mock_def)
qed (auto simp: mock_step_def mock_op_defs wf_mock_def Let_def filed_delete filed_update filed_replace filed_endpoint
      AList.distinct_update AList.distinct_delete wf_smap_def split: option.split prod.split)

section \<open>The operations refine the specification\<close>

lemma mock_labels_kept:
  "mock_labels (\<lambda>k. k \<in> allowed) kvs acc errs =
     (fold (\<lambda>kv. AList.update (fst kv) (snd kv)) (filter (\<lambda>kv. label_kept allowed (fst kv)) kvs) acc,
      errs @ map (\<lambda>_. ErrReservedLabelUnknown) (filter (\<lambda>kv. \<not> label_kept allowed (fst kv)) kvs))"
  by (induction kvs arbitrary: acc errs) (auto simp: label_kept_def Append_def)

lemma mock_labels_spec:
  "mock_labels (\<lambda>k. k = a) (entries labels) [] [] =
     (entries (kept_labels {a} labels), map (\<lambda>_. ErrReservedLabelUnknown)
        (filter (\<lambda>kv. \<not> label_kept {a} (fst kv)) (entries labels)))"
  "mock_labels (\<lambda>k. k = a \<or> k = b) (entries labels) [] [] =
     (entries (kept_labels {a, b} labels), map (\<lambda>_. ErrReservedLabelUnknown)
        (filter (\<lambda>kv. \<not> label_kept {a, b} (fst kv)) (entries labels)))"
  using mock_labels_kept [of "{a}" "entries labels" "[]" "[]"] mock_labels_kept [of "{a, b}" "entries labels" "[]" "[]"]
  by (simp_all add: kept_labels_def)

lemma SMap_entries_kept [simp]: "SMap (entries (kept_labels allowed labels)) = kept_labels allowed labels"
  by (simp add: kept_labels_def)

text \<open>On a map whose keys are distinct the kept labels are a restriction of it.\<close>

lemma kept_labels_get:
  assumes "wf_smap labels"
  shows "smap_get (kept_labels allowed labels) k = (if label_kept allowed k then smap_get labels k else None)"
proof -
  have fold: "map_of (fold (\<lambda>kv. AList.update (fst kv) (snd kv)) kvs acc) k =
      (case map_of kvs k of Some v \<Rightarrow> Some v | None \<Rightarrow> map_of acc k)"
    if "distinct (map fst kvs)" for kvs and acc :: "(string \<times> string) list"
    using that
  proof (induction kvs arbitrary: acc)
    case (Cons kv kvs)
    then have "map_of kvs (fst kv) = None" by (simp add: map_of_eq_None_iff)
    with Cons show ?case by (cases kv) (auto simp: AList.update_conv' split: option.split)
  qed simp
  have "distinct (map fst (filter (\<lambda>kv. label_kept allowed (fst kv)) (entries labels)))"
    using assms by (simp add: wf_smap_def distinct_map_filter)
  from fold [OF this, of "[]"] show ?thesis
    using map_of_filter [of "label_kept allowed" "entries labels"]
    by (auto simp: kept_labels_def smap_get_def restrict_map_def split: option.split)
qed

lemma call_count_incr: "call_count (incr_count key m) = (call_count m)(key := Suc (call_count m key))"
  by (auto simp: call_count_def incr_count_def AList.update_conv' fun_eq_iff)

lemma mock_object_health [simp]:
  "mock_object (GetID n) (GetName n) (GetNamespace n) (GetLabels n) h = with_health h n"
  "mock_object (GetID n) (GetName n) (GetNamespace n) l h = n\<lparr>GetLabels := l, IsHealthy := h\<rparr>"
  by (simp_all add: mock_object_def with_health_def)

lemma mock_abs_init: "mock_abs NewMockClient = spec_init"
proof -
  have "mock_err NewMockClient f = None" for f by (cases f) (simp_all add: NewMockClient_def)
  then show ?thesis by (simp add: mock_abs_def spec_init_def NewMockClient_def call_count_def fun_eq_iff)
qed

lemma mock_err_frame:
  "mock_err (c\<lparr>mc_sharedvols := a\<rparr>) = mock_err c" "mock_err (c\<lparr>mc_namespaces := b\<rparr>) = mock_err c"
  "mock_err (c\<lparr>mc_nodes := d\<rparr>) = mock_err c" "mock_err (c\<lparr>mc_volumes := v\<rparr>) = mock_err c"
  "mock_err (c\<lparr>mc_nodeLabels := l\<rparr>) = mock_err c"
  "mock_err (c\<lparr>mc_DeleteNamespaceCallCount := n\<rparr>) = mock_err c"
  "mock_err (c\<lparr>mc_DeleteNodeCallCount := n\<rparr>) = mock_err c"
proof -
  have ext: "(\<And>f. mock_err x f = mock_err y f) \<Longrightarrow> mock_err x = mock_err y" for x y by (rule ext)
  show "mock_err (c\<lparr>mc_sharedvols := a\<rparr>) = mock_err c" "mock_err (c\<lparr>mc_namespaces := b\<rparr>) = mock_err c"
    "mock_err (c\<lparr>mc_nodes := d\<rparr>) = mock_err c" "mock_err (c\<lparr>mc_volumes := v\<rparr>) = mock_err c"
    "mock_err (c\<lparr>mc_nodeLabels := l\<rparr>) = mock_err c" "mock_err (c\<lparr>mc_DeleteNamespaceCallCount := n\<rparr>) = mock_err c"
    "mock_err (c\<lparr>mc_DeleteNodeCallCount := n\<rparr>) = mock_err c"
    by (rule ext, rename_tac f, case_tac f; simp)+
qed

lemma mock_Reset_abs: "mock_abs (snd (Mock_Reset c)) = snd (spec_do ResetAll (mock_abs c))"
proof -
  have "mock_err (snd (Mock_Reset c)) f = (if f \<in> kept_by_reset then mock_err c f else None)" for f
    by (cases f) (simp_all add: Mock_Reset_def kept_by_reset_def)
  then show ?thesis
    by (simp add: mock_abs_def spec_init_def Mock_Reset_def call_count_def fun_eq_iff)
qed

lemmas mock_abs_simps =
  mock_abs_def map_prod_def Let_def mock_err_frame call_count_incr AList.update_conv' AList.delete_conv'
  Mock_NamespaceExists_def Mock_NodeExists_def mock_labels_spec label_errors_def with_health_def

lemma mock_do_refines:
  "(fst (mock_do op c), mock_abs (snd (mock_do op c))) = spec_do op (mock_abs c)"
proof (cases op)
  case ResetAll
  then show ?thesis using mock_Reset_abs [of c] by (cases "Mock_Reset c") (simp add: map_prod_def)
next
  case (Inject f e)
  then show ?thesis by (simp add: mock_abs_def)
qed (auto simp: mock_op_defs mock_abs_simps domIff fun_upd_idem split: option.split)

lemma ran_alist: "distinct (map fst m) \<Longrightarrow> snd ` set m = ran (map_of m) \<and> length m = card (dom (map_of m))"
  using distinct_card [of "map fst m"] by (simp add: ran_distinct dom_map_of_conv_image_fst)

lemma mock_reads_abs:
  assumes "wf_mock c"
  shows "mock_reads c (mock_abs c)"
proof -
  have ns: "snd ` set (mc_namespaces c) = ran (map_of (mc_namespaces c)) \<and>
      length (mc_namespaces c) = card (dom (map_of (mc_namespaces c)))"
    and shared: "snd ` set (mc_sharedvols c) = ran (map_of (mc_sharedvols c)) \<and>
      length (mc_sharedvols c) = card (dom (map_of (mc_sharedvols c)))"
    using assms by (auto simp: wf_mock_def filed_def intro!: ran_alist)
  note defs = mock_abs_def or_injected_def looked_up_def Mock_ListNamespaces_def Mock_NodeObjects_def
    Mock_ListNodes_def Mock_VolumeObjects_def Mock_ListSharedVolumes_def Mock_NamespaceExists_def
    Mock_NodeExists_def Mock_GetNodeLabels_def Mock_GetVolume_def Mock_Get_def domIff
  show ?thesis
    unfolding mock_reads_def
    apply (intro conjI allI)
    subgoal using ns by (intro exI [of _ "map snd (mc_namespaces c)"]) (simp add: defs split: option.split)
    subgoal by (intro exI [of _ "mc_nodes c"]) (simp add: defs comp_def case_prod_beta split: option.split)
    subgoal by (intro exI [of _ "mc_volumes c"]) (simp add: defs split: option.split)
    subgoal using shared by (intro exI [of _ "map snd (mc_sharedvols c)"]) (simp add: defs split: option.split)
    by (simp_all add: defs split: option.split)
qed

text \<open>
  C37. The in-memory StorageOS behaves like finite maps. After any sequence of
  operations of the tests and the controllers, errors injected by a test among them,
  its state is the one the specification computes, every further operation gives the
  answer the specification gives and leads to the specified state, and all that is
  listed or looked up is what is in the maps: an added object is found under its key,
  a deleted one is not, a health or label update changes that of the one object, an
  endpoint that was set is the one read back, a reset empties all but the volumes, and an
  injected error is the answer without any effect but the count of deletions. The
  state stays well-formed: one entry per key, and nodes, volumes and shared volumes
  filed under their own keys.
\<close>

theorem mock_refines_maps:
  "let c = fold mock_step ops NewMockClient; s = fold (\<lambda>op s. snd (spec_do op s)) ops spec_init
   in wf_mock c \<and> mock_abs c = s \<and> mock_reads c s \<and>
      (fst (mock_do op c), mock_abs (snd (mock_do op c))) = spec_do op s"
proof -
  have "wf_mock (fold mock_step ops c) \<and> mock_abs (fold mock_step ops c) = fold (\<lambda>op s. snd (spec_do op s)) ops (mock_abs c)"
    if "wf_mock c" for c
    using that
  proof (induction ops arbitrary: c)
    case Nil
    then show ?case by simp
  next
    case (Cons op ops)
    from mock_do_refines [of op c] have "mock_abs (mock_step op c) = snd (spec_do op (mock_abs c))"
      unfolding mock_step_def by (metis snd_conv)
    with Cons.IH [OF wf_mock_step [OF Cons.prems]] show ?case by simp
  qed
  from this [OF wf_NewMockClient] have
    "wf_mock (fold mock_step ops NewMockClient)"
    "mock_abs (fold mock_step ops NewMockClient) = fold (\<lambda>op s. snd (spec_do op s)) ops spec_init"
    by (simp_all add: mock_abs_init)
  with mock_reads_abs mock_do_refines [of op "fold mock_step ops NewMockClient"] show ?thesis
    unfolding Let_def by metis
qed

section \<open>Garbage collection as an operation on maps\<close>

lemma nodes_DeleteNode:
  assumes "mc_DeleteNodeErr m = None"
  shows "\<exists>m' err. Mock_DeleteNode key m = (err, m') \<and> err \<in> {None, Some ErrNodeNotFound} \<and>
           mc_nodes m' = AList.delete key (mc_nodes m) \<and> mc_DeleteNodeErr m' = None \<and>
           mc_namespaces m' = mc_namespaces m \<and> mc_volumes m' = mc_volumes m \<and>
           mc_sharedvols m' = mc_sharedvols m \<and> mc_nodeLabels m' = mc_nodeLabels m"
proof (cases "map_of (mc_nodes m) key")
  case None
  then have "key \<notin> fst ` set (mc_nodes m)" by (simp add: map_of_eq_None_iff)
  then have "AList.delete key (mc_nodes m) = mc_nodes m" by (simp add: AList.delete_idem)
  with None assms show ?thesis by (simp add: Mock_DeleteNode_def Mock_NodeExists_def)
next
  case (Some n)
  with assms show ?thesis by (simp add: Mock_DeleteNode_def Mock_NodeExists_def)
qed

text \<open>Deleting a list of keys through the controller removes exactly these keys.\<close>

lemma mock_delete_all:
  assumes "mc_DeleteNodeErr m = None"
  shows "\<exists>m'. forP (\<lambda>obj u. bindP (NodeDelete_Delete mock_node_deleter (new_meta obj)) (\<lambda>_. retP ())) keys () m = (Ret (), m') \<and>
           mc_nodes m' = filter (\<lambda>kn. fst kn \<notin> set keys) (mc_nodes m) \<and>
           mc_namespaces m' = mc_namespaces m \<and> mc_volumes m' = mc_volumes m \<and>
           mc_sharedvols m' = mc_sharedvols m \<and> mc_nodeLabels m' = mc_nodeLabels m"
  using assms
proof (induction keys arbitrary: m)
  case Nil
  show ?case by (simp add: retP_run)
next
  case (Cons k ks)
  from nodes_DeleteNode [OF Cons.prems, of k] obtain m1 err where
    d: "Mock_DeleteNode k m = (err, m1)" "err \<in> {None, Some ErrNodeNotFound}"
      "mc_nodes m1 = AList.delete k (mc_nodes m)" "mc_DeleteNodeErr m1 = None"
      "mc_namespaces m1 = mc_namespaces m" "mc_volumes m1 = mc_volumes m" "mc_sharedvols m1 = mc_sharedvols m" "mc_nodeLabels m1 = mc_nodeLabels m"
    by blast
  have "meta_key (new_meta k) = k" by (cases k) (simp add: new_meta_def meta_key_def)
  with d have "NodeDelete_Delete mock_node_deleter (new_meta k) m = (Ret None, m1)"
    by (auto simp: NodeDelete_Delete_def mock_node_deleter_def bindP_run retP_run)
  with Cons.IH [OF d(4)] d show ?case
    by (auto simp: bindP_run retP_run AList.delete_eq intro!: filter_cong)
qed

lemma mock_List:
  assumes "mc_ListNodesErr m = None" and "wf_mock m"
    and "list_all (\<lambda>(k, n). GetNamespace n = '''') (mc_nodes m)"
  shows "NodeDelete_List mock_node_deleter m = (Ret (Inr (map fst (mc_nodes m))), m)"
proof -
  have "map (\<lambda>x. mk_key '''' (cr_Name (case x of (k, n) \<Rightarrow> mock_nodeCR n))) (mc_nodes m) = map fst (mc_nodes m)"
    using assms(2,3)
    by (fastforce simp: wf_mock_def filed_def list_all_iff mock_nodeCR_def ObjectKeyFromObject_def)
  then show ?thesis
    using assms(1) by (simp add: NodeDelete_List_def mock_node_deleter_def Mock_ListNodes_def tryP_run retP_run comp_def)
qed

text \<open>
  On the in-memory StorageOS, a garbage collection is the restriction of a map:
  with well-formed state and no injected errors, the nodes afterwards are those
  whose keys Kubernetes listed, with nothing else changed in the nodes that stay,
  the namespaces, the volumes and the shared volumes; it always completes.
\<close>

theorem mock_node_gc:
  assumes "wf_mock m" and "mc_ListNodesErr m = None" and "mc_DeleteNodeErr m = None"
    and "list_all (\<lambda>(k, n). GetNamespace n = '''') (mc_nodes m)"
  shows "\<exists>m'. collectGarbage (meta_kind getObj (\<lambda>w. (Inr objs, w))) (NodeDelete_Controller mock_node_deleter) m = (Ret (), m') \<and>
           map_of (mc_nodes m') = map_of (mc_nodes m) |` (meta_key ` set objs) \<and>
           mc_namespaces m' = mc_namespaces m \<and> mc_volumes m' = mc_volumes m \<and>
           mc_sharedvols m' = mc_sharedvols m \<and> mc_nodeLabels m' = mc_nodeLabels m \<and> wf_mock m'"
proof -
  let ?keys = "filter (\<lambda>k. k \<notin> set (map meta_key objs)) (map fst (mc_nodes m))"
  from mock_delete_all [OF assms(3), of ?keys] obtain m' where
    run: "forP (\<lambda>obj u. bindP (NodeDelete_Delete mock_node_deleter (new_meta obj)) (\<lambda>_. retP ())) ?keys () m = (Ret (), m')"
    and nodes: "mc_nodes m' = filter (\<lambda>kn. fst kn \<notin> set ?keys) (mc_nodes m)"
    and rest: "mc_namespaces m' = mc_namespaces m" "mc_volumes m' = mc_volumes m" "mc_sharedvols m' = mc_sharedvols m \<and> mc_nodeLabels m' = mc_nodeLabels m"
    by blast
  have nodes': "mc_nodes m' = filter (\<lambda>kn. fst kn \<in> meta_key ` set objs) (mc_nodes m)"
    unfolding nodes by (rule filter_cong) auto
  have "collectGarbage (meta_kind getObj (\<lambda>w. (Inr objs, w))) (NodeDelete_Controller mock_node_deleter) m = (Ret (), m')"
    using run mock_List [OF assms(2,1,4)]
    by (simp add: collectGarbage_def NodeDelete_Controller_def Let_def bindP_run NamespacedNamesDiff_filter)
  moreover have "map_of (mc_nodes m') = map_of (mc_nodes m) |` (meta_key ` set objs)"
    unfolding nodes' using map_of_filter [of "\<lambda>k. k \<in> meta_key ` set objs" "mc_nodes m"] by simp
  moreover have "wf_mock m'"
    using assms(1) rest nodes' by (auto simp: wf_mock_def filed_def distinct_map_filter list_all_iff)
  ultimately show ?thesis using rest by blast
qed

theorem mock_node_gc_witness:
  "\<exists>m'. collectGarbage (meta_kind (\<lambda>k w. (Inl not_found, w)) (\<lambda>w. (Inr [empty_meta\<lparr>meta_Name := ''a''\<rparr>], w)))
          (NodeDelete_Controller mock_node_deleter)
          (fold mock_step [AddNode (mock_object ''1'' ''a'' '''' NilMap True),
                           AddNode (mock_object ''2'' ''b'' '''' NilMap True)] NewMockClient) = (Ret (), m') \<and>
        map_of (mc_nodes m') (mk_key '''' ''a'') = Some (mock_object ''1'' ''a'' '''' NilMap True) \<and>
        map_of (mc_nodes m') (mk_key '''' ''b'') = None"
proof -
  let ?m = "fold mock_step [AddNode (mock_object ''1'' ''a'' '''' NilMap True),
                           AddNode (mock_object ''2'' ''b'' '''' NilMap True)] NewMockClient"
  have nodes: "mc_nodes ?m = [(mk_key '''' ''a'', mock_object ''1'' ''a'' '''' NilMap True),
                              (mk_key '''' ''b'', mock_object ''2'' ''b'' '''' NilMap True)]"
    and errs: "mc_ListNodesErr ?m = None" "mc_DeleteNodeErr ?m = None"
    by (simp_all add: NewMockClient_def Mock_AddNode_def mock_step_def)
  have wf: "wf_mock ?m" by (simp add: wf_mock_step wf_NewMockClient)
  have "list_all (\<lambda>(k, n). GetNamespace n = '''') (mc_nodes ?m)"
    unfolding nodes by (simp add: mock_object_def)
  from mock_node_gc [OF wf errs this, of "\<lambda>k w. (Inl not_found, w)" "[empty_meta\<lparr>meta_Name := ''a''\<rparr>]"]
  show ?thesis
    unfolding nodes by (auto simp: meta_key_def empty_meta_def restrict_map_def)
qed

end
