(* ===== verification/Gomock.thy ===== *)
theory Gomock
  imports Shared_Volume
begin

text \<open>
  The controller of the vendored \<open>github.com/golang/mock/gomock\<close>, which the mocks of the
  repository forward to (\<open>controller.go\<close>, \<open>callset.go\<close>, \<open>call.go\<close>, \<open>matchers.go\<close>), as far
  as their tests use it. A call object is a pointer: its address is its place in the
  list of all calls made so far, so calls are told apart also when they are equal.
  \<open>T.Fatalf\<close> ends the goroutine of the test; it is the panic of the program that
  called it, and the failure of the test is remembered. Orderings between calls
  (\<open>After\<close>, \<open>InOrder\<close>), actions other than \<open>Return\<close> and variadic methods are not used with
  these mocks and left out.
\<close>

section \<open>Values that cross a mock\<close>

text \<open>
  The arguments of the mocked methods. A nil pointer and a nil interface are
  \<open>ANil\<close>; an options structure is known by the name of its type, and is empty.
\<close>

datatype (plugins only: code size) garg =
    ANil
  | ACtx ctx
  | AString string
  | AKey objkey
  | AMap smap
  | AOpts string
  | AAuthUserData string string
  | AUpdateNodeData smap string
  | ASetComputeOnlyNodeData bool string
  | AUpdateVolumeData smap string
  | ASetReplicasRequest uint64 string
  | ASetFailureModeRequest string uint64 string
  | ANfsVolumeMountEndpoint string string

text \<open>The results, and the types that a mocked method declares for them.\<close>

datatype (plugins only: code size) gret =
    RNil
  | RString string
  | RBool bool
  | RMap smap
  | RNode node
  | RVolume volume
  | RUserSession
  | RAcceptedMessage
  | RNodes "node list"
  | RNamespaces "namespace list"
  | RVolumes "volume list"
  | RResponse http_response
  | RError goerr
  | RObject sobject
  | RObjects "sobject list"
  | RClientObjects "NodeCR list"
  | RObjectMap "(objkey \<times> sobject) list"
  | RSharedVolumes "SharedVolume list"

datatype gtype =
    TString | TBool | TMap | TNode | TVolume | TUserSession | TAcceptedMessage | TNodes | TNamespaces
  | TVolumes | TResponse | TError | TObject | TObjects | TClientObjects | TObjectMap | TSharedVolumes

text \<open>\<open>reflect.TypeOf\<close>, which has no answer for a nil interface.\<close>

primrec TypeOf :: "gret \<Rightarrow> gtype option" where
  "TypeOf RNil = None"
| "TypeOf (RString s) = Some TString"
| "TypeOf (RBool b) = Some TBool"
| "TypeOf (RMap m) = Some TMap"
| "TypeOf (RNode n) = Some TNode"
| "TypeOf (RVolume v) = Some TVolume"
| "TypeOf RUserSession = Some TUserSession"
| "TypeOf RAcceptedMessage = Some TAcceptedMessage"
| "TypeOf (RNodes ns) = Some TNodes"
| "TypeOf (RNamespaces ns) = Some TNamespaces"
| "TypeOf (RVolumes vs) = Some TVolumes"
| "TypeOf (RResponse r) = Some TResponse"
| "TypeOf (RError e) = Some TError"
| "TypeOf (RObject ob) = Some TObject"
| "TypeOf (RObjects obs) = Some TObjects"
| "TypeOf (RClientObjects obs) = Some TClientObjects"
| "TypeOf (RObjectMap m) = Some TObjectMap"
| "TypeOf (RSharedVolumes svs) = Some TSharedVolumes"

text \<open>Pointers, interfaces, maps and slices may be nil; strings, booleans and structures may not.\<close>

definition nillable :: "gtype \<Rightarrow> bool" where
  "nillable t \<longleftrightarrow> t \<notin> {TString, TBool, TNode, TVolume, TUserSession, TAcceptedMessage}"

definition zero_node :: node where
  "zero_node =
     \<lparr>node_Id = '''', node_Name = '''', node_Health = '''',
      node_Capacity = \<lparr>cap_Total = 0, cap_Free = 0, cap_Available = 0\<rparr>,
      node_IoEndpoint = '''', node_SupervisorEndpoint = '''', node_GossipEndpoint = '''',
      node_ClusteringEndpoint = '''', node_Labels = NilMap, node_CreatedAt = 0, node_Version = ''''\<rparr>"

definition zero_volume :: volume where
  "zero_volume =
     \<lparr>vol_Id = '''', vol_Name = '''', vol_NamespaceID = '''', vol_Labels = NilMap,
      vol_MasterHealth = '''', vol_NfsServiceEndpoint = None, vol_Version = ''''\<rparr>"

definition Zero :: "gtype \<Rightarrow> gret" where
  "Zero t = (if nillable t then RNil else case t of
       TString \<Rightarrow> RString '''' | TBool \<Rightarrow> RBool False | TNode \<Rightarrow> RNode zero_node
     | TVolume \<Rightarrow> RVolume zero_volume | TUserSession \<Rightarrow> RUserSession | _ \<Rightarrow> RAcceptedMessage)"

section \<open>Matchers\<close>

type_synonym matcher = "garg \<Rightarrow> bool"

definition Any :: matcher where
  "Any x = True"

text \<open>\<open>reflect.DeepEqual\<close>; maps are compared as maps.\<close>

primrec DeepEqual :: "garg \<Rightarrow> garg \<Rightarrow> bool" where
  "DeepEqual ANil y = (y = ANil)"
| "DeepEqual (ACtx x) y = (y = ACtx x)"
| "DeepEqual (AString s) y = (y = AString s)"
| "DeepEqual (AKey k) y = (y = AKey k)"
| "DeepEqual (AMap m) y = (case y of AMap m' \<Rightarrow> deep_equal m m' | _ \<Rightarrow> False)"
| "DeepEqual (AOpts n) y = (y = AOpts n)"
| "DeepEqual (AAuthUserData u p) y = (y = AAuthUserData u p)"
| "DeepEqual (AUpdateNodeData m v) y = (case y of AUpdateNodeData m' v' \<Rightarrow> deep_equal m m' \<and> v = v' | _ \<Rightarrow> False)"
| "DeepEqual (ASetComputeOnlyNodeData b v) y = (y = ASetComputeOnlyNodeData b v)"
| "DeepEqual (AUpdateVolumeData m v) y = (case y of AUpdateVolumeData m' v' \<Rightarrow> deep_equal m m' \<and> v = v' | _ \<Rightarrow> False)"
| "DeepEqual (ASetReplicasRequest n v) y = (y = ASetReplicasRequest n v)"
| "DeepEqual (ASetFailureModeRequest m t v) y = (y = ASetFailureModeRequest m t v)"
| "DeepEqual (ANfsVolumeMountEndpoint e v) y = (y = ANfsVolumeMountEndpoint e v)"

definition Eq :: "garg \<Rightarrow> matcher" where
  "Eq x = DeepEqual x"

definition Nil_matcher :: matcher where
  "Nil_matcher x \<longleftrightarrow> x = ANil \<or> x = AMap NilMap"

section \<open>Expected calls\<close>

text \<open>What is given for an argument of an expected call: a matcher or a value.\<close>

datatype (plugins only: code size) expected_arg = Matcher matcher | Value garg

primrec arg_matcher :: "expected_arg \<Rightarrow> matcher" where
  "arg_matcher (Matcher m) = m"
| "arg_matcher (Value x) = (if x = ANil then Nil_matcher else Eq x)"

record gcall =
  gc_receiver :: nat
  gc_method :: string
  gc_methodType :: "gtype list"
  gc_args :: "matcher list"
  gc_minCalls :: int
  gc_maxCalls :: int
  gc_numCalls :: int
  gc_actions :: "gret list list"

definition newCall :: "nat \<Rightarrow> string \<Rightarrow> gtype list \<Rightarrow> expected_arg list \<Rightarrow> gcall" where
  "newCall receiver meth methodType args =
     \<lparr>gc_receiver = receiver, gc_method = meth, gc_methodType = methodType,
      gc_args = map arg_matcher args, gc_minCalls = 1, gc_maxCalls = 1, gc_numCalls = 0,
      gc_actions = [map Zero methodType]\<rparr>"

definition satisfied :: "gcall \<Rightarrow> bool" where
  "satisfied c \<longleftrightarrow> gc_minCalls c \<le> gc_numCalls c"

definition exhausted :: "gcall \<Rightarrow> bool" where
  "exhausted c \<longleftrightarrow> gc_maxCalls c \<le> gc_numCalls c"

definition args_match :: "gcall \<Rightarrow> garg list \<Rightarrow> bool" where
  "args_match c args \<longleftrightarrow> length args = length (gc_args c) \<and> list_all2 (\<lambda>m x. m x) (gc_args c) args"

definition call_matches :: "gcall \<Rightarrow> garg list \<Rightarrow> bool" where
  "call_matches c args \<longleftrightarrow> args_match c args \<and> \<not> exhausted c"

text \<open>\<open>1e8\<close> stands for infinity.\<close>

definition AnyTimes :: "gcall \<Rightarrow> gcall" where
  "AnyTimes c = c\<lparr>gc_minCalls := 0, gc_maxCalls := 100000000\<rparr>"

definition MinTimes :: "int \<Rightarrow> gcall \<Rightarrow> gcall" where
  "MinTimes n c =
     c\<lparr>gc_minCalls := n, gc_maxCalls := (if gc_maxCalls c = 1 then 100000000 else gc_maxCalls c)\<rparr>"

definition MaxTimes :: "int \<Rightarrow> gcall \<Rightarrow> gcall" where
  "MaxTimes n c =
     c\<lparr>gc_maxCalls := n, gc_minCalls := (if gc_minCalls c = 1 then 0 else gc_minCalls c)\<rparr>"

definition Times :: "int \<Rightarrow> gcall \<Rightarrow> gcall" where
  "Times n c = c\<lparr>gc_minCalls := n, gc_maxCalls := n\<rparr>"

text \<open>The check of the values given to \<open>Return\<close> against the type of the method.\<close>

definition returns_ok :: "gtype list \<Rightarrow> gret list \<Rightarrow> bool" where
  "returns_ok methodType rets \<longleftrightarrow>
     length rets = length methodType \<and>
     list_all2 (\<lambda>ret want. case TypeOf ret of None \<Rightarrow> nillable want | Some got \<Rightarrow> got = want) rets methodType"

section \<open>The controller\<close>

text \<open>
  \<open>ct_calls\<close> is the store of call objects, \<open>ct_mocks\<close> the number of mocks created,
  \<open>ct_failed\<close> whether the test has been reported as failed.
\<close>

type_synonym call_set = "((nat \<times> string) \<times> nat list) list"

record controller =
  ct_calls :: "gcall list"
  ct_expected :: call_set
  ct_exhausted :: call_set
  ct_finished :: bool
  ct_mocks :: nat
  ct_failed :: bool

definition NewController :: controller where
  "NewController =
     \<lparr>ct_calls = [], ct_expected = [], ct_exhausted = [], ct_finished = False, ct_mocks = 0, ct_failed = False\<rparr>"

definition calls_at :: "call_set \<Rightarrow> nat \<times> string \<Rightarrow> nat list" where
  "calls_at m key = (case map_of m key of None \<Rightarrow> [] | Some is \<Rightarrow> is)"

definition call_key :: "gcall \<Rightarrow> nat \<times> string" where
  "call_key c = (gc_receiver c, gc_method c)"

definition Fatalf :: "(controller, 'a) prog" where
  "Fatalf s = (Panic, s\<lparr>ct_failed := True\<rparr>)"

definition callSet_Add :: "nat \<Rightarrow> controller \<Rightarrow> controller" where
  "callSet_Add i s =
     (let c = ct_calls s ! i; key = call_key c in
      if exhausted c
      then s\<lparr>ct_exhausted := AList.update key (calls_at (ct_exhausted s) key @ [i]) (ct_exhausted s)\<rparr>
      else s\<lparr>ct_expected := AList.update key (calls_at (ct_expected s) key @ [i]) (ct_expected s)\<rparr>)"

definition callSet_Remove :: "nat \<Rightarrow> controller \<Rightarrow> controller" where
  "callSet_Remove i s =
     (let key = call_key (ct_calls s ! i); calls = calls_at (ct_expected s) key in
      if i \<in> set calls
      then s\<lparr>ct_expected := AList.update key (remove1 i calls) (ct_expected s),
             ct_exhausted := AList.update key (calls_at (ct_exhausted s) key @ [i]) (ct_exhausted s)\<rparr>
      else s)"

definition FindMatch :: "controller \<Rightarrow> nat \<Rightarrow> string \<Rightarrow> garg list \<Rightarrow> nat option" where
  "FindMatch s receiver meth args =
     find (\<lambda>i. call_matches (ct_calls s ! i) args) (calls_at (ct_expected s) (receiver, meth))"

definition Failures :: "controller \<Rightarrow> nat list" where
  "Failures s =
     concat (map (\<lambda>(key, calls). filter (\<lambda>i. \<not> satisfied (ct_calls s ! i)) calls) (ct_expected s))"

definition RecordCallWithMethodType ::
  "nat \<Rightarrow> string \<Rightarrow> gtype list \<Rightarrow> expected_arg list \<Rightarrow> (controller, nat) prog" where
  "RecordCallWithMethodType receiver meth methodType args s =
     (let i = length (ct_calls s) in
      (Ret i, callSet_Add i (s\<lparr>ct_calls := ct_calls s @ [newCall receiver meth methodType args]\<rparr>)))"

text \<open>A method of \<open>Call\<close> through its pointer.\<close>

definition on_call :: "nat \<Rightarrow> (gcall \<Rightarrow> gcall) \<Rightarrow> (controller, nat) prog" where
  "on_call i f s = (Ret i, s\<lparr>ct_calls := (ct_calls s)[i := f (ct_calls s ! i)]\<rparr>)"

definition Call_Return :: "nat \<Rightarrow> gret list \<Rightarrow> (controller, nat) prog" where
  "Call_Return i rets s =
     (if returns_ok (gc_methodType (ct_calls s ! i)) rets
      then on_call i (\<lambda>c. c\<lparr>gc_actions := gc_actions c @ [rets]\<rparr>) s
      else Fatalf s)"

text \<open>The results of the last action that returns any.\<close>

definition run_actions :: "gret list list \<Rightarrow> gret list" where
  "run_actions actions = fold (\<lambda>r rets. if r \<noteq> [] then r else rets) actions []"

definition Call :: "nat \<Rightarrow> string \<Rightarrow> garg list \<Rightarrow> (controller, gret list) prog" where
  "Call receiver meth args s =
     (case FindMatch s receiver meth args of
        None \<Rightarrow> Fatalf s
      | Some i \<Rightarrow>
          let c = ct_calls s ! i;
              c' = c\<lparr>gc_numCalls := gc_numCalls c + 1\<rparr>;
              s' = s\<lparr>ct_calls := (ct_calls s)[i := c']\<rparr>
          in (Ret (run_actions (gc_actions c)), if exhausted c' then callSet_Remove i s' else s'))"

text \<open>The test of a finished controller that is a \<open>testing.T\<close> may finish it again.\<close>

definition Finish :: "(controller, unit) prog" where
  "Finish s =
     (if ct_finished s then (Ret (), s)
      else let s' = s\<lparr>ct_finished := True\<rparr> in
           if Failures s' \<noteq> [] then Fatalf s' else (Ret (), s'))"

section \<open>A test with expectations\<close>

text \<open>
  An expectation as the tests write it: \<open>m.EXPECT().Method(args).Return(rets).Times(n)\<close>,
  with one of the ways to say how often.
\<close>

datatype times = Once | TimesN int | AnyTimesN | MinTimesN int | MaxTimesN int

primrec set_times :: "times \<Rightarrow> gcall \<Rightarrow> gcall" where
  "set_times Once c = c"
| "set_times (TimesN n) c = Times n c"
| "set_times AnyTimesN c = AnyTimes c"
| "set_times (MinTimesN n) c = MinTimes n c"
| "set_times (MaxTimesN n) c = MaxTimes n c"

record expectation =
  ex_receiver :: nat
  ex_method :: string
  ex_methodType :: "gtype list"
  ex_args :: "expected_arg list"
  ex_returns :: "gret list"
  ex_times :: times

definition expect :: "expectation \<Rightarrow> (controller, nat) prog" where
  "expect e =
     bindP (RecordCallWithMethodType (ex_receiver e) (ex_method e) (ex_methodType e) (ex_args e)) (\<lambda>i.
     bindP (Call_Return i (ex_returns e)) (\<lambda>i.
       on_call i (set_times (ex_times e))))"

definition prepare :: "expectation list \<Rightarrow> (controller, unit) prog" where
  "prepare es = forP (\<lambda>e u. bindP (expect e) (\<lambda>i. retP ())) es ()"

text \<open>A call of a mocked method: the receiver, the name and the arguments.\<close>

type_synonym mock_call = "nat \<times> string \<times> garg list"

definition serve :: "mock_call list \<Rightarrow> (controller, unit) prog" where
  "serve cs = forP (\<lambda>(receiver, meth, args) u. bindP (Call receiver meth args) (\<lambda>rets. retP ())) cs ()"

text \<open>A test passes when it neither ends early nor has been reported as failed.\<close>

definition passes :: "(controller, 'a) prog \<Rightarrow> controller \<Rightarrow> bool" where
  "passes m s =
     (case bindP m (\<lambda>_. Finish) s of (Ret _, s') \<Rightarrow> \<not> ct_failed s' | (Panic, s') \<Rightarrow> False)"

section \<open>The sets of calls\<close>

definition wants :: "gcall \<Rightarrow> mock_call \<Rightarrow> bool" where
  "wants c k = (case k of (receiver, meth, args) \<Rightarrow> call_key c = (receiver, meth) \<and> args_match c args)"

text \<open>
  The calls that are still expected are the ones recorded, in their order, less
  those that have been used up.
\<close>

definition wf_calls :: "nat set \<Rightarrow> controller \<Rightarrow> bool" where
  "wf_calls R s \<longleftrightarrow>
     distinct (map fst (ct_expected s)) \<and>
     (\<forall>key. calls_at (ct_expected s) key =
        filter (\<lambda>i. call_key (ct_calls s ! i) = key \<and> i \<notin> R) [0..<length (ct_calls s)]) \<and>
     (\<forall>i \<in> R. i < length (ct_calls s) \<and> exhausted (ct_calls s ! i) \<and> satisfied (ct_calls s ! i))"

definition bounded_calls :: "controller \<Rightarrow> bool" where
  "bounded_calls s \<longleftrightarrow>
     list_all (\<lambda>c. gc_minCalls c \<le> gc_maxCalls c \<and> gc_numCalls c \<le> gc_maxCalls c) (ct_calls s)"

lemma find_filter: "find Q (filter P xs) = find (\<lambda>x. P x \<and> Q x) xs"
  by (induction xs) auto

lemma calls_at_update: "calls_at (AList.update k v m) key = (if key = k then v else calls_at m key)"
  by (simp add: calls_at_def update_conv')

lemma call_key_numCalls [simp]: "call_key (c\<lparr>gc_numCalls := n\<rparr>) = call_key c"
  and wants_numCalls [simp]: "wants (c\<lparr>gc_numCalls := n\<rparr>) = wants c"
  by (simp_all add: call_key_def wants_def args_match_def fun_eq_iff split: prod.splits)

lemma FindMatch_first:
  assumes "wf_calls R s"
  shows "FindMatch s receiver meth args =
           find (\<lambda>i. wants (ct_calls s ! i) (receiver, meth, args) \<and> \<not> exhausted (ct_calls s ! i))
             [0..<length (ct_calls s)]"
  using assms unfolding FindMatch_def wf_calls_def
  by (auto simp: find_filter call_matches_def wants_def intro!: find_cong)

lemma set_Failures:
  assumes "wf_calls R s"
  shows "Failures s = [] \<longleftrightarrow> list_all satisfied (ct_calls s)"
proof -
  have dist: "distinct (map fst (ct_expected s))"
    and at: "\<And>key. calls_at (ct_expected s) key =
        filter (\<lambda>i. call_key (ct_calls s ! i) = key \<and> i \<notin> R) [0..<length (ct_calls s)]"
    and R: "\<And>i. i \<in> R \<Longrightarrow> satisfied (ct_calls s ! i)"
    using assms by (auto simp: wf_calls_def)
  have "i \<in> set (Failures s) \<longleftrightarrow> (\<exists>key. i \<in> set (calls_at (ct_expected s) key)) \<and> \<not> satisfied (ct_calls s ! i)" for i
    using dist by (auto simp: Failures_def calls_at_def map_of_eq_Some_iff split: option.splits)
  then have "i \<in> set (Failures s) \<longleftrightarrow> i < length (ct_calls s) \<and> \<not> satisfied (ct_calls s ! i)" for i
    using R by (auto simp: at)
  then have "set (Failures s) = {i. i < length (ct_calls s) \<and> \<not> satisfied (ct_calls s ! i)}" by blast
  then show ?thesis
    unfolding set_empty [of "Failures s", symmetric] by (auto simp: list_all_length)
qed

lemma callSet_Remove_wf:
  assumes wf: "wf_calls R s" and i: "i < length (ct_calls s)" "i \<notin> R"
    and used: "exhausted (ct_calls s ! i)" "satisfied (ct_calls s ! i)"
  shows "wf_calls (insert i R) (callSet_Remove i s)"
proof -
  let ?key = "call_key (ct_calls s ! i)"
  have at: "\<And>key. calls_at (ct_expected s) key =
      filter (\<lambda>j. call_key (ct_calls s ! j) = key \<and> j \<notin> R) [0..<length (ct_calls s)]"
    using wf unfolding wf_calls_def by blast
  then have "i \<in> set (calls_at (ct_expected s) ?key)" using i by simp
  moreover have "remove1 i (calls_at (ct_expected s) ?key) =
      filter (\<lambda>j. call_key (ct_calls s ! j) = ?key \<and> j \<notin> insert i R) [0..<length (ct_calls s)]"
    by (simp add: at distinct_remove1_removeAll removeAll_filter_not_eq) (rule filter_cong, auto)
  moreover have "filter (\<lambda>j. call_key (ct_calls s ! j) = key \<and> j \<notin> insert i R) [0..<length (ct_calls s)] =
      filter (\<lambda>j. call_key (ct_calls s ! j) = key \<and> j \<notin> R) [0..<length (ct_calls s)]" if "key \<noteq> ?key" for key
    using that by (intro filter_cong) auto
  ultimately show ?thesis
    using wf used i
    by (auto simp: callSet_Remove_def Let_def wf_calls_def calls_at_update at distinct_update)
qed

text \<open>One call of a mocked method: it is counted for the first recorded call that wants it and is not used up.\<close>

definition counted :: "nat \<Rightarrow> gcall list \<Rightarrow> gcall list" where
  "counted i cs = cs[i := (cs ! i)\<lparr>gc_numCalls := gc_numCalls (cs ! i) + 1\<rparr>]"

lemma ct_sel_Remove [simp]:
  "ct_calls (callSet_Remove i s) = ct_calls s" "ct_failed (callSet_Remove i s) = ct_failed s"
  "ct_finished (callSet_Remove i s) = ct_finished s"
  by (simp_all add: callSet_Remove_def Let_def)

lemma wf_calls_counted:
  assumes "wf_calls R s" and "i \<notin> R"
  shows "wf_calls R (s\<lparr>ct_calls := counted i (ct_calls s)\<rparr>)"
proof -
  have "call_key (counted i (ct_calls s) ! j) = call_key (ct_calls s ! j)" for j
    by (cases "i < length (ct_calls s)") (simp_all add: counted_def nth_list_update not_less list_update_beyond)
  moreover have "counted i (ct_calls s) ! j = ct_calls s ! j" if "j \<in> R" for j
    using that assms(2) by (cases "i = j") (simp_all add: counted_def)
  ultimately show ?thesis
    using assms(1) by (simp add: wf_calls_def counted_def)
qed

lemma Call_Some:
  assumes wf: "wf_calls R s" and b: "bounded_calls s" and ok: "\<not> ct_failed s" "\<not> ct_finished s"
    and m: "FindMatch s receiver meth args = Some i"
  shows "\<exists>rets s' R'. Call receiver meth args s = (Ret rets, s') \<and> wf_calls R' s' \<and> bounded_calls s' \<and>
           \<not> ct_failed s' \<and> \<not> ct_finished s' \<and> ct_calls s' = counted i (ct_calls s)"
proof -
  let ?s = "s\<lparr>ct_calls := counted i (ct_calls s)\<rparr>"
  have i: "i < length (ct_calls s)" "\<not> exhausted (ct_calls s ! i)"
    using m unfolding FindMatch_first [OF wf] by (auto simp: find_Some_iff)
  then have "i \<notin> R" using wf by (auto simp: wf_calls_def)
  then have wf': "wf_calls R ?s" by (rule wf_calls_counted [OF wf])
  have min: "gc_minCalls (ct_calls s ! i) \<le> gc_maxCalls (ct_calls s ! i)"
    using b i by (simp add: bounded_calls_def list_all_length)
  have b': "bounded_calls ?s"
    using b i by (auto simp: bounded_calls_def list_all_length counted_def nth_list_update exhausted_def)
  have new: "ct_calls ?s ! i = (ct_calls s ! i)\<lparr>gc_numCalls := gc_numCalls (ct_calls s ! i) + 1\<rparr>"
    using i by (simp add: counted_def)
  have run: "Call receiver meth args s =
      (Ret (run_actions (gc_actions (ct_calls s ! i))),
       if exhausted (ct_calls ?s ! i) then callSet_Remove i ?s else ?s)"
    unfolding new by (simp add: Call_def m Let_def counted_def)
  show ?thesis
  proof (cases "exhausted (ct_calls ?s ! i)")
    case True
    with min new have "satisfied (ct_calls ?s ! i)" by (simp add: exhausted_def satisfied_def)
    with True wf' \<open>i \<notin> R\<close> i have "wf_calls (insert i R) (callSet_Remove i ?s)"
      by (intro callSet_Remove_wf) (simp_all add: counted_def)
    moreover have "bounded_calls (callSet_Remove i ?s)" using b' by (simp add: bounded_calls_def)
    ultimately show ?thesis using True run ok by (simp only: if_True) auto
  next
    case False
    with run wf' b' ok show ?thesis by (simp only: if_False) auto
  qed
qed

lemma Call_None:
  "FindMatch s receiver meth args = None \<Longrightarrow> Call receiver meth args s = (Panic, s\<lparr>ct_failed := True\<rparr>)"
  by (simp add: Call_def Fatalf_def)

section \<open>The verdict of a test\<close>

text \<open>No two recorded calls want the same call.\<close>

definition disjoint_calls :: "gcall list \<Rightarrow> bool" where
  "disjoint_calls cs \<longleftrightarrow> (\<forall>i < length cs. \<forall>j < length cs. i \<noteq> j \<longrightarrow> (\<forall>k. \<not> (wants (cs ! i) k \<and> wants (cs ! j) k)))"

definition calls_wanted :: "gcall list \<Rightarrow> mock_call list \<Rightarrow> bool" where
  "calls_wanted cs ks \<longleftrightarrow>
     list_all (\<lambda>k. list_ex (\<lambda>c. wants c k) cs) ks \<and>
     list_all (\<lambda>c. gc_minCalls c \<le> gc_numCalls c + int (length (filter (wants c) ks)) \<and>
                   gc_numCalls c + int (length (filter (wants c) ks)) \<le> gc_maxCalls c) cs"

lemma wants_counted [simp]: "wants (counted i cs ! j) = wants (cs ! j)"
  by (cases "i < length cs"; cases "i = j") (simp_all add: counted_def not_less list_update_beyond)

lemma disjoint_counted: "disjoint_calls cs \<Longrightarrow> disjoint_calls (counted i cs)"
  by (simp add: disjoint_calls_def) (simp add: counted_def)

lemma calls_wanted_counted:
  assumes i: "i < length cs" "wants (cs ! i) k" and disj: "disjoint_calls cs"
  shows "calls_wanted (counted i cs) ks \<longleftrightarrow> calls_wanted cs (k # ks)"
proof -
  have len: "length (counted i cs) = length cs" by (simp add: counted_def)
  have other: "\<not> wants (cs ! j) k" if "j < length cs" "j \<noteq> i" for j
    using that i disj unfolding disjoint_calls_def by blast
  have nth: "gc_minCalls (counted i cs ! j) = gc_minCalls (cs ! j)"
    "gc_maxCalls (counted i cs ! j) = gc_maxCalls (cs ! j)"
    "gc_numCalls (counted i cs ! j) + int (length (filter (wants (cs ! j)) ks)) =
       gc_numCalls (cs ! j) + int (length (filter (wants (cs ! j)) (k # ks)))" if "j < length cs" for j
    using that i other [of j] by (auto simp: counted_def nth_list_update)
  have ex: "list_ex (\<lambda>c. wants c k') (counted i cs) = list_ex (\<lambda>c. wants c k') cs" for k'
    by (simp add: list_ex_length len)
  have "list_ex (\<lambda>c. wants c k) cs" using i by (auto simp: list_ex_length)
  then show ?thesis
    by (simp add: calls_wanted_def ex list_all_length [of _ "counted i cs"] list_all_length [of _ cs] len nth
        del: filter.simps)
qed

lemma serve_simps:
  "serve [] = retP ()"
  "serve ((receiver, meth, args) # ks) = bindP (Call receiver meth args) (\<lambda>rets. serve ks)"
  by (simp_all add: serve_def bindP_assoc)

lemma passes_serve_Nil:
  assumes "wf_calls R s" and "bounded_calls s" and "\<not> ct_failed s" and "\<not> ct_finished s"
  shows "passes (serve []) s \<longleftrightarrow> calls_wanted (ct_calls s) []"
proof -
  have "Failures (s\<lparr>ct_finished := True\<rparr>) = Failures s" by (simp add: Failures_def)
  moreover have "calls_wanted (ct_calls s) [] \<longleftrightarrow> list_all satisfied (ct_calls s)"
    using assms(2) by (auto simp: calls_wanted_def bounded_calls_def satisfied_def list_all_iff)
  ultimately show ?thesis
    using assms(3,4) set_Failures [OF assms(1)]
    by (simp add: passes_def serve_simps Finish_def Fatalf_def Let_def)
qed

lemma passes_serve:
  assumes "wf_calls R s" and "bounded_calls s" and "\<not> ct_failed s" and "\<not> ct_finished s"
    and "disjoint_calls (ct_calls s)"
  shows "passes (serve ks) s \<longleftrightarrow> calls_wanted (ct_calls s) ks"
  using assms
proof (induction ks arbitrary: R s)
  case Nil
  then show ?case by (intro passes_serve_Nil)
next
  case (Cons k ks)
  obtain receiver meth args where k: "k = (receiver, meth, args)" by (cases k)
  show ?case
  proof (cases "FindMatch s receiver meth args")
    case None
    have "\<not> calls_wanted (ct_calls s) (k # ks)"
    proof
      assume w: "calls_wanted (ct_calls s) (k # ks)"
      then obtain i where i: "i < length (ct_calls s)" "wants (ct_calls s ! i) k"
        by (auto simp: calls_wanted_def list_ex_length)
      with None have "exhausted (ct_calls s ! i)"
        unfolding FindMatch_first [OF Cons.prems(1)] by (auto simp: find_None_iff k)
      with w i show False
        by (auto simp: calls_wanted_def list_all_length exhausted_def)
    qed
    with Call_None [OF None] show ?thesis by (simp add: passes_def k serve_simps)
  next
    case (Some i)
    from Call_Some [OF Cons.prems(1-4) Some] obtain rets s' R' where
      run: "Call receiver meth args s = (Ret rets, s')" and wf: "wf_calls R' s'" "bounded_calls s'"
      "\<not> ct_failed s'" "\<not> ct_finished s'" and calls: "ct_calls s' = counted i (ct_calls s)" by blast
    have i: "i < length (ct_calls s)" "wants (ct_calls s ! i) k"
      using Some unfolding FindMatch_first [OF Cons.prems(1)] by (auto simp: find_Some_iff k)
    have "passes (serve (k # ks)) s \<longleftrightarrow> passes (serve ks) s'"
      by (simp add: passes_def k serve_simps bindP_assoc run)
    also have "\<dots> \<longleftrightarrow> calls_wanted (ct_calls s) (k # ks)"
      using Cons.IH [OF wf] Cons.prems(5) calls_wanted_counted [OF i Cons.prems(5)]
      by (simp add: calls disjoint_counted)
    finally show ?thesis .
  qed
qed

section \<open>Recording\<close>

text \<open>The call that an expectation records.\<close>

definition expected_call :: "expectation \<Rightarrow> gcall" where
  "expected_call e =
     set_times (ex_times e)
       ((newCall (ex_receiver e) (ex_method e) (ex_methodType e) (ex_args e))
         \<lparr>gc_actions := [map Zero (ex_methodType e), ex_returns e]\<rparr>)"

lemma set_times_sel [simp]:
  "gc_numCalls (set_times t c) = gc_numCalls c" "call_key (set_times t c) = call_key c"
  "gc_args (set_times t c) = gc_args c" "gc_actions (set_times t c) = gc_actions c"
  by (cases t; simp add: Times_def AnyTimes_def MinTimes_def MaxTimes_def call_key_def)+

lemma expect_run:
  assumes "returns_ok (ex_methodType e) (ex_returns e)"
  shows "expect e s =
    (Ret (length (ct_calls s)),
     s\<lparr>ct_calls := ct_calls s @ [expected_call e],
       ct_expected := AList.update (ex_receiver e, ex_method e)
         (calls_at (ct_expected s) (ex_receiver e, ex_method e) @ [length (ct_calls s)]) (ct_expected s)\<rparr>)"
  using assms
  by (simp add: expect_def RecordCallWithMethodType_def Call_Return_def on_call_def callSet_Add_def newCall_def
      exhausted_def call_key_def expected_call_def Let_def bindP_run)

lemma wf_calls_expect:
  assumes wf: "wf_calls R s" and key: "call_key c = key"
  shows "wf_calls R (s\<lparr>ct_calls := ct_calls s @ [c],
       ct_expected := AList.update key (calls_at (ct_expected s) key @ [length (ct_calls s)]) (ct_expected s)\<rparr>)"
proof -
  have R: "\<And>i. i \<in> R \<Longrightarrow> i < length (ct_calls s)" using wf by (simp add: wf_calls_def)
  have at: "\<And>key. calls_at (ct_expected s) key =
      filter (\<lambda>j. call_key (ct_calls s ! j) = key \<and> j \<notin> R) [0..<length (ct_calls s)]"
    using wf unfolding wf_calls_def by blast
  have old: "filter (\<lambda>j. call_key ((ct_calls s @ [c]) ! j) = key' \<and> j \<notin> R) [0..<length (ct_calls s)] =
      calls_at (ct_expected s) key'" for key'
    unfolding at by (rule filter_cong) (auto simp: nth_append)
  have new: "length (ct_calls s) \<notin> R" using R by blast
  show ?thesis
    unfolding wf_calls_def
  proof (intro conjI allI ballI)
    show "calls_at (ct_expected (s\<lparr>ct_calls := ct_calls s @ [c], ct_expected := AList.update key
          (calls_at (ct_expected s) key @ [length (ct_calls s)]) (ct_expected s)\<rparr>)) key' =
        filter (\<lambda>i. call_key (ct_calls (s\<lparr>ct_calls := ct_calls s @ [c], ct_expected := AList.update key
          (calls_at (ct_expected s) key @ [length (ct_calls s)]) (ct_expected s)\<rparr>) ! i) = key' \<and> i \<notin> R)
          [0..<length (ct_calls (s\<lparr>ct_calls := ct_calls s @ [c], ct_expected := AList.update key
          (calls_at (ct_expected s) key @ [length (ct_calls s)]) (ct_expected s)\<rparr>))]" for key'
      using new key by (simp add: calls_at_update old)
  qed (use wf R in \<open>auto simp: wf_calls_def distinct_update nth_append less_SucI\<close>)
qed

definition expectation_ok :: "expectation \<Rightarrow> bool" where
  "expectation_ok e \<longleftrightarrow>
     returns_ok (ex_methodType e) (ex_returns e) \<and>
     gc_minCalls (expected_call e) \<le> gc_maxCalls (expected_call e) \<and> 0 \<le> gc_maxCalls (expected_call e)"

lemma numCalls_expected [simp]: "gc_numCalls (expected_call e) = 0"
  by (simp add: expected_call_def newCall_def)

lemma key_expected: "call_key (expected_call e) = (ex_receiver e, ex_method e)"
  by (simp add: expected_call_def newCall_def) (simp add: call_key_def)

lemma prepare_run:
  assumes "list_all expectation_ok es" and "wf_calls R s" and "bounded_calls s"
  shows "\<exists>s'. prepare es s = (Ret (), s') \<and> wf_calls R s' \<and> bounded_calls s' \<and>
           ct_calls s' = ct_calls s @ map expected_call es \<and>
           ct_failed s' = ct_failed s \<and> ct_finished s' = ct_finished s"
  using assms
proof (induction es arbitrary: s)
  case Nil
  then show ?case by (simp add: prepare_def retP_run)
next
  case (Cons e es)
  let ?key = "(ex_receiver e, ex_method e)"
  let ?s = "s\<lparr>ct_calls := ct_calls s @ [expected_call e],
      ct_expected := AList.update ?key (calls_at (ct_expected s) ?key @ [length (ct_calls s)]) (ct_expected s)\<rparr>"
  have ok: "expectation_ok e" using Cons.prems by simp
  then have "prepare (e # es) s = prepare es ?s"
    by (simp add: prepare_def expect_run expectation_ok_def bindP_assoc)
  moreover have "wf_calls R ?s"
    using Cons.prems(2) key_expected by (rule wf_calls_expect)
  moreover have "bounded_calls ?s"
    using Cons.prems(3) ok by (simp add: bounded_calls_def expectation_ok_def)
  ultimately show ?case
    using Cons.IH [of ?s] Cons.prems(1) by simp
qed

text \<open>How an expectation reads: the calls it is for, and how many of them it takes.\<close>

definition expects :: "expectation \<Rightarrow> mock_call \<Rightarrow> bool" where
  "expects e k =
     (case k of (receiver, meth, args) \<Rightarrow>
        receiver = ex_receiver e \<and> meth = ex_method e \<and> length args = length (ex_args e) \<and>
        list_all2 (\<lambda>a x. arg_matcher a x) (ex_args e) args)"

primrec times_ok :: "times \<Rightarrow> nat \<Rightarrow> bool" where
  "times_ok Once n = (n = 1)"
| "times_ok (TimesN t) n = (int n = t)"
| "times_ok AnyTimesN n = (n \<le> 100000000)"
| "times_ok (MinTimesN t) n = (t \<le> int n \<and> n \<le> 100000000)"
| "times_ok (MaxTimesN t) n = (int n \<le> t)"

lemma wants_expected: "wants (expected_call e) = expects e"
proof (rule ext)
  fix k
  have "gc_args (expected_call e) = map arg_matcher (ex_args e)"
    by (simp add: expected_call_def newCall_def)
  then show "wants (expected_call e) k = expects e k"
    by (cases k) (auto simp: wants_def expects_def key_expected args_match_def list.rel_map)
qed

lemma times_expected:
  "(gc_minCalls (expected_call e) \<le> int n \<and> int n \<le> gc_maxCalls (expected_call e)) \<longleftrightarrow> times_ok (ex_times e) n"
  by (cases "ex_times e")
    (auto simp: expected_call_def newCall_def Times_def AnyTimes_def MinTimes_def MaxTimes_def)

definition fresh :: "controller \<Rightarrow> bool" where
  "fresh s \<longleftrightarrow> ct_calls s = [] \<and> ct_expected s = [] \<and> \<not> ct_failed s \<and> \<not> ct_finished s"

lemma fresh_prepared:
  assumes "list_all expectation_ok es" and "fresh s0"
  shows "\<exists>s. prepare es s0 = (Ret (), s) \<and> wf_calls {} s \<and> bounded_calls s \<and> ct_calls s = map expected_call es \<and>
           \<not> ct_failed s \<and> \<not> ct_finished s"
proof -
  have "wf_calls {} s0" "bounded_calls s0"
    using assms(2) by (simp_all add: fresh_def wf_calls_def bounded_calls_def calls_at_def)
  from prepare_run [OF assms(1) this] assms(2) show ?thesis by (auto simp: fresh_def)
qed

text \<open>Every call is expected, and every expectation has been met as often as it asks for.\<close>

definition conforms :: "expectation list \<Rightarrow> mock_call list \<Rightarrow> bool" where
  "conforms es ks \<longleftrightarrow>
     list_all (\<lambda>k. list_ex (\<lambda>e. expects e k) es) ks \<and>
     list_all (\<lambda>e. times_ok (ex_times e) (length (filter (expects e) ks))) es"

definition disjoint_expectations :: "expectation list \<Rightarrow> bool" where
  "disjoint_expectations es \<longleftrightarrow>
     (\<forall>i < length es. \<forall>j < length es. i \<noteq> j \<longrightarrow> (\<forall>k. \<not> (expects (es ! i) k \<and> expects (es ! j) k)))"

theorem mock_verdict:
  assumes ok: "list_all expectation_ok es" and disj: "disjoint_expectations es" and new: "fresh s0"
  shows "passes (bindP (prepare es) (\<lambda>_. serve ks)) s0 \<longleftrightarrow> conforms es ks"
proof -
  from fresh_prepared [OF ok new] obtain s where s: "prepare es s0 = (Ret (), s)" "wf_calls {} s"
    "bounded_calls s" "ct_calls s = map expected_call es" "\<not> ct_failed s" "\<not> ct_finished s" by blast
  have "disjoint_calls (ct_calls s)"
    unfolding disjoint_calls_def s(4) using disj by (simp add: wants_expected disjoint_expectations_def)
  from passes_serve [OF s(2,3,5,6) this, of ks] show ?thesis
    by (simp add: passes_def bindP_assoc s(1) s(4) calls_wanted_def list.pred_map list_ex_iff wants_expected comp_def
        times_expected conforms_def)
qed

end
