(* ===== verification/Mocks.thy ===== *)
theory Mocks
  imports Gomock
begin

text \<open>
  The mocks that \<open>mockgen\<close> generated for the interfaces of the repository
  (\<open>internal/pkg/storageos/mocks\<close> and the \<open>mocks\<close> directories of the controllers). A mock is a
  pointer, given by its number; its recorder holds nothing but the mock. Every
  method forwards its arguments to the controller and takes the results apart with
  type assertions that yield the zero value when they fail; every method of the
  recorder records an expected call with the type of the mocked method.
\<close>

definition new_mock :: "(controller, nat) prog" where
  "new_mock s = (Ret (ct_mocks s), s\<lparr>ct_mocks := Suc (ct_mocks s)\<rparr>)"

primrec opts_arg :: "string option \<Rightarrow> garg" where
  "opts_arg None = ANil"
| "opts_arg (Some n) = AOpts n"

definition retString :: "gret \<Rightarrow> string" where
  "retString r = (case r of RString s \<Rightarrow> s | _ \<Rightarrow> '''')"

definition retBool :: "gret \<Rightarrow> bool" where
  "retBool r = (case r of RBool b \<Rightarrow> b | _ \<Rightarrow> False)"

definition retMap :: "gret \<Rightarrow> smap" where
  "retMap r = (case r of RMap m \<Rightarrow> m | _ \<Rightarrow> NilMap)"

definition retNode :: "gret \<Rightarrow> node" where
  "retNode r = (case r of RNode n \<Rightarrow> n | _ \<Rightarrow> zero_node)"

definition retVolume :: "gret \<Rightarrow> volume" where
  "retVolume r = (case r of RVolume v \<Rightarrow> v | _ \<Rightarrow> zero_volume)"

definition retUserSession :: "gret \<Rightarrow> unit" where
  "retUserSession r = ()"

definition retAcceptedMessage :: "gret \<Rightarrow> unit" where
  "retAcceptedMessage r = ()"

definition retNodes :: "gret \<Rightarrow> node list" where
  "retNodes r = (case r of RNodes ns \<Rightarrow> ns | _ \<Rightarrow> [])"

definition retNamespaces :: "gret \<Rightarrow> namespace list" where
  "retNamespaces r = (case r of RNamespaces ns \<Rightarrow> ns | _ \<Rightarrow> [])"

definition retVolumes :: "gret \<Rightarrow> volume list" where
  "retVolumes r = (case r of RVolumes vs \<Rightarrow> vs | _ \<Rightarrow> [])"

definition retResponse :: "gret \<Rightarrow> http_response option" where
  "retResponse r = (case r of RResponse h \<Rightarrow> Some h | _ \<Rightarrow> None)"

definition retError :: "gret \<Rightarrow> error_or_nil" where
  "retError r = (case r of RError e \<Rightarrow> Some e | _ \<Rightarrow> None)"

definition retObject :: "gret \<Rightarrow> sobject option" where
  "retObject r = (case r of RObject ob \<Rightarrow> Some ob | _ \<Rightarrow> None)"

definition retObjects :: "gret \<Rightarrow> sobject list" where
  "retObjects r = (case r of RObjects obs \<Rightarrow> obs | _ \<Rightarrow> [])"

definition retClientObjects :: "gret \<Rightarrow> NodeCR list" where
  "retClientObjects r = (case r of RClientObjects obs \<Rightarrow> obs | _ \<Rightarrow> [])"

definition retObjectMap :: "gret \<Rightarrow> (objkey \<times> sobject) list" where
  "retObjectMap r = (case r of RObjectMap m \<Rightarrow> m | _ \<Rightarrow> [])"

definition retSharedVolumes :: "gret \<Rightarrow> SharedVolume list" where
  "retSharedVolumes r = (case r of RSharedVolumes svs \<Rightarrow> svs | _ \<Rightarrow> [])"

text \<open>\<open>ret0, _ := ret[0].(T0)\<close> and so on; an index out of range panics.\<close>

definition returns1 :: "(gret \<Rightarrow> 'a) \<Rightarrow> gret list \<Rightarrow> (controller, 'a) prog" where
  "returns1 f ret = (case ret of r0 # _ \<Rightarrow> retP (f r0) | _ \<Rightarrow> panicP)"

definition returns2 :: "(gret \<Rightarrow> 'a) \<Rightarrow> (gret \<Rightarrow> 'b) \<Rightarrow> gret list \<Rightarrow> (controller, 'a \<times> 'b) prog" where
  "returns2 f g ret = (case ret of r0 # r1 # _ \<Rightarrow> retP (f r0, g r1) | _ \<Rightarrow> panicP)"

definition returns3 ::
  "(gret \<Rightarrow> 'a) \<Rightarrow> (gret \<Rightarrow> 'b) \<Rightarrow> (gret \<Rightarrow> 'c) \<Rightarrow> gret list \<Rightarrow> (controller, 'a \<times> 'b \<times> 'c) prog" where
  "returns3 f g h ret = (case ret of r0 # r1 # r2 # _ \<Rightarrow> retP (f r0, g r1, h r2) | _ \<Rightarrow> panicP)"

section \<open>\<open>MockControlPlane\<close>\<close>

definition NewMockControlPlane :: "(controller, nat) prog" where
  "NewMockControlPlane = new_mock"

definition MockControlPlane_EXPECT :: "nat \<Rightarrow> nat" where
  "MockControlPlane_EXPECT m = m"

definition MockControlPlane_AuthenticateUser ::
  "nat \<Rightarrow> ctx \<Rightarrow> (string \<times> string) \<Rightarrow> (controller, unit \<times> http_response option \<times> error_or_nil) prog" where
  "MockControlPlane_AuthenticateUser m arg0 arg1 =
     bindP (Call m ''AuthenticateUser'' [ACtx arg0, AAuthUserData (fst arg1) (snd arg1)]) (returns3 retUserSession retResponse retError)"

definition MockControlPlaneMockRecorder_AuthenticateUser ::
  "nat \<Rightarrow> expected_arg \<Rightarrow> expected_arg \<Rightarrow> (controller, nat) prog" where
  "MockControlPlaneMockRecorder_AuthenticateUser mr arg0 arg1 =
     RecordCallWithMethodType mr ''AuthenticateUser'' [TUserSession, TResponse, TError] [arg0, arg1]"

definition MockControlPlane_DeleteNamespace ::
  "nat \<Rightarrow> ctx \<Rightarrow> string \<Rightarrow> string \<Rightarrow> (string option) \<Rightarrow> (controller, http_response option \<times> error_or_nil) prog" where
  "MockControlPlane_DeleteNamespace m arg0 arg1 arg2 arg3 =
     bindP (Call m ''DeleteNamespace'' [ACtx arg0, AString arg1, AString arg2, opts_arg arg3]) (returns2 retResponse retError)"

definition MockControlPlaneMockRecorder_DeleteNamespace ::
  "nat \<Rightarrow> expected_arg \<Rightarrow> expected_arg \<Rightarrow> expected_arg \<Rightarrow> expected_arg \<Rightarrow> (controller, nat) prog" where
  "MockControlPlaneMockRecorder_DeleteNamespace mr arg0 arg1 arg2 arg3 =
     RecordCallWithMethodType mr ''DeleteNamespace'' [TResponse, TError] [arg0, arg1, arg2, arg3]"

definition MockControlPlane_DeleteNode ::
  "nat \<Rightarrow> ctx \<Rightarrow> string \<Rightarrow> string \<Rightarrow> (string option) \<Rightarrow> (controller, http_response option \<times> error_or_nil) prog" where
  "MockControlPlane_DeleteNode m arg0 arg1 arg2 arg3 =
     bindP (Call m ''DeleteNode'' [ACtx arg0, AString arg1, AString arg2, opts_arg arg3]) (returns2 retResponse retError)"

definition MockControlPlaneMockRecorder_DeleteNode ::
  "nat \<Rightarrow> expected_arg \<Rightarrow> expected_arg \<Rightarrow> expected_arg \<Rightarrow> expected_arg \<Rightarrow> (controller, nat) prog" where
  "MockControlPlaneMockRecorder_DeleteNode mr arg0 arg1 arg2 arg3 =
     RecordCallWithMethodType mr ''DeleteNode'' [TResponse, TError] [arg0, arg1, arg2, arg3]"

definition MockControlPlane_GetVolume ::
  "nat \<Rightarrow> ctx \<Rightarrow> string \<Rightarrow> string \<Rightarrow> (controller, volume \<times> http_response option \<times> error_or_nil) prog" where
  "MockControlPlane_GetVolume m arg0 arg1 arg2 =
     bindP (Call m ''GetVolume'' [ACtx arg0, AString arg1, AString arg2]) (returns3 retVolume retResponse retError)"

definition MockControlPlaneMockRecorder_GetVolume ::
  "nat \<Rightarrow> expected_arg \<Rightarrow> expected_arg \<Rightarrow> expected_arg \<Rightarrow> (controller, nat) prog" where
  "MockControlPlaneMockRecorder_GetVolume mr arg0 arg1 arg2 =
     RecordCallWithMethodType mr ''GetVolume'' [TVolume, TResponse, TError] [arg0, arg1, arg2]"

definition MockControlPlane_ListNamespaces ::
  "nat \<Rightarrow> ctx \<Rightarrow> (controller, namespace list \<times> http_response option \<times> error_or_nil) prog" where
  "MockControlPlane_ListNamespaces m arg0 =
     bindP (Call m ''ListNamespaces'' [ACtx arg0]) (returns3 retNamespaces retResponse retError)"

definition MockControlPlaneMockRecorder_ListNamespaces ::
  "nat \<Rightarrow> expected_arg \<Rightarrow> (controller, nat) prog" where
  "MockControlPlaneMockRecorder_ListNamespaces mr arg0 =
     RecordCallWithMethodType mr ''ListNamespaces'' [TNamespaces, TResponse, TError] [arg0]"

definition MockControlPlane_ListNodes ::
  "nat \<Rightarrow> ctx \<Rightarrow> (controller, node list \<times> http_response option \<times> error_or_nil) prog" where
  "MockControlPlane_ListNodes m arg0 =
     bindP (Call m ''ListNodes'' [ACtx arg0]) (returns3 retNodes retResponse retError)"

definition MockControlPlaneMockRecorder_ListNodes ::
  "nat \<Rightarrow> expected_arg \<Rightarrow> (controller, nat) prog" where
  "MockControlPlaneMockRecorder_ListNodes mr arg0 =
     RecordCallWithMethodType mr ''ListNodes'' [TNodes, TResponse, TError] [arg0]"

definition MockControlPlane_ListVolumes ::
  "nat \<Rightarrow> ctx \<Rightarrow> string \<Rightarrow> (controller, volume list \<times> http_response option \<times> error_or_nil) prog" where
  "MockControlPlane_ListVolumes m arg0 arg1 =
     bindP (Call m ''ListVolumes'' [ACtx arg0, AString arg1]) (returns3 retVolumes retResponse retError)"

definition MockControlPlaneMockRecorder_ListVolumes ::
  "nat \<Rightarrow> expected_arg \<Rightarrow> expected_arg \<Rightarrow> (controller, nat) prog" where
  "MockControlPlaneMockRecorder_ListVolumes mr arg0 arg1 =
     RecordCallWithMethodType mr ''ListVolumes'' [TVolumes, TResponse, TError] [arg0, arg1]"

definition MockControlPlane_RefreshJwt ::
  "nat \<Rightarrow> ctx \<Rightarrow> (controller, unit \<times> http_response option \<times> error_or_nil) prog" where
  "MockControlPlane_RefreshJwt m arg0 =
     bindP (Call m ''RefreshJwt'' [ACtx arg0]) (returns3 retUserSession retResponse retError)"

definition MockControlPlaneMockRecorder_RefreshJwt ::
  "nat \<Rightarrow> expected_arg \<Rightarrow> (controller, nat) prog" where
  "MockControlPlaneMockRecorder_RefreshJwt mr arg0 =
     RecordCallWithMethodType mr ''RefreshJwt'' [TUserSession, TResponse, TError] [arg0]"

definition MockControlPlane_SetComputeOnly ::
  "nat \<Rightarrow> ctx \<Rightarrow> string \<Rightarrow> (bool \<times> string) \<Rightarrow> (string option) \<Rightarrow> (controller, node \<times> http_response option \<times> error_or_nil) prog" where
  "MockControlPlane_SetComputeOnly m arg0 arg1 arg2 arg3 =
     bindP (Call m ''SetComputeOnly'' [ACtx arg0, AString arg1, ASetComputeOnlyNodeData (fst arg2) (snd arg2), opts_arg arg3]) (returns3 retNode retResponse retError)"

definition MockControlPlaneMockRecorder_SetComputeOnly ::
  "nat \<Rightarrow> expected_arg \<Rightarrow> expected_arg \<Rightarrow> expected_arg \<Rightarrow> expected_arg \<Rightarrow> (controller, nat) prog" where
  "MockControlPlaneMockRecorder_SetComputeOnly mr arg0 arg1 arg2 arg3 =
     RecordCallWithMethodType mr ''SetComputeOnly'' [TNode, TResponse, TError] [arg0, arg1, arg2, arg3]"

definition MockControlPlane_SetFailureMode ::
  "nat \<Rightarrow> ctx \<Rightarrow> string \<Rightarrow> string \<Rightarrow> (string \<times> uint64 \<times> string) \<Rightarrow> (string option) \<Rightarrow> (controller, volume \<times> http_response option \<times> error_or_nil) prog" where
  "MockControlPlane_SetFailureMode m arg0 arg1 arg2 arg3 arg4 =
     bindP (Call m ''SetFailureMode'' [ACtx arg0, AString arg1, AString arg2, ASetFailureModeRequest (fst arg3) (fst (snd arg3)) (snd (snd arg3)), opts_arg arg4]) (returns3 retVolume retResponse retError)"

definition MockControlPlaneMockRecorder_SetFailureMode ::
  "nat \<Rightarrow> expected_arg \<Rightarrow> expected_arg \<Rightarrow> expected_arg \<Rightarrow> expected_arg \<Rightarrow> expected_arg \<Rightarrow> (controller, nat) prog" where
  "MockControlPlaneMockRecorder_SetFailureMode mr arg0 arg1 arg2 arg3 arg4 =
     RecordCallWithMethodType mr ''SetFailureMode'' [TVolume, TResponse, TError] [arg0, arg1, arg2, arg3, arg4]"

definition MockControlPlane_SetReplicas ::
  "nat \<Rightarrow> ctx \<Rightarrow> string \<Rightarrow> string \<Rightarrow> (uint64 \<times> string) \<Rightarrow> (string option) \<Rightarrow> (controller, unit \<times> http_response option \<times> error_or_nil) prog" where
  "MockControlPlane_SetReplicas m arg0 arg1 arg2 arg3 arg4 =
     bindP (Call m ''SetReplicas'' [ACtx arg0, AString arg1, AString arg2, ASetReplicasRequest (fst arg3) (snd arg3), opts_arg arg4]) (returns3 retAcceptedMessage retResponse retError)"

definition MockControlPlaneMockRecorder_SetReplicas ::
  "nat \<Rightarrow> expected_arg \<Rightarrow> expected_arg \<Rightarrow> expected_arg \<Rightarrow> expected_arg \<Rightarrow> expected_arg \<Rightarrow> (controller, nat) prog" where
  "MockControlPlaneMockRecorder_SetReplicas mr arg0 arg1 arg2 arg3 arg4 =
     RecordCallWithMethodType mr ''SetReplicas'' [TAcceptedMessage, TResponse, TError] [arg0, arg1, arg2, arg3, arg4]"

definition MockControlPlane_UpdateNFSVolumeMountEndpoint ::
  "nat \<Rightarrow> ctx \<Rightarrow> string \<Rightarrow> string \<Rightarrow> (string \<times> string) \<Rightarrow> (string option) \<Rightarrow> (controller, http_response option \<times> error_or_nil) prog" where
  "MockControlPlane_UpdateNFSVolumeMountEndpoint m arg0 arg1 arg2 arg3 arg4 =
     bindP (Call m ''UpdateNFSVolumeMountEndpoint'' [ACtx arg0, AString arg1, AString arg2, ANfsVolumeMountEndpoint (fst arg3) (snd arg3), opts_arg arg4]) (returns2 retResponse retError)"

definition MockControlPlaneMockRecorder_UpdateNFSVolumeMountEndpoint ::
  "nat \<Rightarrow> expected_arg \<Rightarrow> expected_arg \<Rightarrow> expected_arg \<Rightarrow> expected_arg \<Rightarrow> expected_arg \<Rightarrow> (controller, nat) prog" where
  "MockControlPlaneMockRecorder_UpdateNFSVolumeMountEndpoint mr arg0 arg1 arg2 arg3 arg4 =
     RecordCallWithMethodType mr ''UpdateNFSVolumeMountEndpoint'' [TResponse, TError] [arg0, arg1, arg2, arg3, arg4]"

definition MockControlPlane_UpdateNode ::
  "nat \<Rightarrow> ctx \<Rightarrow> string \<Rightarrow> (smap \<times> string) \<Rightarrow> (controller, node \<times> http_response option \<times> error_or_nil) prog" where
  "MockControlPlane_UpdateNode m arg0 arg1 arg2 =
     bindP (Call m ''UpdateNode'' [ACtx arg0, AString arg1, AUpdateNodeData (fst arg2) (snd arg2)]) (returns3 retNode retResponse retError)"

definition MockControlPlaneMockRecorder_UpdateNode ::
  "nat \<Rightarrow> expected_arg \<Rightarrow> expected_arg \<Rightarrow> expected_arg \<Rightarrow> (controller, nat) prog" where
  "MockControlPlaneMockRecorder_UpdateNode mr arg0 arg1 arg2 =
     RecordCallWithMethodType mr ''UpdateNode'' [TNode, TResponse, TError] [arg0, arg1, arg2]"

definition MockControlPlane_UpdateVolume ::
  "nat \<Rightarrow> ctx \<Rightarrow> string \<Rightarrow> string \<Rightarrow> (smap \<times> string) \<Rightarrow> (string option) \<Rightarrow> (controller, volume \<times> http_response option \<times> error_or_nil) prog" where
  "MockControlPlane_UpdateVolume m arg0 arg1 arg2 arg3 arg4 =
     bindP (Call m ''UpdateVolume'' [ACtx arg0, AString arg1, AString arg2, AUpdateVolumeData (fst arg3) (snd arg3), opts_arg arg4]) (returns3 retVolume retResponse retError)"

definition MockControlPlaneMockRecorder_UpdateVolume ::
  "nat \<Rightarrow> expected_arg \<Rightarrow> expected_arg \<Rightarrow> expected_arg \<Rightarrow> expected_arg \<Rightarrow> expected_arg \<Rightarrow> (controller, nat) prog" where
  "MockControlPlaneMockRecorder_UpdateVolume mr arg0 arg1 arg2 arg3 arg4 =
     RecordCallWithMethodType mr ''UpdateVolume'' [TVolume, TResponse, TError] [arg0, arg1, arg2, arg3, arg4]"

section \<open>\<open>MockIdentifier\<close>\<close>

definition NewMockIdentifier :: "(controller, nat) prog" where
  "NewMockIdentifier = new_mock"

definition MockIdentifier_EXPECT :: "nat \<Rightarrow> nat" where
  "MockIdentifier_EXPECT m = m"

definition MockIdentifier_GetID ::
  "nat \<Rightarrow> (controller, string) prog" where
  "MockIdentifier_GetID m =
     bindP (Call m ''GetID'' []) (returns1 retString)"

definition MockIdentifierMockRecorder_GetID ::
  "nat \<Rightarrow> (controller, nat) prog" where
  "MockIdentifierMockRecorder_GetID mr =
     RecordCallWithMethodType mr ''GetID'' [TString] []"

definition MockIdentifier_GetName ::
  "nat \<Rightarrow> (controller, string) prog" where
  "MockIdentifier_GetName m =
     bindP (Call m ''GetName'' []) (returns1 retString)"

definition MockIdentifierMockRecorder_GetName ::
  "nat \<Rightarrow> (controller, nat) prog" where
  "MockIdentifierMockRecorder_GetName mr =
     RecordCallWithMethodType mr ''GetName'' [TString] []"

definition MockIdentifier_GetNamespace ::
  "nat \<Rightarrow> (controller, string) prog" where
  "MockIdentifier_GetNamespace m =
     bindP (Call m ''GetNamespace'' []) (returns1 retString)"

definition MockIdentifierMockRecorder_GetNamespace ::
  "nat \<Rightarrow> (controller, nat) prog" where
  "MockIdentifierMockRecorder_GetNamespace mr =
     RecordCallWithMethodType mr ''GetNamespace'' [TString] []"

section \<open>\<open>MockObject\<close>\<close>

definition NewMockObject :: "(controller, nat) prog" where
  "NewMockObject = new_mock"

definition MockObject_EXPECT :: "nat \<Rightarrow> nat" where
  "MockObject_EXPECT m = m"

definition MockObject_GetID ::
  "nat \<Rightarrow> (controller, string) prog" where
  "MockObject_GetID m =
     bindP (Call m ''GetID'' []) (returns1 retString)"

definition MockObjectMockRecorder_GetID ::
  "nat \<Rightarrow> (controller, nat) prog" where
  "MockObjectMockRecorder_GetID mr =
     RecordCallWithMethodType mr ''GetID'' [TString] []"

definition MockObject_GetLabels ::
  "nat \<Rightarrow> (controller, smap) prog" where
  "MockObject_GetLabels m =
     bindP (Call m ''GetLabels'' []) (returns1 retMap)"

definition MockObjectMockRecorder_GetLabels ::
  "nat \<Rightarrow> (controller, nat) prog" where
  "MockObjectMockRecorder_GetLabels mr =
     RecordCallWithMethodType mr ''GetLabels'' [TMap] []"

definition MockObject_GetName ::
  "nat \<Rightarrow> (controller, string) prog" where
  "MockObject_GetName m =
     bindP (Call m ''GetName'' []) (returns1 retString)"

definition MockObjectMockRecorder_GetName ::
  "nat \<Rightarrow> (controller, nat) prog" where
  "MockObjectMockRecorder_GetName mr =
     RecordCallWithMethodType mr ''GetName'' [TString] []"

definition MockObject_GetNamespace ::
  "nat \<Rightarrow> (controller, string) prog" where
  "MockObject_GetNamespace m =
     bindP (Call m ''GetNamespace'' []) (returns1 retString)"

definition MockObjectMockRecorder_GetNamespace ::
  "nat \<Rightarrow> (controller, nat) prog" where
  "MockObjectMockRecorder_GetNamespace mr =
     RecordCallWithMethodType mr ''GetNamespace'' [TString] []"

definition MockObject_IsHealthy ::
  "nat \<Rightarrow> (controller, bool) prog" where
  "MockObject_IsHealthy m =
     bindP (Call m ''IsHealthy'' []) (returns1 retBool)"

definition MockObjectMockRecorder_IsHealthy ::
  "nat \<Rightarrow> (controller, nat) prog" where
  "MockObjectMockRecorder_IsHealthy mr =
     RecordCallWithMethodType mr ''IsHealthy'' [TBool] []"

section \<open>\<open>MockNodeDeleter\<close>\<close>

definition NewMockNodeDeleter :: "(controller, nat) prog" where
  "NewMockNodeDeleter = new_mock"

definition MockNodeDeleter_EXPECT :: "nat \<Rightarrow> nat" where
  "MockNodeDeleter_EXPECT m = m"

definition MockNodeDeleter_DeleteNode ::
  "nat \<Rightarrow> ctx \<Rightarrow> objkey \<Rightarrow> (controller, error_or_nil) prog" where
  "MockNodeDeleter_DeleteNode m arg0 arg1 =
     bindP (Call m ''DeleteNode'' [ACtx arg0, AKey arg1]) (returns1 retError)"

definition MockNodeDeleterMockRecorder_DeleteNode ::
  "nat \<Rightarrow> expected_arg \<Rightarrow> expected_arg \<Rightarrow> (controller, nat) prog" where
  "MockNodeDeleterMockRecorder_DeleteNode mr arg0 arg1 =
     RecordCallWithMethodType mr ''DeleteNode'' [TError] [arg0, arg1]"

definition MockNodeDeleter_ListNodes ::
  "nat \<Rightarrow> ctx \<Rightarrow> (controller, NodeCR list \<times> error_or_nil) prog" where
  "MockNodeDeleter_ListNodes m arg0 =
     bindP (Call m ''ListNodes'' [ACtx arg0]) (returns2 retClientObjects retError)"

definition MockNodeDeleterMockRecorder_ListNodes ::
  "nat \<Rightarrow> expected_arg \<Rightarrow> (controller, nat) prog" where
  "MockNodeDeleterMockRecorder_ListNodes mr arg0 =
     RecordCallWithMethodType mr ''ListNodes'' [TClientObjects, TError] [arg0]"

section \<open>\<open>MockNamespaceDeleter\<close>\<close>

definition NewMockNamespaceDeleter :: "(controller, nat) prog" where
  "NewMockNamespaceDeleter = new_mock"

definition MockNamespaceDeleter_EXPECT :: "nat \<Rightarrow> nat" where
  "MockNamespaceDeleter_EXPECT m = m"

definition MockNamespaceDeleter_DeleteNamespace ::
  "nat \<Rightarrow> ctx \<Rightarrow> objkey \<Rightarrow> (controller, error_or_nil) prog" where
  "MockNamespaceDeleter_DeleteNamespace m arg0 arg1 =
     bindP (Call m ''DeleteNamespace'' [ACtx arg0, AKey arg1]) (returns1 retError)"

definition MockNamespaceDeleterMockRecorder_DeleteNamespace ::
  "nat \<Rightarrow> expected_arg \<Rightarrow> expected_arg \<Rightarrow> (controller, nat) prog" where
  "MockNamespaceDeleterMockRecorder_DeleteNamespace mr arg0 arg1 =
     RecordCallWithMethodType mr ''DeleteNamespace'' [TError] [arg0, arg1]"

definition MockNamespaceDeleter_ListNamespaces ::
  "nat \<Rightarrow> ctx \<Rightarrow> (controller, sobject list \<times> error_or_nil) prog" where
  "MockNamespaceDeleter_ListNamespaces m arg0 =
     bindP (Call m ''ListNamespaces'' [ACtx arg0]) (returns2 retObjects retError)"

definition MockNamespaceDeleterMockRecorder_ListNamespaces ::
  "nat \<Rightarrow> expected_arg \<Rightarrow> (controller, nat) prog" where
  "MockNamespaceDeleterMockRecorder_ListNamespaces mr arg0 =
     RecordCallWithMethodType mr ''ListNamespaces'' [TObjects, TError] [arg0]"

section \<open>\<open>MockNodeLabeller\<close>\<close>

definition NewMockNodeLabeller :: "(controller, nat) prog" where
  "NewMockNodeLabeller = new_mock"

definition MockNodeLabeller_EXPECT :: "nat \<Rightarrow> nat" where
  "MockNodeLabeller_EXPECT m = m"

definition MockNodeLabeller_EnsureNodeLabels ::
  "nat \<Rightarrow> ctx \<Rightarrow> objkey \<Rightarrow> smap \<Rightarrow> (controller, error_or_nil) prog" where
  "MockNodeLabeller_EnsureNodeLabels m arg0 arg1 arg2 =
     bindP (Call m ''EnsureNodeLabels'' [ACtx arg0, AKey arg1, AMap arg2]) (returns1 retError)"

definition MockNodeLabellerMockRecorder_EnsureNodeLabels ::
  "nat \<Rightarrow> expected_arg \<Rightarrow> expected_arg \<Rightarrow> expected_arg \<Rightarrow> (controller, nat) prog" where
  "MockNodeLabellerMockRecorder_EnsureNodeLabels mr arg0 arg1 arg2 =
     RecordCallWithMethodType mr ''EnsureNodeLabels'' [TError] [arg0, arg1, arg2]"

definition MockNodeLabeller_NodeObjects ::
  "nat \<Rightarrow> ctx \<Rightarrow> (controller, (objkey \<times> sobject) list \<times> error_or_nil) prog" where
  "MockNodeLabeller_NodeObjects m arg0 =
     bindP (Call m ''NodeObjects'' [ACtx arg0]) (returns2 retObjectMap retError)"

definition MockNodeLabellerMockRecorder_NodeObjects ::
  "nat \<Rightarrow> expected_arg \<Rightarrow> (controller, nat) prog" where
  "MockNodeLabellerMockRecorder_NodeObjects mr arg0 =
     RecordCallWithMethodType mr ''NodeObjects'' [TObjectMap, TError] [arg0]"

section \<open>\<open>MockVolumeLabeller\<close>\<close>

definition NewMockVolumeLabeller :: "(controller, nat) prog" where
  "NewMockVolumeLabeller = new_mock"

definition MockVolumeLabeller_EXPECT :: "nat \<Rightarrow> nat" where
  "MockVolumeLabeller_EXPECT m = m"

definition MockVolumeLabeller_EnsureVolumeLabels ::
  "nat \<Rightarrow> ctx \<Rightarrow> objkey \<Rightarrow> smap \<Rightarrow> (controller, error_or_nil) prog" where
  "MockVolumeLabeller_EnsureVolumeLabels m arg0 arg1 arg2 =
     bindP (Call m ''EnsureVolumeLabels'' [ACtx arg0, AKey arg1, AMap arg2]) (returns1 retError)"

definition MockVolumeLabellerMockRecorder_EnsureVolumeLabels ::
  "nat \<Rightarrow> expected_arg \<Rightarrow> expected_arg \<Rightarrow> expected_arg \<Rightarrow> (controller, nat) prog" where
  "MockVolumeLabellerMockRecorder_EnsureVolumeLabels mr arg0 arg1 arg2 =
     RecordCallWithMethodType mr ''EnsureVolumeLabels'' [TError] [arg0, arg1, arg2]"

definition MockVolumeLabeller_VolumeObjects ::
  "nat \<Rightarrow> ctx \<Rightarrow> (controller, (objkey \<times> sobject) list \<times> error_or_nil) prog" where
  "MockVolumeLabeller_VolumeObjects m arg0 =
     bindP (Call m ''VolumeObjects'' [ACtx arg0]) (returns2 retObjectMap retError)"

definition MockVolumeLabellerMockRecorder_VolumeObjects ::
  "nat \<Rightarrow> expected_arg \<Rightarrow> (controller, nat) prog" where
  "MockVolumeLabellerMockRecorder_VolumeObjects mr arg0 =
     RecordCallWithMethodType mr ''VolumeObjects'' [TObjectMap, TError] [arg0]"

section \<open>\<open>MockNodeFencer\<close>\<close>

definition NewMockNodeFencer :: "(controller, nat) prog" where
  "NewMockNodeFencer = new_mock"

definition MockNodeFencer_EXPECT :: "nat \<Rightarrow> nat" where
  "MockNodeFencer_EXPECT m = m"

definition MockNodeFencer_GetVolume ::
  "nat \<Rightarrow> ctx \<Rightarrow> objkey \<Rightarrow> (controller, sobject option \<times> error_or_nil) prog" where
  "MockNodeFencer_GetVolume m arg0 arg1 =
     bindP (Call m ''GetVolume'' [ACtx arg0, AKey arg1]) (returns2 retObject retError)"

definition MockNodeFencerMockRecorder_GetVolume ::
  "nat \<Rightarrow> expected_arg \<Rightarrow> expected_arg \<Rightarrow> (controller, nat) prog" where
  "MockNodeFencerMockRecorder_GetVolume mr arg0 arg1 =
     RecordCallWithMethodType mr ''GetVolume'' [TObject, TError] [arg0, arg1]"

definition MockNodeFencer_ListNodes ::
  "nat \<Rightarrow> ctx \<Rightarrow> (controller, NodeCR list \<times> error_or_nil) prog" where
  "MockNodeFencer_ListNodes m arg0 =
     bindP (Call m ''ListNodes'' [ACtx arg0]) (returns2 retClientObjects retError)"

definition MockNodeFencerMockRecorder_ListNodes ::
  "nat \<Rightarrow> expected_arg \<Rightarrow> (controller, nat) prog" where
  "MockNodeFencerMockRecorder_ListNodes mr arg0 =
     RecordCallWithMethodType mr ''ListNodes'' [TClientObjects, TError] [arg0]"

section \<open>\<open>MockVolumeSharer\<close>\<close>

definition NewMockVolumeSharer :: "(controller, nat) prog" where
  "NewMockVolumeSharer = new_mock"

definition MockVolumeSharer_EXPECT :: "nat \<Rightarrow> nat" where
  "MockVolumeSharer_EXPECT m = m"

definition MockVolumeSharer_ListSharedVolumes ::
  "nat \<Rightarrow> ctx \<Rightarrow> (controller, SharedVolume list \<times> error_or_nil) prog" where
  "MockVolumeSharer_ListSharedVolumes m arg0 =
     bindP (Call m ''ListSharedVolumes'' [ACtx arg0]) (returns2 retSharedVolumes retError)"

definition MockVolumeSharerMockRecorder_ListSharedVolumes ::
  "nat \<Rightarrow> expected_arg \<Rightarrow> (controller, nat) prog" where
  "MockVolumeSharerMockRecorder_ListSharedVolumes mr arg0 =
     RecordCallWithMethodType mr ''ListSharedVolumes'' [TSharedVolumes, TError] [arg0]"

definition MockVolumeSharer_SetExternalEndpoint ::
  "nat \<Rightarrow> ctx \<Rightarrow> string \<Rightarrow> string \<Rightarrow> string \<Rightarrow> (controller, error_or_nil) prog" where
  "MockVolumeSharer_SetExternalEndpoint m arg0 arg1 arg2 arg3 =
     bindP (Call m ''SetExternalEndpoint'' [ACtx arg0, AString arg1, AString arg2, AString arg3]) (returns1 retError)"

definition MockVolumeSharerMockRecorder_SetExternalEndpoint ::
  "nat \<Rightarrow> expected_arg \<Rightarrow> expected_arg \<Rightarrow> expected_arg \<Rightarrow> expected_arg \<Rightarrow> (controller, nat) prog" where
  "MockVolumeSharerMockRecorder_SetExternalEndpoint mr arg0 arg1 arg2 arg3 =
     RecordCallWithMethodType mr ''SetExternalEndpoint'' [TError] [arg0, arg1, arg2, arg3]"


end
