(* ===== verification/Mock_Tests.thy ===== *)
theory Mock_Tests
  imports Mocks Volume_Labels
begin

text \<open>
  The client under test: its label operations run against a \<open>MockControlPlane\<close>, as
  \<open>node_labels_test.go\<close> and \<open>volume_labels_test.go\<close> do. The first part shows what a
  passing test says of the calls of the client, for arbitrary expectations; the
  second runs the tables of the repository's tests.
\<close>

section \<open>A control plane that is a mock\<close>

text \<open>
  A call that the mock does not expect ends the test. The model of the control
  plane answers every call, so the run goes on with an arbitrary answer, with the
  failure of the test recorded: nothing that happens after it changes the verdict.
\<close>

definition goexit :: "'a \<Rightarrow> (controller, 'a) prog \<Rightarrow> (controller, 'a) ext" where
  "goexit z m s = (case m s of (Ret a, s') \<Rightarrow> (a, s') | (Panic, s') \<Rightarrow> (z, s'\<lparr>ct_failed := True\<rparr>))"

definition no_value :: "'a \<times> 'b \<Rightarrow> unit \<times> 'b" where
  "no_value r = ((), snd r)"

text \<open>
  The mock as the control plane of a client. The options of every call are nil,
  but for \<open>SetComputeOnly\<close>; the client authenticates without a token.
\<close>

definition mock_plane :: "nat \<Rightarrow> controller control_plane" where
  "mock_plane m =
     \<lparr>api_RefreshJwt = (\<lambda>x. goexit ((), None, None) (MockControlPlane_RefreshJwt m x)),
      api_AuthenticateUser = (\<lambda>u p. goexit ((), None, None) (MockControlPlane_AuthenticateUser m None (u, p))),
      api_ListNamespaces = (\<lambda>x. goexit ([], None, None) (MockControlPlane_ListNamespaces m x)),
      api_DeleteNamespace = (\<lambda>x i v. goexit ((), None, None)
        (bindP (MockControlPlane_DeleteNamespace m x i v None) (\<lambda>r. retP ((), r)))),
      api_ListNodes = (\<lambda>x. goexit ([], None, None) (MockControlPlane_ListNodes m x)),
      api_UpdateNode = (\<lambda>x i l v. goexit ((), None, None)
        (bindP (MockControlPlane_UpdateNode m x i (l, v)) (\<lambda>r. retP (no_value r)))),
      api_DeleteNode = (\<lambda>x i v. goexit ((), None, None)
        (bindP (MockControlPlane_DeleteNode m x i v None) (\<lambda>r. retP ((), r)))),
      api_SetComputeOnly = (\<lambda>x i b v. goexit ((), None, None)
        (bindP (MockControlPlane_SetComputeOnly m x i (b, v) (Some ''SetComputeOnlyOpts'')) (\<lambda>r. retP (no_value r)))),
      api_ListVolumes = (\<lambda>x n. goexit ([], None, None) (MockControlPlane_ListVolumes m x n)),
      api_GetVolume = (\<lambda>x n i. goexit (zero_volume, None, None) (MockControlPlane_GetVolume m x n i)),
      api_UpdateVolume = (\<lambda>x n i l v. goexit ((), None, None)
        (bindP (MockControlPlane_UpdateVolume m x n i (l, v) None) (\<lambda>r. retP (no_value r)))),
      api_SetReplicas = (\<lambda>x n i r v. goexit ((), None, None)
        (MockControlPlane_SetReplicas m x n i (r, v) None)),
      api_SetFailureMode = (\<lambda>x n i f t v. goexit ((), None, None)
        (bindP (MockControlPlane_SetFailureMode m x n i (f, t, v) None) (\<lambda>r. retP (no_value r)))),
      api_UpdateNFSVolumeMountEndpoint = (\<lambda>x n i e v. goexit ((), None, None)
        (bindP (MockControlPlane_UpdateNFSVolumeMountEndpoint m x n i (e, v) None) (\<lambda>r. retP ((), r))))\<rparr>"

text \<open>The call of the mock that an event of the client's trace is.\<close>

primrec ev_call :: "nat \<Rightarrow> api_event \<Rightarrow> mock_call" where
  "ev_call m (EvRefreshJwt x r) = (m, ''RefreshJwt'', [ACtx x])"
| "ev_call m (EvAuthenticateUser u p r) = (m, ''AuthenticateUser'', [ACtx None, AAuthUserData u p])"
| "ev_call m (EvListNamespaces x r) = (m, ''ListNamespaces'', [ACtx x])"
| "ev_call m (EvDeleteNamespace x i v r) = (m, ''DeleteNamespace'', [ACtx x, AString i, AString v, ANil])"
| "ev_call m (EvListNodes x r) = (m, ''ListNodes'', [ACtx x])"
| "ev_call m (EvUpdateNode x i l v r) = (m, ''UpdateNode'', [ACtx x, AString i, AUpdateNodeData l v])"
| "ev_call m (EvDeleteNode x i v r) = (m, ''DeleteNode'', [ACtx x, AString i, AString v, ANil])"
| "ev_call m (EvSetComputeOnly x i b v r) =
     (m, ''SetComputeOnly'', [ACtx x, AString i, ASetComputeOnlyNodeData b v, AOpts ''SetComputeOnlyOpts''])"
| "ev_call m (EvListVolumes x n r) = (m, ''ListVolumes'', [ACtx x, AString n])"
| "ev_call m (EvGetVolume x n i r) = (m, ''GetVolume'', [ACtx x, AString n, AString i])"
| "ev_call m (EvUpdateVolume x n i l v r) =
     (m, ''UpdateVolume'', [ACtx x, AString n, AString i, AUpdateVolumeData l v, ANil])"
| "ev_call m (EvSetReplicas x n i d v r) =
     (m, ''SetReplicas'', [ACtx x, AString n, AString i, ASetReplicasRequest d v, ANil])"
| "ev_call m (EvSetFailureMode x n i f t v r) =
     (m, ''SetFailureMode'', [ACtx x, AString n, AString i, ASetFailureModeRequest f t v, ANil])"
| "ev_call m (EvUpdateNFSVolumeMountEndpoint x n i e v r) =
     (m, ''UpdateNFSVolumeMountEndpoint'', [ACtx x, AString n, AString i, ANfsVolumeMountEndpoint e v, ANil])"

section \<open>Runs of the client as calls of the mock\<close>

text \<open>How many results a method of the control plane has.\<close>

definition plane_results :: "string \<Rightarrow> nat" where
  "plane_results meth =
     (if meth \<in> {''DeleteNamespace'', ''DeleteNode'', ''UpdateNFSVolumeMountEndpoint''} then 2 else 3)"

definition typed_calls :: "nat \<Rightarrow> controller \<Rightarrow> bool" where
  "typed_calls m s \<longleftrightarrow>
     list_all (\<lambda>c. gc_receiver c = m \<longrightarrow> length (run_actions (gc_actions c)) = plane_results (gc_method c)) (ct_calls s) \<and>
     (\<forall>key. \<forall>i \<in> set (calls_at (ct_expected s) key). i < length (ct_calls s) \<and> call_key (ct_calls s ! i) = key)"

definition after_call :: "mock_call \<Rightarrow> controller \<Rightarrow> controller" where
  "after_call k s = (case k of (receiver, meth, args) \<Rightarrow> snd (Call receiver meth args s))"

lemma counted_sel [simp]:
  "length (counted i cs) = length cs" "gc_receiver (counted i cs ! j) = gc_receiver (cs ! j)"
  "gc_method (counted i cs ! j) = gc_method (cs ! j)" "gc_actions (counted i cs ! j) = gc_actions (cs ! j)"
  by (cases "i < length cs"; cases "i = j"; simp add: counted_def not_less list_update_beyond)+

lemma FindMatch_in: "FindMatch s receiver meth args = Some i \<Longrightarrow> i \<in> set (calls_at (ct_expected s) (receiver, meth))"
  by (auto simp: FindMatch_def find_Some_iff in_set_conv_nth)

lemma expected_Remove:
  "set (calls_at (ct_expected (callSet_Remove i s)) key) \<subseteq> set (calls_at (ct_expected s) key)"
  by (auto simp: callSet_Remove_def Let_def calls_at_update split: if_splits dest: set_mp [OF set_remove1_subset])

text \<open>A call keeps the recorded calls as they are typed, and returns as many results as its method has.\<close>

lemma Call_typed:
  assumes "typed_calls m s"
  shows "typed_calls m (snd (Call m meth args s))"
    and "fst (Call m meth args s) = Ret rets \<Longrightarrow> length rets = plane_results meth"
    and "fst (Call m meth args s) = Panic \<Longrightarrow> ct_failed (snd (Call m meth args s))"
    and "ct_failed s \<Longrightarrow> ct_failed (snd (Call m meth args s))"
proof -
  have fail: "typed_calls m (s\<lparr>ct_failed := True\<rparr>)" using assms by (simp add: typed_calls_def)
  have step: "typed_calls m (s\<lparr>ct_calls := counted i (ct_calls s)\<rparr>)" for i
    using assms unfolding typed_calls_def
    by (simp add: list_all_length call_key_def)
  have rem: "typed_calls m (callSet_Remove i s')" if "typed_calls m s'" for i s'
    using that expected_Remove [of i s'] unfolding typed_calls_def ct_sel_Remove by blast
  show "typed_calls m (snd (Call m meth args s))"
    using fail step rem
    by (auto simp: Call_def Fatalf_def Let_def simp flip: counted_def split: option.split)
  show "fst (Call m meth args s) = Ret rets \<Longrightarrow> length rets = plane_results meth"
    using assms FindMatch_in [of s m meth args]
    by (fastforce simp: Call_def Fatalf_def Let_def typed_calls_def list_all_length call_key_def split: option.splits)
  show "fst (Call m meth args s) = Panic \<Longrightarrow> ct_failed (snd (Call m meth args s))"
    by (simp add: Call_def Fatalf_def Let_def split: option.splits)
  show "ct_failed s \<Longrightarrow> ct_failed (snd (Call m meth args s))"
    by (simp add: Call_def Fatalf_def Let_def split: option.split)
qed

lemma ev_call_receiver: "\<exists>meth args. ev_call m e = (m, meth, args)"
  by (cases e) simp_all

lemma after_calls_typed:
  "typed_calls m s \<Longrightarrow> typed_calls m (fold after_call (map (ev_call m) es) s)"
proof (induction es arbitrary: s)
  case (Cons e es)
  obtain meth args where "ev_call m e = (m, meth, args)" using ev_call_receiver by blast
  with Cons show ?case by (simp add: after_call_def Call_typed(1))
qed simp

lemma goexit_Call:
  assumes "typed_calls m s" and "\<And>rets. length rets = plane_results meth \<Longrightarrow> \<exists>a. f rets = retP a"
  shows "snd (goexit z (bindP (Call m meth args) f) s) = after_call (m, meth, args) s"
proof (cases "FindMatch s m meth args")
  case None
  then show ?thesis by (simp add: goexit_def bindP_run after_call_def Call_def Fatalf_def)
next
  case (Some i)
  then obtain rets s' where run: "Call m meth args s = (Ret rets, s')" by (simp add: Call_def Let_def)
  with Call_typed(2) [OF assms(1), of meth args rets] assms(2) obtain a where "f rets = retP a" by auto
  with run show ?thesis by (simp add: goexit_def bindP_run retP_run after_call_def)
qed

lemma returns_retP:
  "length rets = 2 \<Longrightarrow> \<exists>a. returns2 f g rets = retP a"
  "length rets = 3 \<Longrightarrow> \<exists>a. returns3 f g h rets = retP a"
  by (auto simp: returns2_def returns3_def numeral_2_eq_2 numeral_3_eq_3 length_Suc_conv simp del: split_paired_Ex)

lemma returns_then:
  "length rets = 2 \<Longrightarrow> \<exists>a. bindP (returns2 f g rets) (\<lambda>r. retP (u r)) = retP a"
  "length rets = 3 \<Longrightarrow> \<exists>a. bindP (returns3 f g h rets) (\<lambda>r. retP (w r)) = retP a"
  by (auto simp: returns2_def returns3_def numeral_2_eq_2 numeral_3_eq_3 length_Suc_conv simp del: split_paired_Ex)

text \<open>
  \<open>follows m p\<close>: a run of the client against the mock \<open>m\<close> leaves the controller as the
  calls of the trace, in their order, leave it.
\<close>

definition follows :: "nat \<Rightarrow> ((controller, api_event) traced, 'a) prog \<Rightarrow> bool" where
  "follows m p \<longleftrightarrow>
     (\<forall>s tr. typed_calls m s \<longrightarrow> (\<exists>es. snd (p (s, tr)) = (fold after_call (map (ev_call m) es) s, tr @ es)))"

named_theorems follows_intros \<open>closure of runs against a mock under the program combinators\<close>

lemma follows_retP [follows_intros]: "follows m (retP a)"
  by (auto simp: follows_def retP_run intro!: exI [of _ "[]"])

lemma follows_bindP [follows_intros]:
  assumes "follows m p" and "\<And>a. follows m (f a)"
  shows "follows m (bindP p f)"
  unfolding follows_def
proof (intro allI impI)
  fix s tr assume ty: "typed_calls m s"
  with assms(1) obtain r es where p: "p (s, tr) = (r, (fold after_call (map (ev_call m) es) s, tr @ es))"
    unfolding follows_def by (metis prod.collapse)
  show "\<exists>es. snd (bindP p f (s, tr)) = (fold after_call (map (ev_call m) es) s, tr @ es)"
  proof (cases r)
    case (Ret a)
    from assms(2) [of a] after_calls_typed [OF ty, of es] obtain fs where
      "snd (f a (fold after_call (map (ev_call m) es) s, tr @ es)) =
         (fold after_call (map (ev_call m) fs) (fold after_call (map (ev_call m) es) s), (tr @ es) @ fs)"
      unfolding follows_def by blast
    with p Ret show ?thesis by (intro exI [of _ "es @ fs"]) (simp add: bindP_run)
  next
    case Panic
    with p show ?thesis by (intro exI [of _ es]) (simp add: bindP_run)
  qed
qed

lemma follows_tryP [follows_intros]: "follows m p \<Longrightarrow> (\<And>x. follows m (f x)) \<Longrightarrow> follows m (tryP p f)"
  unfolding tryP_def by (auto intro!: follows_intros split: sum.split)

lemma follows_tryE [follows_intros]: "follows m p \<Longrightarrow> (\<And>x. follows m (f x)) \<Longrightarrow> follows m (tryE p f)"
  unfolding tryE_def by (auto intro!: follows_intros split: sum.split)

lemma follows_collectE [follows_intros]: "follows m p \<Longrightarrow> follows m (collectE ig p errs)"
  unfolding collectE_def by (intro follows_intros)

lemma follows_traceX:
  assumes "\<And>a s. typed_calls m s \<Longrightarrow> snd (f s) = after_call (ev_call m (ev a)) s"
  shows "follows m (apiP (traceX ev f))"
proof -
  have "snd (apiP (traceX ev f) (s, tr)) = (fold after_call (map (ev_call m) [ev (fst (f s))]) s, tr @ [ev (fst (f s))])"
    if "typed_calls m s" for s tr
    using assms [OF that, of "fst (f s)"] by (auto simp: apiP_run traceX_def split: prod.splits)
  then show ?thesis unfolding follows_def by blast
qed

lemma follows_plane [follows_intros]:
  "follows m (apiP (traceX (EvListNamespaces x) (api_ListNamespaces (mock_plane m) x)))"
  "follows m (apiP (traceX (EvListNodes x) (api_ListNodes (mock_plane m) x)))"
  "follows m (apiP (traceX (EvListVolumes x n) (api_ListVolumes (mock_plane m) x n)))"
  "follows m (apiP (traceX (EvSetReplicas x n i d v) (api_SetReplicas (mock_plane m) x n i d v)))"
  "follows m (apiP (traceX (EvUpdateNode x i l v) (api_UpdateNode (mock_plane m) x i l v)))"
  "follows m (apiP (traceX (EvSetComputeOnly x i b v) (api_SetComputeOnly (mock_plane m) x i b v)))"
  "follows m (apiP (traceX (EvUpdateVolume x n i l v) (api_UpdateVolume (mock_plane m) x n i l v)))"
  "follows m (apiP (traceX (EvSetFailureMode x n i md t v) (api_SetFailureMode (mock_plane m) x n i md t v)))"
  by (rule follows_traceX;
      simp add: mock_plane_def MockControlPlane_ListNamespaces_def MockControlPlane_ListNodes_def
        MockControlPlane_ListVolumes_def MockControlPlane_SetReplicas_def MockControlPlane_UpdateNode_def
        MockControlPlane_SetComputeOnly_def MockControlPlane_UpdateVolume_def MockControlPlane_SetFailureMode_def
        bindP_assoc goexit_Call plane_results_def returns_retP returns_then del: split_paired_Ex)+

lemma follows_getNodeByKey [follows_intros]: "follows m (getNodeByKey (traced_cp (mock_plane m)) x key)"
  unfolding getNodeByKey_def by (auto intro!: follows_intros split: option.split)

lemma follows_getVolume [follows_intros]: "follows m (getVolume (traced_cp (mock_plane m)) x key)"
  unfolding getVolume_def getNamespace_def by (auto intro!: follows_intros split: option.split)

lemma follows_EnsureNodeLabels: "follows m (EnsureNodeLabels (traced_cp (mock_plane m)) c key labels)"
  unfolding EnsureNodeLabels_def EnsureComputeOnly_def EnsureUnreservedNodeLabels_def Let_def
  by (auto intro!: follows_intros split: sum.split)

lemma follows_EnsureVolumeLabels: "follows m (EnsureVolumeLabels (traced_cp (mock_plane m)) c key labels)"
  unfolding EnsureVolumeLabels_def EnsureReplicas_def EnsureFailureMode_def EnsureUnreservedVolumeLabels_def Let_def
  by (auto intro!: follows_intros split: sum.split prod.split option.split)


section \<open>The verdict on the client\<close>

lemma after_call_failed: "ct_failed s \<Longrightarrow> ct_failed (after_call k s)"
  by (cases k) (simp add: after_call_def Call_def Fatalf_def Let_def split: option.split)

lemma fold_after_call_failed: "ct_failed s \<Longrightarrow> ct_failed (fold after_call ks s)"
  by (induction ks arbitrary: s) (simp_all add: after_call_failed)

lemma passes_failed: "ct_failed s \<Longrightarrow> \<not> passes (retP ()) s"
  by (simp add: passes_def Finish_def Fatalf_def Let_def)

lemma passes_after_calls: "passes (serve ks) s \<longleftrightarrow> passes (retP ()) (fold after_call ks s)"
proof (induction ks arbitrary: s)
  case Nil
  then show ?case by (simp add: serve_simps)
next
  case (Cons k ks)
  obtain receiver meth args where k: "k = (receiver, meth, args)" by (cases k)
  obtain r s' where run: "Call receiver meth args s = (r, s')" by (metis prod.collapse)
  have "passes (serve (k # ks)) s \<longleftrightarrow> (case r of Ret _ \<Rightarrow> passes (serve ks) s' | Panic \<Rightarrow> False)"
    by (simp add: k serve_simps passes_def bindP_assoc run bindP_run split: outcome.split)
  also have "\<dots> \<longleftrightarrow> passes (retP ()) (fold after_call ks s')"
  proof (cases r)
    case Panic
    then have "ct_failed s'" using run by (auto simp: Call_def Fatalf_def Let_def split: option.splits)
    with Panic show ?thesis by (simp add: fold_after_call_failed passes_failed)
  qed (simp add: Cons.IH)
  also have "s' = after_call k s" by (simp add: k after_call_def run)
  finally show ?case by simp
qed

text \<open>An expectation that a test records through the mock's recorder.\<close>

definition plane_expectation :: "nat \<Rightarrow> expectation \<Rightarrow> bool" where
  "plane_expectation m e \<longleftrightarrow> expectation_ok e \<and> ex_receiver e = m \<and> length (ex_methodType e) = plane_results (ex_method e)"

lemma run_actions_expected:
  assumes "plane_expectation m e"
  shows "length (run_actions (gc_actions (expected_call e))) = plane_results (gc_method (expected_call e))"
proof -
  have "length (ex_returns e) = plane_results (ex_method e)"
    using assms by (simp add: plane_expectation_def expectation_ok_def returns_ok_def)
  moreover from this have "ex_returns e \<noteq> []" by (auto simp: plane_results_def split: if_splits)
  moreover have "gc_method (expected_call e) = ex_method e"
    using key_expected [of e] by (simp add: call_key_def)
  ultimately show ?thesis by (simp add: run_actions_def expected_call_def)
qed

lemma typed_prepared:
  assumes "list_all (plane_expectation m) es" and "wf_calls {} s" and "ct_calls s = map expected_call es"
  shows "typed_calls m s"
  using assms run_actions_expected [of m] by (auto simp: typed_calls_def list_all_iff wf_calls_def)

text \<open>Tracing a run does not change it.\<close>

definition traces :: "(('w, 'e) traced, 'a) prog \<Rightarrow> ('w, 'a) prog \<Rightarrow> bool" where
  "traces p q \<longleftrightarrow> (\<forall>w tr. fst (p (w, tr)) = fst (q w) \<and> fst (snd (p (w, tr))) = snd (q w))"

named_theorems traces_intros \<open>closure of the tracing of runs under the program combinators\<close>

lemma traces_retP [traces_intros]: "traces (retP a) (retP a)"
  by (simp add: traces_def retP_run)

lemma traces_bindP [traces_intros]:
  assumes "traces p q" and "\<And>a. traces (f a) (g a)"
  shows "traces (bindP p f) (bindP q g)"
  unfolding traces_def
proof (intro allI)
  fix w tr
  obtain r w' tr' where p: "p (w, tr) = (r, (w', tr'))" by (metis prod.collapse)
  with assms(1) have "q w = (r, w')" unfolding traces_def by (metis fst_conv snd_conv prod.collapse)
  with p assms(2) show "fst (bindP p f (w, tr)) = fst (bindP q g w) \<and> fst (snd (bindP p f (w, tr))) = snd (bindP q g w)"
    by (cases r) (simp_all add: bindP_run traces_def)
qed

lemma traces_sum:
  "(\<And>e. traces (f e) (f' e)) \<Longrightarrow> (\<And>a. traces (g a) (g' a)) \<Longrightarrow> traces (case r of Inl e \<Rightarrow> f e | Inr a \<Rightarrow> g a) (case r of Inl e \<Rightarrow> f' e | Inr a \<Rightarrow> g' a)"
  by (cases r) simp_all

lemma traces_tryP [traces_intros]: "traces p q \<Longrightarrow> (\<And>x. traces (f x) (g x)) \<Longrightarrow> traces (tryP p f) (tryP q g)"
  unfolding tryP_def by (intro traces_intros traces_sum)

lemma traces_tryE [traces_intros]: "traces p q \<Longrightarrow> (\<And>x. traces (f x) (g x)) \<Longrightarrow> traces (tryE p f) (tryE q g)"
  unfolding tryE_def by (intro traces_intros traces_sum)

lemma traces_collectE [traces_intros]: "traces p q \<Longrightarrow> traces (collectE ig p errs) (collectE ig q errs)"
  unfolding collectE_def by (intro traces_intros)

lemma traces_apiP [traces_intros]: "traces (apiP (traceX ev f)) (apiP f)"
  by (simp add: traces_def apiP_run traceX_run split: prod.split)

lemma traces_getNodeByKey [traces_intros]: "traces (getNodeByKey (traced_cp cp) x key) (getNodeByKey cp x key)"
  unfolding getNodeByKey_def by (auto intro!: traces_intros split: option.split)

lemma traces_getVolume [traces_intros]: "traces (getVolume (traced_cp cp) x key) (getVolume cp x key)"
  unfolding getVolume_def getNamespace_def by (auto intro!: traces_intros split: option.split)

lemma traces_EnsureNodeLabels: "traces (EnsureNodeLabels (traced_cp cp) c key labels) (EnsureNodeLabels cp c key labels)"
  unfolding EnsureNodeLabels_def EnsureComputeOnly_def EnsureUnreservedNodeLabels_def Let_def
  by (auto intro!: traces_intros split: sum.split)

lemma traces_EnsureVolumeLabels: "traces (EnsureVolumeLabels (traced_cp cp) c key labels) (EnsureVolumeLabels cp c key labels)"
  unfolding EnsureVolumeLabels_def EnsureReplicas_def EnsureFailureMode_def EnsureUnreservedVolumeLabels_def Let_def
  by (auto intro!: traces_intros split: sum.split prod.split option.split)

section \<open>The tests of the client\<close>

text \<open>\<open>t.Errorf\<close> reports the failure and goes on.\<close>

definition Errorf :: "(controller, unit) prog" where
  "Errorf s = (Ret (), s\<lparr>ct_failed := True\<rparr>)"

text \<open>
  The body of the subtests: a mock, its expectations, the operation on a client of the mock,
  and the check whether an error came back. \<open>Finish\<close> is deferred: \<open>passes\<close> runs it.
\<close>

definition client_test ::
  "(nat \<Rightarrow> expectation list) \<Rightarrow> (controller control_plane \<Rightarrow> (controller, error_or_nil) prog) \<Rightarrow> bool \<Rightarrow> (controller, unit) prog" where
  "client_test es p wantErr =
     bindP NewMockControlPlane (\<lambda>m.
     bindP (prepare (es m)) (\<lambda>_.
     bindP (p (mock_plane m)) (\<lambda>err.
       if (err \<noteq> None) = wantErr then retP () else Errorf)))"

definition test_controller :: controller where
  "test_controller = NewController\<lparr>ct_mocks := 1\<rparr>"

lemma fresh_test_controller: "fresh test_controller"
  by (simp add: fresh_def test_controller_def NewController_def)

text \<open>
  What is needed of an operation of the client to be judged by its calls of the
  mock: that it calls nothing else, that its trace is faithful and that it returns.
\<close>

locale mocked_operation =
  fixes traced_op :: "((controller, api_event) traced, error_or_nil) prog"
    and op :: "controller control_plane \<Rightarrow> (controller, error_or_nil) prog"
  assumes op_follows: "follows 0 traced_op"
    and op_traces: "traces traced_op (op (mock_plane 0))"
    and op_no_panic: "no_panic traced_op"
begin

lemma verdict:
  assumes ok: "list_all (plane_expectation 0) (es 0)" and disj: "disjoint_expectations (es 0)"
    and run: "prepare (es 0) test_controller = (Ret (), s)" "traced_op (s, []) = (r, (s', tr))"
  shows "passes (client_test es op wantErr) NewController \<longleftrightarrow>
           (r \<noteq> Ret None) = wantErr \<and> conforms (es 0) (map (ev_call 0) tr)"
proof -
  obtain err where r: "r = Ret err" using op_no_panic run(2) by (metis no_panicE prod.inject)
  have ok': "list_all expectation_ok (es 0)" using ok by (simp add: plane_expectation_def list_all_iff)
  from fresh_prepared [OF ok' fresh_test_controller] run(1) have s: "wf_calls {} s" "ct_calls s = map expected_call (es 0)"
    by auto
  from typed_prepared [OF ok s] op_follows run(2) have s': "s' = fold after_call (map (ev_call 0) tr) s"
    unfolding follows_def by (metis append_Nil prod.inject snd_conv)
  from op_traces run(2) r have q: "op (mock_plane 0) s = (Ret err, s')"
    unfolding traces_def by (metis fst_conv snd_conv prod.collapse)
  have "passes (client_test es op wantErr) NewController \<longleftrightarrow> (err \<noteq> None) = wantErr \<and> passes (retP ()) s'"
    using run(1) q passes_failed [of "s'\<lparr>ct_failed := True\<rparr>"]
    by (simp add: passes_def client_test_def bindP_assoc NewMockControlPlane_def new_mock_def bindP_run
        NewController_def test_controller_def Errorf_def retP_run)
  also have "passes (retP ()) s' \<longleftrightarrow> passes (bindP (prepare (es 0)) (\<lambda>_. serve (map (ev_call 0) tr))) test_controller"
    unfolding s' passes_after_calls [symmetric] by (simp add: passes_def bindP_assoc bindP_run run(1))
  also have "\<dots> \<longleftrightarrow> conforms (es 0) (map (ev_call 0) tr)"
    by (rule mock_verdict [OF ok' disj fresh_test_controller])
  finally show ?thesis by (simp add: r)
qed

end

interpretation node_labels_op: mocked_operation
  "EnsureNodeLabels (traced_cp (mock_plane 0)) c key labels" "\<lambda>cp. EnsureNodeLabels cp c key labels" for c key labels
  by unfold_locales (rule follows_EnsureNodeLabels traces_EnsureNodeLabels no_panic_EnsureNodeLabels)+

interpretation volume_labels_op: mocked_operation
  "EnsureVolumeLabels (traced_cp (mock_plane 0)) c key labels" "\<lambda>cp. EnsureVolumeLabels cp c key labels" for c key labels
  by unfold_locales (rule follows_EnsureVolumeLabels traces_EnsureVolumeLabels no_panic_EnsureVolumeLabels)+

section \<open>The tables of the tests\<close>

text \<open>The expectations that the tests state, and that they are what the recorder of the mock records.\<close>

definition plane_expect :: "nat \<Rightarrow> string \<Rightarrow> gtype \<Rightarrow> garg list \<Rightarrow> gret \<Rightarrow> int \<Rightarrow> expectation" where
  "plane_expect m meth ty args ret n =
     \<lparr>ex_receiver = m, ex_method = meth, ex_methodType = [ty, TResponse, TError],
      ex_args = Matcher Any # map Value args, ex_returns = [ret, RNil, RNil], ex_times = TimesN n\<rparr>"

definition expect_ListNodes :: "node list \<Rightarrow> int \<Rightarrow> nat \<Rightarrow> expectation" where
  "expect_ListNodes nodes n m = plane_expect m ''ListNodes'' TNodes [] (RNodes nodes) n"

definition expect_UpdateNode :: "string \<Rightarrow> (string \<times> string) list \<Rightarrow> nat \<Rightarrow> expectation" where
  "expect_UpdateNode i labels m =
     plane_expect m ''UpdateNode'' TNode [AString i, AUpdateNodeData (SMap labels) ''''] (RNode zero_node) 1"

definition expect_SetComputeOnly :: "string \<Rightarrow> bool \<Rightarrow> nat \<Rightarrow> expectation" where
  "expect_SetComputeOnly i b m =
     plane_expect m ''SetComputeOnly'' TNode
       [AString i, ASetComputeOnlyNodeData b '''', AOpts ''SetComputeOnlyOpts''] (RNode zero_node) 1"

definition expect_ListNamespaces :: "namespace list \<Rightarrow> int \<Rightarrow> nat \<Rightarrow> expectation" where
  "expect_ListNamespaces nss n m = plane_expect m ''ListNamespaces'' TNamespaces [] (RNamespaces nss) n"

definition expect_ListVolumes :: "string \<Rightarrow> volume list \<Rightarrow> int \<Rightarrow> nat \<Rightarrow> expectation" where
  "expect_ListVolumes i vols n m = plane_expect m ''ListVolumes'' TVolumes [AString i] (RVolumes vols) n"

definition expect_UpdateVolume :: "string \<Rightarrow> string \<Rightarrow> (string \<times> string) list \<Rightarrow> nat \<Rightarrow> expectation" where
  "expect_UpdateVolume n i labels m =
     plane_expect m ''UpdateVolume'' TVolume
       [AString n, AString i, AUpdateVolumeData (SMap labels) '''', ANil] (RVolume zero_volume) 1"

definition expect_SetReplicas :: "string \<Rightarrow> string \<Rightarrow> uint64 \<Rightarrow> nat \<Rightarrow> expectation" where
  "expect_SetReplicas n i d m =
     plane_expect m ''SetReplicas'' TAcceptedMessage
       [AString n, AString i, ASetReplicasRequest d '''', ANil] RAcceptedMessage 1"

definition expect_SetFailureMode :: "string \<Rightarrow> string \<Rightarrow> string \<Rightarrow> uint64 \<Rightarrow> nat \<Rightarrow> expectation" where
  "expect_SetFailureMode n i mode t m =
     plane_expect m ''SetFailureMode'' TVolume
       [AString n, AString i, ASetFailureModeRequest mode t '''', ANil] (RVolume zero_volume) 1"

lemmas expect_defs = expect_ListNodes_def expect_UpdateNode_def expect_SetComputeOnly_def expect_ListNamespaces_def
  expect_ListVolumes_def expect_UpdateVolume_def expect_SetReplicas_def expect_SetFailureMode_def plane_expect_def

definition returning :: "gret list \<Rightarrow> int \<Rightarrow> nat \<Rightarrow> (controller, nat) prog" where
  "returning rets n i = bindP (Call_Return i rets) (\<lambda>i. on_call i (Times n))"

lemma set_times_TimesN: "set_times (TimesN n) = Times n"
  by (rule ext) simp

lemma expectations_recorded:
  "expect (expect_ListNodes nodes n m) =
     bindP (MockControlPlaneMockRecorder_ListNodes m (Matcher Any)) (returning [RNodes nodes, RNil, RNil] n)"
  "expect (expect_UpdateNode i l m) =
     bindP (MockControlPlaneMockRecorder_UpdateNode m (Matcher Any) (Value (AString i))
              (Value (AUpdateNodeData (SMap l) ''''))) (returning [RNode zero_node, RNil, RNil] 1)"
  "expect (expect_SetComputeOnly i b m) =
     bindP (MockControlPlaneMockRecorder_SetComputeOnly m (Matcher Any) (Value (AString i))
              (Value (ASetComputeOnlyNodeData b '''')) (Value (AOpts ''SetComputeOnlyOpts'')))
       (returning [RNode zero_node, RNil, RNil] 1)"
  "expect (expect_ListNamespaces nss n m) =
     bindP (MockControlPlaneMockRecorder_ListNamespaces m (Matcher Any)) (returning [RNamespaces nss, RNil, RNil] n)"
  "expect (expect_ListVolumes i vols n m) =
     bindP (MockControlPlaneMockRecorder_ListVolumes m (Matcher Any) (Value (AString i)))
       (returning [RVolumes vols, RNil, RNil] n)"
  "expect (expect_UpdateVolume k i l m) =
     bindP (MockControlPlaneMockRecorder_UpdateVolume m (Matcher Any) (Value (AString k)) (Value (AString i))
              (Value (AUpdateVolumeData (SMap l) '''')) (Value ANil)) (returning [RVolume zero_volume, RNil, RNil] 1)"
  "expect (expect_SetReplicas k i d m) =
     bindP (MockControlPlaneMockRecorder_SetReplicas m (Matcher Any) (Value (AString k)) (Value (AString i))
              (Value (ASetReplicasRequest d '''')) (Value ANil)) (returning [RAcceptedMessage, RNil, RNil] 1)"
  "expect (expect_SetFailureMode k i f t m) =
     bindP (MockControlPlaneMockRecorder_SetFailureMode m (Matcher Any) (Value (AString k)) (Value (AString i))
              (Value (ASetFailureModeRequest f t '''')) (Value ANil)) (returning [RVolume zero_volume, RNil, RNil] 1)"
  by (simp_all add: expect_def returning_def [abs_def] expect_defs set_times_TimesN
      MockControlPlaneMockRecorder_ListNodes_def MockControlPlaneMockRecorder_UpdateNode_def
      MockControlPlaneMockRecorder_SetComputeOnly_def MockControlPlaneMockRecorder_ListNamespaces_def
      MockControlPlaneMockRecorder_ListVolumes_def MockControlPlaneMockRecorder_UpdateVolume_def
      MockControlPlaneMockRecorder_SetReplicas_def MockControlPlaneMockRecorder_SetFailureMode_def)


text \<open>A row of a table: the labels, the expectations and whether an error is wanted.\<close>

type_synonym label_test = "(string \<times> string) list \<times> (nat \<Rightarrow> expectation) list \<times> bool"

definition test_node :: "string \<Rightarrow> smap \<Rightarrow> node" where
  "test_node name labels = zero_node\<lparr>node_Id := ''id'', node_Name := name, node_Labels := labels\<rparr>"

definition test_volume :: "smap \<Rightarrow> volume" where
  "test_volume labels =
     zero_volume\<lparr>vol_Id := ''vol-id'', vol_NamespaceID := ''ns-id'', vol_Name := ''testpvc'', vol_Labels := labels\<rparr>"

definition test_ns :: namespace where
  "test_ns = \<lparr>ns_Id = ''ns-id'', ns_Name = ''testns'', ns_Labels = NilMap, ns_Version = ''''\<rparr>"

definition label_test_passes ::
  "(controller control_plane \<Rightarrow> smap \<Rightarrow> (controller, error_or_nil) prog) \<Rightarrow> label_test \<Rightarrow> bool" where
  "label_test_passes op tt =
     (case tt of (labels, es, wantErr) \<Rightarrow>
        passes (client_test (\<lambda>m. map (\<lambda>e. e m) es) (\<lambda>cp. op cp (SMap labels)) wantErr) NewController)"

definition nodes_listed :: "string \<Rightarrow> smap \<Rightarrow> int \<Rightarrow> nat \<Rightarrow> expectation" where
  "nodes_listed name labels n = expect_ListNodes [test_node name labels] n"

definition TestClient_EnsureNodeLabels :: "label_test list" where
  "TestClient_EnsureNodeLabels =
     [([(''foo'', ''bar'')],
       [nodes_listed ''nodeA'' NilMap 2, expect_UpdateNode ''id'' [(''foo'', ''bar'')]], False),
      ([],
       [nodes_listed ''nodeA'' (SMap [(''foo'', ''bar'')]) 2, expect_UpdateNode ''id'' []], False),
      ([(ReservedLabelComputeOnly, ''true'')],
       [nodes_listed ''nodeA'' NilMap 2, expect_SetComputeOnly ''id'' True], False),
      ([(ReservedLabelComputeOnly, ''false'')],
       [nodes_listed ''nodeA'' (SMap [(ReservedLabelComputeOnly, ''true'')]) 2, expect_SetComputeOnly ''id'' False], False),
      ([],
       [nodes_listed ''nodeA'' (SMap [(ReservedLabelComputeOnly, ''true'')]) 2, expect_SetComputeOnly ''id'' False], False),
      ([(ReservedLabelComputeOnly, ''not-a-boolean'')],
       [nodes_listed ''nodeA'' NilMap 2], True),
      ([(''foo'', ''bar''), (''boo'', ''baz''), (ReservedLabelComputeOnly, ''true'')],
       [nodes_listed ''nodeA'' NilMap 2, expect_SetComputeOnly ''id'' True,
        expect_UpdateNode ''id'' [(''foo'', ''bar''), (''boo'', ''baz'')]], False),
      ([(''foo'', ''bar''), (''boo'', ''baz''), (ReservedLabelPrefix @ ''badlabelname'', ''true'')],
       [nodes_listed ''nodeA'' NilMap 2, expect_UpdateNode ''id'' [(''foo'', ''bar''), (''boo'', ''baz'')]], True),
      ([(ReservedLabelReplicas, ''2'')], [nodes_listed ''nodeA'' NilMap 2], True),
      ([(ReservedLabelNoCache, ''true'')], [nodes_listed ''nodeA'' NilMap 2], True),
      ([(ReservedLabelNoCompress, ''true'')], [nodes_listed ''nodeA'' NilMap 2], True),
      ([(ReservedLabelFailureMode, ''soft'')], [nodes_listed ''nodeA'' NilMap 2], True)]"

definition TestClient_EnsureUnreservedNodeLabels :: "label_test list" where
  "TestClient_EnsureUnreservedNodeLabels =
     [([(''foo'', ''bar'')],
       [nodes_listed ''testnode'' NilMap 1, expect_UpdateNode ''id'' [(''foo'', ''bar'')]], False),
      ([(''foo'', ''baz'')],
       [nodes_listed ''testnode'' (SMap [(''foo'', ''bar'')]) 1, expect_UpdateNode ''id'' [(''foo'', ''baz'')]], False),
      ([],
       [nodes_listed ''testnode'' (SMap [(''foo'', ''bar'')]) 1, expect_UpdateNode ''id'' []], False),
      ([(ReservedLabelComputeOnly, ''true'')], [nodes_listed ''testnode'' NilMap 1], False),
      ([(ReservedLabelComputeOnly, ''true'')], [nodes_listed ''testnode'' (SMap []) 1], False),
      ([(ReservedLabelComputeOnly, ''true'')],
       [nodes_listed ''testnode'' (SMap [(ReservedLabelComputeOnly, ''false'')]) 1], False),
      ([], [nodes_listed ''testnode'' (SMap [(ReservedLabelComputeOnly, ''true'')]) 1], False)]"

theorem node_label_tests_pass:
  "list_all (label_test_passes (\<lambda>cp. EnsureNodeLabels cp NewTestAPIClient (mk_key '''' ''nodeA''))) TestClient_EnsureNodeLabels"
  "list_all (label_test_passes (\<lambda>cp. EnsureUnreservedNodeLabels cp NewTestAPIClient (mk_key '''' ''testnode'')))
     TestClient_EnsureUnreservedNodeLabels"
  by code_simp+


definition ns_listed :: "int \<Rightarrow> nat \<Rightarrow> expectation" where
  "ns_listed n = expect_ListNamespaces [test_ns] n"

definition vols_listed :: "smap \<Rightarrow> int \<Rightarrow> nat \<Rightarrow> expectation" where
  "vols_listed labels n = expect_ListVolumes ''ns-id'' [test_volume labels] n"

definition vol_updated :: "(string \<times> string) list \<Rightarrow> nat \<Rightarrow> expectation" where
  "vol_updated labels = expect_UpdateVolume ''ns-id'' ''vol-id'' labels"

definition replicas_set :: "uint64 \<Rightarrow> nat \<Rightarrow> expectation" where
  "replicas_set n = expect_SetReplicas ''ns-id'' ''vol-id'' n"

definition failure_mode_set :: "string \<Rightarrow> uint64 \<Rightarrow> nat \<Rightarrow> expectation" where
  "failure_mode_set mode t = expect_SetFailureMode ''ns-id'' ''vol-id'' mode t"

definition TestClient_EnsureVolumeLabels :: "label_test list" where
  "TestClient_EnsureVolumeLabels =
     [([(''foo'', ''bar'')],
       [ns_listed 3, vols_listed NilMap 3, vol_updated [(''foo'', ''bar'')]], False),
      ([],
       [ns_listed 3, vols_listed (SMap [(''foo'', ''bar'')]) 3, vol_updated []], False),
      ([(ReservedLabelReplicas, ''2'')],
       [ns_listed 3, vols_listed NilMap 2, replicas_set 2,
        vols_listed (SMap [(ReservedLabelReplicas, ''2'')]) 1], False),
      ([(ReservedLabelReplicas, ''3'')],
       [ns_listed 3, vols_listed (SMap [(ReservedLabelReplicas, ''2'')]) 2, replicas_set 3,
        vols_listed (SMap [(ReservedLabelReplicas, ''3'')]) 1], False),
      ([],
       [ns_listed 3, vols_listed (SMap [(ReservedLabelReplicas, ''2'')]) 2, replicas_set 0,
        vols_listed (SMap [(ReservedLabelReplicas, ''0'')]) 1], False),
      ([(ReservedLabelReplicas, ''not-an-integer'')],
       [ns_listed 3, vols_listed NilMap 3], True),
      ([(ReservedLabelFailureMode, ''soft'')],
       [ns_listed 3, vols_listed NilMap 2, failure_mode_set ''soft'' 0,
        vols_listed (SMap [(ReservedLabelFailureMode, ''soft'')]) 1], False),
      ([(ReservedLabelFailureMode, ''2'')],
       [ns_listed 3, vols_listed NilMap 2, failure_mode_set '''' 2,
        vols_listed (SMap [(ReservedLabelFailureMode, ''2'')]) 1], False),
      ([(ReservedLabelFailureMode, ''2'')],
       [ns_listed 3, vols_listed (SMap [(ReservedLabelFailureMode, ''soft'')]) 2, failure_mode_set '''' 2,
        vols_listed (SMap [(ReservedLabelFailureMode, ''2'')]) 1], False),
      ([],
       [ns_listed 3, vols_listed (SMap [(ReservedLabelFailureMode, ''soft'')]) 2, failure_mode_set ''hard'' 0,
        vols_listed (SMap [(ReservedLabelFailureMode, '''')]) 1], False),
      ([(''foo'', ''bar''), (''boo'', ''baz''), (ReservedLabelReplicas, ''2'')],
       [ns_listed 3, vols_listed NilMap 2, replicas_set 2, vols_listed (SMap [(ReservedLabelReplicas, ''2'')]) 1,
        vol_updated [(''foo'', ''bar''), (''boo'', ''baz''), (ReservedLabelReplicas, ''2'')]], False),
      ([(''foo'', ''bar''), (''boo'', ''baz''), (ReservedLabelComputeOnly, ''2'')],
       [ns_listed 3, vols_listed NilMap 3, vol_updated [(''foo'', ''bar''), (''boo'', ''baz'')]], True),
      ([(ReservedLabelComputeOnly, ''true'')], [ns_listed 3, vols_listed NilMap 3], True),
      ([(ReservedLabelNoCache, ''true'')], [ns_listed 3, vols_listed NilMap 3], True),
      ([(ReservedLabelNoCompress, ''true'')], [ns_listed 3, vols_listed NilMap 3], True)]"

definition TestClient_EnsureUnreservedVolumeLabels :: "label_test list" where
  "TestClient_EnsureUnreservedVolumeLabels =
     [([(''foo'', ''bar'')],
       [ns_listed 1, vols_listed NilMap 1, vol_updated [(''foo'', ''bar'')]], False),
      ([(''foo'', ''baz'')],
       [ns_listed 1, vols_listed (SMap [(''foo'', ''bar'')]) 1, vol_updated [(''foo'', ''baz'')]], False),
      ([],
       [ns_listed 1, vols_listed (SMap [(''foo'', ''bar'')]) 1, vol_updated []], False),
      ([(ReservedLabelReplicas, ''1'')], [ns_listed 1, vols_listed NilMap 1], False),
      ([(ReservedLabelReplicas, ''1'')], [ns_listed 1, vols_listed (SMap []) 1], False),
      ([(ReservedLabelReplicas, ''2'')],
       [ns_listed 1, vols_listed (SMap [(ReservedLabelReplicas, ''1'')]) 1], False),
      ([], [ns_listed 1, vols_listed (SMap [(ReservedLabelReplicas, ''1'')]) 1], False)]"

theorem volume_label_tests_pass:
  "list_all (label_test_passes (\<lambda>cp. EnsureVolumeLabels cp NewTestAPIClient (mk_key ''testns'' ''testpvc'')))
     TestClient_EnsureVolumeLabels"
  "list_all (label_test_passes (\<lambda>cp. EnsureUnreservedVolumeLabels cp NewTestAPIClient (mk_key ''testns'' ''testpvc'')))
     TestClient_EnsureUnreservedVolumeLabels"
  by code_simp+

text \<open>The table of \<open>Test_parseFailureMode\<close>: the string, and the intent and threshold or that there is an error.\<close>

definition Test_parseFailureMode :: "(string \<times> (string \<times> uint64) option) list" where
  "Test_parseFailureMode =
     [(''soft'', Some (''soft'', 0)), (''hard'', Some (''hard'', 0)), (''alwayson'', Some (''alwayson'', 0)),
      (''1'', Some ('''', 1)), ('''', Some (''hard'', 0)), (''-99'', None)]"

theorem parseFailureMode_tests_pass:
  "list_all (\<lambda>(s, want). (case ParseFailureMode s of Inl e \<Rightarrow> None | Inr r \<Rightarrow> Some r) = want) Test_parseFailureMode"
  by code_simp

section \<open>Property\<close>

text \<open>
  C40. What a test of the label operations against a mock shows. With expectations
  that are well typed and of which no two are for the same call, a test of
  \<open>EnsureNodeLabels\<close> or \<open>EnsureVolumeLabels\<close> passes exactly when an error comes back as
  the test wants it, every call that the operation makes of the control plane is
  expected, and every expectation is met as often as it says. The trace \<open>tr\<close> is that
  of the calls the operation makes of the mock.
\<close>

theorem label_test_verdict:
  assumes ok: "list_all (plane_expectation 0) (es 0)" and disj: "disjoint_expectations (es 0)"
    and new: "prepare (es 0) test_controller = (Ret (), s)"
    and node: "EnsureNodeLabels (traced_cp (mock_plane 0)) c key labels (s, []) = (r, (s', tr))"
    and vol: "EnsureVolumeLabels (traced_cp (mock_plane 0)) c key' labels' (s, []) = (r', (s'', tr'))"
  shows "(passes (client_test es (\<lambda>cp. EnsureNodeLabels cp c key labels) wantErr) NewController \<longleftrightarrow>
            (r \<noteq> Ret None) = wantErr \<and> conforms (es 0) (map (ev_call 0) tr)) \<and>
         (passes (client_test es (\<lambda>cp. EnsureVolumeLabels cp c key' labels') wantErr) NewController \<longleftrightarrow>
            (r' \<noteq> Ret None) = wantErr \<and> conforms (es 0) (map (ev_call 0) tr'))"
  by (rule conjI [OF node_labels_op.verdict [where es = es, OF ok disj new node]
        volume_labels_op.verdict [where es = es, OF ok disj new vol]])

definition witness_expectations :: "nat \<Rightarrow> expectation list" where
  "witness_expectations m =
     [nodes_listed ''nodeA'' NilMap 2 m, expect_UpdateNode ''id'' [(''foo'', ''bar'')] m]"

lemma methods_disjoint:
  assumes "distinct (map ex_method es)"
  shows "disjoint_expectations es"
  using assms by (auto simp: disjoint_expectations_def expects_def distinct_conv_nth split: prod.splits)

theorem label_test_verdict_witness:
  "passes (client_test witness_expectations
     (\<lambda>cp. EnsureNodeLabels cp NewTestAPIClient (mk_key '''' ''nodeA'') (SMap [(''foo'', ''bar'')])) False) NewController \<and>
   \<not> passes (client_test witness_expectations
     (\<lambda>cp. EnsureVolumeLabels cp NewTestAPIClient (mk_key ''testns'' ''testpvc'') (SMap [])) False) NewController"
proof -
  let ?s = "snd (prepare (witness_expectations 0) test_controller)"
  let ?node = "EnsureNodeLabels (traced_cp (mock_plane 0)) NewTestAPIClient (mk_key '''' ''nodeA'') (SMap [(''foo'', ''bar'')]) (?s, [])"
  let ?vol = "EnsureVolumeLabels (traced_cp (mock_plane 0)) NewTestAPIClient (mk_key ''testns'' ''testpvc'') (SMap []) (?s, [])"
  have ok: "list_all (plane_expectation 0) (witness_expectations 0)" by code_simp
  have disj: "disjoint_expectations (witness_expectations 0)" by (rule methods_disjoint) code_simp
  have "fst (prepare (witness_expectations 0) test_controller) = Ret ()" by code_simp
  then have new: "prepare (witness_expectations 0) test_controller = (Ret (), ?s)" by (metis prod.collapse)
  have node: "?node = (fst ?node, (fst (snd ?node), snd (snd ?node)))"
    and vol: "?vol = (fst ?vol, (fst (snd ?vol), snd (snd ?vol)))" by simp_all
  have "fst ?node = Ret None" "conforms (witness_expectations 0) (map (ev_call 0) (snd (snd ?node)))"
    "\<not> conforms (witness_expectations 0) (map (ev_call 0) (snd (snd ?vol)))" by code_simp+
  with label_test_verdict [where es = witness_expectations and wantErr = False, OF ok disj new node vol]
  show ?thesis by blast
qed

end
