(* ===== verification/Scheme.thy ===== *)
theory Scheme
  imports Prelude
begin

text \<open>
  The registration of the node resource with the scheme of the Kubernetes client:
  \<open>api/v1/groupversion_info.go\<close>, the \<open>init\<close> functions of \<open>api/v1/node_types.go\<close> and \<open>main.go\<close>,
  the vendored scheme builders and the part of \<open>runtime.Scheme\<close> that records types.
  Conversion and defaulting functions are not modelled; the registration of the
  types of client-go is a parameter.
\<close>

section \<open>Types and kinds\<close>

text \<open>A type as \<open>reflect\<close> sees it; a named type has a package path and a name.\<close>

datatype (plugins only: code size) rtype = Struct string string | Ptr rtype | Basic string

primrec rtype_Name :: "rtype \<Rightarrow> string" where
  "rtype_Name (Struct pkg name) = name"
| "rtype_Name (Ptr t) = ''''"
| "rtype_Name (Basic name) = name"

record group_version =
  gv_Group :: string
  gv_Version :: string

record gvk =
  gvk_Group :: string
  gvk_Version :: string
  gvk_Kind :: string

definition WithKind :: "group_version \<Rightarrow> string \<Rightarrow> gvk" where
  "WithKind gv kind = \<lparr>gvk_Group = gv_Group gv, gvk_Version = gv_Version gv, gvk_Kind = kind\<rparr>"

definition gvk_GroupVersion :: "gvk \<Rightarrow> group_version" where
  "gvk_GroupVersion k = \<lparr>gv_Group = gvk_Group k, gv_Version = gvk_Version k\<rparr>"

abbreviation APIVersionInternal :: string where
  "APIVersionInternal \<equiv> ''__internal''"

section \<open>The scheme\<close>

record scheme =
  gvkToType :: "gvk \<rightharpoonup> rtype"
  typeToGVK :: "rtype \<Rightarrow> gvk list"
  unversionedTypes :: "rtype \<rightharpoonup> gvk"
  unversionedKinds :: "string \<rightharpoonup> rtype"
  observedVersions :: "group_version list"

definition NewScheme :: scheme where
  "NewScheme =
     \<lparr>gvkToType = Map.empty, typeToGVK = (\<lambda>t. []), unversionedTypes = Map.empty, unversionedKinds = Map.empty,
      observedVersions = []\<rparr>"

definition addObservedVersion :: "group_version \<Rightarrow> scheme \<Rightarrow> scheme" where
  "addObservedVersion gv s =
     (if gv_Version gv = '''' \<or> gv_Version gv = APIVersionInternal then s
      else if list_ex (\<lambda>v. v = gv) (observedVersions s) then s
      else s\<lparr>observedVersions := observedVersions s @ [gv]\<rparr>)"

text \<open>A kind is appended to the kinds of a type unless it is among them.\<close>

definition add_kind :: "gvk \<Rightarrow> gvk list \<Rightarrow> gvk list" where
  "add_kind k ks = (if list_ex (\<lambda>e. e = k) ks then ks else ks @ [k])"

text \<open>The type of the object is given; a scheme takes pointers to structures only.\<close>

definition AddKnownTypeWithName :: "gvk \<Rightarrow> rtype \<Rightarrow> (scheme, unit) prog" where
  "AddKnownTypeWithName k obj s0 =
     (let s = addObservedVersion (gvk_GroupVersion k) s0 in
      if gvk_Version k = '''' then (Panic, s)
      else (case obj of
          Ptr (Struct pkg name) \<Rightarrow>
            let t = Struct pkg name in
            (if gvkToType s k \<noteq> None \<and> gvkToType s k \<noteq> Some t then (Panic, s)
             else
               (Ret (), s\<lparr>gvkToType := (gvkToType s)(k \<mapsto> t),
                        typeToGVK := (typeToGVK s)(t := add_kind k (typeToGVK s t))\<rparr>))
        | _ \<Rightarrow> (Panic, s)))"

definition AddKnownTypes :: "group_version \<Rightarrow> rtype list \<Rightarrow> (scheme, unit) prog" where
  "AddKnownTypes gv types =
     bindP (\<lambda>s. (Ret (), addObservedVersion gv s)) (\<lambda>_.
       forP (\<lambda>obj u. case obj of
                Ptr t \<Rightarrow> AddKnownTypeWithName (WithKind gv (rtype_Name t)) obj
              | _ \<Rightarrow> panicP) types ())"

definition add_unversioned :: "group_version \<Rightarrow> rtype \<Rightarrow> (scheme, unit) prog" where
  "add_unversioned version obj s =
     (case obj of
        Ptr t \<Rightarrow>
          let k = WithKind version (rtype_Name t);
              s' = s\<lparr>unversionedTypes := (unversionedTypes s)(t \<mapsto> k)\<rparr>
          in if unversionedKinds s' (gvk_Kind k) \<noteq> None \<and> unversionedKinds s' (gvk_Kind k) \<noteq> Some t then (Panic, s')
             else (Ret (), s'\<lparr>unversionedKinds := (unversionedKinds s')(gvk_Kind k \<mapsto> t)\<rparr>)
      | _ \<Rightarrow> (Panic, s))"

definition AddUnversionedTypes :: "group_version \<Rightarrow> rtype list \<Rightarrow> (scheme, unit) prog" where
  "AddUnversionedTypes version types =
     bindP (\<lambda>s. (Ret (), addObservedVersion version s)) (\<lambda>_.
     bindP (AddKnownTypes version types) (\<lambda>_.
       forP (\<lambda>obj u. add_unversioned version obj) types ()))"

definition ObjectKinds :: "scheme \<Rightarrow> rtype \<Rightarrow> (gvk list \<times> bool) option" where
  "ObjectKinds s obj =
     (case obj of
        Ptr t \<Rightarrow> if typeToGVK s t = [] then None else Some (typeToGVK s t, unversionedTypes s t \<noteq> None)
      | _ \<Rightarrow> None)"

definition Recognizes :: "scheme \<Rightarrow> gvk \<Rightarrow> bool" where
  "Recognizes s k \<longleftrightarrow> gvkToType s k \<noteq> None"

definition Scheme_New :: "scheme \<Rightarrow> gvk \<Rightarrow> rtype option" where
  "Scheme_New s kind =
     (case gvkToType s kind of
        Some t \<Rightarrow> Some (Ptr t)
      | None \<Rightarrow> (case unversionedKinds s (gvk_Kind kind) of Some t \<Rightarrow> Some (Ptr t) | None \<Rightarrow> None))"

section \<open>The types of \<open>metav1\<close>\<close>

definition metav1 :: "string \<Rightarrow> rtype" where
  "metav1 name = Struct ''k8s.io/apimachinery/pkg/apis/meta/v1'' name"

abbreviation WatchEventKind :: string where
  "WatchEventKind \<equiv> ''WatchEvent''"

definition optionsTypes :: "rtype list" where
  "optionsTypes = map (\<lambda>n. Ptr (metav1 n))
     [''ListOptions'', ''ExportOptions'', ''GetOptions'', ''DeleteOptions'', ''CreateOptions'', ''UpdateOptions'',
      ''PatchOptions'']"

definition Unversioned :: group_version where
  "Unversioned = \<lparr>gv_Group = '''', gv_Version = ''v1''\<rparr>"

definition unversioned_metas :: "rtype list" where
  "unversioned_metas = map (\<lambda>n. Ptr (metav1 n)) [''Status'', ''APIVersions'', ''APIGroupList'', ''APIGroup'', ''APIResourceList'']"

definition AddToGroupVersion :: "group_version \<Rightarrow> (scheme, unit) prog" where
  "AddToGroupVersion gv =
     bindP (AddKnownTypeWithName (WithKind gv WatchEventKind) (Ptr (metav1 ''WatchEvent''))) (\<lambda>_.
     bindP (AddKnownTypeWithName
              (WithKind \<lparr>gv_Group = gv_Group gv, gv_Version = APIVersionInternal\<rparr> WatchEventKind)
              (Ptr (metav1 ''InternalEvent''))) (\<lambda>_.
     bindP (AddKnownTypes gv optionsTypes) (\<lambda>_.
       AddUnversionedTypes Unversioned unversioned_metas)))"

section \<open>Scheme builders\<close>

type_synonym scheme_func = "(scheme, error_or_nil) prog"

text \<open>\<open>runtime.SchemeBuilder\<close> is a list of functions; the builder of controller-runtime adds a group version.\<close>

fun SchemeBuilder_AddToScheme :: "scheme_func list \<Rightarrow> (scheme, error_or_nil) prog" where
  "SchemeBuilder_AddToScheme [] = retP None"
| "SchemeBuilder_AddToScheme (f # fs) =
     bindP f (\<lambda>err. if err \<noteq> None then retP err else SchemeBuilder_AddToScheme fs)"

record scheme_builder =
  sb_GroupVersion :: group_version
  sb_SchemeBuilder :: "scheme_func list"

definition Builder_Register :: "rtype list \<Rightarrow> scheme_builder \<Rightarrow> scheme_builder" where
  "Builder_Register object bld =
     bld\<lparr>sb_SchemeBuilder := sb_SchemeBuilder bld @
       [bindP (AddKnownTypes (sb_GroupVersion bld) object) (\<lambda>_.
        bindP (AddToGroupVersion (sb_GroupVersion bld)) (\<lambda>_. retP None))]\<rparr>"

definition Builder_AddToScheme :: "scheme_builder \<Rightarrow> (scheme, error_or_nil) prog" where
  "Builder_AddToScheme bld = SchemeBuilder_AddToScheme (sb_SchemeBuilder bld)"

section \<open>The packages of the repository\<close>

definition GroupVersion :: group_version where
  "GroupVersion = \<lparr>gv_Group = ''storageos.com'', gv_Version = ''v1''\<rparr>"

definition storageosv1 :: "string \<Rightarrow> rtype" where
  "storageosv1 name = Struct ''github.com/storageos/api-manager/api/v1'' name"

text \<open>\<open>SchemeBuilder\<close> as it is declared, and as the \<open>init\<close> function of the package leaves it.\<close>

definition SchemeBuilder :: scheme_builder where
  "SchemeBuilder = \<lparr>sb_GroupVersion = GroupVersion, sb_SchemeBuilder = []\<rparr>"

definition api_init :: scheme_builder where
  "api_init = Builder_Register [Ptr (storageosv1 ''Node''), Ptr (storageosv1 ''NodeList'')] SchemeBuilder"

definition AddToScheme :: "(scheme, error_or_nil) prog" where
  "AddToScheme = Builder_AddToScheme api_init"

text \<open>\<open>init\<close> of \<open>main.go\<close>: the errors are dropped. \<open>clientgo\<close> is \<open>clientgoscheme.AddToScheme\<close>.\<close>

definition main_init :: "(scheme, error_or_nil) prog \<Rightarrow> (scheme, unit) prog" where
  "main_init clientgo = bindP clientgo (\<lambda>_. bindP AddToScheme (\<lambda>_. retP ()))"


section \<open>Registration without conflicts\<close>

text \<open>
  The kinds that a package is going to register, and the types it registers them
  with. A scheme agrees with them when none of the kinds has another type.
\<close>

definition agrees :: "(gvk \<rightharpoonup> rtype) \<Rightarrow> (string \<rightharpoonup> rtype) \<Rightarrow> scheme \<Rightarrow> bool" where
  "agrees T U s \<longleftrightarrow>
     (\<forall>k t. T k = Some t \<longrightarrow> gvkToType s k = None \<or> gvkToType s k = Some t) \<and>
     (\<forall>k t. U k = Some t \<longrightarrow> unversionedKinds s k = None \<or> unversionedKinds s k = Some t)"

text \<open>
  \<open>adds T U rs p\<close>: on every scheme that agrees, \<open>p\<close> returns, the scheme still agrees, the
  kinds known are those before and the ones of \<open>rs\<close>, and every type has in
  addition the kinds that \<open>rs\<close> gives it.
\<close>

definition adds ::
  "(gvk \<rightharpoonup> rtype) \<Rightarrow> (string \<rightharpoonup> rtype) \<Rightarrow> (gvk \<times> rtype) list \<Rightarrow> (scheme, 'a) prog \<Rightarrow> bool" where
  "adds T U rs p \<longleftrightarrow>
     (\<forall>s. agrees T U s \<longrightarrow>
        (\<exists>a s'. p s = (Ret a, s') \<and> agrees T U s' \<and> gvkToType s' = gvkToType s ++ map_of (rev rs) \<and>
           (\<forall>t. typeToGVK s' t = fold add_kind (map fst (filter (\<lambda>(k, t'). t' = t) rs)) (typeToGVK s t))))"


lemma adds_bindP:
  assumes "adds T U rs p" and "\<And>a. adds T U rs' (f a)"
  shows "adds T U (rs @ rs') (bindP p f)"
  unfolding adds_def
proof (intro allI impI)
  fix s assume "agrees T U s"
  with assms(1) obtain a s1 where 1: "p s = (Ret a, s1)" "agrees T U s1" "gvkToType s1 = gvkToType s ++ map_of (rev rs)"
    "\<And>t. typeToGVK s1 t = fold add_kind (map fst (filter (\<lambda>(k, t'). t' = t) rs)) (typeToGVK s t)"
    unfolding adds_def by blast
  with assms(2) [of a] obtain b s2 where "f a s1 = (Ret b, s2)" "agrees T U s2"
    "gvkToType s2 = gvkToType s1 ++ map_of (rev rs')"
    "\<And>t. typeToGVK s2 t = fold add_kind (map fst (filter (\<lambda>(k, t'). t' = t) rs')) (typeToGVK s1 t)"
    unfolding adds_def by blast
  with 1 show "\<exists>a s'. bindP p f s = (Ret a, s') \<and> agrees T U s' \<and> gvkToType s' = gvkToType s ++ map_of (rev (rs @ rs')) \<and>
      (\<forall>t. typeToGVK s' t = fold add_kind (map fst (filter (\<lambda>(k, t'). t' = t) (rs @ rs'))) (typeToGVK s t))"
    by (simp add: bindP_run map_of_append)
qed

lemma adds_retP: "adds T U [] (retP a)"
  by (simp add: adds_def retP_run)

lemma adds_forP:
  "(\<And>x u. x \<in> set xs \<Longrightarrow> adds T U (r x) (f x u)) \<Longrightarrow> adds T U (concat (map r xs)) (forP f xs u)"
proof (induction xs arbitrary: u)
  case (Cons x xs)
  then show ?case by (simp add: adds_bindP)
qed (simp add: adds_retP)

lemma observed_sel [simp]:
  "gvkToType (addObservedVersion v s) = gvkToType s" "typeToGVK (addObservedVersion v s) = typeToGVK s"
  "unversionedKinds (addObservedVersion v s) = unversionedKinds s"
  "unversionedTypes (addObservedVersion v s) = unversionedTypes s"
  by (simp_all add: addObservedVersion_def)

lemma agrees_observed [simp]: "agrees T U (addObservedVersion v s) = agrees T U s"
  by (simp add: agrees_def)

lemma adds_observed: "adds T U [] (\<lambda>s. (Ret (), addObservedVersion v s))"
  by (simp add: adds_def)

lemma adds_AddKnownTypeWithName:
  assumes "T k = Some (Struct pkg name)" and "gvk_Version k \<noteq> ''''"
  shows "adds T U [(k, Struct pkg name)] (AddKnownTypeWithName k (Ptr (Struct pkg name)))"
  using assms by (fastforce simp: adds_def AddKnownTypeWithName_def Let_def agrees_def)

lemma adds_AddKnownTypes:
  assumes "gv_Version gv \<noteq> ''''" and "\<And>n. n \<in> set names \<Longrightarrow> T (WithKind gv n) = Some (Struct pkg n)"
  shows "adds T U (map (\<lambda>n. (WithKind gv n, Struct pkg n)) names) (AddKnownTypes gv (map (\<lambda>n. Ptr (Struct pkg n)) names))"
proof -
  have "adds T U (concat (map (\<lambda>obj. case obj of Ptr t \<Rightarrow> [(WithKind gv (rtype_Name t), t)] | _ \<Rightarrow> [])
      (map (\<lambda>n. Ptr (Struct pkg n)) names)))
    (forP (\<lambda>obj u. case obj of Ptr t \<Rightarrow> AddKnownTypeWithName (WithKind gv (rtype_Name t)) obj | _ \<Rightarrow> panicP)
      (map (\<lambda>n. Ptr (Struct pkg n)) names) ())"
    using assms by (intro adds_forP) (auto intro!: adds_AddKnownTypeWithName simp: WithKind_def)
  from adds_bindP [OF adds_observed [of _ _ gv] this] show ?thesis
    by (simp add: AddKnownTypes_def comp_def concat_map_singleton)
qed


lemma adds_add_unversioned:
  assumes "U name = Some (Struct pkg name)"
  shows "adds T U [] (add_unversioned gv (Ptr (Struct pkg name)))"
  using assms by (fastforce simp: adds_def add_unversioned_def Let_def agrees_def WithKind_def)

lemma adds_AddUnversionedTypes:
  assumes "gv_Version gv \<noteq> ''''" and "\<And>n. n \<in> set names \<Longrightarrow> T (WithKind gv n) = Some (Struct pkg n)"
    and "\<And>n. n \<in> set names \<Longrightarrow> U n = Some (Struct pkg n)"
  shows "adds T U (map (\<lambda>n. (WithKind gv n, Struct pkg n)) names)
           (AddUnversionedTypes gv (map (\<lambda>n. Ptr (Struct pkg n)) names))"
proof -
  have none: "concat (map (\<lambda>obj. []) xs) = []" for xs :: "rtype list" by (induction xs) simp_all
  have "adds T U (concat (map (\<lambda>obj. []) (map (\<lambda>n. Ptr (Struct pkg n)) names)))
      (forP (\<lambda>obj u. add_unversioned gv obj) (map (\<lambda>n. Ptr (Struct pkg n)) names) ())"
    using assms(3) by (intro adds_forP) (auto intro!: adds_add_unversioned)
  then have unv: "adds T U [] (forP (\<lambda>obj u. add_unversioned gv obj) (map (\<lambda>n. Ptr (Struct pkg n)) names) ())"
    by (simp only: none)
  have known: "adds T U (map (\<lambda>n. (WithKind gv n, Struct pkg n)) names)
      (AddKnownTypes gv (map (\<lambda>n. Ptr (Struct pkg n)) names))"
    using assms(1,2) by (rule adds_AddKnownTypes)
  show ?thesis
    using adds_bindP [OF adds_observed [of T U gv] adds_bindP [OF known unv]] by (simp add: AddUnversionedTypes_def)
qed

lemma WithKind_inject: "WithKind gv n = WithKind gv n' \<longleftrightarrow> n = n'"
  by (simp add: WithKind_def)

section \<open>What the program registers\<close>

text \<open>The kinds of the group \<open>storageos.com\<close>, and the unversioned ones.\<close>

definition group_types :: "(gvk \<times> rtype) list" where
  "group_types =
     map (\<lambda>n. (WithKind GroupVersion n, storageosv1 n)) [''Node'', ''NodeList''] @
     [(WithKind GroupVersion WatchEventKind, metav1 ''WatchEvent''),
      (WithKind \<lparr>gv_Group = ''storageos.com'', gv_Version = APIVersionInternal\<rparr> WatchEventKind, metav1 ''InternalEvent'')] @
     map (\<lambda>n. (WithKind GroupVersion n, metav1 n))
       [''ListOptions'', ''ExportOptions'', ''GetOptions'', ''DeleteOptions'', ''CreateOptions'', ''UpdateOptions'',
        ''PatchOptions'']"

definition unversioned_names :: "string list" where
  "unversioned_names = [''Status'', ''APIVersions'', ''APIGroupList'', ''APIGroup'', ''APIResourceList'']"

definition own_types :: "(gvk \<times> rtype) list" where
  "own_types = group_types @ map (\<lambda>n. (WithKind Unversioned n, metav1 n)) unversioned_names"

definition own_kinds :: "(string \<times> rtype) list" where
  "own_kinds = map (\<lambda>n. (n, metav1 n)) unversioned_names"

lemma own_types_distinct: "distinct (map fst own_types)"
  by code_simp

lemma own_types_of: "(k, t) \<in> set own_types \<Longrightarrow> map_of own_types k = Some t"
  using own_types_distinct by simp

lemmas own_defs = own_types_def group_types_def unversioned_names_def

lemma adds_AddToScheme: "adds (map_of own_types) (map_of own_kinds) own_types AddToScheme"
proof -
  let ?T = "map_of own_types" and ?U = "map_of own_kinds" and ?gv = GroupVersion
  have v: "gv_Version ?gv \<noteq> ''''" "gv_Version Unversioned \<noteq> ''''" by (simp_all add: GroupVersion_def Unversioned_def)
  have node: "adds ?T ?U (map (\<lambda>n. (WithKind ?gv n, storageosv1 n)) [''Node'', ''NodeList''])
      (AddKnownTypes ?gv (map (\<lambda>n. Ptr (storageosv1 n)) [''Node'', ''NodeList'']))"
    unfolding storageosv1_def
    by (rule adds_AddKnownTypes [OF v(1)]) (rule own_types_of, auto simp: own_defs storageosv1_def)
  have watch: "adds ?T ?U [(WithKind ?gv WatchEventKind, metav1 ''WatchEvent'')]
      (AddKnownTypeWithName (WithKind ?gv WatchEventKind) (Ptr (metav1 ''WatchEvent'')))"
    unfolding metav1_def
    by (rule adds_AddKnownTypeWithName, rule own_types_of)
      (simp_all add: own_defs metav1_def WithKind_def GroupVersion_def)
  have internal: "adds ?T ?U
      [(WithKind \<lparr>gv_Group = ''storageos.com'', gv_Version = APIVersionInternal\<rparr> WatchEventKind, metav1 ''InternalEvent'')]
      (AddKnownTypeWithName (WithKind \<lparr>gv_Group = ''storageos.com'', gv_Version = APIVersionInternal\<rparr> WatchEventKind)
         (Ptr (metav1 ''InternalEvent'')))"
    unfolding metav1_def
    by (rule adds_AddKnownTypeWithName, rule own_types_of) (simp_all add: own_defs metav1_def WithKind_def)
  have opts: "adds ?T ?U (map (\<lambda>n. (WithKind ?gv n, metav1 n))
        [''ListOptions'', ''ExportOptions'', ''GetOptions'', ''DeleteOptions'', ''CreateOptions'', ''UpdateOptions'', ''PatchOptions''])
      (AddKnownTypes ?gv optionsTypes)"
    unfolding optionsTypes_def metav1_def
    by (rule adds_AddKnownTypes [OF v(1)]) (rule own_types_of, auto simp: own_defs metav1_def)
  have metas: "unversioned_metas = map (\<lambda>n. Ptr (metav1 n)) unversioned_names"
    by (simp add: unversioned_metas_def unversioned_names_def)
  have unv: "adds ?T ?U (map (\<lambda>n. (WithKind Unversioned n, metav1 n)) unversioned_names)
      (AddUnversionedTypes Unversioned unversioned_metas)"
    unfolding metas metav1_def
    by (rule adds_AddUnversionedTypes [OF v(2)], rule own_types_of)
      (simp_all add: own_types_def own_kinds_def metav1_def map_of_map_restrict)
  have "AddToScheme = bindP (AddKnownTypes ?gv (map (\<lambda>n. Ptr (storageosv1 n)) [''Node'', ''NodeList'']))
      (\<lambda>_. bindP (AddToGroupVersion ?gv) (\<lambda>_. retP None))"
    by (simp add: AddToScheme_def Builder_AddToScheme_def api_init_def Builder_Register_def SchemeBuilder_def bindP_assoc)
  moreover have "AddToGroupVersion ?gv =
      bindP (AddKnownTypeWithName (WithKind ?gv WatchEventKind) (Ptr (metav1 ''WatchEvent''))) (\<lambda>_.
      bindP (AddKnownTypeWithName (WithKind \<lparr>gv_Group = ''storageos.com'', gv_Version = APIVersionInternal\<rparr> WatchEventKind)
         (Ptr (metav1 ''InternalEvent''))) (\<lambda>_.
      bindP (AddKnownTypes ?gv optionsTypes) (\<lambda>_. AddUnversionedTypes Unversioned unversioned_metas)))"
    by (simp add: AddToGroupVersion_def GroupVersion_def)
  ultimately show ?thesis
    using adds_bindP [OF node adds_bindP [OF adds_bindP [OF watch adds_bindP [OF internal adds_bindP [OF opts unv]]] adds_retP [of _ _ "None :: error_or_nil"]]]
    by (simp only: own_types_def group_types_def append_assoc append_Nil2 append_Cons append_Nil)
qed


text \<open>A scheme in which client-go has registered nothing of the group, and \<open>metav1\<close> as everyone does.\<close>

definition clean :: "scheme \<Rightarrow> bool" where
  "clean s \<longleftrightarrow>
     (\<forall>k. gvk_Group k = ''storageos.com'' \<longrightarrow> gvkToType s k = None) \<and>
     (\<forall>n. typeToGVK s (storageosv1 n) = []) \<and>
     (\<forall>n \<in> set unversioned_names.
        gvkToType s (WithKind Unversioned n) \<in> {None, Some (metav1 n)} \<and> unversionedKinds s n \<in> {None, Some (metav1 n)})"

lemma group_types_group: "(k, t) \<in> set group_types \<Longrightarrow> gvk_Group k = ''storageos.com''"
  by (auto simp: group_types_def WithKind_def GroupVersion_def)

lemma clean_agrees:
  assumes "clean s"
  shows "agrees (map_of own_types) (map_of own_kinds) s"
proof -
  have "gvkToType s k = None \<or> gvkToType s k = Some t" if "map_of own_types k = Some t" for k t
    using map_of_SomeD [OF that] assms group_types_group [of k t] by (auto simp: own_types_def clean_def)
  moreover have "unversionedKinds s n = None \<or> unversionedKinds s n = Some t" if "map_of own_kinds n = Some t" for n t
    using map_of_SomeD [OF that] assms by (auto simp: own_kinds_def clean_def)
  ultimately show ?thesis by (simp add: agrees_def)
qed

text \<open>
  The start of the program: whatever client-go registers, as long as it leaves the
  group to the program, \<open>init\<close> does not panic; the scheme then maps exactly the kinds of
  \<open>own_types\<close> anew, and knows a \<open>Node\<close> and a \<open>NodeList\<close> of the repository by one kind each.
\<close>

theorem main_init_registers:
  assumes "clientgo NewScheme = (Ret e, s)" and "clean s"
  shows "\<exists>s'. main_init clientgo NewScheme = (Ret (), s') \<and> gvkToType s' = gvkToType s ++ map_of own_types \<and>
           (\<forall>n \<in> {''Node'', ''NodeList''}.
              Scheme_New s' (WithKind GroupVersion n) = Some (Ptr (storageosv1 n)) \<and>
              typeToGVK s' (storageosv1 n) = [WithKind GroupVersion n])"
proof -
  have rev: "map_of (rev own_types) = map_of own_types" 
    using own_types_distinct by (simp add: map_of_inject_set rev_map [symmetric] del: rev_map)
  from adds_AddToScheme clean_agrees [OF assms(2)] obtain a s' where
    run: "AddToScheme s = (Ret a, s')" and types: "gvkToType s' = gvkToType s ++ map_of own_types" and
    kinds: "\<And>t. typeToGVK s' t = fold add_kind (map fst (filter (\<lambda>(k, t'). t' = t) own_types)) (typeToGVK s t)"
    unfolding adds_def rev by blast
  have "gvkToType s' (WithKind GroupVersion n) = Some (storageosv1 n) \<and>
      map fst (filter (\<lambda>(k, t'). t' = storageosv1 n) own_types) = [WithKind GroupVersion n]"
    if "n \<in> {''Node'', ''NodeList''}" for n
    using that by (auto simp: types own_types_def group_types_def unversioned_names_def storageosv1_def metav1_def
        WithKind_inject map_add_def split: option.splits)
  moreover have "typeToGVK s (storageosv1 n) = []" for n using assms(2) by (simp add: clean_def)
  ultimately have "\<forall>n \<in> {''Node'', ''NodeList''}.
      Scheme_New s' (WithKind GroupVersion n) = Some (Ptr (storageosv1 n)) \<and>
      typeToGVK s' (storageosv1 n) = [WithKind GroupVersion n]"
    by (auto simp: Scheme_New_def kinds add_kind_def)
  with run types assms(1) show ?thesis by (simp add: main_init_def bindP_run retP_run)
qed

text \<open>With nothing else registered, both kinds are known and told from other groups' nodes.\<close>

lemma main_init_sample:
  "\<exists>s'. main_init (retP None) NewScheme = (Ret (), s') \<and> Recognizes s' (WithKind GroupVersion ''Node'') \<and>
     \<not> Recognizes s' (WithKind Unversioned ''Node'')"
proof -
  have "clean NewScheme" by (simp add: clean_def NewScheme_def)
  from main_init_registers [of "retP None" None NewScheme, OF _ this] obtain s' where
    s': "main_init (retP None) NewScheme = (Ret (), s')" "gvkToType s' = gvkToType NewScheme ++ map_of own_types"
    by (auto simp: retP_run)
  moreover have "map_of own_types (WithKind GroupVersion ''Node'') \<noteq> None"
    "map_of own_types (WithKind Unversioned ''Node'') = None" by code_simp+
  ultimately show ?thesis by (auto simp: Recognizes_def NewScheme_def)
qed

end
