(* ===== verification/Reset_Channel.thy ===== *)
theory Reset_Channel
  imports Fencer Shared_Volume_Controller
begin

text \<open>
  The goroutines that share the API client: the refresh loop of
  \<open>internal/pkg/storageos/client.go\<close>, the loop of the shared volume controller and the
  poller of the fencer, which ask for a reset of the client through the unbuffered
  channel that \<open>main.go\<close> makes, and the goroutine of \<open>main.go\<close> that ends the process
  when the refresh loop returns. A step runs one goroutine up to its next
  communication or wait, so the calls of one handler are not interleaved with those of
  another; a goroutine whose call to a service does not return stays where it is and takes
  no step. Other clients change the world at any moment.
\<close>

section \<open>States\<close>

text \<open>Where each goroutine is: waiting in its \<open>select\<close>, working, or sending on the channel.\<close>

datatype refresh_pc = RefreshSelect | RefreshInterval | RefreshReset

datatype sharer_pc = SharerListing | SharerSending | SharerVolumes "SharedVolume list" | SharerSelect | SharerDone

datatype poller_pc = PollerSelect | PollerListing | PollerSending | PollerEvents "NodeCR list" | PollerDone

record 'w goroutines =
  g_refresh :: refresh_pc
  g_state :: refresh_state
  g_sharer :: sharer_pc
  g_volumes :: "SharedVolume cache"
  g_poller :: poller_pc
  g_nodes :: "NodeCR cache \<times> objkey list"
  g_cancelled :: bool
  g_exit :: "nat option"
  g_world :: 'w

record 'w api_env =
  env_cp :: "'w control_plane"
  env_readFile :: "string \<Rightarrow> string \<Rightarrow> ('w, goerr + string) ext"
  env_secretPath :: string
  env_sharer :: "'w sv_reconciler"
  env_now :: "'w \<Rightarrow> int"

text \<open>The token is read from the client when a call is made.\<close>

abbreviation g_client :: "'w goroutines \<Rightarrow> client" where
  "g_client g \<equiv> rs_client (g_state g)"

definition sharer_now :: "'w api_env \<Rightarrow> 'w goroutines \<Rightarrow> 'w sv_reconciler" where
  "sharer_now env g = (env_sharer env)\<lparr>svr_api := client_volume_sharer (env_cp env) (g_client g)\<rparr>"

definition started :: "client \<Rightarrow> SharedVolume cache \<Rightarrow> NodeCR cache \<Rightarrow> 'w \<Rightarrow> 'w goroutines" where
  "started c volumes nodes w =
     \<lparr>g_refresh = RefreshSelect, g_state = \<lparr>rs_client = c, rs_metrics = []\<rparr>,
      g_sharer = SharerListing, g_volumes = volumes, g_poller = PollerSelect, g_nodes = (nodes, []),
      g_cancelled = False, g_exit = None, g_world = w\<rparr>"

section \<open>Steps\<close>

text \<open>
  A panic of a goroutine ends the process with code 2, the return of the refresh
  loop with code 1.
\<close>

inductive goroutine_step :: "'w api_env \<Rightarrow> 'w goroutines \<Rightarrow> 'w goroutines \<Rightarrow> bool" for env where
  interval_elapsed:
    "g_exit g = None \<Longrightarrow> g_refresh g = RefreshSelect \<Longrightarrow>
       goroutine_step env g (g\<lparr>g_refresh := RefreshInterval\<rparr>)"
| refreshed:
    "g_exit g = None \<Longrightarrow> g_refresh g = RefreshInterval \<Longrightarrow>
       refresh_interval (env_cp env) (env_readFile env) (env_secretPath env) (g_state g) (g_world g) = (Ret s, w) \<Longrightarrow>
       goroutine_step env g (g\<lparr>g_refresh := RefreshSelect, g_state := s, g_world := w\<rparr>)"
| refresh_panics:
    "g_exit g = None \<Longrightarrow> g_refresh g = RefreshInterval \<Longrightarrow>
       refresh_interval (env_cp env) (env_readFile env) (env_secretPath env) (g_state g) (g_world g) = (Panic, w) \<Longrightarrow>
       goroutine_step env g (g\<lparr>g_exit := Some 2, g_world := w\<rparr>)"
| sharer_sends:
    "g_exit g = None \<Longrightarrow> g_refresh g = RefreshSelect \<Longrightarrow> g_sharer g = SharerSending \<Longrightarrow>
       goroutine_step env g (g\<lparr>g_refresh := RefreshReset, g_sharer := SharerVolumes []\<rparr>)"
| poller_sends:
    "g_exit g = None \<Longrightarrow> g_refresh g = RefreshSelect \<Longrightarrow> g_poller g = PollerSending \<Longrightarrow>
       goroutine_step env g (g\<lparr>g_refresh := RefreshReset, g_poller := PollerSelect\<rparr>)"
| reset_done:
    "g_exit g = None \<Longrightarrow> g_refresh g = RefreshReset \<Longrightarrow>
       refresh_reset (env_cp env) (env_readFile env) (env_secretPath env) (g_state g) (g_world g) = (Ret s, w) \<Longrightarrow>
       goroutine_step env g (g\<lparr>g_refresh := RefreshSelect, g_state := s, g_world := w\<rparr>)"
| reset_panics:
    "g_exit g = None \<Longrightarrow> g_refresh g = RefreshReset \<Longrightarrow>
       refresh_reset (env_cp env) (env_readFile env) (env_secretPath env) (g_state g) (g_world g) = (Panic, w) \<Longrightarrow>
       goroutine_step env g (g\<lparr>g_exit := Some 2, g_world := w\<rparr>)"
| refresh_returns:
    "g_exit g = None \<Longrightarrow> g_refresh g = RefreshSelect \<Longrightarrow> g_cancelled g \<Longrightarrow>
       goroutine_step env g (g\<lparr>g_exit := Some 1\<rparr>)"
| sharer_lists:
    "g_exit g = None \<Longrightarrow> g_sharer g = SharerListing \<Longrightarrow>
       ListSharedVolumes (env_cp env) (g_client g) (g_world g) = (Ret l, w) \<Longrightarrow>
       goroutine_step env g
         (g\<lparr>g_sharer := (case l of Inl err \<Rightarrow> SharerSending | Inr volumes \<Rightarrow> SharerVolumes volumes), g_world := w\<rparr>)"
| sharer_list_panics:
    "g_exit g = None \<Longrightarrow> g_sharer g = SharerListing \<Longrightarrow>
       ListSharedVolumes (env_cp env) (g_client g) (g_world g) = (Panic, w) \<Longrightarrow>
       goroutine_step env g (g\<lparr>g_exit := Some 2, g_world := w\<rparr>)"
| sharer_volume:
    "g_exit g = None \<Longrightarrow> g_sharer g = SharerVolumes (v # vs) \<Longrightarrow>
       reconcileVolume (sharer_now env g) v (g_volumes g) (g_world g) = (Ret c, w) \<Longrightarrow>
       goroutine_step env g (g\<lparr>g_sharer := SharerVolumes vs, g_volumes := c, g_world := w\<rparr>)"
| sharer_volume_panics:
    "g_exit g = None \<Longrightarrow> g_sharer g = SharerVolumes (v # vs) \<Longrightarrow>
       reconcileVolume (sharer_now env g) v (g_volumes g) (g_world g) = (Panic, w) \<Longrightarrow>
       goroutine_step env g (g\<lparr>g_exit := Some 2, g_world := w\<rparr>)"
| sharer_round_ends:
    "g_exit g = None \<Longrightarrow> g_sharer g = SharerVolumes [] \<Longrightarrow> goroutine_step env g (g\<lparr>g_sharer := SharerSelect\<rparr>)"
| sharer_polls:
    "g_exit g = None \<Longrightarrow> g_sharer g = SharerSelect \<Longrightarrow> goroutine_step env g (g\<lparr>g_sharer := SharerListing\<rparr>)"
| sharer_returns:
    "g_exit g = None \<Longrightarrow> g_sharer g = SharerSelect \<Longrightarrow> g_cancelled g \<Longrightarrow>
       goroutine_step env g (g\<lparr>g_sharer := SharerDone\<rparr>)"
| poller_ticks:
    "g_exit g = None \<Longrightarrow> g_poller g = PollerSelect \<Longrightarrow> goroutine_step env g (g\<lparr>g_poller := PollerListing\<rparr>)"
| poller_lists:
    "g_exit g = None \<Longrightarrow> g_poller g = PollerListing \<Longrightarrow>
       pollNodes_tick (client_node_fencer (env_cp env) (g_client g)) (g_world g) = (Ret (nodes, reset), w) \<Longrightarrow>
       goroutine_step env g
         (g\<lparr>g_poller := (if reset then PollerSending else PollerEvents nodes), g_world := w\<rparr>)"
| poller_list_panics:
    "g_exit g = None \<Longrightarrow> g_poller g = PollerListing \<Longrightarrow>
       pollNodes_tick (client_node_fencer (env_cp env) (g_client g)) (g_world g) = (Panic, w) \<Longrightarrow>
       goroutine_step env g (g\<lparr>g_exit := Some 2, g_world := w\<rparr>)"
| poller_event:
    "g_exit g = None \<Longrightarrow> g_poller g = PollerEvents (n # ns) \<Longrightarrow>
       goroutine_step env g
         (g\<lparr>g_poller := PollerEvents ns, g_nodes := EnqueueRequestFromCache (env_now env (g_world g)) n (g_nodes g)\<rparr>)"
| poller_round_ends:
    "g_exit g = None \<Longrightarrow> g_poller g = PollerEvents [] \<Longrightarrow> goroutine_step env g (g\<lparr>g_poller := PollerSelect\<rparr>)"
| poller_returns:
    "g_exit g = None \<Longrightarrow> g_poller g = PollerSelect \<Longrightarrow> g_cancelled g \<Longrightarrow>
       goroutine_step env g (g\<lparr>g_poller := PollerDone\<rparr>)"
| cancelled: "goroutine_step env g (g\<lparr>g_cancelled := True\<rparr>)"
| world_changes: "goroutine_step env g (g\<lparr>g_world := w\<rparr>)"

inductive_cases goroutine_stepE: "goroutine_step env g g'"

section \<open>Runs and fairness\<close>

text \<open>
  A run is an infinite sequence of steps; once the process has ended only the world and
  the context change.
\<close>

definition is_run :: "'w api_env \<Rightarrow> 'w goroutines \<Rightarrow> (nat \<Rightarrow> 'w goroutines) \<Rightarrow> bool" where
  "is_run env g0 run \<longleftrightarrow> run 0 = g0 \<and> (\<forall>i. goroutine_step env (run i) (run (Suc i)))"

definition enabled :: "('g \<Rightarrow> 'g \<Rightarrow> bool) \<Rightarrow> 'g \<Rightarrow> bool" where
  "enabled A g \<longleftrightarrow> (\<exists>g'. A g g')"

text \<open>
  An action that stays enabled is taken some time (weak fairness), or one that is enabled
  again and again is (strong fairness).
\<close>

definition weakly_fair :: "('g \<Rightarrow> 'g \<Rightarrow> bool) \<Rightarrow> (nat \<Rightarrow> 'g) \<Rightarrow> bool" where
  "weakly_fair A run \<longleftrightarrow>
     (\<forall>i. (\<forall>j\<ge>i. enabled A (run j)) \<longrightarrow> (\<exists>j\<ge>i. A (run j) (run (Suc j))))"

definition strongly_fair :: "('g \<Rightarrow> 'g \<Rightarrow> bool) \<Rightarrow> (nat \<Rightarrow> 'g) \<Rightarrow> bool" where
  "strongly_fair A run \<longleftrightarrow>
     (\<forall>i. (\<forall>j\<ge>i. \<exists>k\<ge>j. enabled A (run k)) \<longrightarrow> (\<exists>j\<ge>i. A (run j) (run (Suc j))))"

text \<open>
  The actions: the refresh loop finishes the work it is at, and it takes the request of
  the shared volume controller or of the poller from the channel.
\<close>

definition refresh_finishes :: "'w api_env \<Rightarrow> 'w goroutines \<Rightarrow> 'w goroutines \<Rightarrow> bool" where
  "refresh_finishes env g g' \<longleftrightarrow>
     g_exit g = None \<and> g_refresh g \<noteq> RefreshSelect \<and> goroutine_step env g g' \<and>
     (g_refresh g' = RefreshSelect \<or> g_exit g' \<noteq> None)"

definition takes_sharer :: "'w goroutines \<Rightarrow> 'w goroutines \<Rightarrow> bool" where
  "takes_sharer g g' \<longleftrightarrow>
     g_exit g = None \<and> g_refresh g = RefreshSelect \<and> g_sharer g = SharerSending \<and>
     g' = g\<lparr>g_refresh := RefreshReset, g_sharer := SharerVolumes []\<rparr>"

definition takes_poller :: "'w goroutines \<Rightarrow> 'w goroutines \<Rightarrow> bool" where
  "takes_poller g g' \<longleftrightarrow>
     g_exit g = None \<and> g_refresh g = RefreshSelect \<and> g_poller g = PollerSending \<and>
     g' = g\<lparr>g_refresh := RefreshReset, g_poller := PollerSelect\<rparr>"

text \<open>
  A request that waits at \<open>i\<close> is served: it waits until it is taken, and the refresh loop
  then stays with it until it has reset the client with it.
\<close>

definition served ::
  "'w api_env \<Rightarrow> (nat \<Rightarrow> 'w goroutines) \<Rightarrow> ('w goroutines \<Rightarrow> bool) \<Rightarrow> ('w goroutines \<Rightarrow> 'w goroutines \<Rightarrow> bool) \<Rightarrow> nat \<Rightarrow> bool"
where
  "served env run waits takes i \<longleftrightarrow>
     (\<exists>j\<ge>i. (\<forall>k. i \<le> k \<and> k \<le> j \<longrightarrow> waits (run k)) \<and> takes (run j) (run (Suc j)) \<and>
        (\<exists>k>j. (\<forall>m. j < m \<and> m \<le> k \<longrightarrow> g_refresh (run m) = RefreshReset) \<and>
           (\<exists>st w. refresh_reset (env_cp env) (env_readFile env) (env_secretPath env)
                     (g_state (run k)) (g_world (run k)) = (Ret st, w) \<and>
                   run (Suc k) = (run k)\<lparr>g_refresh := RefreshSelect, g_state := st, g_world := w\<rparr>)))"

section \<open>Steps and waiting\<close>

lemma step_token: "goroutine_step env g g' \<Longrightarrow> has_token (g_state g) \<Longrightarrow> has_token (g_state g')"
  by (induction rule: goroutine_step.induct) (auto dest: refresh_interval_token refresh_reset_token)

text \<open>A goroutine that sends does nothing else until its request is taken.\<close>

lemma sharer_waits:
  "goroutine_step env g g' \<Longrightarrow> g_exit g' = None \<Longrightarrow> g_sharer g = SharerSending \<Longrightarrow>
     g_sharer g' = SharerSending \<or> takes_sharer g g'"
  by (induction rule: goroutine_step.induct) (auto simp: takes_sharer_def)

lemma poller_waits:
  "goroutine_step env g g' \<Longrightarrow> g_exit g' = None \<Longrightarrow> g_poller g = PollerSending \<Longrightarrow>
     g_poller g' = PollerSending \<or> takes_poller g g'"
  by (induction rule: goroutine_step.induct) (auto simp: takes_poller_def)

text \<open>The work of the refresh loop is over only when it is done.\<close>

lemma refresh_works:
  "goroutine_step env g g' \<Longrightarrow> g_exit g' = None \<Longrightarrow> g_refresh g \<noteq> RefreshSelect \<Longrightarrow>
     g_refresh g' = g_refresh g \<or> g_refresh g' = RefreshSelect"
  by (induction rule: goroutine_step.induct) auto

lemma reset_works:
  "goroutine_step env g g' \<Longrightarrow> g_exit g' = None \<Longrightarrow> g_refresh g = RefreshReset \<Longrightarrow> g_refresh g' = RefreshSelect \<Longrightarrow>
     \<exists>st w. refresh_reset (env_cp env) (env_readFile env) (env_secretPath env) (g_state g) (g_world g) = (Ret st, w) \<and>
            g' = g\<lparr>g_refresh := RefreshSelect, g_state := st, g_world := w\<rparr>"
  by (induction rule: goroutine_step.induct) auto

text \<open>Whatever the refresh loop is at, it never waits for another goroutine to finish it.\<close>

lemma enabled_refresh_finishes:
  assumes "g_exit g = None" and "g_refresh g \<noteq> RefreshSelect"
  shows "enabled (refresh_finishes env) g"
proof (cases "g_refresh g")
  case RefreshInterval
  obtain r w where r: "refresh_interval (env_cp env) (env_readFile env) (env_secretPath env) (g_state g) (g_world g) = (r, w)"
    by fastforce
  show ?thesis
  proof (cases r)
    case (Ret st)
    with refreshed [OF assms(1) RefreshInterval] r assms show ?thesis
      by (fastforce simp: enabled_def refresh_finishes_def)
  next
    case Panic
    with refresh_panics [OF assms(1) RefreshInterval] r assms show ?thesis
      by (fastforce simp: enabled_def refresh_finishes_def)
  qed
next
  case RefreshReset
  obtain r w where r: "refresh_reset (env_cp env) (env_readFile env) (env_secretPath env) (g_state g) (g_world g) = (r, w)"
    by fastforce
  show ?thesis
  proof (cases r)
    case (Ret st)
    with reset_done [OF assms(1) RefreshReset] r assms show ?thesis
      by (fastforce simp: enabled_def refresh_finishes_def)
  next
    case Panic
    with reset_panics [OF assms(1) RefreshReset] r assms show ?thesis
      by (fastforce simp: enabled_def refresh_finishes_def)
  qed
qed (use assms in simp)

section \<open>Leads-to\<close>

lemma run_token:
  assumes "is_run env g0 run" and "has_token (g_state g0)"
  shows "has_token (g_state (run i))"
  using assms by (induction i) (auto simp: is_run_def intro: step_token)

text \<open>A process that does not end comes back to its \<open>select\<close> from every point.\<close>

lemma refresh_returns_to_select:
  assumes run: "is_run env g0 run" and alive: "\<And>j. i \<le> j \<Longrightarrow> g_exit (run j) = None"
    and fair: "weakly_fair (refresh_finishes env) run" and "i \<le> j"
  shows "\<exists>k\<ge>j. g_refresh (run k) = RefreshSelect \<and> (\<forall>m. j \<le> m \<and> m < k \<longrightarrow> g_refresh (run m) = g_refresh (run j))"
proof -
  have "\<exists>k\<ge>j. g_refresh (run k) = RefreshSelect"
  proof (rule ccontr)
    assume none: "\<not> ?thesis"
    then have "\<forall>k\<ge>j. enabled (refresh_finishes env) (run k)"
      using alive \<open>i \<le> j\<close> by (auto intro: enabled_refresh_finishes)
    with fair obtain k where k: "k \<ge> j" "refresh_finishes env (run k) (run (Suc k))"
      unfolding weakly_fair_def by blast
    then have "g_refresh (run (Suc k)) = RefreshSelect"
      using alive [of "Suc k"] \<open>i \<le> j\<close> by (auto simp: refresh_finishes_def)
    with none k(1) show False by (auto dest: le_SucI)
  qed
  then obtain k where k: "k \<ge> j" "g_refresh (run k) = RefreshSelect"
    and least: "\<And>m. m \<ge> j \<Longrightarrow> m < k \<Longrightarrow> g_refresh (run m) \<noteq> RefreshSelect"
    using exists_least_iff [of "\<lambda>k. k \<ge> j \<and> g_refresh (run k) = RefreshSelect"] by blast
  have "g_refresh (run m) = g_refresh (run j)" if "j \<le> m" "m < k" for m
    using that
  proof (induction m rule: dec_induct)
    case (step m)
    then have "goroutine_step env (run m) (run (Suc m))" using run by (simp add: is_run_def)
    with step least [of m] least [of "Suc m"] alive [of "Suc m"] \<open>i \<le> j\<close> show ?case
      by (auto dest!: refresh_works)
  qed simp
  with k show ?thesis by blast
qed

text \<open>
  A sender that waits until it is taken is served, if taking it is strongly fair: the
  contract of the two goroutines that send.
\<close>

lemma waiting_served:
  assumes run: "is_run env g0 run" and alive: "\<And>j. i \<le> j \<Longrightarrow> g_exit (run j) = None"
    and works: "weakly_fair (refresh_finishes env) run" and takes: "strongly_fair takes run"
    and waits: "\<And>g g'. goroutine_step env g g' \<Longrightarrow> g_exit g' = None \<Longrightarrow> waits g \<Longrightarrow> waits g' \<or> takes g g'"
    and enabled: "\<And>g. g_exit g = None \<Longrightarrow> g_refresh g = RefreshSelect \<Longrightarrow> waits g \<Longrightarrow> enabled takes g"
    and taken: "\<And>g g'. takes g g' \<Longrightarrow> g_refresh g' = RefreshReset"
    and "waits (run i)"
  shows "served env run waits takes i"
proof -
  have step: "goroutine_step env (run k) (run (Suc k))" for k using run by (simp add: is_run_def)
  have stays: "waits (run k) \<or> (\<exists>j. i \<le> j \<and> j < k \<and> takes (run j) (run (Suc j)))" if "i \<le> k" for k
    using that
  proof (induction k rule: dec_induct)
    case (step k)
    with waits [OF \<open>\<And>k. goroutine_step env (run k) (run (Suc k))\<close>] alive [of "Suc k"] show ?case
      by (metis le_Suc_eq less_Suc_eq less_or_eq_imp_le)
  qed (use \<open>waits (run i)\<close> in simp)
  have "\<exists>j\<ge>i. takes (run j) (run (Suc j))"
  proof (rule ccontr)
    assume none: "\<not> ?thesis"
    have "\<exists>k\<ge>j. enabled takes (run k)" if "i \<le> j" for j
    proof -
      from refresh_returns_to_select [OF run alive works that] obtain k where
        k: "k \<ge> j" "g_refresh (run k) = RefreshSelect" by blast
      with stays [of k] none that have "waits (run k)" by (meson le_trans)
      with k enabled alive [of k] that show ?thesis by (meson le_trans)
    qed
    with takes none show False unfolding strongly_fair_def by blast
  qed
  then obtain j where j: "j \<ge> i" "takes (run j) (run (Suc j))"
    and first: "\<And>m. i \<le> m \<Longrightarrow> m < j \<Longrightarrow> \<not> takes (run m) (run (Suc m))"
    using exists_least_iff [of "\<lambda>j. j \<ge> i \<and> takes (run j) (run (Suc j))"] by blast
  have waiting: "waits (run k)" if "i \<le> k" "k \<le> j" for k
    using stays [OF that(1)] first that(2) by (meson le_trans less_le_trans)
  have reset: "g_refresh (run (Suc j)) = RefreshReset" using taken j(2) by blast
  from refresh_returns_to_select [OF run alive works le_SucI [OF j(1)]] obtain k where
    k: "k \<ge> Suc j" "g_refresh (run k) = RefreshSelect"
      "\<And>m. Suc j \<le> m \<Longrightarrow> m < k \<Longrightarrow> g_refresh (run m) = RefreshReset"
    unfolding reset by blast
  from k(1,2) reset obtain l where l: "k = Suc l" "l > j"
    by (metis Suc_le_D Suc_le_eq le_neq_implies_less refresh_pc.distinct(3) less_Suc_eq)
  have busy: "g_refresh (run m) = RefreshReset" if "j < m" "m \<le> l" for m
    using k(3) [of m] that l(1) by simp
  have "\<exists>st w. refresh_reset (env_cp env) (env_readFile env) (env_secretPath env) (g_state (run l)) (g_world (run l)) = (Ret st, w) \<and>
            run (Suc l) = (run l)\<lparr>g_refresh := RefreshSelect, g_state := st, g_world := w\<rparr>"
    using reset_works [OF step] busy [of l] l k(2) alive [of "Suc l"] j(1) by simp
  with j waiting busy l(2) show ?thesis unfolding served_def by blast
qed

section \<open>Property\<close>

text \<open>
  C28. The API client is shared safely and no request for a reset is lost. In every
  infinite run of the refresh loop, the shared volume controller, the node poller and
  other users of the services, the client holds a usable token at every moment. A
  controller or poller that waits to send on the channel waits until the refresh loop
  takes its request, which it does, and the refresh loop then resets the client before
  it takes anything else; only the end of the process can prevent it. The hypotheses are
  that the work of the refresh loop comes to an end (the calls it makes return), and that
  a request that is ready again and again when the refresh loop selects is chosen some
  time, as Go's \<open>select\<close> does, which chooses between ready cases at random; without the
  latter the other sender and the ticks of the interval could always be preferred.
\<close>

theorem reset_channel_live:
  assumes "is_run env (started c volumes nodes w) run" and "cl_ctx c = Some t" and "t \<noteq> ''''"
    and "weakly_fair (refresh_finishes env) run"
    and "strongly_fair takes_sharer run" and "strongly_fair takes_poller run"
  shows "has_token (g_state (run i)) \<and>
    (g_sharer (run i) = SharerSending \<longrightarrow>
       (\<exists>j\<ge>i. g_exit (run j) \<noteq> None) \<or> served env run (\<lambda>g. g_sharer g = SharerSending) takes_sharer i) \<and>
    (g_poller (run i) = PollerSending \<longrightarrow>
       (\<exists>j\<ge>i. g_exit (run j) \<noteq> None) \<or> served env run (\<lambda>g. g_poller g = PollerSending) takes_poller i)"
proof (intro conjI impI)
  have "has_token (g_state (started c volumes nodes w))"
    using assms(2,3) by (simp add: started_def has_token_def)
  then show "has_token (g_state (run i))" by (rule run_token [OF assms(1)])
next
  assume "g_sharer (run i) = SharerSending"
  note waits = this
  show "(\<exists>j\<ge>i. g_exit (run j) \<noteq> None) \<or> served env run (\<lambda>g. g_sharer g = SharerSending) takes_sharer i"
  proof (rule disj_imp [THEN iffD2], rule impI)
    assume "\<not> (\<exists>j\<ge>i. g_exit (run j) \<noteq> None)"
    then have alive: "g_exit (run j) = None" if "i \<le> j" for j using that by blast
    show "served env run (\<lambda>g. g_sharer g = SharerSending) takes_sharer i"
      using waits
      by (intro waiting_served [OF assms(1) alive assms(4,5)])
         (auto dest: sharer_waits simp: enabled_def takes_sharer_def)
  qed
next
  assume "g_poller (run i) = PollerSending"
  note waits = this
  show "(\<exists>j\<ge>i. g_exit (run j) \<noteq> None) \<or> served env run (\<lambda>g. g_poller g = PollerSending) takes_poller i"
  proof (rule disj_imp [THEN iffD2], rule impI)
    assume "\<not> (\<exists>j\<ge>i. g_exit (run j) \<noteq> None)"
    then have alive: "g_exit (run j) = None" if "i \<le> j" for j using that by blast
    show "served env run (\<lambda>g. g_poller g = PollerSending) takes_poller i"
      using waits
      by (intro waiting_served [OF assms(1) alive assms(4,6)])
         (auto dest: poller_waits simp: enabled_def takes_poller_def)
  qed
qed

text \<open>
  A run in which the list of shared volumes fails, the request is taken and carried out,
  and nothing more happens.
\<close>

definition failing_env :: "mem api_env" where
  "failing_env =
     (let cp = mem_cp\<lparr>api_ListNamespaces := \<lambda>x w. (([], None, Some (StdError ''unavailable'')), w)\<rparr> in
      \<lparr>env_cp = cp, env_readFile = (\<lambda>d n w. (Inr ''admin'', w)), env_secretPath = ''/etc/secret'',
       env_sharer = sample_svr empty_k8s (client_volume_sharer cp NewTestAPIClient),
       env_now = (\<lambda>w. 0)\<rparr>)"

definition reset_run :: "'g list \<Rightarrow> nat \<Rightarrow> 'g" where
  "reset_run gs i = gs ! min i (length gs - 1)"

lemma reset_run_end: "gs \<noteq> [] \<Longrightarrow> length gs - 1 \<le> i \<Longrightarrow> reset_run gs i = last gs"
  by (simp add: reset_run_def min_absorb2 last_conv_nth)

lemma reset_run_fair:
  assumes "gs \<noteq> []" and "\<not> enabled A (last gs)"
  shows "weakly_fair A (reset_run gs)" and "strongly_fair A (reset_run gs)"
proof -
  have "\<not> enabled A (reset_run gs j)" if "length gs - 1 \<le> j" for j
    using assms that by (simp add: reset_run_end)
  then have "\<exists>j\<ge>i. \<forall>k\<ge>j. \<not> enabled A (reset_run gs k)" for i
    by (intro exI [of _ "max i (length gs - 1)"]) simp
  then show "weakly_fair A (reset_run gs)" "strongly_fair A (reset_run gs)"
    unfolding weakly_fair_def strongly_fair_def by (meson le_refl)+
qed

theorem reset_channel_live_witness:
  "\<exists>run. is_run failing_env
         (started (NewTestAPIClient\<lparr>cl_ctx := Some ''tok''\<rparr>) (cache_New 60) (cache_New 60) sample_mem) run \<and>
       (\<forall>j. g_exit (run j) = None) \<and> g_sharer (run 1) = SharerSending \<and>
       served failing_env run (\<lambda>g. g_sharer g = SharerSending) takes_sharer 1"
proof -
  let ?c = "NewTestAPIClient\<lparr>cl_ctx := Some ''tok''\<rparr>"
  let ?g0 = "started ?c (cache_New 60) (cache_New 60) sample_mem"
  let ?g1 = "?g0\<lparr>g_sharer := SharerSending\<rparr>"
  let ?g2 = "?g1\<lparr>g_refresh := RefreshReset, g_sharer := SharerVolumes []\<rparr>"
  obtain err where l: "ListSharedVolumes (env_cp failing_env) (g_client ?g0) (g_world ?g0) = (Ret (Inl err), sample_mem)"
    by (simp add: ListSharedVolumes_def failing_env_def started_def Let_def apiP_def prog_simps)
  obtain st w where r: "refresh_reset (env_cp failing_env) (env_readFile failing_env) (env_secretPath failing_env)
      (g_state ?g2) (g_world ?g2) = (Ret st, w)"
    by (simp add: refresh_reset_def resetClient_def ReadCredsFromMountedSecret_def secret_Read_def Authenticate_def
        respAuthToken_def mem_cp_simps sample_simps failing_env_def started_def Let_def prog_simps)
  let ?g3 = "?g2\<lparr>g_refresh := RefreshSelect, g_state := st, g_world := w\<rparr>"
  let ?run = "reset_run [?g0, ?g1, ?g2, ?g3]"
  have "goroutine_step failing_env ?g0 ?g1" using sharer_lists [OF _ _ l] by (simp add: started_def)
  moreover have "goroutine_step failing_env ?g1 ?g2" using sharer_sends [of ?g1] by (simp add: started_def)
  moreover have "goroutine_step failing_env ?g2 ?g3" using reset_done [OF _ _ r] by (simp add: started_def)
  moreover have "goroutine_step failing_env ?g3 ?g3" using world_changes [of _ ?g3 w] by simp
  ultimately have "goroutine_step failing_env (?run i) (?run (Suc i))" for i
    by (cases "i = 0 \<or> i = 1 \<or> i = 2") (auto simp: reset_run_def nth_Cons')
  then have run: "is_run failing_env ?g0 ?run" by (simp add: is_run_def reset_run_def)
  have fair: "weakly_fair (refresh_finishes failing_env) ?run" "strongly_fair takes_sharer ?run"
    "strongly_fair takes_poller ?run"
    by (auto intro!: reset_run_fair simp: enabled_def refresh_finishes_def takes_sharer_def takes_poller_def started_def)
  have alive: "\<forall>j. g_exit (?run j) = None" by (auto simp: reset_run_def nth_Cons' started_def)
  have "g_sharer (?run 1) = SharerSending" by (simp add: reset_run_def)
  moreover from reset_channel_live [OF run _ _ fair, of "''tok''" 1] this alive
  have "served failing_env ?run (\<lambda>g. g_sharer g = SharerSending) takes_sharer 1" by simp
  ultimately show ?thesis using run alive by blast
qed

end
