(* ===== verification/Sharing_Cluster.thy ===== *)
theory Sharing_Cluster
  imports Shared_Volume_Controller
begin

text \<open>
  The shared volume controller against a cluster whose calls succeed: what one
  pass over a volume, and one round over all of them, leave in Kubernetes and in
  StorageOS. The locale states what is documented of the two API servers on an
  abstract cluster; the last section interprets it on a store kept in memory, with
  the StorageOS side served through the program's own client.
\<close>

section \<open>The cluster and the desired state\<close>

record cluster =
  cl_svcs :: "objkey \<rightharpoonup> service"
  cl_eps :: "objkey \<rightharpoonup> endpoints"
  cl_pvcs :: "objkey \<rightharpoonup> pvc"
  cl_vols :: "SharedVolume list"

abbreviation sv_key :: "SharedVolume \<Rightarrow> objkey" where
  "sv_key v \<equiv> mk_key (sv_Namespace v) (sv_ServiceName v)"

abbreviation sv_claim :: "SharedVolume \<Rightarrow> objkey" where
  "sv_claim v \<equiv> mk_key (sv_Namespace v) (sv_PVCName v)"

text \<open>
  The objects that are in place already can be brought to the desired state: a
  service of another type, or whose only port is not the NFS port, is not, and
  neither are endpoints whose only port has another name or protocol.
\<close>

definition svc_correctable :: "service \<Rightarrow> bool" where
  "svc_correctable svc \<longleftrightarrow>
     svc_Type svc = ServiceTypeClusterIP \<and>
     (case svc_Ports svc of
        [p] \<Rightarrow> sp_Name p = NFSPortName \<and> sp_Port p = NFSPort \<and> sp_Protocol p = NFSProtocol
      | _ \<Rightarrow> True)"

definition eps_correctable :: "endpoints \<Rightarrow> bool" where
  "eps_correctable e \<longleftrightarrow>
     (case eps_Subsets e of
        [s] \<Rightarrow> (case (es_Addresses s, es_Ports s) of
                  ([a], [p]) \<Rightarrow> ep_Name p = NFSPortName \<and> ep_Protocol p = NFSProtocol
                | _ \<Rightarrow> True)
      | _ \<Rightarrow> True)"

definition correctable :: "SharedVolume \<Rightarrow> cluster \<Rightarrow> bool" where
  "correctable v s \<longleftrightarrow> pred_option svc_correctable (cl_svcs s (sv_key v)) \<and> pred_option eps_correctable (cl_eps s (sv_key v))"

text \<open>The service and the endpoints of a volume are the desired ones and \<open>ip\<close> is the service's address.\<close>

definition serving :: "SharedVolume \<Rightarrow> string \<Rightarrow> cluster \<Rightarrow> bool" where
  "serving v ip s \<longleftrightarrow>
     (\<exists>svc e. cl_svcs s (sv_key v) = Some svc \<and> ServiceIsEqual v svc \<and> svc_ClusterIP svc = ip \<and>
              cl_eps s (sv_key v) = Some e \<and> EndpointsIsEqual v e)"

definition settled :: "SharedVolume \<Rightarrow> cluster \<Rightarrow> bool" where
  "settled v s \<longleftrightarrow> (\<exists>ip. ip \<noteq> '''' \<and> serving v ip s \<and> sv_ExternalEndpoint v = ip @ '':2049'')"

text \<open>Objects are filed under their own names, and services of the cluster type have an address.\<close>

definition wf_cluster :: "cluster \<Rightarrow> bool" where
  "wf_cluster s \<longleftrightarrow>
     (\<forall>k svc. cl_svcs s k = Some svc \<longrightarrow> meta_key (svc_meta svc) = k \<and>
        (svc_Type svc = ServiceTypeClusterIP \<longrightarrow> svc_ClusterIP svc \<noteq> '''')) \<and>
     (\<forall>k e. cl_eps s k = Some e \<longrightarrow> meta_key (eps_meta e) = k) \<and>
     distinct (map sv_ID (cl_vols s)) \<and> distinct (map sv_key (cl_vols s))"

definition put_svc :: "service \<Rightarrow> cluster \<Rightarrow> cluster" where
  "put_svc svc s = s\<lparr>cl_svcs := (cl_svcs s)(meta_key (svc_meta svc) \<mapsto> svc)\<rparr>"

definition put_eps :: "endpoints \<Rightarrow> cluster \<Rightarrow> cluster" where
  "put_eps e s = s\<lparr>cl_eps := (cl_eps s)(meta_key (eps_meta e) \<mapsto> e)\<rparr>"

definition publish :: "string \<Rightarrow> string \<Rightarrow> SharedVolume \<Rightarrow> SharedVolume" where
  "publish i ep v = (if sv_ID v = i then v\<lparr>sv_ExternalEndpoint := ep\<rparr> else v)"

definition put_endpoint :: "string \<Rightarrow> string \<Rightarrow> cluster \<Rightarrow> cluster" where
  "put_endpoint i ep s = s\<lparr>cl_vols := map (publish i ep) (cl_vols s)\<rparr>"

lemma cluster_puts [simp]:
  "cl_svcs (put_svc svc s) = (cl_svcs s)(meta_key (svc_meta svc) \<mapsto> svc)"
  "cl_eps (put_svc svc s) = cl_eps s" "cl_pvcs (put_svc svc s) = cl_pvcs s" "cl_vols (put_svc svc s) = cl_vols s"
  "cl_svcs (put_eps e s) = cl_svcs s" "cl_eps (put_eps e s) = (cl_eps s)(meta_key (eps_meta e) \<mapsto> e)"
  "cl_pvcs (put_eps e s) = cl_pvcs s" "cl_vols (put_eps e s) = cl_vols s"
  "cl_svcs (put_endpoint i ep s) = cl_svcs s" "cl_eps (put_endpoint i ep s) = cl_eps s"
  "cl_pvcs (put_endpoint i ep s) = cl_pvcs s" "cl_vols (put_endpoint i ep s) = map (publish i ep) (cl_vols s)"
  by (simp_all add: put_svc_def put_eps_def put_endpoint_def)

lemma publish_sel [simp]:
  "sv_ID (publish i ep v) = sv_ID v"
  "sv_ServiceName (publish i ep v) = sv_ServiceName v"
  "sv_PVCName (publish i ep v) = sv_PVCName v"
  "sv_Namespace (publish i ep v) = sv_Namespace v"
  "sv_InternalEndpoint (publish i ep v) = sv_InternalEndpoint v"
  by (simp_all add: publish_def)

text \<open>The desired objects do not depend on the published endpoint.\<close>

lemma InternalAddress_publish [simp]: "InternalAddress (publish i ep v) = InternalAddress v"
  by (simp add: InternalAddress_def)

lemma InternalPort_publish [simp]: "InternalPort (publish i ep v) = InternalPort v"
  by (simp add: InternalPort_def)

lemma ServiceIsEqual_publish [simp]: "ServiceIsEqual (publish i ep v) = ServiceIsEqual v"
  unfolding ServiceIsEqual_def fun_eq_iff publish_sel InternalPort_publish by simp

lemma EndpointsIsEqual_publish [simp]: "EndpointsIsEqual (publish i ep v) = EndpointsIsEqual v"
  unfolding EndpointsIsEqual_def fun_eq_iff publish_sel InternalPort_publish InternalAddress_publish by simp

lemma serving_publish [simp]: "serving (publish i ep v) = serving v"
  by (simp add: serving_def fun_eq_iff)

lemma correctable_publish [simp]: "correctable (publish i ep v) = correctable v"
  by (simp add: correctable_def fun_eq_iff)

lemma correctable_put_endpoint [simp]: "correctable v (put_endpoint i ep s) = correctable v s"
  by (simp add: correctable_def)

lemma serving_put_endpoint [simp]: "serving v ip (put_endpoint i ep s) = serving v ip s"
  by (simp add: serving_def)

lemma ServiceUpdate_desired:
  assumes "meta_key (svc_meta svc) = sv_key v"
  shows "ServiceIsEqual v (ServiceUpdate v svc) \<longleftrightarrow> svc_correctable svc"
  using assms
  by (auto simp: svc_correctable_def meta_key_def ServiceIsEqual_def ServiceUpdate_def nfs_service_port_def
      FromInt_def split: list.split)

lemma EndpointsUpdate_desired:
  assumes "meta_key (eps_meta e) = sv_key v"
  shows "EndpointsIsEqual v (EndpointsUpdate v e) \<longleftrightarrow> eps_correctable e"
  using assms
  by (auto simp: eps_correctable_def meta_key_def EndpointsIsEqual_def EndpointsUpdate_def nfs_endpoint_subset_def
      split: list.split)

lemma desired_correctable:
  "ServiceIsEqual v svc \<Longrightarrow> svc_correctable svc"
  "EndpointsIsEqual v e \<Longrightarrow> eps_correctable e"
  by (auto simp: ServiceIsEqual_def svc_correctable_def EndpointsIsEqual_def eps_correctable_def
      split: list.splits if_splits)

lemma ServiceIsEqual_key: "ServiceIsEqual v svc \<Longrightarrow> meta_key (svc_meta svc) = sv_key v"
  by (auto simp: ServiceIsEqual_def meta_key_def split: if_splits)

lemma EndpointsIsEqual_key: "EndpointsIsEqual v e \<Longrightarrow> meta_key (eps_meta e) = sv_key v"
  by (auto simp: EndpointsIsEqual_def meta_key_def split: if_splits)

lemma Service_key [simp]: "meta_key (svc_meta (Service v ref)) = sv_key v"
  by (simp add: Service_def meta_key_def empty_meta_def)

lemma Endpoints_key [simp]: "meta_key (eps_meta (Endpoints v)) = sv_key v"
  by (simp add: Endpoints_def meta_key_def empty_meta_def)

lemma ServiceIsEqual_ClusterIP [simp]: "ServiceIsEqual v (svc\<lparr>svc_ClusterIP := ip\<rparr>) = ServiceIsEqual v svc"
  by (simp add: ServiceIsEqual_def)

section \<open>The contract of the two API servers\<close>

text \<open>
  \<open>st\<close> reads the cluster out of the world. Reads change nothing; a creation under
  a free name and an update of an existing object are stored; a created service is
  given an address; StorageOS lists the shared volumes and stores a published
  endpoint; recording events and observing durations touch neither.
\<close>

locale sharing_cluster =
  fixes r :: "'w sv_reconciler" and st :: "'w \<Rightarrow> cluster" and ok :: "'w \<Rightarrow> bool"
  assumes wf: "ok w \<Longrightarrow> wf_cluster (st w)"
    and get_svc: "ok w \<Longrightarrow> cl_svcs (st w) k = Some svc \<Longrightarrow> k8s_GetService (svr_Client r) k w = (Inr svc, w)"
    and no_svc: "ok w \<Longrightarrow> cl_svcs (st w) k = None \<Longrightarrow>
      \<exists>e. k8s_GetService (svr_Client r) k w = (Inl e, w) \<and> IsNotFound e"
    and create_svc: "ok w \<Longrightarrow> cl_svcs (st w) (meta_key (svc_meta svc)) = None \<Longrightarrow>
      svc_Type svc = ServiceTypeClusterIP \<Longrightarrow>
      \<exists>w' ip. k8s_CreateService (svr_Client r) svc w = (None, w') \<and> ok w' \<and> ip \<noteq> '''' \<and>
              st w' = put_svc (svc\<lparr>svc_ClusterIP := ip\<rparr>) (st w)"
    and update_svc: "ok w \<Longrightarrow> cl_svcs (st w) (meta_key (svc_meta svc)) = Some svc0 \<Longrightarrow>
      svc_meta svc = svc_meta svc0 \<Longrightarrow> svc_Type svc = svc_Type svc0 \<Longrightarrow> svc_ClusterIP svc = svc_ClusterIP svc0 \<Longrightarrow>
      \<exists>w'. k8s_UpdateService (svr_Client r) svc w = (Inr svc, w') \<and> ok w' \<and> st w' = put_svc svc (st w)"
    and get_eps: "ok w \<Longrightarrow> cl_eps (st w) k = Some e \<Longrightarrow> k8s_GetEndpoints (svr_Client r) k w = (Inr e, w)"
    and no_eps: "ok w \<Longrightarrow> cl_eps (st w) k = None \<Longrightarrow>
      \<exists>err. k8s_GetEndpoints (svr_Client r) k w = (Inl err, w) \<and> IsNotFound err"
    and create_eps: "ok w \<Longrightarrow> cl_eps (st w) (meta_key (eps_meta e)) = None \<Longrightarrow>
      \<exists>w'. k8s_CreateEndpoints (svr_Client r) e w = (None, w') \<and> ok w' \<and> st w' = put_eps e (st w)"
    and update_eps: "ok w \<Longrightarrow> cl_eps (st w) (meta_key (eps_meta e)) = Some e0 \<Longrightarrow> eps_meta e = eps_meta e0 \<Longrightarrow>
      \<exists>w'. k8s_UpdateEndpoints (svr_Client r) e w = (Inr e, w') \<and> ok w' \<and> st w' = put_eps e (st w)"
    and get_pvc: "ok w \<Longrightarrow> cl_pvcs (st w) k = Some claim \<Longrightarrow> k8s_GetPVC (svr_Client r) k w = (Inr claim, w)"
    and list_vols: "ok w \<Longrightarrow> vs_ListSharedVolumes (svr_api r) w = (Ret (Inr (cl_vols (st w))), w)"
    and set_endpoint: "ok w \<Longrightarrow> v \<in> set (cl_vols (st w)) \<Longrightarrow>
      \<exists>w'. vs_SetExternalEndpoint (svr_api r) (sv_ID v) (sv_Namespace v) ep w = (Ret None, w') \<and> ok w' \<and>
           st w' = put_endpoint (sv_ID v) ep (st w)"
    and event: "ok w \<Longrightarrow> \<exists>w'. svr_Event r svc ty reason msg w = ((), w') \<and> ok w' \<and> st w' = st w"
    and observe: "ok w \<Longrightarrow> \<exists>w'. svr_Observe r d w = ((), w') \<and> ok w' \<and> st w' = st w"
begin

lemma service_found:
  assumes "ok w" and "cl_svcs (st w) (sv_key sv) = Some svc0"
  shows "\<exists>w' svc. ensureService_service r sv ref n w = (Ret (Inr svc), w') \<and> ok w' \<and>
           (ServiceIsEqual sv svc \<longleftrightarrow> svc_correctable svc0) \<and> (ServiceIsEqual sv svc \<longrightarrow> svc_ClusterIP svc \<noteq> '''') \<and>
           meta_key (svc_meta svc) = sv_key sv \<and> st w' = put_svc svc (st w)"
proof -
  have k: "meta_key (svc_meta svc0) = sv_key sv" and ip: "svc_correctable svc0 \<longrightarrow> svc_ClusterIP svc0 \<noteq> ''''"
    using wf [OF assms(1)] assms(2) by (auto simp: wf_cluster_def svc_correctable_def)
  show ?thesis
  proof (cases "ServiceIsEqual sv svc0")
    case True
    with assms ip k show ?thesis
      by (intro exI [of _ w] exI [of _ svc0])
         (simp add: ensureService_service_def Let_def tryP_run bindP_run retP_run get_svc put_svc_def fun_upd_idem
           desired_correctable)
  next
    case False
    from update_svc [of w "ServiceUpdate sv svc0" svc0] assms k
    obtain w' where "k8s_UpdateService (svr_Client r) (ServiceUpdate sv svc0) w = (Inr (ServiceUpdate sv svc0), w')"
      and "ok w'" and "st w' = put_svc (ServiceUpdate sv svc0) (st w)" by auto
    with False assms ip k show ?thesis
      by (intro exI [of _ w'] exI [of _ "ServiceUpdate sv svc0"])
         (simp add: ensureService_service_def Let_def tryP_run bindP_run retP_run mapErr_run get_svc
           ServiceUpdate_desired)
  qed
qed

lemma service_created:
  assumes "ok w" and "cl_svcs (st w) (sv_key sv) = None"
  shows "\<exists>w' svc. ensureService_service r sv ref n w = (Ret (Inr svc), w') \<and> ok w' \<and> ServiceIsEqual sv svc \<and>
           svc_ClusterIP svc \<noteq> '''' \<and> meta_key (svc_meta svc) = sv_key sv \<and> st w' = put_svc svc (st w)"
proof -
  from no_svc [OF assms] obtain e where
    e: "k8s_GetService (svr_Client r) (sv_key sv) w = (Inl e, w)" "IsNotFound e" by auto
  from create_svc [of w "Service sv ref"] assms obtain w1 ip where
    c: "k8s_CreateService (svr_Client r) (Service sv ref) w = (None, w1)" and "ok w1" and ip: "ip \<noteq> ''''"
    and a1: "st w1 = put_svc (Service sv ref\<lparr>svc_ClusterIP := ip\<rparr>) (st w)"
    by (auto simp: Service_def meta_key_def empty_meta_def)
  let ?svc = "Service sv ref\<lparr>svc_ClusterIP := ip\<rparr>"
  have "k8s_GetService (svr_Client r) (sv_key sv) w1 = (Inr ?svc, w1)"
    using a1 \<open>ok w1\<close> by (intro get_svc) simp_all
  then have w: "waitForClusterIP (svr_Client r) n (sv_key sv) empty_service w1 = (Ret (None, ?svc), w1)"
    using ip by (cases n) (simp_all add: waitForClusterIP_def clusterIPReady_def bindP_run retP_run)
  from event [OF \<open>ok w1\<close>, of ?svc "''Normal''" "''Created''"
      "''Created service for shared volume '' @ sv_Namespace sv @ ''/'' @ sv_ServiceName sv"]
  obtain w2 where "svr_Event r ?svc ''Normal'' ''Created''
      (''Created service for shared volume '' @ sv_Namespace sv @ ''/'' @ sv_ServiceName sv) w1 = ((), w2)"
    and "ok w2" and "st w2 = st w1" by auto
  with e c w a1 ip show ?thesis
    by (intro exI [of _ w2] exI [of _ ?svc])
       (simp add: ensureService_service_def Let_def tryP_run bindP_run retP_run ServiceIsEqual_Service)
qed

lemma endpoints_found:
  assumes "ok w" and "cl_eps (st w) (sv_key sv) = Some e0"
  shows "\<exists>w' e. ensureService_endpoints r sv svc n w = (Ret (Inr e), w') \<and> ok w' \<and>
           (EndpointsIsEqual sv e \<longleftrightarrow> eps_correctable e0) \<and> meta_key (eps_meta e) = sv_key sv \<and>
           st w' = put_eps e (st w)"
proof -
  have k: "meta_key (eps_meta e0) = sv_key sv"
    using wf [OF assms(1)] assms(2) by (auto simp: wf_cluster_def)
  show ?thesis
  proof (cases "EndpointsIsEqual sv e0")
    case True
    with assms k show ?thesis
      by (intro exI [of _ w] exI [of _ e0])
         (simp add: ensureService_endpoints_def Let_def tryP_run bindP_run retP_run get_eps put_eps_def fun_upd_idem
           desired_correctable)
  next
    case False
    from update_eps [of w "EndpointsUpdate sv e0" e0] assms k
    obtain w1 where u: "k8s_UpdateEndpoints (svr_Client r) (EndpointsUpdate sv e0) w = (Inr (EndpointsUpdate sv e0), w1)"
      and i: "ok w1" and a: "st w1 = put_eps (EndpointsUpdate sv e0) (st w)" by auto
    from event [OF i, of svc "''Warning''" "''Updated''"
        "''Shared volume service target changed '' @ sv_Namespace sv @ ''/'' @ sv_ServiceName sv"]
    obtain w2 where "svr_Event r svc ''Warning'' ''Updated''
        (''Shared volume service target changed '' @ sv_Namespace sv @ ''/'' @ sv_ServiceName sv) w1 = ((), w2)"
      and "ok w2" and "st w2 = st w1" by auto
    with False assms u a k show ?thesis
      by (intro exI [of _ w2] exI [of _ "EndpointsUpdate sv e0"])
         (simp add: ensureService_endpoints_def Let_def tryP_run bindP_run retP_run mapErr_run get_eps
           EndpointsUpdate_desired)
  qed
qed

lemma endpoints_created:
  assumes "ok w" and "cl_eps (st w) (sv_key sv) = None"
  shows "\<exists>w' e. ensureService_endpoints r sv svc n w = (Ret (Inr e), w') \<and> ok w' \<and> EndpointsIsEqual sv e \<and>
           meta_key (eps_meta e) = sv_key sv \<and> st w' = put_eps e (st w)"
proof -
  from no_eps [OF assms] obtain err where
    e: "k8s_GetEndpoints (svr_Client r) (sv_key sv) w = (Inl err, w)" "IsNotFound err" by auto
  from create_eps [of w "Endpoints sv"] assms obtain w1 where
    c: "k8s_CreateEndpoints (svr_Client r) (Endpoints sv) w = (None, w1)" and "ok w1"
    and a1: "st w1 = put_eps (Endpoints sv) (st w)"
    by auto
  have "k8s_GetEndpoints (svr_Client r) (sv_key sv) w1 = (Inr (Endpoints sv), w1)"
    using a1 \<open>ok w1\<close> by (intro get_eps) simp_all
  then have "waitForAvailable (svr_Client r) n (sv_key sv) empty_endpoints w1 = (Ret (None, Endpoints sv), w1)"
    by (cases n) (simp_all add: waitForAvailable_def bindP_run retP_run)
  with e c a1 \<open>ok w1\<close> show ?thesis
    by (intro exI [of _ w1] exI [of _ "Endpoints sv"])
       (simp add: ensureService_endpoints_def Let_def tryP_run bindP_run retP_run EndpointsIsEqual_Endpoints)
qed

lemma ensures:
  assumes "ok w"
  shows "\<exists>w' svc e. ensureService r sv ref n w = (Ret (Inr (frontend svc)), w') \<and> ok w' \<and>
           (ServiceIsEqual sv svc \<and> EndpointsIsEqual sv e \<longleftrightarrow> correctable sv (st w)) \<and>
           (ServiceIsEqual sv svc \<longrightarrow> svc_ClusterIP svc \<noteq> '''') \<and>
           meta_key (svc_meta svc) = sv_key sv \<and> meta_key (eps_meta e) = sv_key sv \<and>
           st w' = put_eps e (put_svc svc (st w))"
proof -
  obtain w1 svc where s: "ensureService_service r sv ref n w = (Ret (Inr svc), w1)" and i1: "ok w1"
    and eq: "ServiceIsEqual sv svc \<longleftrightarrow> pred_option svc_correctable (cl_svcs (st w) (sv_key sv))"
      "ServiceIsEqual sv svc \<longrightarrow> svc_ClusterIP svc \<noteq> ''''" "meta_key (svc_meta svc) = sv_key sv"
    and a1: "st w1 = put_svc svc (st w)"
    using service_created [OF assms(1), of sv ref n] service_found [OF assms(1), of sv _ ref n]
    by (cases "cl_svcs (st w) (sv_key sv)") auto
  obtain w2 e where "ensureService_endpoints r sv svc n w1 = (Ret (Inr e), w2)" and "ok w2"
    and "EndpointsIsEqual sv e \<longleftrightarrow> pred_option eps_correctable (cl_eps (st w1) (sv_key sv))"
    and "meta_key (eps_meta e) = sv_key sv" and "st w2 = put_eps e (st w1)"
    using endpoints_created [OF i1, of sv svc n] endpoints_found [OF i1, of sv _ svc n]
    by (cases "cl_eps (st w1) (sv_key sv)") auto
  with s eq a1 show ?thesis
    by (intro exI [of _ w2] exI [of _ svc] exI [of _ e])
       (simp add: ensureService_def tryP_run retP_run correctable_def)
qed

lemma converges:
  assumes "ok w" and "correctable sv (st w)"
  shows "\<exists>w' svc e. ensureService r sv ref n w = (Ret (Inr (svc_ClusterIP svc @ '':2049'')), w') \<and> ok w' \<and>
           ServiceIsEqual sv svc \<and> svc_ClusterIP svc \<noteq> '''' \<and> EndpointsIsEqual sv e \<and>
           st w' = put_eps e (put_svc svc (st w))"
  using ensures [OF assms(1), of sv ref n] assms(2) by (auto simp: frontend_desired) blast

lemma stays:
  assumes "ok w" and "serving sv ip (st w)"
  shows "ensureService r sv ref n w = (Ret (Inr (ip @ '':2049'')), w)"
proof -
  from assms(2) obtain svc e where "cl_svcs (st w) (sv_key sv) = Some svc" and "ServiceIsEqual sv svc"
    and "svc_ClusterIP svc = ip" and "cl_eps (st w) (sv_key sv) = Some e" and "EndpointsIsEqual sv e"
    by (auto simp: serving_def)
  with assms(1) show ?thesis
    using ensureService_steady [of r sv w svc w e w ref n] get_svc get_eps by auto
qed

end

section \<open>A round over all shared volumes\<close>

text \<open>What a pass over one volume does to the cluster: its own objects and its own endpoint, and nothing else.\<close>

definition served :: "SharedVolume \<Rightarrow> cluster \<Rightarrow> cluster \<Rightarrow> bool" where
  "served v s s' \<longleftrightarrow>
     (\<exists>ip. ip \<noteq> '''' \<and> serving v ip s' \<and> cl_vols s' = map (publish (sv_ID v) (ip @ '':2049'')) (cl_vols s)) \<and>
     cl_pvcs s' = cl_pvcs s \<and>
     (\<forall>k. k \<noteq> sv_key v \<longrightarrow> cl_svcs s' k = cl_svcs s k \<and> cl_eps s' k = cl_eps s k)"

text \<open>A cache entry that would be taken for the volume belongs to a volume that is settled.\<close>

definition cache_sound :: "SharedVolume cache \<Rightarrow> SharedVolume list \<Rightarrow> cluster \<Rightarrow> bool" where
  "cache_sound c vs s \<longleftrightarrow>
     wf_cache c \<and>
     (\<forall>t. \<forall>v \<in> set vs. \<forall>cv. Get t c (sv_ID v) = Some cv \<and> IsEqual cv (Some v) \<longrightarrow> settled v s)"

lemma distinct_map_middle: "distinct (map f (vs @ u # us)) \<Longrightarrow> \<forall>v \<in> set (vs @ us). f v \<noteq> f u"
  by (induction vs) (auto simp: image_iff)

lemma map_eq_ball:
  assumes "map f xs = map f ys" and "\<forall>y \<in> set ys. P (f y)"
  shows "\<forall>x \<in> set xs. P (f x)"
proof -
  have "f ` set xs = f ` set ys" using arg_cong [OF assms(1), of set] by simp
  with assms(2) show ?thesis by (metis (no_types, lifting) image_iff)
qed

lemma serving_other:
  assumes "\<forall>k. k \<noteq> sv_key v \<longrightarrow> cl_svcs s' k = cl_svcs s k \<and> cl_eps s' k = cl_eps s k" and "sv_key u \<noteq> sv_key v"
  shows "serving u ip s' = serving u ip s" and "correctable u s' = correctable u s"
proof -
  have "cl_svcs s' (sv_key u) = cl_svcs s (sv_key u)" and "cl_eps s' (sv_key u) = cl_eps s (sv_key u)"
    using assms by blast+
  then show "serving u ip s' = serving u ip s" and "correctable u s' = correctable u s"
    by (simp_all only: serving_def correctable_def)
qed

lemma settled_other:
  assumes "served v s s'" and "sv_key u \<noteq> sv_key v"
  shows "settled u s' = settled u s" and "correctable u s' = correctable u s"
  using assms serving_other [of v s' s u] by (auto simp: served_def settled_def)

lemma publish_other: "sv_ID v \<noteq> i \<Longrightarrow> publish i ep v = v"
  by (simp add: publish_def)

lemma publish_same: "sv_ExternalEndpoint v = ep \<Longrightarrow> publish (sv_ID v) ep v = v"
  by (simp add: publish_def)

lemma map_publish_others: "\<forall>u \<in> set vs. sv_ID u \<noteq> i \<Longrightarrow> map (publish i ep) vs = vs"
  by (intro map_idI publish_other) auto

lemma map_publish_settled:
  assumes "distinct (map sv_ID vs)" and "v \<in> set vs" and "sv_ExternalEndpoint v = ep"
  shows "map (publish (sv_ID v) ep) vs = vs"
proof (rule map_idI)
  fix u assume "u \<in> set vs"
  then have "sv_ID u = sv_ID v \<Longrightarrow> u = v"
    using assms(1,2) by (auto simp: distinct_map intro: inj_onD)
  with assms(3) show "publish (sv_ID v) ep u = u"
    by (auto simp: publish_def)
qed

lemma settled_served:
  assumes "settled v s" and "wf_cluster s" and "v \<in> set (cl_vols s)"
  shows "served v s s"
  using assms map_publish_settled [of "cl_vols s" v] by (auto simp: served_def settled_def wf_cluster_def)

lemma served_settled: "served v s s' \<Longrightarrow> \<exists>ep. settled (publish (sv_ID v) ep v) s' \<and>
    cl_vols s' = map (publish (sv_ID v) ep) (cl_vols s)"
  by (auto simp: served_def settled_def) (auto simp: publish_def)

lemma cache_sound_Set:
  assumes "cache_sound c vs s" and "\<forall>u \<in> set vs. sv_ID u \<noteq> sv_ID v" and "served v s s'"
    and "\<forall>u \<in> set vs. sv_key u \<noteq> sv_key v"
  shows "cache_sound c vs s'" and "cache_sound (Set now c (sv_ID v) x d) vs s'"
proof -
  have "Get t (Set now c (sv_ID v) x d) (sv_ID u) = Get t c (sv_ID u)" if "u \<in> set vs" for u t
    using that assms(1,2) by (intro gc.get_put_other) (auto simp: cache_sound_def)
  moreover have "settled u s' = settled u s" if "u \<in> set vs" for u
    using that assms(3,4) by (intro settled_other(1)) auto
  ultimately show "cache_sound c vs s'" and "cache_sound (Set now c (sv_ID v) x d) vs s'"
    using assms(1) by (auto simp: cache_sound_def wf_Set)
qed

context sharing_cluster
begin

lemma publish_phase:
  assumes "ok w" and "v \<in> set (cl_vols (st w))" and "serving v ip (st w)"
  shows "\<exists>w' x. (if ip @ '':2049'' \<noteq> sv_ExternalEndpoint v then
                 bindP (vs_SetExternalEndpoint (svr_api r) (sv_ID v) (sv_Namespace v) (ip @ '':2049'')) (\<lambda>e.
                   case e of
                     Some err \<Rightarrow> retP c
                   | None \<Rightarrow> cacheVolume r (v\<lparr>sv_ExternalEndpoint := ip @ '':2049''\<rparr>) c)
               else cacheVolume r v c) w =
             (Ret (Set (svr_now r w') c (sv_ID v) x (svr_cacheExpiryInterval r)), w') \<and> ok w' \<and>
           st w' = put_endpoint (sv_ID v) (ip @ '':2049'') (st w)"
proof (cases "ip @ '':2049'' = sv_ExternalEndpoint v")
  case True
  then have "put_endpoint (sv_ID v) (ip @ '':2049'') (st w) = st w"
    using map_publish_settled [of "cl_vols (st w)" v] wf [OF assms(1)] assms(2)
    by (simp add: put_endpoint_def wf_cluster_def)
  with True assms(1) show ?thesis by (auto simp: cacheVolume_run)
next
  case False
  from set_endpoint [OF assms(1,2), of "ip @ '':2049''"] obtain w' where
    "vs_SetExternalEndpoint (svr_api r) (sv_ID v) (sv_Namespace v) (ip @ '':2049'') w = (Ret None, w')"
    and "ok w'" and "st w' = put_endpoint (sv_ID v) (ip @ '':2049'') (st w)" by auto
  with False show ?thesis by (auto simp: bindP_run cacheVolume_run)
qed

lemma reconcileVolume_serves:
  assumes "ok w" and "v \<in> set (cl_vols (st w))" and "correctable v (st w)"
    and "cl_pvcs (st w) (sv_claim v) \<noteq> None"
    and sound: "\<forall>t cv. Get t c (sv_ID v) = Some cv \<and> IsEqual cv (Some v) \<longrightarrow> settled v (st w)"
  shows "\<exists>w' c'. reconcileVolume r v c w = (Ret c', w') \<and> ok w' \<and> served v (st w) (st w') \<and>
           (c' = c \<or> (\<exists>now x. c' = Set now c (sv_ID v) x (svr_cacheExpiryInterval r)))"
proof (cases "case Get (svr_now r w) c (sv_ID v) of Some cv \<Rightarrow> IsEqual cv (Some v) | None \<Rightarrow> False")
  case True
  then have "served v (st w) (st w)"
    using assms(2) wf [OF assms(1)] sound by (auto intro: settled_served split: option.splits)
  with True assms(1) show ?thesis
    by (intro exI [of _ w] exI [of _ c]) (simp add: reconcileVolume_def bindP_run nowP_def retP_run)
next
  case False
  from assms(4) obtain claim where "cl_pvcs (st w) (sv_claim v) = Some claim" by auto
  then have g: "k8s_GetPVC (svr_Client r) (sv_claim v) w = (Inr claim, w)" by (rule get_pvc [OF assms(1)])
  from converges [OF assms(1,3), of "pvc_owner claim" "svr_ticks r"] obtain w1 svc e where
    es: "ensureService r v (pvc_owner claim) (svr_ticks r) w = (Ret (Inr (svc_ClusterIP svc @ '':2049'')), w1)"
    and i1: "ok w1" and d: "ServiceIsEqual v svc" "svc_ClusterIP svc \<noteq> ''''" "EndpointsIsEqual v e"
    and a1: "st w1 = put_eps e (put_svc svc (st w))" by auto
  have sv: "serving v (svc_ClusterIP svc) (st w1)"
    using d a1 by (simp add: serving_def ServiceIsEqual_key EndpointsIsEqual_key)
  from publish_phase [OF i1 _ sv, of c] assms(2) a1 obtain w' x where
    p: "(if svc_ClusterIP svc @ '':2049'' \<noteq> sv_ExternalEndpoint v then
                 bindP (vs_SetExternalEndpoint (svr_api r) (sv_ID v) (sv_Namespace v) (svc_ClusterIP svc @ '':2049'')) (\<lambda>e.
                   case e of
                     Some err \<Rightarrow> retP c
                   | None \<Rightarrow> cacheVolume r (v\<lparr>sv_ExternalEndpoint := svc_ClusterIP svc @ '':2049''\<rparr>) c)
               else cacheVolume r v c) w1 =
             (Ret (Set (svr_now r w') c (sv_ID v) x (svr_cacheExpiryInterval r)), w')"
    and i: "ok w'" and a: "st w' = put_endpoint (sv_ID v) (svc_ClusterIP svc @ '':2049'') (st w1)" by auto
  have "served v (st w) (st w')"
    using a a1 d sv by (auto simp: served_def ServiceIsEqual_key EndpointsIsEqual_key)
  moreover have "reconcileVolume r v c w = (Ret (Set (svr_now r w') c (sv_ID v) x (svr_cacheExpiryInterval r)), w')"
    unfolding reconcileVolume_def using False g es p by (simp add: bindP_run nowP_def)
  ultimately show ?thesis using i by blast
qed

lemma reconcileVolume_stays:
  assumes "ok w" and "v \<in> set (cl_vols (st w))" and "settled v (st w)"
    and "cl_pvcs (st w) (sv_claim v) \<noteq> None"
  shows "\<exists>c'. reconcileVolume r v c w = (Ret c', w)"
proof -
  from assms(4) obtain claim where "cl_pvcs (st w) (sv_claim v) = Some claim" by auto
  then have "k8s_GetPVC (svr_Client r) (sv_claim v) w = (Inr claim, w)" by (rule get_pvc [OF assms(1)])
  moreover from assms(3) obtain ip where "serving v ip (st w)" and "sv_ExternalEndpoint v = ip @ '':2049''"
    by (auto simp: settled_def)
  ultimately show ?thesis
    using stays [OF assms(1), of v ip "pvc_owner claim" "svr_ticks r"]
    by (simp add: reconcileVolume_def bindP_run nowP_def retP_run cacheVolume_run)
qed

lemma loop_settles:
  assumes "ok w" and "cl_vols (st w) = vs @ us" and "\<forall>v \<in> set vs. settled v (st w)"
    and "\<forall>v \<in> set us. correctable v (st w) \<and> cl_pvcs (st w) (sv_claim v) \<noteq> None"
    and "cache_sound c us (st w)"
  shows "\<exists>w' c'. forP (reconcileVolume r) us c w = (Ret c', w') \<and> ok w' \<and> wf_cache c' \<and>
           (\<forall>v \<in> set (cl_vols (st w')). settled v (st w')) \<and>
           map (\<lambda>v. v\<lparr>sv_ExternalEndpoint := ''''\<rparr>) (cl_vols (st w')) =
             map (\<lambda>v. v\<lparr>sv_ExternalEndpoint := ''''\<rparr>) (cl_vols (st w)) \<and>
           cl_pvcs (st w') = cl_pvcs (st w) \<and>
           (\<forall>k. k \<notin> sv_key ` set us \<longrightarrow> cl_svcs (st w') k = cl_svcs (st w) k \<and> cl_eps (st w') k = cl_eps (st w) k)"
  using assms
proof (induction us arbitrary: vs c w)
  case Nil
  then show ?case by (auto simp: retP_run cache_sound_def)
next
  case (Cons u us)
  have dist: "distinct (map sv_ID (vs @ u # us))" and distk: "distinct (map sv_key (vs @ u # us))"
    using wf [OF Cons.prems(1)] Cons.prems(2) by (simp_all add: wf_cluster_def)
  have ids: "\<forall>v \<in> set (vs @ us). sv_ID v \<noteq> sv_ID u" and keys: "\<forall>v \<in> set (vs @ us). sv_key v \<noteq> sv_key u"
    using distinct_map_middle [OF dist] distinct_map_middle [OF distk] by blast+
  have sound: "\<forall>t cv. Get t c (sv_ID u) = Some cv \<and> IsEqual cv (Some u) \<longrightarrow> settled u (st w)"
    using Cons.prems(5) by (auto simp: cache_sound_def)
  from Cons.prems obtain w1 c1 where
    run: "reconcileVolume r u c w = (Ret c1, w1)" and i1: "ok w1" and served: "served u (st w) (st w1)"
    and c1: "c1 = c \<or> (\<exists>now x. c1 = Set now c (sv_ID u) x (svr_cacheExpiryInterval r))"
    using reconcileVolume_serves [of w u c, OF _ _ _ _ sound] by auto
  from served_settled [OF served] obtain ep where su: "settled (publish (sv_ID u) ep u) (st w1)"
    and vols: "cl_vols (st w1) = map (publish (sv_ID u) ep) (cl_vols (st w))" by auto
  have vols1: "cl_vols (st w1) = (vs @ [publish (sv_ID u) ep u]) @ us"
    using vols Cons.prems(2) ids map_publish_others [of vs "sv_ID u" ep] map_publish_others [of us "sv_ID u" ep] by simp
  have pvcs: "cl_pvcs (st w1) = cl_pvcs (st w)" using served by (simp add: served_def)
  have "\<forall>v \<in> set (vs @ [publish (sv_ID u) ep u]). settled v (st w1)"
    using su keys settled_other(1) [OF served] Cons.prems(3) by auto
  moreover have "\<forall>v \<in> set us. correctable v (st w1) \<and> cl_pvcs (st w1) (sv_claim v) \<noteq> None"
    using keys settled_other(2) [OF served] Cons.prems(4) pvcs by auto
  moreover have "cache_sound c us (st w)"
    using Cons.prems(5) by (simp add: cache_sound_def)
  then have "cache_sound c1 us (st w1)"
    using c1 cache_sound_Set [of c us "st w" u "st w1"] ids keys served by auto
  ultimately obtain w' c' where "forP (reconcileVolume r) us c1 w1 = (Ret c', w')" and "ok w'" and "wf_cache c'"
    and "\<forall>v \<in> set (cl_vols (st w')). settled v (st w')"
    and m: "map (\<lambda>v. v\<lparr>sv_ExternalEndpoint := ''''\<rparr>) (cl_vols (st w')) =
         map (\<lambda>v. v\<lparr>sv_ExternalEndpoint := ''''\<rparr>) (cl_vols (st w1))"
    and "cl_pvcs (st w') = cl_pvcs (st w1)"
    and fr: "\<forall>k. k \<notin> sv_key ` set us \<longrightarrow> cl_svcs (st w') k = cl_svcs (st w1) k \<and> cl_eps (st w') k = cl_eps (st w1) k"
    using Cons.IH [OF i1 vols1] by blast
  moreover have "map (\<lambda>v. v\<lparr>sv_ExternalEndpoint := ''''\<rparr>) (cl_vols (st w1)) =
      map (\<lambda>v. v\<lparr>sv_ExternalEndpoint := ''''\<rparr>) (cl_vols (st w))"
    unfolding vols by (simp add: publish_def)
  moreover have "cl_svcs (st w') k = cl_svcs (st w) k \<and> cl_eps (st w') k = cl_eps (st w) k"
    if "k \<notin> sv_key ` set (u # us)" for k
    using that fr served by (simp add: served_def)
  ultimately show ?case
    using run pvcs by (intro exI [of _ w'] exI [of _ c']) (simp add: bindP_run)
qed

lemma loop_stays:
  assumes "ok w" and "set us \<subseteq> set (cl_vols (st w))" and "\<forall>v \<in> set us. settled v (st w)"
    and "\<forall>v \<in> set us. cl_pvcs (st w) (sv_claim v) \<noteq> None"
  shows "\<exists>c'. forP (reconcileVolume r) us c w = (Ret c', w)"
  using assms
proof (induction us arbitrary: c)
  case Nil
  then show ?case by (simp add: retP_run)
next
  case (Cons u us)
  then obtain c1 where "reconcileVolume r u c w = (Ret c1, w)"
    using reconcileVolume_stays [of w u c] by auto
  with Cons show ?case by (simp add: bindP_run)
qed

lemma Start_round_run:
  assumes "ok w" and "forP (reconcileVolume r) (cl_vols (st w)) c w = (Ret c', w1)" and "ok w1"
  shows "\<exists>w'. Start_round r c w = (Ret (c', False), w') \<and> ok w' \<and> st w' = st w1"
  using observe [OF assms(3), of "svr_now r w1 - svr_now r w"] list_vols [OF assms(1)] assms(2)
  by (auto simp: Start_round_def bindP_run nowP_def retP_run)

lemma round_settles:
  assumes "ok w" and "cache_sound c (cl_vols (st w)) (st w)"
    and "\<forall>v \<in> set (cl_vols (st w)). correctable v (st w) \<and> cl_pvcs (st w) (sv_claim v) \<noteq> None"
  shows "\<exists>c1 w1 c2 w2. Start_round r c w = (Ret (c1, False), w1) \<and>
           (\<forall>v \<in> set (cl_vols (st w1)). settled v (st w1)) \<and>
           map (\<lambda>v. v\<lparr>sv_ExternalEndpoint := ''''\<rparr>) (cl_vols (st w1)) =
             map (\<lambda>v. v\<lparr>sv_ExternalEndpoint := ''''\<rparr>) (cl_vols (st w)) \<and>
           (\<forall>k. k \<notin> sv_key ` set (cl_vols (st w)) \<longrightarrow>
              cl_svcs (st w1) k = cl_svcs (st w) k \<and> cl_eps (st w1) k = cl_eps (st w) k) \<and>
           Start_round r c1 w1 = (Ret (c2, False), w2) \<and> st w2 = st w1"
proof -
  from loop_settles [of w "[]" "cl_vols (st w)" c] assms obtain w1 c1 where
    run: "forP (reconcileVolume r) (cl_vols (st w)) c w = (Ret c1, w1)" "ok w1"
    and settled: "\<forall>v \<in> set (cl_vols (st w1)). settled v (st w1)"
    and same: "map (\<lambda>v. v\<lparr>sv_ExternalEndpoint := ''''\<rparr>) (cl_vols (st w1)) =
         map (\<lambda>v. v\<lparr>sv_ExternalEndpoint := ''''\<rparr>) (cl_vols (st w))"
    and pvcs: "cl_pvcs (st w1) = cl_pvcs (st w)"
    and frame: "\<forall>k. k \<notin> sv_key ` set (cl_vols (st w)) \<longrightarrow>
         cl_svcs (st w1) k = cl_svcs (st w) k \<and> cl_eps (st w1) k = cl_eps (st w) k"
    by auto
  from Start_round_run [OF assms(1) run] obtain w1' where
    r1: "Start_round r c w = (Ret (c1, False), w1')" "ok w1'" and a1: "st w1' = st w1" by auto
  have claims: "map sv_claim (cl_vols (st w1)) = map sv_claim (cl_vols (st w))"
    using arg_cong [OF same, of "map sv_claim"] by (simp add: comp_def)
  have "\<forall>v \<in> set (cl_vols (st w1')). cl_pvcs (st w1') (sv_claim v) \<noteq> None"
    unfolding a1 pvcs
    by (rule map_eq_ball [OF claims, of "\<lambda>k. cl_pvcs (st w) k \<noteq> None"]) (use assms(3) in blast)
  then obtain c2 where "forP (reconcileVolume r) (cl_vols (st w1')) c1 w1' = (Ret c2, w1')"
    using loop_stays [OF r1(2) subset_refl, of c1] settled a1 by auto
  from Start_round_run [OF r1(2) this r1(2)] r1 a1 settled same frame show ?thesis by auto
qed

end

section \<open>The contract on a store in memory\<close>

text \<open>
  The in-memory control plane is extended by the Kubernetes objects. The StorageOS
  side of the contract is the program's client on that control plane.
\<close>

record sv_world = mem +
  svw_svcs :: "objkey \<rightharpoonup> service"
  svw_eps :: "objkey \<rightharpoonup> endpoints"
  svw_pvcs :: "objkey \<rightharpoonup> pvc"
  svw_events :: "(string \<times> string \<times> string) list"
  svw_durations :: "int list"

definition found_or :: "'a option \<Rightarrow> goerr + 'a" where
  "found_or x = (case x of None \<Rightarrow> Inl not_found | Some a \<Rightarrow> Inr a)"

definition mem_services :: "sv_world k8s_client" where
  "mem_services = empty_k8s\<lparr>
     k8s_GetService := (\<lambda>k w. (found_or (svw_svcs w k), w)),
     k8s_CreateService := (\<lambda>s w. (None, w\<lparr>svw_svcs := (svw_svcs w)(meta_key (svc_meta s) \<mapsto> s\<lparr>svc_ClusterIP := ''10.9.8.7''\<rparr>)\<rparr>)),
     k8s_UpdateService := (\<lambda>s w. (Inr s, w\<lparr>svw_svcs := (svw_svcs w)(meta_key (svc_meta s) \<mapsto> s)\<rparr>)),
     k8s_GetEndpoints := (\<lambda>k w. (found_or (svw_eps w k), w)),
     k8s_CreateEndpoints := (\<lambda>e w. (None, w\<lparr>svw_eps := (svw_eps w)(meta_key (eps_meta e) \<mapsto> e)\<rparr>)),
     k8s_UpdateEndpoints := (\<lambda>e w. (Inr e, w\<lparr>svw_eps := (svw_eps w)(meta_key (eps_meta e) \<mapsto> e)\<rparr>)),
     k8s_GetPVC := (\<lambda>k w. (found_or (svw_pvcs w k), w))\<rparr>"

definition mem_svr :: "sv_world sv_reconciler" where
  "mem_svr =
     \<lparr>svr_Client = mem_services, svr_api = client_volume_sharer mem_cp NewTestAPIClient, svr_ticks = 3,
      svr_cacheExpiryInterval = 60, svr_now = (\<lambda>w. int (length (svw_durations w))),
      svr_Event = (\<lambda>svc ty reason msg w. ((), w\<lparr>svw_events := svw_events w @ [(ty, reason, msg)]\<rparr>)),
      svr_Observe = (\<lambda>d w. ((), w\<lparr>svw_durations := svw_durations w @ [d]\<rparr>))\<rparr>"

definition mem_shared :: "'a mem_scheme \<Rightarrow> SharedVolume list" where
  "mem_shared w =
     concat (map (\<lambda>ns. sharedVolumesOf ns (filter (\<lambda>v. vol_NamespaceID v = ns_Id ns) (mem_volumes w))) (mem_namespaces w))"

definition mem_cluster :: "sv_world \<Rightarrow> cluster" where
  "mem_cluster w =
     \<lparr>cl_svcs = svw_svcs w, cl_eps = svw_eps w, cl_pvcs = svw_pvcs w, cl_vols = mem_shared w\<rparr>"

text \<open>Volume identities are unique, and the namespace of every shared volume's claim exists in StorageOS.\<close>

definition mem_inv :: "sv_world \<Rightarrow> bool" where
  "mem_inv w \<longleftrightarrow>
     wf_cluster (mem_cluster w) \<and> distinct (map vol_Id (mem_volumes w)) \<and>
     list_all (\<lambda>v. list_ex (\<lambda>ns. ns_Name ns = sv_Namespace v) (mem_namespaces w)) (mem_shared w)"

lemma mem_cp_sel:
  "api_ListNamespaces mem_cp x w = ((mem_namespaces w, resp_ok, None), w)"
  "api_ListVolumes mem_cp x ns w = ((filter (\<lambda>v. vol_NamespaceID v = ns) (mem_volumes w), resp_ok, None), w)"
  "api_GetVolume mem_cp x ns i w = ((hd (filter (\<lambda>v. vol_Id v = i) (mem_volumes w)), resp_ok, None), w)"
  by (simp_all add: mem_cp_def)

lemma mem_list:
  "listSharedVolumes_loop mem_cp x nss acc w =
     (Ret (Inr (acc @ concat (map (\<lambda>ns. sharedVolumesOf ns (filter (\<lambda>v. vol_NamespaceID v = ns_Id ns) (mem_volumes w))) nss))), w)"
  by (induction nss arbitrary: acc) (simp_all add: retP_run mem_cp_sel)

lemma mem_ListSharedVolumes: "ListSharedVolumes mem_cp c w = (Ret (Inr (mem_shared w)), w)"
  by (simp add: ListSharedVolumes_def Let_def tryP_run apiP_run mem_cp_sel mem_list mem_shared_def)

lemma toSharedVolume_ID: "toSharedVolume n vol = Inr sv \<Longrightarrow> sv_ID sv = vol_Id vol \<and>
    sv_ExternalEndpoint sv = smap_get0 (vol_Labels vol) LabelNFSMountEndpoint"
  by (auto simp: toSharedVolume_def Let_def split: if_splits option.splits sum.splits)

definition label_endpoint :: "string \<Rightarrow> string \<Rightarrow> volume \<Rightarrow> volume" where
  "label_endpoint i ep v =
     (if vol_Id v = i then v\<lparr>vol_Labels := mem_label LabelNFSMountEndpoint ep (vol_Labels v)\<rparr> else v)"

lemma smap_get0_mem_label:
  "smap_get0 (mem_label k v m) k' = (if k' = k then v else smap_get0 m k')"
  by (simp add: smap_get0_def smap_get_def mem_label_def AList.update_conv')

lemma toSharedVolume_label:
  "toSharedVolume n (label_endpoint i ep vol) = map_sum id (publish i ep) (toSharedVolume n vol)"
  by (auto simp: label_endpoint_def toSharedVolume_def Let_def smap_get0_mem_label publish_def
      split: option.split sum.split)

lemma sharedVolumesOf_label:
  "sharedVolumesOf ns (map (label_endpoint i ep) vs) = map (publish i ep) (sharedVolumesOf ns vs)"
  by (induction vs) (auto simp: sharedVolumesOf_def toSharedVolume_label split: sum.split)

lemma mem_shared_label:
  "mem_shared (w\<lparr>mem_volumes := map (label_endpoint i ep) (mem_volumes w)\<rparr>) = map (publish i ep) (mem_shared w)"
proof -
  have "filter (\<lambda>v. vol_NamespaceID v = n) (map (label_endpoint i ep) vs) =
          map (label_endpoint i ep) (filter (\<lambda>v. vol_NamespaceID v = n) vs)" for n vs
    by (induction vs) (auto simp: label_endpoint_def)
  then show ?thesis
    by (simp add: mem_shared_def sharedVolumesOf_label map_concat comp_def)
qed

lemma mem_shared_volume:
  assumes "v \<in> set (mem_shared w)"
  obtains vol n where "vol \<in> set (mem_volumes w)" and "toSharedVolume n vol = Inr v"
  using assms by (auto simp: mem_shared_def sharedVolumesOf_iff)

lemma hd_filter_unique: "distinct (map f xs) \<Longrightarrow> x \<in> set xs \<Longrightarrow> hd (filter (\<lambda>y. f y = f x) xs) = x"
  by (induction xs) (auto simp: image_iff)

lemma mem_SetExternalEndpoint:
  fixes w :: sv_world
  assumes "mem_inv w" and "v \<in> set (mem_shared w)"
  shows "\<exists>w'. SetExternalEndpoint mem_cp c (sv_ID v) (sv_Namespace v) ep w = (Ret None, w') \<and>
           mem_cluster w' = put_endpoint (sv_ID v) ep (mem_cluster w) \<and>
           map vol_Id (mem_volumes w') = map vol_Id (mem_volumes w) \<and> mem_namespaces w' = mem_namespaces w"
proof -
  from assms(2) obtain vol n where vol: "vol \<in> set (mem_volumes w)" "toSharedVolume n vol = Inr v"
    by (rule mem_shared_volume)
  from assms obtain ns where "find (\<lambda>ns. ns_Name ns = sv_Namespace v) (mem_namespaces w) = Some ns"
    by (cases "find (\<lambda>ns. ns_Name ns = sv_Namespace v) (mem_namespaces w)")
       (auto simp: mem_inv_def list_all_iff list_ex_iff find_None_iff)
  then have "getNamespace mem_cp x (mk_key '''' (sv_Namespace v)) w = (Ret (Inr ns), w)" for x
    by (simp add: getNamespace_run mem_cp_sel)
  moreover have "hd (filter (\<lambda>u. vol_Id u = sv_ID v) (mem_volumes w)) = vol"
    using hd_filter_unique [of vol_Id "mem_volumes w" vol] toSharedVolume_ID [OF vol(2)] vol(1) assms(1)
    by (simp add: mem_inv_def)
  ultimately have get: "getVolumeByID mem_cp x (sv_ID v) (sv_Namespace v) w = (Ret (Inr vol), w)" for x
    by (simp add: getVolumeByID_def tryP_run apiP_run mem_cp_sel)
  show ?thesis
  proof (cases "sv_ExternalEndpoint v = ep")
    case True
    then have "mem_cluster w = put_endpoint (sv_ID v) ep (mem_cluster w)"
      using map_publish_settled [of "mem_shared w" v ep] assms
      by (simp add: put_endpoint_def mem_inv_def wf_cluster_def mem_cluster_def)
    with True get toSharedVolume_ID [OF vol(2)] show ?thesis
      by (simp add: SetExternalEndpoint_def Let_def tryE_run retP_run)
  next
    case False
    let ?w = "w\<lparr>mem_volumes := map (label_endpoint (sv_ID v) ep) (mem_volumes w)\<rparr>"
    have "api_UpdateNFSVolumeMountEndpoint mem_cp x m (vol_Id vol) ep k w = (((), resp_ok, None), ?w)" for x m k
      using toSharedVolume_ID [OF vol(2)] by (simp add: mem_cp_def mem_on_volume_def label_endpoint_def fun_eq_iff)
    then have "SetExternalEndpoint mem_cp c (sv_ID v) (sv_Namespace v) ep w = (Ret None, ?w)"
      using False get toSharedVolume_ID [OF vol(2)]
      by (simp add: SetExternalEndpoint_def Let_def tryE_run retP_run apiP_run)
    moreover have "mem_cluster ?w = put_endpoint (sv_ID v) ep (mem_cluster w)"
      by (simp add: mem_cluster_def put_endpoint_def mem_shared_label)
    moreover have "map vol_Id (mem_volumes ?w) = map vol_Id (mem_volumes w)"
      by (simp add: label_endpoint_def)
    ultimately show ?thesis by auto
  qed
qed

lemma wf_put_svc:
  "wf_cluster s \<Longrightarrow> svc_Type svc = ServiceTypeClusterIP \<longrightarrow> svc_ClusterIP svc \<noteq> '''' \<Longrightarrow> wf_cluster (put_svc svc s)"
  by (simp add: wf_cluster_def)

lemma wf_put_eps: "wf_cluster s \<Longrightarrow> wf_cluster (put_eps e s)"
  by (simp add: wf_cluster_def)

lemma wf_put_endpoint: "wf_cluster s \<Longrightarrow> wf_cluster (put_endpoint i ep s)"
  by (simp add: wf_cluster_def comp_def)

lemma mem_shared_frame [simp]:
  "mem_shared (w\<lparr>svw_svcs := a\<rparr>) = mem_shared w"
  "mem_shared (w\<lparr>svw_eps := b\<rparr>) = mem_shared w"
  "mem_shared (w\<lparr>svw_events := d\<rparr>) = mem_shared w"
  "mem_shared (w\<lparr>svw_durations := t\<rparr>) = mem_shared w"
  by (simp_all add: mem_shared_def)

lemma mem_cluster_sel [simp]:
  "cl_svcs (mem_cluster w) = svw_svcs w" "cl_eps (mem_cluster w) = svw_eps w"
  "cl_pvcs (mem_cluster w) = svw_pvcs w" "cl_vols (mem_cluster w) = mem_shared w"
  by (simp_all add: mem_cluster_def)

lemma mem_cluster_put:
  "mem_cluster (w\<lparr>svw_svcs := (svw_svcs w)(meta_key (svc_meta svc) \<mapsto> svc)\<rparr>) = put_svc svc (mem_cluster w)"
  "mem_cluster (w\<lparr>svw_eps := (svw_eps w)(meta_key (eps_meta e) \<mapsto> e)\<rparr>) = put_eps e (mem_cluster w)"
  "mem_cluster (w\<lparr>svw_events := d\<rparr>) = mem_cluster w"
  "mem_cluster (w\<lparr>svw_durations := t\<rparr>) = mem_cluster w"
  by (simp_all add: mem_cluster_def put_svc_def put_eps_def)

lemma mem_inv_update:
  assumes "mem_inv w" and "mem_cluster w' = s" and "wf_cluster s"
    and "map sv_Namespace (cl_vols s) = map sv_Namespace (mem_shared w)"
    and "map vol_Id (mem_volumes w') = map vol_Id (mem_volumes w)" and "mem_namespaces w' = mem_namespaces w"
  shows "mem_inv w'"
proof -
  have "list_all (\<lambda>n. list_ex (\<lambda>ns. ns_Name ns = n) (mem_namespaces w)) (map sv_Namespace (mem_shared w))"
    using assms(1) by (simp add: mem_inv_def list.pred_map comp_def)
  then have "list_all (\<lambda>n. list_ex (\<lambda>ns. ns_Name ns = n) (mem_namespaces w)) (map sv_Namespace (mem_shared w'))"
    using assms(2,4) by (metis mem_cluster_sel(4))
  with assms show ?thesis by (simp add: mem_inv_def list.pred_map comp_def)
qed

lemma mem_svr_sel [simp]:
  "svr_Client mem_svr = mem_services"
  "svr_api mem_svr = client_volume_sharer mem_cp NewTestAPIClient"
  by (simp_all add: mem_svr_def)

interpretation mem_sharing: sharing_cluster mem_svr mem_cluster mem_inv
proof
  fix w :: sv_world and k assume i: "mem_inv w"
  show wf: "wf_cluster (mem_cluster w)" using i by (simp add: mem_inv_def)
  show "k8s_GetService (svr_Client mem_svr) k w = (Inr svc, w)" if "cl_svcs (mem_cluster w) k = Some svc" for svc
    using that by (simp add: mem_services_def found_or_def)
  show "\<exists>e. k8s_GetService (svr_Client mem_svr) k w = (Inl e, w) \<and> IsNotFound e" if "cl_svcs (mem_cluster w) k = None"
    using that by (simp add: mem_services_def found_or_def)
  show "k8s_GetEndpoints (svr_Client mem_svr) k w = (Inr e, w)" if "cl_eps (mem_cluster w) k = Some e" for e
    using that by (simp add: mem_services_def found_or_def)
  show "\<exists>e. k8s_GetEndpoints (svr_Client mem_svr) k w = (Inl e, w) \<and> IsNotFound e" if "cl_eps (mem_cluster w) k = None"
    using that by (simp add: mem_services_def found_or_def)
  show "k8s_GetPVC (svr_Client mem_svr) k w = (Inr claim, w)" if "cl_pvcs (mem_cluster w) k = Some claim" for claim
    using that by (simp add: mem_services_def found_or_def)
  show "\<exists>w' ip. k8s_CreateService (svr_Client mem_svr) svc w = (None, w') \<and> mem_inv w' \<and> ip \<noteq> '''' \<and>
          mem_cluster w' = put_svc (svc\<lparr>svc_ClusterIP := ip\<rparr>) (mem_cluster w)" for svc
  proof -
    let ?svc = "svc\<lparr>svc_ClusterIP := ''10.9.8.7''\<rparr>"
    let ?w = "w\<lparr>svw_svcs := (svw_svcs w)(meta_key (svc_meta ?svc) \<mapsto> ?svc)\<rparr>"
    have "mem_inv ?w"
      by (rule mem_inv_update [OF i mem_cluster_put(1)]) (simp_all add: wf wf_put_svc)
    then show ?thesis using mem_cluster_put(1) [of w ?svc]
      by (intro exI [of _ ?w] exI [of _ "''10.9.8.7''"]) (simp add: mem_services_def)
  qed
  show "\<exists>w'. k8s_UpdateService (svr_Client mem_svr) svc w = (Inr svc, w') \<and> mem_inv w' \<and>
          mem_cluster w' = put_svc svc (mem_cluster w)"
    if "cl_svcs (mem_cluster w) (meta_key (svc_meta svc)) = Some svc0" and "svc_Type svc = svc_Type svc0"
      and "svc_ClusterIP svc = svc_ClusterIP svc0" for svc svc0
  proof -
    let ?w = "w\<lparr>svw_svcs := (svw_svcs w)(meta_key (svc_meta svc) \<mapsto> svc)\<rparr>"
    have "mem_inv ?w"
      by (rule mem_inv_update [OF i mem_cluster_put(1)])
         (use that wf in \<open>simp_all add: wf_put_svc wf_cluster_def\<close>)
    then show ?thesis using mem_cluster_put(1) [of w svc]
      by (intro exI [of _ ?w]) (simp add: mem_services_def)
  qed
  have "mem_inv (w\<lparr>svw_eps := (svw_eps w)(meta_key (eps_meta e) \<mapsto> e)\<rparr>)" for e
    by (rule mem_inv_update [OF i mem_cluster_put(2)]) (simp_all add: wf wf_put_eps)
  then show "\<exists>w'. k8s_CreateEndpoints (svr_Client mem_svr) e w = (None, w') \<and> mem_inv w' \<and>
          mem_cluster w' = put_eps e (mem_cluster w)"
    and "\<exists>w'. k8s_UpdateEndpoints (svr_Client mem_svr) e w = (Inr e, w') \<and> mem_inv w' \<and>
          mem_cluster w' = put_eps e (mem_cluster w)" for e
    using mem_cluster_put(2) [of w e] by (simp_all add: mem_services_def)
  show "vs_ListSharedVolumes (svr_api mem_svr) w = (Ret (Inr (cl_vols (mem_cluster w))), w)"
    by (simp add: client_volume_sharer_def mem_ListSharedVolumes)
  show "\<exists>w'. vs_SetExternalEndpoint (svr_api mem_svr) (sv_ID v) (sv_Namespace v) ep w = (Ret None, w') \<and> mem_inv w' \<and>
          mem_cluster w' = put_endpoint (sv_ID v) ep (mem_cluster w)" if "v \<in> set (cl_vols (mem_cluster w))" for v ep
  proof -
    from mem_SetExternalEndpoint [OF i, of v NewTestAPIClient ep] that obtain w' where
      w': "SetExternalEndpoint mem_cp NewTestAPIClient (sv_ID v) (sv_Namespace v) ep w = (Ret None, w')"
      "mem_cluster w' = put_endpoint (sv_ID v) ep (mem_cluster w)"
      "map vol_Id (mem_volumes w') = map vol_Id (mem_volumes w)" "mem_namespaces w' = mem_namespaces w" by auto
    have "mem_inv w'"
      by (rule mem_inv_update [OF i w'(2) _ _ w'(3,4)]) (simp_all add: wf wf_put_endpoint comp_def)
    with w' show ?thesis by (simp add: client_volume_sharer_def)
  qed
  have "mem_inv (w\<lparr>svw_events := d\<rparr>)" for d
    by (rule mem_inv_update [OF i mem_cluster_put(3)]) (simp_all add: wf)
  then show "\<exists>w'. svr_Event mem_svr svc ty reason msg w = ((), w') \<and> mem_inv w' \<and> mem_cluster w' = mem_cluster w"
    for svc ty reason msg
    by (simp add: mem_svr_def mem_cluster_put)
  have "mem_inv (w\<lparr>svw_durations := d\<rparr>)" for d
    by (rule mem_inv_update [OF i mem_cluster_put(4)]) (simp_all add: wf)
  then show "\<exists>w'. svr_Observe mem_svr d w = ((), w') \<and> mem_inv w' \<and> mem_cluster w' = mem_cluster w" for d
    by (simp add: mem_svr_def mem_cluster_put)
qed

section \<open>Properties\<close>

definition sample_shared_volume :: volume where
  "sample_shared_volume = sample_volume\<lparr>vol_Labels := SMap
     [(LabelPVName, ''pvc-1''), (LabelPVCName, ''data''), (LabelPVCNamespace, ''default'')]\<rparr>"

definition sample_world :: sv_world where
  "sample_world =
     \<lparr>mem_namespaces = [sample_namespace], mem_nodes = [], mem_volumes = [sample_shared_volume],
      svw_svcs = Map.empty, svw_eps = Map.empty, svw_pvcs = [mk_key ''default'' ''data'' \<mapsto> sample_pvc],
      svw_events = [], svw_durations = []\<rparr>"

lemma sample_world_sel [simp]:
  "svw_svcs sample_world = Map.empty" "svw_eps sample_world = Map.empty"
  "svw_pvcs sample_world = [mk_key ''default'' ''data'' \<mapsto> sample_pvc]"
  by (simp_all add: sample_world_def)

lemma sample_world_shared: "mem_shared sample_world = [sample_sv]"
proof -
  have "toSharedVolume ''default'' sample_shared_volume = Inr sample_sv" by code_simp
  then show ?thesis
    by (simp add: mem_shared_def sharedVolumesOf_def sample_world_def sample_shared_volume_def sample_simps)
qed

lemma sample_sv_sel [simp]:
  "sv_Namespace sample_sv = ''default''" "sv_ServiceName sample_sv = ''pvc-1''" "sv_PVCName sample_sv = ''data''"
  by (simp_all add: sample_sv_def NewSharedVolume_def)

lemma sample_world_inv: "mem_inv sample_world"
proof -
  have "list_ex (\<lambda>ns. ns_Name ns = ''default'') (mem_namespaces sample_world)"
    and "distinct (map vol_Id (mem_volumes sample_world))"
    by (simp_all add: sample_world_def sample_namespace_def)
  then show ?thesis by (simp add: mem_inv_def wf_cluster_def sample_world_shared)
qed

text \<open>
  C24. One pass brings a shared volume to its desired state, whenever that can be
  reached. On a cluster whose calls succeed, \<open>ensureService\<close> returns an endpoint
  and touches only the volume's own service and endpoints. Afterwards the service
  and the endpoints are the desired ones and the endpoint is the service's address
  with the NFS port, exactly when the objects found were correctable, and then a
  second pass only reads: it returns the same endpoint from the same world.
\<close>

theorem ensureService_converges:
  assumes "sharing_cluster r st ok" and "ok w"
  shows "\<exists>ep w'. ensureService r sv ref n w = (Ret (Inr ep), w') \<and> ok w' \<and>
           (correctable sv (st w) \<longleftrightarrow> (\<exists>ip. ip \<noteq> '''' \<and> serving sv ip (st w') \<and> ep = ip @ '':2049'')) \<and>
           (correctable sv (st w) \<longrightarrow> ensureService r sv ref n w' = (Ret (Inr ep), w')) \<and>
           cl_pvcs (st w') = cl_pvcs (st w) \<and> cl_vols (st w') = cl_vols (st w) \<and>
           (\<forall>k. k \<noteq> mk_key (sv_Namespace sv) (sv_ServiceName sv) \<longrightarrow>
              cl_svcs (st w') k = cl_svcs (st w) k \<and> cl_eps (st w') k = cl_eps (st w) k)"
proof -
  from sharing_cluster.ensures [OF assms, of sv ref n] obtain w' svc e where
    run: "ensureService r sv ref n w = (Ret (Inr (frontend svc)), w')" and i: "ok w'"
    and eq: "ServiceIsEqual sv svc \<and> EndpointsIsEqual sv e \<longleftrightarrow> correctable sv (st w)"
    and ip: "ServiceIsEqual sv svc \<longrightarrow> svc_ClusterIP svc \<noteq> ''''"
    and k: "meta_key (svc_meta svc) = sv_key sv" "meta_key (eps_meta e) = sv_key sv"
    and a: "st w' = put_eps e (put_svc svc (st w))" by auto
  have serving: "serving sv ip (st w') \<longleftrightarrow> ip = svc_ClusterIP svc \<and> correctable sv (st w)" for ip
    using eq k a by (auto simp: serving_def)
  have front: "correctable sv (st w) \<longrightarrow> svc_ClusterIP svc \<noteq> '''' \<and> frontend svc = svc_ClusterIP svc @ '':2049''"
    using eq ip frontend_desired [of sv svc] by blast
  show ?thesis
  proof (intro exI conjI)
    show "ensureService r sv ref n w = (Ret (Inr (frontend svc)), w')" by (rule run)
    show "correctable sv (st w) \<longleftrightarrow>
        (\<exists>ip. ip \<noteq> '''' \<and> serving sv ip (st w') \<and> frontend svc = ip @ '':2049'')"
      unfolding serving using front by blast
    show "correctable sv (st w) \<longrightarrow> ensureService r sv ref n w' = (Ret (Inr (frontend svc)), w')"
      using sharing_cluster.stays [OF assms(1) i, of sv "svc_ClusterIP svc" ref n] serving front by simp
  qed (use i a k in auto)
qed

theorem ensureService_converges_witness:
  "\<exists>ep w' ip. ensureService mem_svr sample_sv (pvc_owner sample_pvc) 3 sample_world = (Ret (Inr ep), w') \<and>
     serving sample_sv ip (mem_cluster w') \<and> ep = ip @ '':2049''"
  using ensureService_converges
    [OF mem_sharing.sharing_cluster_axioms sample_world_inv, of sample_sv "pvc_owner sample_pvc" 3]
  by (auto simp: correctable_def)

text \<open>
  C26. A round of the controller brings every shared volume to its desired state
  and publishes it. On a cluster whose calls succeed, with a claim for every volume,
  correctable objects and a cache that vouches only for settled volumes (as an empty
  one does), a round ends without asking for a reset; then every listed volume has
  the desired service and endpoints, StorageOS has the service's address as its
  external endpoint, the volumes are otherwise the same, no other service or endpoints
  object has changed, and the next round changes nothing in the cluster.
\<close>

theorem shared_volumes_converge:
  assumes "sharing_cluster r st ok" and "ok w" and "cache_sound c (cl_vols (st w)) (st w)"
    and "\<forall>v \<in> set (cl_vols (st w)). correctable v (st w) \<and>
           cl_pvcs (st w) (mk_key (sv_Namespace v) (sv_PVCName v)) \<noteq> None"
  shows "\<exists>c1 w1 c2 w2. Start_round r c w = (Ret (c1, False), w1) \<and>
           (\<forall>v \<in> set (cl_vols (st w1)). settled v (st w1)) \<and>
           map (\<lambda>v. v\<lparr>sv_ExternalEndpoint := ''''\<rparr>) (cl_vols (st w1)) =
             map (\<lambda>v. v\<lparr>sv_ExternalEndpoint := ''''\<rparr>) (cl_vols (st w)) \<and>
           (\<forall>k. k \<notin> (\<lambda>v. mk_key (sv_Namespace v) (sv_ServiceName v)) ` set (cl_vols (st w)) \<longrightarrow>
              cl_svcs (st w1) k = cl_svcs (st w) k \<and> cl_eps (st w1) k = cl_eps (st w) k) \<and>
           Start_round r c1 w1 = (Ret (c2, False), w2) \<and> st w2 = st w1"
  by (rule sharing_cluster.round_settles [OF assms])

theorem shared_volumes_converge_witness:
  "\<exists>c1 w1. Start_round mem_svr (cache_New 60) sample_world = (Ret (c1, False), w1) \<and>
     (\<forall>v \<in> set (mem_shared w1). settled v (mem_cluster w1)) \<and> length (mem_shared w1) = 1"
proof -
  have "cache_sound (cache_New 60) (cl_vols (mem_cluster sample_world)) (mem_cluster sample_world)"
    by (simp add: cache_sound_def wf_cache_def cache_New_def Get_def)
  from shared_volumes_converge [OF mem_sharing.sharing_cluster_axioms sample_world_inv this]
  obtain c1 w1 where "Start_round mem_svr (cache_New 60) sample_world = (Ret (c1, False), w1)"
    and "\<forall>v \<in> set (mem_shared w1). settled v (mem_cluster w1)"
    and m: "map (\<lambda>v. v\<lparr>sv_ExternalEndpoint := ''''\<rparr>) (mem_shared w1) =
         map (\<lambda>v. v\<lparr>sv_ExternalEndpoint := ''''\<rparr>) (mem_shared sample_world)"
    by (auto simp: correctable_def sample_world_shared)
  with arg_cong [OF m, of length] show ?thesis by (auto simp: sample_world_shared)
qed

end
