(* ===== verification/Fencing_Cluster.thy ===== *)
theory Fencing_Cluster
  imports Fencer
begin

text \<open>
  What fencing a node leaves behind, on a cluster whose lists are consistent and
  whose deletions succeed: exactly which pods and volume attachments are gone. The
  locale states the behaviour of the two API servers on an abstract state; the last
  section interprets it on a store in memory, with the volumes looked up through the
  program's own client.
\<close>

section \<open>The state and what fencing is to do\<close>

record fstate =
  fs_pods :: "pod list"
  fs_vas :: "volume_attachment list"
  fs_pvcs :: "objkey \<rightharpoonup> pvc"
  fs_pvs :: "objkey \<rightharpoonup> pv"
  fs_vols :: "objkey \<rightharpoonup> sobject"

text \<open>A claim is StorageOS's by its provisioner or, without one, by the driver of its volume.\<close>

definition stos_claim :: "fstate \<Rightarrow> pvc \<Rightarrow> bool" where
  "stos_claim s c =
     (case smap_get (meta_Annotations (pvc_meta c)) PVCProvisionerAnnotationKey of
        Some provisioner \<Rightarrow> provisioner = DriverName
      | None \<Rightarrow> (case fs_pvs s (mk_key '''' (pvc_VolumeName c)) of
                  None \<Rightarrow> False
                | Some v \<Rightarrow> pv_CSI_Driver v = Some DriverName))"

definition claim_key :: "pod \<Rightarrow> pod_volume \<Rightarrow> objkey option" where
  "claim_key p vol =
     (case pvol_ClaimName vol of
        None \<Rightarrow> None
      | Some claim \<Rightarrow> if claim = '''' then None else Some (mk_key (meta_Namespace (pod_meta p)) claim))"

definition vol_claims :: "fstate \<Rightarrow> pod \<Rightarrow> pod_volume \<Rightarrow> pvc list" where
  "vol_claims s p vol =
     (case Option.bind (claim_key p vol) (fs_pvcs s) of
        None \<Rightarrow> []
      | Some c \<Rightarrow> if stos_claim s c then [c] else [])"

definition claims_of :: "fstate \<Rightarrow> pod \<Rightarrow> pvc list" where
  "claims_of s p = concat (map (vol_claims s p) (pod_Volumes p))"

definition claims_known :: "fstate \<Rightarrow> pod \<Rightarrow> bool" where
  "claims_known s p \<longleftrightarrow>
     list_all (\<lambda>vol. case claim_key p vol of None \<Rightarrow> True | Some k \<Rightarrow> fs_pvcs s k \<noteq> None) (pod_Volumes p)"

definition target :: "fstate \<Rightarrow> pod \<Rightarrow> bool" where
  "target s p \<longleftrightarrow> pod_fenced p \<and> volKeys (claims_of s p) \<noteq> []"

definition healthy_key :: "fstate \<Rightarrow> objkey \<Rightarrow> bool" where
  "healthy_key s k = (case fs_vols s k of None \<Rightarrow> False | Some v \<Rightarrow> IsHealthy v)"

text \<open>The pods that can fail over: they opted in and all their volumes are known and healthy.\<close>

definition failover :: "fstate \<Rightarrow> pod \<Rightarrow> bool" where
  "failover s p \<longleftrightarrow> target s p \<and> list_all (healthy_key s) (volKeys (claims_of s p))"

definition wf_fstate :: "fstate \<Rightarrow> bool" where
  "wf_fstate s \<longleftrightarrow>
     distinct (map (\<lambda>p. meta_key (pod_meta p)) (fs_pods s)) \<and> distinct (map (\<lambda>va. meta_Name (va_meta va)) (fs_vas s))"

abbreviation on_node :: "string \<Rightarrow> fstate \<Rightarrow> pod list" where
  "on_node n s \<equiv> filter (\<lambda>p. pod_NodeName p = n) (fs_pods s)"

abbreviation vas_on :: "string \<Rightarrow> fstate \<Rightarrow> volume_attachment list" where
  "vas_on n s \<equiv> filter (\<lambda>va. va_NodeName va = n) (fs_vas s)"

text \<open>The attachments of a node: none is of an inline volume, and no volume is attached twice.\<close>

definition plain_vas :: "volume_attachment list \<Rightarrow> bool" where
  "plain_vas vas \<longleftrightarrow> None \<notin> set (map va_PersistentVolumeName vas) \<and> distinct (map va_PersistentVolumeName vas)"

definition detaches :: "pvc list \<Rightarrow> volume_attachment \<Rightarrow> bool" where
  "detaches cs va \<longleftrightarrow> va_Attacher va = DriverName \<and> list_ex (\<lambda>c. va_PersistentVolumeName va = Some (pvc_VolumeName c)) cs"

definition drop_pod :: "pod \<Rightarrow> fstate \<Rightarrow> fstate" where
  "drop_pod p s = s\<lparr>fs_pods := filter (\<lambda>q. meta_key (pod_meta q) \<noteq> meta_key (pod_meta p)) (fs_pods s)\<rparr>"

definition drop_va :: "volume_attachment \<Rightarrow> fstate \<Rightarrow> fstate" where
  "drop_va va s = s\<lparr>fs_vas := filter (\<lambda>v. meta_Name (va_meta v) \<noteq> meta_Name (va_meta va)) (fs_vas s)\<rparr>"

text \<open>The body of the loop of \<open>getTargetPods\<close>.\<close>

definition target_body :: "'w k8s_client \<Rightarrow> pod \<Rightarrow> pod list \<Rightarrow> ('w, goerr + pod list) prog" where
  "target_body k8s p needFencing =
     (if \<not> pod_fenced p then retP (Inr needFencing)
      else tryP (mapErr (Opaque ''failed to get pvcs for pod'') (podPVCs k8s p)) (\<lambda>pvcs.
        if volKeys pvcs = [] then retP (Inr needFencing) else retP (Inr (needFencing @ [p]))))"

lemma getTargetPods_body:
  "getTargetPods k8s n = tryP (callP (k8s_ListPods k8s (cr_Name n))) (\<lambda>podList. forE (target_body k8s) podList [])"
  by (simp add: getTargetPods_def target_body_def [abs_def])

section \<open>The contract of the API servers\<close>

locale fencing_cluster =
  fixes k8s :: "'w k8s_client" and api :: "'w node_fencer" and st :: "'w \<Rightarrow> fstate" and ok :: "'w \<Rightarrow> bool"
  assumes wf: "ok w \<Longrightarrow> wf_fstate (st w)"
    and list_pods: "ok w \<Longrightarrow> k8s_ListPods k8s n w = (Inr (on_node n (st w)), w)"
    and list_vas: "ok w \<Longrightarrow> k8s_ListVolumeAttachments k8s n w = (Inr (vas_on n (st w)), w)"
    and get_pvc: "ok w \<Longrightarrow> fs_pvcs (st w) k = Some c \<Longrightarrow> k8s_GetPVC k8s k w = (Inr c, w)"
    and no_pvc: "ok w \<Longrightarrow> fs_pvcs (st w) k = None \<Longrightarrow> \<exists>e. k8s_GetPVC k8s k w = (Inl e, w) \<and> IsNotFound e"
    and get_pv: "ok w \<Longrightarrow> fs_pvs (st w) k = Some v \<Longrightarrow> k8s_GetPV k8s k w = (Inr v, w)"
    and no_pv: "ok w \<Longrightarrow> fs_pvs (st w) k = None \<Longrightarrow> \<exists>e. k8s_GetPV k8s k w = (Inl e, w)"
    and get_vol: "ok w \<Longrightarrow> fs_vols (st w) k = Some x \<Longrightarrow> nf_GetVolume api k w = (Ret (Inr x), w)"
    and no_vol: "ok w \<Longrightarrow> fs_vols (st w) k = None \<Longrightarrow> \<exists>e. nf_GetVolume api k w = (Ret (Inl e), w)"
    and delete_pod: "ok w \<Longrightarrow> p \<in> set (fs_pods (st w)) \<Longrightarrow>
      \<exists>w'. k8s_DeletePod k8s p 0 w = (None, w') \<and> ok w' \<and> st w' = drop_pod p (st w)"
    and delete_va: "ok w \<Longrightarrow> \<exists>e w'. k8s_DeleteVolumeAttachment k8s va 0 w = (e, w') \<and> ok w' \<and> st w' = drop_va va (st w)"
begin

lemma podPVCs_step_run:
  assumes "ok w"
  shows "\<exists>errs'. podPVCs_step k8s p vol (acc, errs) w = (Ret (acc @ vol_claims (st w) p vol, errs'), w) \<and>
           (errs' = [] \<longleftrightarrow> errs = [] \<and> (case claim_key p vol of None \<Rightarrow> True | Some k \<Rightarrow> fs_pvcs (st w) k \<noteq> None))"
proof (cases "claim_key p vol")
  case None
  then show ?thesis
    by (auto simp: podPVCs_step_def vol_claims_def claim_key_def retP_run split: option.splits if_splits)
next
  case (Some k)
  then obtain cl where cl: "pvol_ClaimName vol = Some cl" "cl \<noteq> ''''" "k = mk_key (meta_Namespace (pod_meta p)) cl"
    by (auto simp: claim_key_def split: option.splits if_splits)
  show ?thesis
  proof (cases "fs_pvcs (st w) k")
    case None
    with Some cl no_pvc [OF assms None] show ?thesis
      by (auto simp: podPVCs_step_def vol_claims_def retP_run)
  next
    case (Some c)
    show ?thesis
      using \<open>claim_key p vol = Some k\<close> cl Some get_pvc [OF assms Some]
        get_pv [OF assms, of "mk_key '''' (pvc_VolumeName c)"] no_pv [OF assms, of "mk_key '''' (pvc_VolumeName c)"]
      by (cases "fs_pvs (st w) (mk_key '''' (pvc_VolumeName c))")
         (auto simp: podPVCs_step_def vol_claims_def stos_claim_def retP_run split: option.split)
  qed
qed

lemma podPVCs_loop:
  assumes "ok w"
  shows "\<exists>errs'. forP (podPVCs_step k8s p) vols (acc, errs) w = (Ret (acc @ concat (map (vol_claims (st w) p) vols), errs'), w) \<and>
           (errs' = [] \<longleftrightarrow> errs = [] \<and>
              list_all (\<lambda>vol. case claim_key p vol of None \<Rightarrow> True | Some k \<Rightarrow> fs_pvcs (st w) k \<noteq> None) vols)"
proof (induction vols arbitrary: acc errs)
  case Nil
  show ?case by (simp add: retP_run)
next
  case (Cons vol vols)
  from podPVCs_step_run [OF assms, of p vol acc errs] obtain errs1 where
    1: "podPVCs_step k8s p vol (acc, errs) w = (Ret (acc @ vol_claims (st w) p vol, errs1), w)"
    "errs1 = [] \<longleftrightarrow> errs = [] \<and> (case claim_key p vol of None \<Rightarrow> True | Some k \<Rightarrow> fs_pvcs (st w) k \<noteq> None)" by auto
  from Cons.IH [of "acc @ vol_claims (st w) p vol" errs1] 1 show ?case
    by (auto simp: bindP_run)
qed

lemma podPVCs_run:
  assumes "ok w"
  shows "claims_known (st w) p \<Longrightarrow> podPVCs k8s p w = (Ret (Inr (claims_of (st w) p)), w)"
    and "\<not> claims_known (st w) p \<Longrightarrow> \<exists>e. podPVCs k8s p w = (Ret (Inl e), w)"
  using podPVCs_loop [OF assms, of p "pod_Volumes p" "[]" "[]"]
  by (auto simp: podPVCs_def claims_known_def claims_of_def bindP_run retP_run ErrorOrNil_def)

lemma target_loop:
  assumes "ok w"
  shows "(\<forall>p \<in> set ps. pod_fenced p \<longrightarrow> claims_known (st w) p) \<Longrightarrow>
           forE (target_body k8s) ps acc w = (Ret (Inr (acc @ filter (target (st w)) ps)), w)"
    and "p \<in> set ps \<Longrightarrow> pod_fenced p \<Longrightarrow> \<not> claims_known (st w) p \<Longrightarrow>
           \<exists>e. forE (target_body k8s) ps acc w = (Ret (Inl e), w)"
proof -
  have step: "target_body k8s q acc w = (Ret (Inr (acc @ (if target (st w) q then [q] else []))), w)"
    if "pod_fenced q \<longrightarrow> claims_known (st w) q" for q acc
    using that podPVCs_run(1) [OF assms, of q] by (auto simp: target_body_def target_def tryP_run mapErr_run retP_run)
  show "forE (target_body k8s) ps acc w = (Ret (Inr (acc @ filter (target (st w)) ps)), w)"
    if "\<forall>p \<in> set ps. pod_fenced p \<longrightarrow> claims_known (st w) p"
    using that
  proof (induction ps arbitrary: acc)
    case Nil
    show ?case by (simp add: retP_run)
  next
    case (Cons q ps)
    have "target_body k8s q acc w = (Ret (Inr (acc @ (if target (st w) q then [q] else []))), w)"
      using Cons.prems by (intro step) simp
    with Cons show ?case by (simp add: tryP_run)
  qed
  show "\<exists>e. forE (target_body k8s) ps acc w = (Ret (Inl e), w)"
    if "p \<in> set ps" and "pod_fenced p" and "\<not> claims_known (st w) p"
    using that(1)
  proof (induction ps arbitrary: acc)
    case (Cons q ps)
    show ?case
    proof (cases "pod_fenced q \<longrightarrow> claims_known (st w) q")
      case True
      then have "p \<in> set ps" using Cons.prems that by auto
      with Cons.IH step [OF True, of acc] show ?thesis by (simp add: tryP_run)
    next
      case False
      with podPVCs_run(2) [OF assms, of q] obtain e where "podPVCs k8s q w = (Ret (Inl e), w)" by auto
      with False show ?thesis by (simp add: target_body_def tryP_run mapErr_run)
    qed
  qed simp
qed

lemma getTargetPods_run:
  assumes "ok w"
  shows "(\<forall>p \<in> set (on_node (cr_Name n) (st w)). pod_fenced p \<longrightarrow> claims_known (st w) p) \<Longrightarrow>
           getTargetPods k8s n w = (Ret (Inr (filter (target (st w)) (on_node (cr_Name n) (st w)))), w)"
    and "p \<in> set (on_node (cr_Name n) (st w)) \<Longrightarrow> pod_fenced p \<Longrightarrow> \<not> claims_known (st w) p \<Longrightarrow>
           \<exists>e. getTargetPods k8s n w = (Ret (Inl e), w)"
  using target_loop(1) [OF assms, of "on_node (cr_Name n) (st w)" "[]"]
    target_loop(2) [OF assms, of p "on_node (cr_Name n) (st w)" "[]"] list_pods [OF assms, of "cr_Name n"]
  by (simp_all add: getTargetPods_body tryP_run)

end


section \<open>Fencing a pod\<close>

lemma fstate_frame:
  assumes "fs_pvcs s' = fs_pvcs s" and "fs_pvs s' = fs_pvs s" and "fs_vols s' = fs_vols s"
  shows "claims_of s' = claims_of s" and "target s' = target s" and "failover s' = failover s"
    and "claims_known s' = claims_known s"
  unfolding fun_eq_iff failover_def target_def claims_known_def healthy_key_def [abs_def] claims_of_def
    vol_claims_def [abs_def] stos_claim_def assms by simp_all

lemma fs_drop [simp]:
  "fs_vas (drop_pod p s) = fs_vas s" "fs_pods (drop_va va s) = fs_pods s"
  "fs_pvcs (drop_pod p s) = fs_pvcs s" "fs_pvcs (drop_va va s) = fs_pvcs s"
  "fs_pvs (drop_pod p s) = fs_pvs s" "fs_pvs (drop_va va s) = fs_pvs s"
  "fs_vols (drop_pod p s) = fs_vols s" "fs_vols (drop_va va s) = fs_vols s"
  by (simp_all add: drop_pod_def drop_va_def)

lemma pvcVA_plain:
  "plain_vas vas \<Longrightarrow> pvcVA c vas = Ret (find (\<lambda>va. va_PersistentVolumeName va = Some (pvc_VolumeName c)) vas)"
  by (induction vas) (auto simp: plain_vas_def split: option.split)

lemma plain_vas_unique:
  "plain_vas vas \<Longrightarrow> v \<in> set vas \<Longrightarrow> va \<in> set vas \<Longrightarrow>
     va_PersistentVolumeName v = va_PersistentVolumeName va \<Longrightarrow> v = va"
  by (auto simp: plain_vas_def distinct_map inj_on_def)

text \<open>
  The attachments a claim list leaves, from a state whose attachments are what is
  left of a given list with unique names.
\<close>

definition detach_all :: "volume_attachment list \<Rightarrow> pvc list \<Rightarrow> fstate \<Rightarrow> fstate" where
  "detach_all vas cs s = s\<lparr>fs_vas := filter (\<lambda>va. \<not> (va \<in> set vas \<and> detaches cs va)) (fs_vas s)\<rparr>"

lemma detach_all_Nil [simp]: "detach_all vas [] s = s"
  by (simp add: detach_all_def detaches_def)

lemma detach_all_Cons: "detach_all vas (c # cs) s = detach_all vas cs (detach_all vas [c] s)"
proof -
  have "filter (\<lambda>va. \<not> (va \<in> set vas \<and> detaches (c # cs) va)) xs =
          filter (\<lambda>va. \<not> (va \<in> set vas \<and> detaches cs va)) (filter (\<lambda>va. \<not> (va \<in> set vas \<and> detaches [c] va)) xs)" for xs
    by (induction xs) (auto simp: detaches_def)
  then show ?thesis by (simp add: detach_all_def del: filter_filter)
qed

lemma drop_va_detach:
  assumes "distinct (map (\<lambda>va. meta_Name (va_meta va)) all)" and "set vas \<subseteq> set all" and "set (fs_vas s) \<subseteq> set all"
    and "plain_vas vas" and "va \<in> set vas" and "va_PersistentVolumeName va = Some (pvc_VolumeName c)"
    and "va_Attacher va = DriverName"
  shows "drop_va va s = detach_all vas [c] s"
proof -
  have "meta_Name (va_meta v) \<noteq> meta_Name (va_meta va) \<longleftrightarrow> \<not> (v \<in> set vas \<and> detaches [c] v)" if "v \<in> set (fs_vas s)" for v
  proof -
    have "meta_Name (va_meta v) = meta_Name (va_meta va) \<longleftrightarrow> v = va"
      using assms(1-3,5) that by (auto simp: distinct_map dest!: inj_onD)
    moreover have "v = va" if "v \<in> set vas" and "va_PersistentVolumeName v = va_PersistentVolumeName va"
      using plain_vas_unique [OF assms(4) that(1) assms(5) that(2)] .
    ultimately show ?thesis using assms(5-7) by (auto simp: detaches_def)
  qed
  then show ?thesis by (simp add: drop_va_def detach_all_def cong: filter_cong)
qed

lemma detach_none:
  assumes "find (\<lambda>va. va_PersistentVolumeName va = Some (pvc_VolumeName c)) vas = Some va" and "va_Attacher va \<noteq> DriverName"
    and "plain_vas vas"
  shows "detach_all vas [c] s = s"
proof -
  have va: "va \<in> set vas" "va_PersistentVolumeName va = Some (pvc_VolumeName c)"
    using assms(1) by (auto simp: find_Some_iff)
  have "v = va" if "v \<in> set vas" and "va_PersistentVolumeName v = Some (pvc_VolumeName c)" for v
    using plain_vas_unique [OF assms(3) that(1) va(1)] that(2) va(2) by simp
  with assms(2) have "\<not> (v \<in> set vas \<and> detaches [c] v)" for v
    by (auto simp: detaches_def)
  then show ?thesis by (simp add: detach_all_def)
qed

lemma fs_detach_all [simp]:
  "fs_pods (detach_all vas cs s) = fs_pods s" "fs_pvcs (detach_all vas cs s) = fs_pvcs s"
  "fs_pvs (detach_all vas cs s) = fs_pvs s" "fs_vols (detach_all vas cs s) = fs_vols s"
  by (simp_all add: detach_all_def)

context fencing_cluster
begin

lemma deleteVA_run:
  assumes "ok w" and "plain_vas vas" and "distinct (map (\<lambda>va. meta_Name (va_meta va)) all)"
    and "set vas \<subseteq> set all" and "set (fs_vas (st w)) \<subseteq> set all"
  shows "\<exists>w'. deleteVA_step k8s vas c () w = (Ret (), w') \<and> ok w' \<and> st w' = detach_all vas [c] (st w)"
proof (cases "find (\<lambda>va. va_PersistentVolumeName va = Some (pvc_VolumeName c)) vas")
  case None
  then have "detach_all vas [c] (st w) = st w"
    by (auto simp: detach_all_def detaches_def find_None_iff intro!: filter_True)
  with None assms show ?thesis by (simp add: deleteVA_step_def pvcVA_plain retP_run)
next
  case (Some va)
  then have va: "va \<in> set vas" "va_PersistentVolumeName va = Some (pvc_VolumeName c)"
    by (auto simp: find_Some_iff)
  show ?thesis
  proof (cases "va_Attacher va = DriverName")
    case True
    from delete_va [OF assms(1), of va] obtain e w' where
      "k8s_DeleteVolumeAttachment k8s va 0 w = (e, w')" "ok w'" "st w' = drop_va va (st w)" by auto
    with True Some assms(2) drop_va_detach [OF assms(3-5,2) va True] show ?thesis
      by (simp add: deleteVA_step_def pvcVA_plain bindP_run retP_run)
  next
    case False
    with Some assms detach_none [OF Some False assms(2)] show ?thesis
      by (simp add: deleteVA_step_def pvcVA_plain retP_run)
  qed
qed

lemma deleteVA_loop:
  assumes "ok w" and "plain_vas vas" and "distinct (map (\<lambda>va. meta_Name (va_meta va)) all)"
    and "set vas \<subseteq> set all" and "set (fs_vas (st w)) \<subseteq> set all"
  shows "\<exists>w'. forP (deleteVA_step k8s vas) cs () w = (Ret (), w') \<and> ok w' \<and> st w' = detach_all vas cs (st w)"
  using assms(1,5)
proof (induction cs arbitrary: w)
  case Nil
  then show ?case by (simp add: retP_run)
next
  case (Cons c cs)
  from deleteVA_run [OF Cons.prems(1) assms(2-4) Cons.prems(2), of c] obtain w1 where
    1: "deleteVA_step k8s vas c () w = (Ret (), w1)" "ok w1" "st w1 = detach_all vas [c] (st w)" by auto
  then have "set (fs_vas (st w1)) \<subseteq> set all" using Cons.prems(2) by (auto simp: detach_all_def)
  from Cons.IH [OF 1(2) this] 1 detach_all_Cons [of vas c cs "st w"] show ?case by (auto simp: bindP_run)
qed

lemma stosVolumes_run:
  assumes "ok w"
  shows "list_all (\<lambda>k. fs_vols (st w) k \<noteq> None) ks \<Longrightarrow>
           forE (stosVolumes_step api) ks acc w = (Ret (Inr (acc @ map (\<lambda>k. the (fs_vols (st w) k)) ks)), w)"
    and "\<not> list_all (\<lambda>k. fs_vols (st w) k \<noteq> None) ks \<Longrightarrow> \<exists>e. forE (stosVolumes_step api) ks acc w = (Ret (Inl e), w)"
proof (induction ks arbitrary: acc)
  case (Cons k ks)
  {
    case 1
    with Cons.IH(1) get_vol [OF assms] show ?case by (auto simp: stosVolumes_step_def tryP_run mapErr_run retP_run)
  next
    case 2
    with Cons.IH(2) get_vol [OF assms, of k] no_vol [OF assms, of k] show ?case
      by (cases "fs_vols (st w) k") (auto simp: stosVolumes_step_def tryP_run mapErr_run retP_run)
  }
qed (simp_all add: retP_run)

lemma healthy_volumes:
  "list_all (\<lambda>k. fs_vols s k \<noteq> None) ks \<Longrightarrow>
     list_all IsHealthy (map (\<lambda>k. the (fs_vols s k)) ks) \<longleftrightarrow> list_all (healthy_key s) ks"
  by (induction ks) (auto simp: healthy_key_def)

lemma fencePod_stays:
  assumes "ok w" and "claims_known (st w) p" and "target (st w) p" and "\<not> failover (st w) p"
  shows "\<exists>e. fencePod k8s api p vas w = (Ret e, w)"
proof (cases "list_all (\<lambda>k. fs_vols (st w) k \<noteq> None) (volKeys (claims_of (st w) p))")
  case True
  with assms healthy_volumes [OF True] have "\<not> list_all IsHealthy (map (\<lambda>k. the (fs_vols (st w) k)) (volKeys (claims_of (st w) p)))"
    by (simp add: failover_def)
  with podPVCs_run(1) [OF assms(1,2)] stosVolumes_run(1) [OF assms(1) True, of "[]"] show ?thesis
    by (simp add: fencePod_def stosVolumes_def Let_def tryE_run mapErr_run retP_run)
next
  case False
  with podPVCs_run(1) [OF assms(1,2)] stosVolumes_run(2) [OF assms(1) False, of "[]"] show ?thesis
    by (auto simp: fencePod_def stosVolumes_def Let_def tryE_run mapErr_run retP_run)
qed

lemma fencePod_deletes:
  assumes "ok w" and "claims_known (st w) p" and "failover (st w) p" and "p \<in> set (fs_pods (st w))"
    and "plain_vas vas" and "distinct (map (\<lambda>va. meta_Name (va_meta va)) all)"
    and "set vas \<subseteq> set all" and "set (fs_vas (st w)) \<subseteq> set all"
  shows "\<exists>w'. fencePod k8s api p vas w = (Ret None, w') \<and> ok w' \<and>
           st w' = detach_all vas (claims_of (st w) p) (drop_pod p (st w))"
proof -
  let ?ks = "volKeys (claims_of (st w) p)"
  have known: "list_all (\<lambda>k. fs_vols (st w) k \<noteq> None) ?ks"
    using assms(3) by (auto simp: failover_def healthy_key_def list_all_iff split: option.splits)
  have healthy: "list_all IsHealthy (map (\<lambda>k. the (fs_vols (st w) k)) ?ks)"
    using assms(3) healthy_volumes [OF known] by (simp add: failover_def)
  from delete_pod [OF assms(1,4)] obtain w1 where
    d: "k8s_DeletePod k8s p 0 w = (None, w1)" "ok w1" "st w1 = drop_pod p (st w)" by auto
  have "set (fs_vas (st w1)) \<subseteq> set all" using assms(8) d(3) by simp
  from deleteVA_loop [OF d(2) assms(5-7) this, of "claims_of (st w) p"] d podPVCs_run(1) [OF assms(1,2)]
    stosVolumes_run(1) [OF assms(1) known, of "[]"] healthy
  show ?thesis
    by (auto simp: fencePod_def stosVolumes_def Let_def tryE_run bindP_run mapErr_run retP_run)
qed

text \<open>
  The pods are fenced one after the other. \<open>gone\<close> is what the loop has deleted: the
  pods of the list that can fail over, and the attachments of their claims.
\<close>

lemma pods_loop:
  assumes "ok w" and "\<forall>p \<in> set ps. claims_known (st w) p \<and> target (st w) p \<and> p \<in> set (fs_pods (st w))"
    and "distinct (map (\<lambda>p. meta_key (pod_meta p)) ps)"
    and "plain_vas vas" and "distinct (map (\<lambda>va. meta_Name (va_meta va)) all)"
    and "set vas \<subseteq> set all" and "set (fs_vas (st w)) \<subseteq> set all"
  shows "\<exists>w'. forP (\<lambda>p u. bindP (fencePod k8s api p vas) (\<lambda>_. retP ())) ps () w = (Ret (), w') \<and> ok w' \<and>
           st w' = (st w)\<lparr>
             fs_pods := filter (\<lambda>q. \<forall>p \<in> set ps. failover (st w) p \<longrightarrow> meta_key (pod_meta q) \<noteq> meta_key (pod_meta p))
                          (fs_pods (st w)),
             fs_vas := filter (\<lambda>va. \<forall>p \<in> set ps. failover (st w) p \<longrightarrow>
                          \<not> (va \<in> set vas \<and> detaches (claims_of (st w) p) va)) (fs_vas (st w))\<rparr>"
  using assms(1-3,7)
proof (induction ps arbitrary: w)
  case Nil
  then show ?case by (simp add: retP_run)
next
  case (Cons p ps)
  have keys: "\<forall>q \<in> set ps. meta_key (pod_meta q) \<noteq> meta_key (pod_meta p)" using Cons.prems(3) by (auto simp: image_iff)
  show ?case
  proof (cases "failover (st w) p")
    case False
    with Cons.prems fencePod_stays [OF Cons.prems(1), of p vas] obtain e where
      run: "fencePod k8s api p vas w = (Ret e, w)" by auto
    from Cons.IH [OF Cons.prems(1)] Cons.prems False run show ?thesis
      by (auto simp: bindP_run retP_run)
  next
    case True
    have "claims_known (st w) p" and "p \<in> set (fs_pods (st w))" using Cons.prems(2) by auto
    from fencePod_deletes [OF Cons.prems(1) this(1) True this(2) assms(4-6) Cons.prems(4)] obtain w1 where
      run: "fencePod k8s api p vas w = (Ret None, w1)" and o1: "ok w1"
      and s1: "st w1 = detach_all vas (claims_of (st w) p) (drop_pod p (st w))" by auto
    have frame: "claims_of (st w1) = claims_of (st w)" "failover (st w1) = failover (st w)"
      "target (st w1) = target (st w)" "claims_known (st w1) = claims_known (st w)"
      by (rule fstate_frame; simp add: s1)+
    have pods1: "fs_pods (st w1) = filter (\<lambda>q. meta_key (pod_meta q) \<noteq> meta_key (pod_meta p)) (fs_pods (st w))"
      and vas1: "fs_vas (st w1) = filter (\<lambda>va. \<not> (va \<in> set vas \<and> detaches (claims_of (st w) p) va)) (fs_vas (st w))"
      unfolding s1 by (simp_all add: detach_all_def drop_pod_def)
    have "\<forall>q \<in> set ps. claims_known (st w1) q \<and> target (st w1) q \<and> q \<in> set (fs_pods (st w1))"
      unfolding frame pods1 using Cons.prems(2) keys by auto
    moreover have "set (fs_vas (st w1)) \<subseteq> set all" unfolding vas1 using Cons.prems(4) by auto
    ultimately obtain w' where r: "forP (\<lambda>p u. bindP (fencePod k8s api p vas) (\<lambda>_. retP ())) ps () w1 = (Ret (), w')" and "ok w'"
      and s': "st w' = (st w1)\<lparr>
             fs_pods := filter (\<lambda>q. \<forall>p \<in> set ps. failover (st w1) p \<longrightarrow> meta_key (pod_meta q) \<noteq> meta_key (pod_meta p))
                          (fs_pods (st w1)),
             fs_vas := filter (\<lambda>va. \<forall>p \<in> set ps. failover (st w1) p \<longrightarrow>
                          \<not> (va \<in> set vas \<and> detaches (claims_of (st w1) p) va)) (fs_vas (st w1))\<rparr>"
      using Cons.IH [OF o1] Cons.prems(3) by auto
    have "st w' = (st w)\<lparr>
             fs_pods := filter (\<lambda>q. \<forall>p \<in> set (p # ps). failover (st w) p \<longrightarrow> meta_key (pod_meta q) \<noteq> meta_key (pod_meta p))
                          (fs_pods (st w)),
             fs_vas := filter (\<lambda>va. \<forall>p \<in> set (p # ps). failover (st w) p \<longrightarrow>
                          \<not> (va \<in> set vas \<and> detaches (claims_of (st w) p) va)) (fs_vas (st w))\<rparr>"
      unfolding s' frame pods1 vas1
      using True by (simp add: s1 detach_all_def drop_pod_def conj_commute)
    moreover have "bindP (fencePod k8s api p vas) (\<lambda>_. retP ()) w = (Ret (), w1)"
      by (simp add: bindP_run retP_run run)
    then have "forP (\<lambda>p u. bindP (fencePod k8s api p vas) (\<lambda>_. retP ())) (p # ps) () w = (Ret (), w')"
      using r by (simp add: bindP_Ret)
    ultimately show ?thesis using \<open>ok w'\<close> by blast
  qed
qed

lemma fenceNode_run:
  assumes "ok w" and known: "\<forall>p \<in> set (on_node (cr_Name n) (st w)). pod_fenced p \<longrightarrow> claims_known (st w) p"
    and plain: "plain_vas (vas_on (cr_Name n) (st w))"
  shows "\<exists>w'. fenceNode k8s api n w = (Ret None, w') \<and> ok w' \<and>
           st w' = (st w)\<lparr>
             fs_pods := filter (\<lambda>p. \<not> (pod_NodeName p = cr_Name n \<and> failover (st w) p)) (fs_pods (st w)),
             fs_vas := filter (\<lambda>va. \<not> (va_NodeName va = cr_Name n \<and>
                          list_ex (\<lambda>p. failover (st w) p \<and> detaches (claims_of (st w) p) va) (on_node (cr_Name n) (st w))))
                          (fs_vas (st w))\<rparr>"
proof -
  let ?s = "st w" and ?ps = "filter (target (st w)) (on_node (cr_Name n) (st w))" and ?vas = "vas_on (cr_Name n) (st w)"
  have dp: "distinct (map (\<lambda>p. meta_key (pod_meta p)) (fs_pods ?s))"
    and dv: "distinct (map (\<lambda>va. meta_Name (va_meta va)) (fs_vas ?s))"
    using wf [OF assms(1)] by (simp_all add: wf_fstate_def)
  have "\<forall>p \<in> set ?ps. claims_known ?s p \<and> target ?s p \<and> p \<in> set (fs_pods ?s)"
    using known by (auto simp: target_def)
  moreover have "distinct (map (\<lambda>p. meta_key (pod_meta p)) ?ps)"
    using dp by (simp add: distinct_map_filter)
  ultimately obtain w' where
    run: "forP (\<lambda>p u. bindP (fencePod k8s api p ?vas) (\<lambda>_. retP ())) ?ps () w = (Ret (), w')" and o': "ok w'"
    and s': "st w' = ?s\<lparr>
        fs_pods := filter (\<lambda>q. \<forall>p \<in> set ?ps. failover ?s p \<longrightarrow> meta_key (pod_meta q) \<noteq> meta_key (pod_meta p)) (fs_pods ?s),
        fs_vas := filter (\<lambda>va. \<forall>p \<in> set ?ps. failover ?s p \<longrightarrow> \<not> (va \<in> set ?vas \<and> detaches (claims_of ?s p) va)) (fs_vas ?s)\<rparr>"
    using pods_loop [OF assms(1) _ _ plain dv filter_is_subset subset_refl, of ?ps] by blast
  have pods: "filter (\<lambda>q. \<forall>p \<in> set ?ps. failover ?s p \<longrightarrow> meta_key (pod_meta q) \<noteq> meta_key (pod_meta p)) (fs_pods ?s) =
      filter (\<lambda>p. \<not> (pod_NodeName p = cr_Name n \<and> failover ?s p)) (fs_pods ?s)"
  proof (rule filter_cong [OF refl])
    fix q assume q: "q \<in> set (fs_pods ?s)"
    have "meta_key (pod_meta q) = meta_key (pod_meta p) \<longleftrightarrow> q = p" if "p \<in> set (fs_pods ?s)" for p
      using dp q that by (auto simp: distinct_map inj_on_def)
    then have "(\<forall>p \<in> set ?ps. failover ?s p \<longrightarrow> meta_key (pod_meta q) \<noteq> meta_key (pod_meta p)) \<longleftrightarrow>
        (\<forall>p \<in> set ?ps. failover ?s p \<longrightarrow> q \<noteq> p)"
      by (intro ball_cong refl) simp
    with q show "(\<forall>p \<in> set ?ps. failover ?s p \<longrightarrow> meta_key (pod_meta q) \<noteq> meta_key (pod_meta p)) =
        (\<not> (pod_NodeName q = cr_Name n \<and> failover ?s q))"
      by (simp add: failover_def) blast
  qed
  have vas: "filter (\<lambda>va. \<forall>p \<in> set ?ps. failover ?s p \<longrightarrow> \<not> (va \<in> set ?vas \<and> detaches (claims_of ?s p) va)) (fs_vas ?s) =
      filter (\<lambda>va. \<not> (va_NodeName va = cr_Name n \<and>
         list_ex (\<lambda>p. failover ?s p \<and> detaches (claims_of ?s p) va) (on_node (cr_Name n) ?s))) (fs_vas ?s)"
    by (rule filter_cong [OF refl]) (auto simp: list_ex_iff failover_def)
  have "bindP (forP (\<lambda>p u. bindP (fencePod k8s api p ?vas) (\<lambda>_. retP ())) ?ps ()) (\<lambda>_. retP None) w = (Ret None, w')"
    unfolding bindP_run [of "forP _ _ _"] run by (simp add: retP_run)
  then have "fenceNode k8s api n w = (Ret None, w')"
    by (simp only: fenceNode_def tryE_run callP_run list_vas [OF assms(1)] getTargetPods_run(1) [OF assms(1) known]
        fst_conv snd_conv prod.case outcome.case sum.case)
  with o' s' [unfolded pods vas] show ?thesis by (intro exI [of _ w'] conjI)
qed

lemma fenceNode_blocked:
  assumes "ok w" and "p \<in> set (on_node (cr_Name n) (st w))" and "pod_fenced p" and "\<not> claims_known (st w) p"
  shows "\<exists>e. fenceNode k8s api n w = (Ret (Some e), w)"
  using getTargetPods_run(2) [OF assms] list_vas [OF assms(1), of "cr_Name n"]
  by (auto simp: fenceNode_def tryE_run)

end

section \<open>The contract on a store in memory\<close>

record fence_world = mem +
  fw_pods :: "pod list"
  fw_vas :: "volume_attachment list"
  fw_pvcs :: "objkey \<rightharpoonup> pvc"
  fw_pvs :: "objkey \<rightharpoonup> pv"

definition fw_found :: "'a option \<Rightarrow> goerr + 'a" where
  "fw_found x = (case x of None \<Rightarrow> Inl not_found | Some a \<Rightarrow> Inr a)"

definition mem_pods :: "fence_world k8s_client" where
  "mem_pods = empty_k8s\<lparr>
     k8s_ListPods := (\<lambda>n w. (Inr (filter (\<lambda>p. pod_NodeName p = n) (fw_pods w)), w)),
     k8s_ListVolumeAttachments := (\<lambda>n w. (Inr (filter (\<lambda>va. va_NodeName va = n) (fw_vas w)), w)),
     k8s_GetPVC := (\<lambda>k w. (fw_found (fw_pvcs w k), w)),
     k8s_GetPV := (\<lambda>k w. (fw_found (fw_pvs w k), w)),
     k8s_DeletePod := (\<lambda>p g w. (None, w\<lparr>fw_pods := filter (\<lambda>q. meta_key (pod_meta q) \<noteq> meta_key (pod_meta p)) (fw_pods w)\<rparr>)),
     k8s_DeleteVolumeAttachment := (\<lambda>va g w.
       (None, w\<lparr>fw_vas := filter (\<lambda>v. meta_Name (va_meta v) \<noteq> meta_Name (va_meta va)) (fw_vas w)\<rparr>))\<rparr>"

text \<open>A volume by the names of its namespace and itself, as StorageOS lists them.\<close>

definition mem_volume :: "'a mem_scheme \<Rightarrow> objkey \<rightharpoonup> sobject" where
  "mem_volume w k =
     Option.bind (find (\<lambda>ns. ns_Name ns = key_Namespace k) (mem_namespaces w)) (\<lambda>ns.
       map_option volume_object
         (find (\<lambda>v. vol_Name v = key_Name k) (filter (\<lambda>v. vol_NamespaceID v = ns_Id ns) (mem_volumes w))))"

definition mem_fstate :: "fence_world \<Rightarrow> fstate" where
  "mem_fstate w =
     \<lparr>fs_pods = fw_pods w, fs_vas = fw_vas w, fs_pvcs = fw_pvcs w, fs_pvs = fw_pvs w, fs_vols = mem_volume w\<rparr>"

lemma mem_volume_frame [simp]: "mem_volume (w\<lparr>fw_pods := a\<rparr>) = mem_volume w" "mem_volume (w\<lparr>fw_vas := b\<rparr>) = mem_volume w"
  by (simp_all add: mem_volume_def fun_eq_iff)

lemma mem_GetVolume:
  "mem_volume w k = Some x \<Longrightarrow> GetVolume mem_cp c k w = (Ret (Inr x), w)"
  "mem_volume w k = None \<Longrightarrow> \<exists>e. GetVolume mem_cp c k w = (Ret (Inl e), w)"
  by (auto simp: mem_volume_def GetVolume_def Let_def getVolume_def tryP_run apiP_run retP_run getNamespace_run
      mem_cp_def split: option.splits Option.bind_splits)

interpretation mem_fencing: fencing_cluster mem_pods "client_node_fencer mem_cp NewTestAPIClient" mem_fstate
  "\<lambda>w. wf_fstate (mem_fstate w)"
  by unfold_locales
     (auto simp: mem_pods_def mem_fstate_def fw_found_def client_node_fencer_def mem_GetVolume wf_fstate_def
        drop_pod_def drop_va_def distinct_map_filter)


section \<open>Properties\<close>

text \<open>
  C14. Fencing a node deletes exactly the pods that can fail over. On a cluster whose
  deletions succeed, where the claims of the fenced pods of the node exist and its
  attachments are of persistent volumes, one run of \<open>fenceNode\<close> ends without an
  error; gone are the pods of that node that carry the fenced label, have a StorageOS
  volume and whose StorageOS volumes are all healthy, and the StorageOS attachments of
  their claims on that node, and nothing else has changed. What the next check still
  finds to fence are the pods with a volume that is unhealthy or unknown.
\<close>

theorem fenceNode_exact:
  assumes "fencing_cluster k8s api st ok" and "ok w"
    and "\<forall>p \<in> set (fs_pods (st w)). pod_NodeName p = cr_Name n \<and> pod_fenced p \<longrightarrow> claims_known (st w) p"
    and "plain_vas (vas_on (cr_Name n) (st w))"
  shows "\<exists>w'. fenceNode k8s api n w = (Ret None, w') \<and>
           st w' = (st w)\<lparr>
             fs_pods := filter (\<lambda>p. \<not> (pod_NodeName p = cr_Name n \<and> failover (st w) p)) (fs_pods (st w)),
             fs_vas := filter (\<lambda>va. \<not> (va_NodeName va = cr_Name n \<and>
                          list_ex (\<lambda>p. failover (st w) p \<and> detaches (claims_of (st w) p) va) (on_node (cr_Name n) (st w))))
                          (fs_vas (st w))\<rparr> \<and>
           getTargetPods k8s n w' =
             (Ret (Inr (filter (\<lambda>p. pod_NodeName p = cr_Name n \<and> target (st w) p \<and> \<not> failover (st w) p)
                          (fs_pods (st w)))), w')"
proof -
  have known: "\<forall>p \<in> set (on_node (cr_Name n) (st w)). pod_fenced p \<longrightarrow> claims_known (st w) p"
    using assms(3) by simp
  from fencing_cluster.fenceNode_run [OF assms(1,2) known assms(4)] obtain w' where
    run: "fenceNode k8s api n w = (Ret None, w')" and o': "ok w'"
    and s': "st w' = (st w)\<lparr>
             fs_pods := filter (\<lambda>p. \<not> (pod_NodeName p = cr_Name n \<and> failover (st w) p)) (fs_pods (st w)),
             fs_vas := filter (\<lambda>va. \<not> (va_NodeName va = cr_Name n \<and>
                          list_ex (\<lambda>p. failover (st w) p \<and> detaches (claims_of (st w) p) va) (on_node (cr_Name n) (st w))))
                          (fs_vas (st w))\<rparr>" by blast
  have frame: "target (st w') = target (st w)" "claims_known (st w') = claims_known (st w)"
    by (rule fstate_frame; simp add: s')+
  have "\<forall>p \<in> set (on_node (cr_Name n) (st w')). pod_fenced p \<longrightarrow> claims_known (st w') p"
    unfolding frame using known by (simp add: s')
  note left = fencing_cluster.getTargetPods_run(1) [OF assms(1) o' this]
  have "filter (target (st w')) (on_node (cr_Name n) (st w')) =
      filter (\<lambda>p. pod_NodeName p = cr_Name n \<and> target (st w) p \<and> \<not> failover (st w) p) (fs_pods (st w))"
    unfolding frame by (auto simp: s' intro!: filter_cong)
  with left have "getTargetPods k8s n w' =
      (Ret (Inr (filter (\<lambda>p. pod_NodeName p = cr_Name n \<and> target (st w) p \<and> \<not> failover (st w) p) (fs_pods (st w)))), w')"
    by simp
  with run s' show ?thesis by (intro exI [of _ w'] conjI)
qed

definition sample_va :: volume_attachment where
  "sample_va = \<lparr>va_meta = empty_meta\<lparr>meta_Name := ''csi-1''\<rparr>, va_Attacher = ''csi.storageos.com'',
     va_NodeName = ''worker-1'', va_PersistentVolumeName = Some ''pvc-1''\<rparr>"

text \<open>The second pod has a claim that is gone; the claim of the first one is \<open>sample_pvc\<close>.\<close>

definition lost_pod :: pod where
  "lost_pod = sample_pod\<lparr>pod_meta := (pod_meta sample_pod)\<lparr>meta_Name := ''db-1''\<rparr>,
     pod_Volumes := [\<lparr>pvol_Name = ''v'', pvol_ClaimName = Some ''lost''\<rparr>]\<rparr>"

definition sample_fence_world :: "pod list \<Rightarrow> fence_world" where
  "sample_fence_world ps =
     \<lparr>mem_namespaces = [sample_namespace], mem_nodes = [], mem_volumes = [sample_volume],
      fw_pods = ps, fw_vas = [sample_va], fw_pvcs = [mk_key ''default'' ''data'' \<mapsto> sample_pvc], fw_pvs = Map.empty\<rparr>"

lemmas fence_sample_simps = mem_fstate_def sample_fence_world_def sample_va_def sample_pod_def sample_pvc_def
  lost_pod_def empty_meta_def smap_get_def

theorem fenceNode_exact_witness:
  "\<exists>w'. fenceNode mem_pods (client_node_fencer mem_cp NewTestAPIClient) (nodeToCR sample_node)
          (sample_fence_world [sample_pod]) = (Ret None, w') \<and> fw_pods w' = [] \<and> fw_vas w' = []"
proof -
  let ?w = "sample_fence_world [sample_pod]" and ?n = "nodeToCR sample_node"
  have n: "cr_Name ?n = ''worker-1''" by (simp add: nodeToCR_def sample_node_def Let_def)
  have claims: "claims_of (mem_fstate ?w) sample_pod = [sample_pvc]"
    by (simp add: claims_of_def vol_claims_def claim_key_def stos_claim_def fence_sample_simps)
  have "mem_volume ?w (mk_key ''default'' ''pvc-1'') = Some (volume_object sample_volume)"
    by (simp add: mem_volume_def sample_fence_world_def sample_simps)
  then have fail: "failover (mem_fstate ?w) sample_pod"
    unfolding failover_def target_def claims
    by (simp add: volKeys_def healthy_key_def volume_object_def pod_fenced_def ParseBool_def fence_sample_simps sample_simps)
  have ok: "wf_fstate (mem_fstate ?w)" and plain: "plain_vas (vas_on (cr_Name ?n) (mem_fstate ?w))"
    by (simp_all add: wf_fstate_def plain_vas_def n fence_sample_simps)
  have known: "claims_known (mem_fstate ?w) sample_pod"
    by (simp add: claims_known_def claim_key_def fence_sample_simps)
  have pods: "fs_pods (mem_fstate ?w) = [sample_pod]" and vas: "fs_vas (mem_fstate ?w) = [sample_va]"
    by (simp_all add: mem_fstate_def sample_fence_world_def)
  have at: "pod_NodeName sample_pod = ''worker-1''" "va_NodeName sample_va = ''worker-1''" "detaches [sample_pvc] sample_va"
    by (simp_all add: sample_pod_def sample_va_def sample_pvc_def detaches_def)
  from fenceNode_exact [OF mem_fencing.fencing_cluster_axioms ok _ plain] known obtain w' where
    "fenceNode mem_pods (client_node_fencer mem_cp NewTestAPIClient) ?n ?w = (Ret None, w')"
    and "mem_fstate w' = (mem_fstate ?w)\<lparr>
             fs_pods := filter (\<lambda>p. \<not> (pod_NodeName p = cr_Name ?n \<and> failover (mem_fstate ?w) p)) (fs_pods (mem_fstate ?w)),
             fs_vas := filter (\<lambda>va. \<not> (va_NodeName va = cr_Name ?n \<and>
                          list_ex (\<lambda>p. failover (mem_fstate ?w) p \<and> detaches (claims_of (mem_fstate ?w) p) va)
                            (on_node (cr_Name ?n) (mem_fstate ?w)))) (fs_vas (mem_fstate ?w))\<rparr>"
    unfolding pods by auto
  with pods vas at n fail claims show ?thesis by (auto simp: mem_fstate_def)
qed

text \<open>
  C15. One fenced pod whose claim is gone keeps a whole node from being fenced. When
  the claim of any fenced pod of the node cannot be found, \<open>fenceNode\<close> returns an
  error and deletes nothing, whatever the state of the other pods and their volumes.
\<close>

theorem fenceNode_blocked_by_lost_claim:
  assumes "fencing_cluster k8s api st ok" and "ok w"
    and "p \<in> set (fs_pods (st w))" and "pod_NodeName p = cr_Name n" and "pod_fenced p" and "\<not> claims_known (st w) p"
  shows "\<exists>e. fenceNode k8s api n w = (Ret (Some e), w)"
  using assms by (intro fencing_cluster.fenceNode_blocked [OF assms(1,2) _ assms(5,6)]) simp

theorem fenceNode_blocked_by_lost_claim_witness:
  "\<exists>e. fenceNode mem_pods (client_node_fencer mem_cp NewTestAPIClient) (nodeToCR sample_node)
         (sample_fence_world [sample_pod, lost_pod]) = (Ret (Some e), sample_fence_world [sample_pod, lost_pod])"
proof (rule fenceNode_blocked_by_lost_claim [OF mem_fencing.fencing_cluster_axioms, where p = lost_pod])
  show "wf_fstate (mem_fstate (sample_fence_world [sample_pod, lost_pod]))"
    by (simp add: wf_fstate_def meta_key_def fence_sample_simps)
  show "lost_pod \<in> set (fs_pods (mem_fstate (sample_fence_world [sample_pod, lost_pod])))"
    by (simp add: mem_fstate_def sample_fence_world_def)
  show "pod_NodeName lost_pod = cr_Name (nodeToCR sample_node)"
    by (simp add: lost_pod_def sample_pod_def nodeToCR_def sample_node_def Let_def)
  show "pod_fenced lost_pod"
    by (simp add: pod_fenced_def ParseBool_def fence_sample_simps)
  show "\<not> claims_known (mem_fstate (sample_fence_world [sample_pod, lost_pod])) lost_pod"
    by (simp add: claims_known_def claim_key_def fence_sample_simps)
qed

end
