(* ===== verification/Deepcopy.thy ===== *)
theory Deepcopy
  imports Nodes "HOL-Library.State_Monad"
begin

text \<open>
  \<open>api/v1/zz_generated.deepcopy.go\<close>, the deep copies of the node resource of
  \<open>api/v1/node_types.go\<close>, with the ones of the metadata they call
  (\<open>zz_generated.deepcopy.go\<close> of the vendored \<open>apimachinery\<close>). What matters here is
  sharing, so this theory has an explicit heap: pointers, maps and slices are
  addresses, and a copy has to allocate. A slice is a reference to its elements; the
  models make no slices that share an array.
\<close>

section \<open>The heap\<close>

type_synonym ref = "nat option"

record OwnerReference =
  orf_APIVersion :: string
  orf_Kind :: string
  orf_Name :: string
  orf_UID :: string
  orf_Controller :: ref
  orf_BlockOwnerDeletion :: ref

record FieldsV1 =
  fv_Raw :: ref

record ManagedFieldsEntry =
  mf_Manager :: string
  mf_Operation :: string
  mf_APIVersion :: string
  mf_Time :: ref
  mf_FieldsType :: string
  mf_FieldsV1 :: ref

record ObjectMeta =
  om_Name :: string
  om_GenerateName :: string
  om_Namespace :: string
  om_SelfLink :: string
  om_UID :: string
  om_ResourceVersion :: string
  om_Generation :: "64 word"
  om_CreationTimestamp :: int
  om_DeletionTimestamp :: ref
  om_DeletionGracePeriodSeconds :: ref
  om_Labels :: ref
  om_Annotations :: ref
  om_OwnerReferences :: ref
  om_Finalizers :: ref
  om_ClusterName :: string
  om_ManagedFields :: ref

record ListMeta =
  lm_SelfLink :: string
  lm_ResourceVersion :: string
  lm_Continue :: string
  lm_RemainingItemCount :: ref

record TypeMeta =
  tm_Kind :: string
  tm_APIVersion :: string

record Node =
  nd_TypeMeta :: TypeMeta
  nd_ObjectMeta :: ObjectMeta
  nd_Spec :: NodeSpec
  nd_Status :: NodeStatus

record NodeList =
  nl_TypeMeta :: TypeMeta
  nl_ListMeta :: ListMeta
  nl_Items :: ref

text \<open>What an address can hold: the value behind a pointer, the entries of a map, the elements of a slice.\<close>

datatype (plugins only: code size) cell =
    TimeCell int
  | Int64Cell "64 word"
  | BoolCell bool
  | MapCell "(string \<times> string) list"
  | StringsCell "string list"
  | BytesCell "8 word list"
  | FieldsV1Cell FieldsV1
  | OwnersCell "OwnerReference list"
  | ManagedCell "ManagedFieldsEntry list"
  | CapacityCell node_capacity
  | SpecCell NodeSpec
  | StatusCell NodeStatus
  | NodeCell Node
  | NodesCell "Node list"
  | NodeListCell NodeList

record heap =
  h_cells :: "nat \<Rightarrow> cell option"
  h_next :: nat

definition wf_heap :: "heap \<Rightarrow> bool" where
  "wf_heap h \<longleftrightarrow> (\<forall>a. h_cells h a \<noteq> None \<longrightarrow> a < h_next h)"

definition load :: "nat \<Rightarrow> (heap, cell option) state" where
  "load a = State (\<lambda>h. (h_cells h a, h))"

definition alloc :: "cell \<Rightarrow> (heap, nat) state" where
  "alloc c = State (\<lambda>h. (h_next h, h\<lparr>h_cells := (h_cells h)(h_next h \<mapsto> c), h_next := Suc (h_next h)\<rparr>))"

lemma run_load [simp]: "run_state (load a) h = (h_cells h a, h)"
  by (simp add: load_def)

lemma run_alloc [simp]:
  "run_state (alloc c) h = (h_next h, h\<lparr>h_cells := (h_cells h)(h_next h \<mapsto> c), h_next := Suc (h_next h)\<rparr>)"
  by (simp add: alloc_def)

text \<open>
  The generated pattern for a pointer, map or slice: \<open>nil\<close> is kept, anything else is
  read, its contents are copied and a new cell is made for them. \<open>un\<close> and \<open>mk\<close> give
  the type of the cell; a reference of Go always leads to a cell of its type.
\<close>

definition copy_ref ::
  "(cell \<Rightarrow> 'p option) \<Rightarrow> ('p \<Rightarrow> cell) \<Rightarrow> ('p \<Rightarrow> (heap, 'p) state) \<Rightarrow> ref \<Rightarrow> (heap, ref) state" where
  "copy_ref un mk cp p =
     (case p of
        None \<Rightarrow> State_Monad.return None
      | Some a \<Rightarrow> do {
          c \<leftarrow> load a;
          case Option.bind c un of
            None \<Rightarrow> State_Monad.return None
          | Some x \<Rightarrow> do { y \<leftarrow> cp x; b \<leftarrow> alloc (mk y); State_Monad.return (Some b) } })"

fun asTime :: "cell \<Rightarrow> int option" where
  "asTime (TimeCell t) = Some t"
| "asTime _ = None"

fun asInt64 :: "cell \<Rightarrow> 64 word option" where
  "asInt64 (Int64Cell i) = Some i"
| "asInt64 _ = None"

fun asBool :: "cell \<Rightarrow> bool option" where
  "asBool (BoolCell b) = Some b"
| "asBool _ = None"

fun asMap :: "cell \<Rightarrow> (string \<times> string) list option" where
  "asMap (MapCell xs) = Some xs"
| "asMap _ = None"

fun asStrings :: "cell \<Rightarrow> string list option" where
  "asStrings (StringsCell xs) = Some xs"
| "asStrings _ = None"

fun asBytes :: "cell \<Rightarrow> 8 word list option" where
  "asBytes (BytesCell xs) = Some xs"
| "asBytes _ = None"

fun asFieldsV1 :: "cell \<Rightarrow> FieldsV1 option" where
  "asFieldsV1 (FieldsV1Cell f) = Some f"
| "asFieldsV1 _ = None"

fun asOwners :: "cell \<Rightarrow> OwnerReference list option" where
  "asOwners (OwnersCell os) = Some os"
| "asOwners _ = None"

fun asManaged :: "cell \<Rightarrow> ManagedFieldsEntry list option" where
  "asManaged (ManagedCell ms) = Some ms"
| "asManaged _ = None"

fun asCapacity :: "cell \<Rightarrow> node_capacity option" where
  "asCapacity (CapacityCell c) = Some c"
| "asCapacity _ = None"

fun asSpec :: "cell \<Rightarrow> NodeSpec option" where
  "asSpec (SpecCell s) = Some s"
| "asSpec _ = None"

fun asStatus :: "cell \<Rightarrow> NodeStatus option" where
  "asStatus (StatusCell s) = Some s"
| "asStatus _ = None"

fun asNode :: "cell \<Rightarrow> Node option" where
  "asNode (NodeCell n) = Some n"
| "asNode _ = None"

fun asNodes :: "cell \<Rightarrow> Node list option" where
  "asNodes (NodesCell ns) = Some ns"
| "asNodes _ = None"

fun asNodeList :: "cell \<Rightarrow> NodeList option" where
  "asNodeList (NodeListCell l) = Some l"
| "asNodeList _ = None"

section \<open>Metadata\<close>

text \<open>
  A \<open>DeepCopyInto\<close> takes the value of its receiver and gives the value it leaves in
  \<open>*out\<close>, which its first statement overwrites. Maps are copied entry by entry in the
  order they are visited.
\<close>

definition copy_value :: "'a \<Rightarrow> (heap, 'a) state" where
  "copy_value x = State_Monad.return x"

definition copy_map :: "(string \<times> string) list \<Rightarrow> (heap, (string \<times> string) list) state" where
  "copy_map xs = State_Monad.return (range_copy (\<lambda>_. True) xs [])"

definition OwnerReference_DeepCopyInto :: "OwnerReference \<Rightarrow> (heap, OwnerReference) state" where
  "OwnerReference_DeepCopyInto x = do {
     c \<leftarrow> copy_ref asBool BoolCell copy_value (orf_Controller x);
     b \<leftarrow> copy_ref asBool BoolCell copy_value (orf_BlockOwnerDeletion x);
     State_Monad.return (x\<lparr>orf_Controller := c, orf_BlockOwnerDeletion := b\<rparr>) }"

definition FieldsV1_DeepCopyInto :: "FieldsV1 \<Rightarrow> (heap, FieldsV1) state" where
  "FieldsV1_DeepCopyInto x = do {
     raw \<leftarrow> copy_ref asBytes BytesCell copy_value (fv_Raw x);
     State_Monad.return (x\<lparr>fv_Raw := raw\<rparr>) }"

definition ManagedFieldsEntry_DeepCopyInto :: "ManagedFieldsEntry \<Rightarrow> (heap, ManagedFieldsEntry) state" where
  "ManagedFieldsEntry_DeepCopyInto x = do {
     t \<leftarrow> copy_ref asTime TimeCell copy_value (mf_Time x);
     f \<leftarrow> copy_ref asFieldsV1 FieldsV1Cell FieldsV1_DeepCopyInto (mf_FieldsV1 x);
     State_Monad.return (x\<lparr>mf_Time := t, mf_FieldsV1 := f\<rparr>) }"

definition ObjectMeta_DeepCopyInto :: "ObjectMeta \<Rightarrow> (heap, ObjectMeta) state" where
  "ObjectMeta_DeepCopyInto x = do {
     t \<leftarrow> copy_ref asTime TimeCell copy_value (om_DeletionTimestamp x);
     g \<leftarrow> copy_ref asInt64 Int64Cell copy_value (om_DeletionGracePeriodSeconds x);
     l \<leftarrow> copy_ref asMap MapCell copy_map (om_Labels x);
     a \<leftarrow> copy_ref asMap MapCell copy_map (om_Annotations x);
     o' \<leftarrow> copy_ref asOwners OwnersCell (State_Monad.traverse_list OwnerReference_DeepCopyInto) (om_OwnerReferences x);
     f \<leftarrow> copy_ref asStrings StringsCell copy_value (om_Finalizers x);
     m \<leftarrow> copy_ref asManaged ManagedCell (State_Monad.traverse_list ManagedFieldsEntry_DeepCopyInto) (om_ManagedFields x);
     State_Monad.return (x\<lparr>om_DeletionTimestamp := t, om_DeletionGracePeriodSeconds := g, om_Labels := l,
                           om_Annotations := a, om_OwnerReferences := o', om_Finalizers := f,
                           om_ManagedFields := m\<rparr>) }"

definition ListMeta_DeepCopyInto :: "ListMeta \<Rightarrow> (heap, ListMeta) state" where
  "ListMeta_DeepCopyInto x = do {
     r \<leftarrow> copy_ref asInt64 Int64Cell copy_value (lm_RemainingItemCount x);
     State_Monad.return (x\<lparr>lm_RemainingItemCount := r\<rparr>) }"

section \<open>The node resource\<close>

definition CapacityStats_DeepCopyInto :: "node_capacity \<Rightarrow> (heap, node_capacity) state" where
  "CapacityStats_DeepCopyInto x = State_Monad.return x"

definition CapacityStats_DeepCopy :: "ref \<Rightarrow> (heap, ref) state" where
  "CapacityStats_DeepCopy = copy_ref asCapacity CapacityCell CapacityStats_DeepCopyInto"

definition NodeSpec_DeepCopyInto :: "NodeSpec \<Rightarrow> (heap, NodeSpec) state" where
  "NodeSpec_DeepCopyInto x = State_Monad.return x"

definition NodeSpec_DeepCopy :: "ref \<Rightarrow> (heap, ref) state" where
  "NodeSpec_DeepCopy = copy_ref asSpec SpecCell NodeSpec_DeepCopyInto"

definition NodeStatus_DeepCopyInto :: "NodeStatus \<Rightarrow> (heap, NodeStatus) state" where
  "NodeStatus_DeepCopyInto x = State_Monad.return (x\<lparr>Capacity := Capacity x\<rparr>)"

definition NodeStatus_DeepCopy :: "ref \<Rightarrow> (heap, ref) state" where
  "NodeStatus_DeepCopy = copy_ref asStatus StatusCell NodeStatus_DeepCopyInto"

definition Node_DeepCopyInto :: "Node \<Rightarrow> (heap, Node) state" where
  "Node_DeepCopyInto x = do {
     meta \<leftarrow> ObjectMeta_DeepCopyInto (nd_ObjectMeta x);
     State_Monad.return (x\<lparr>nd_TypeMeta := nd_TypeMeta x, nd_ObjectMeta := meta, nd_Spec := nd_Spec x,
                           nd_Status := nd_Status x\<rparr>) }"

definition Node_DeepCopy :: "ref \<Rightarrow> (heap, ref) state" where
  "Node_DeepCopy = copy_ref asNode NodeCell Node_DeepCopyInto"

definition NodeList_DeepCopyInto :: "NodeList \<Rightarrow> (heap, NodeList) state" where
  "NodeList_DeepCopyInto x = do {
     meta \<leftarrow> ListMeta_DeepCopyInto (nl_ListMeta x);
     items \<leftarrow> copy_ref asNodes NodesCell (State_Monad.traverse_list Node_DeepCopyInto) (nl_Items x);
     State_Monad.return (x\<lparr>nl_TypeMeta := nl_TypeMeta x, nl_ListMeta := meta, nl_Items := items\<rparr>) }"

definition NodeList_DeepCopy :: "ref \<Rightarrow> (heap, ref) state" where
  "NodeList_DeepCopy = copy_ref asNodeList NodeListCell NodeList_DeepCopyInto"

text \<open>An interface value is nil or a pointer with its type; a nil pointer does not become a typed nil.\<close>

datatype runtime_object = NodeObject nat | NodeListObject nat

definition Node_DeepCopyObject :: "ref \<Rightarrow> (heap, runtime_object option) state" where
  "Node_DeepCopyObject p = do {
     c \<leftarrow> Node_DeepCopy p;
     State_Monad.return (case c of Some a \<Rightarrow> Some (NodeObject a) | None \<Rightarrow> None) }"

definition NodeList_DeepCopyObject :: "ref \<Rightarrow> (heap, runtime_object option) state" where
  "NodeList_DeepCopyObject p = do {
     c \<leftarrow> NodeList_DeepCopy p;
     State_Monad.return (case c of Some a \<Rightarrow> Some (NodeListObject a) | None \<Rightarrow> None) }"


section \<open>The contract of a deep copy\<close>

text \<open>
  For a kind of value: when it is valid in a heap (its references lead to cells of
  their types), what it stands for with all references followed, and the addresses it
  reaches. A deep copy leaves every cell that is there alone, stands for the same
  and reaches fresh addresses only.
\<close>

definition heap_le :: "heap \<Rightarrow> heap \<Rightarrow> bool" where
  "heap_le h h' \<longleftrightarrow> h_cells h \<subseteq>\<^sub>m h_cells h' \<and> h_next h \<le> h_next h' \<and> wf_heap h'"

lemma heap_le_trans: "heap_le h h1 \<Longrightarrow> heap_le h1 h2 \<Longrightarrow> heap_le h h2"
  by (auto simp: heap_le_def intro: map_le_trans)

lemma heap_le_refl: "wf_heap h \<Longrightarrow> heap_le h h"
  by (simp add: heap_le_def)

lemma heap_le_alloc: "wf_heap h \<Longrightarrow> heap_le h (snd (run_state (alloc c) h))"
  by (auto simp: heap_le_def wf_heap_def map_le_def dom_def)

locale deep_copier =
  fixes cp :: "'a \<Rightarrow> (heap, 'a) state"
    and valid :: "heap \<Rightarrow> 'a \<Rightarrow> bool"
    and vw :: "heap \<Rightarrow> 'a \<Rightarrow> 'v"
    and rf :: "heap \<Rightarrow> 'a \<Rightarrow> nat set"
  assumes live: "valid h x \<Longrightarrow> rf h x \<subseteq> dom (h_cells h)"
    and local: "valid h x \<Longrightarrow> \<forall>a \<in> rf h x. h_cells h' a = h_cells h a \<Longrightarrow>
      valid h' x \<and> vw h' x = vw h x \<and> rf h' x = rf h x"
    and copies: "wf_heap h \<Longrightarrow> valid h x \<Longrightarrow> run_state (cp x) h = (y, h') \<Longrightarrow>
      heap_le h h' \<and> valid h' y \<and> vw h' y = vw h x \<and> rf h' y \<subseteq> {h_next h..<h_next h'}"
begin

lemma grows:
  assumes "valid h x" and "heap_le h h'"
  shows "valid h' x \<and> vw h' x = vw h x \<and> rf h' x = rf h x"
proof (rule local [OF assms(1)], rule ballI)
  fix a assume "a \<in> rf h x"
  with live [OF assms(1)] assms(2) show "h_cells h' a = h_cells h a"
    unfolding heap_le_def map_le_def by (metis subsetD)
qed

text \<open>
  The copy and the original share nothing: whatever is done to the cells the copy
  reaches, and to new ones, the original stands for the same; and the other way round.
\<close>

lemma separate:
  assumes "wf_heap h" and "valid h x" and "run_state (cp x) h = (y, h')"
  shows "rf h' x \<inter> rf h' y = {}"
proof -
  have "rf h' x = rf h x" and "rf h' y \<subseteq> {h_next h..<h_next h'}"
    using grows [OF assms(2)] copies [OF assms] by auto
  moreover have "rf h x \<subseteq> {..<h_next h}"
    using live [OF assms(2)] assms(1) by (auto simp: wf_heap_def)
  ultimately show ?thesis by force
qed

lemma independent:
  assumes "wf_heap h" and "valid h x" and "run_state (cp x) h = (y, h')"
  shows "\<forall>a. a \<notin> rf h' y \<longrightarrow> h_cells h2 a = h_cells h' a \<Longrightarrow> vw h2 x = vw h x"
    and "\<forall>a. a \<notin> rf h' x \<longrightarrow> h_cells h2 a = h_cells h' a \<Longrightarrow> vw h2 y = vw h x"
proof -
  note le = copies [OF assms]
  note x' = grows [OF assms(2) le [THEN conjunct1]]
  show "vw h2 x = vw h x" if "\<forall>a. a \<notin> rf h' y \<longrightarrow> h_cells h2 a = h_cells h' a"
    using local [of h' x h2] separate [OF assms] that x' by auto
  show "vw h2 y = vw h x" if "\<forall>a. a \<notin> rf h' x \<longrightarrow> h_cells h2 a = h_cells h' a"
    using local [of h' y h2] separate [OF assms] that le by auto
qed

end

section \<open>Building deep copies\<close>

lemma deep_copier_value: "deep_copier copy_value (\<lambda>h x. True) (\<lambda>h x. x) (\<lambda>h x. {})"
  by unfold_locales (auto simp: copy_value_def heap_le_refl)

lemma deep_copier_map: "deep_copier copy_map (\<lambda>h xs. distinct (map fst xs)) (\<lambda>h xs. map_of xs) (\<lambda>h x. {})"
proof
  fix h x y h'
  assume "wf_heap h" and d: "distinct (map fst x)" and "run_state (copy_map x) h = (y, h')"
  moreover have "map_of (range_copy (\<lambda>_. True) x []) = map_of x"
    using d by (auto simp: fun_eq_iff map_of_range_copy map_of_not_key)
  ultimately show "heap_le h h' \<and> distinct (map fst y) \<and> map_of y = map_of x \<and> {} \<subseteq> {h_next h..<h_next h'}"
    by (auto simp: copy_map_def heap_le_refl)
qed auto

text \<open>References: nil, or an address with a cell of the right type whose contents are valid.\<close>

definition ref_valid :: "(cell \<Rightarrow> 'p option) \<Rightarrow> (heap \<Rightarrow> 'p \<Rightarrow> bool) \<Rightarrow> heap \<Rightarrow> ref \<Rightarrow> bool" where
  "ref_valid un valid h p =
     (case p of None \<Rightarrow> True
      | Some a \<Rightarrow> (case Option.bind (h_cells h a) un of None \<Rightarrow> False | Some x \<Rightarrow> valid h x))"

definition ref_vw :: "(cell \<Rightarrow> 'p option) \<Rightarrow> (heap \<Rightarrow> 'p \<Rightarrow> 'v) \<Rightarrow> heap \<Rightarrow> ref \<Rightarrow> 'v option" where
  "ref_vw un vw h p = Option.bind p (\<lambda>a. map_option (vw h) (Option.bind (h_cells h a) un))"

definition ref_rf :: "(cell \<Rightarrow> 'p option) \<Rightarrow> (heap \<Rightarrow> 'p \<Rightarrow> nat set) \<Rightarrow> heap \<Rightarrow> ref \<Rightarrow> nat set" where
  "ref_rf un rf h p =
     (case p of None \<Rightarrow> {}
      | Some a \<Rightarrow> insert a (case Option.bind (h_cells h a) un of None \<Rightarrow> {} | Some x \<Rightarrow> rf h x))"

lemma ref_validE:
  assumes "ref_valid un valid h p"
  obtains "p = None" | a c x where "p = Some a" and "h_cells h a = Some c" and "un c = Some x" and "valid h x"
  using assms by (auto simp: ref_valid_def split: option.splits Option.bind_splits)

lemma deep_copier_ref:
  assumes "deep_copier cp valid vw rf" and un: "\<And>x. un (mk x) = Some x"
  shows "deep_copier (copy_ref un mk cp) (ref_valid un valid) (ref_vw un vw) (ref_rf un rf)"
proof -
  note d = assms(1)
  show ?thesis
  proof
    fix h p assume "ref_valid un valid h p"
    then show "ref_rf un rf h p \<subseteq> dom (h_cells h)"
      by (rule ref_validE) (use deep_copier.live [OF d] in \<open>auto simp: ref_rf_def\<close>)
  next
    fix h h' :: heap and p assume "ref_valid un valid h p" and "\<forall>a \<in> ref_rf un rf h p. h_cells h' a = h_cells h a"
    then show "ref_valid un valid h' p \<and> ref_vw un vw h' p = ref_vw un vw h p \<and> ref_rf un rf h' p = ref_rf un rf h p"
      by (elim ref_validE) (use deep_copier.local [OF d, of h _ h'] in \<open>auto simp: ref_rf_def ref_valid_def ref_vw_def\<close>)
  next
    fix h p q h' assume wf: "wf_heap h" and v: "ref_valid un valid h p"
      and run: "run_state (copy_ref un mk cp p) h = (q, h')"
    from v show "heap_le h h' \<and> ref_valid un valid h' q \<and> ref_vw un vw h' q = ref_vw un vw h p \<and>
        ref_rf un rf h' q \<subseteq> {h_next h..<h_next h'}"
    proof (cases rule: ref_validE)
      case 1
      with run wf show ?thesis by (auto simp: copy_ref_def heap_le_refl ref_valid_def ref_vw_def ref_rf_def)
    next
      case (2 a c x)
      obtain y h1 where y: "run_state (cp x) h = (y, h1)" by (cases "run_state (cp x) h")
      note c = deep_copier.copies [OF d wf 2(4) y]
      have q: "q = Some (h_next h1)" and h': "h' = snd (run_state (alloc (mk y)) h1)"
        using run 2 y by (simp_all add: copy_ref_def)
      have le: "heap_le h1 h'" unfolding h' using c by (intro heap_le_alloc) (simp add: heap_le_def)
      have y': "valid h' y \<and> vw h' y = vw h1 y \<and> rf h' y = rf h1 y"
        using deep_copier.grows [OF d _ le] c by blast
      moreover have "h_cells h' (h_next h1) = Some (mk y)" and n: "h_next h' = Suc (h_next h1)" by (simp_all add: h')
      ultimately have "ref_valid un valid h' q" and "ref_vw un vw h' q = Some (vw h x)"
        and r: "ref_rf un rf h' q = insert (h_next h1) (rf h1 y)"
        using c un by (simp_all add: q ref_valid_def ref_vw_def ref_rf_def)
      moreover have "ref_rf un rf h' q \<subseteq> {h_next h..<h_next h'}"
        using c n unfolding r heap_le_def by auto
      ultimately show ?thesis using heap_le_trans [OF _ le] c 2 by (simp add: ref_vw_def)
    qed
  qed
qed


text \<open>Two values one after the other, and the elements of a slice.\<close>

definition copy_pair :: "('a \<Rightarrow> (heap, 'a) state) \<Rightarrow> ('b \<Rightarrow> (heap, 'b) state) \<Rightarrow> 'a \<times> 'b \<Rightarrow> (heap, 'a \<times> 'b) state" where
  "copy_pair f g p = do { a \<leftarrow> f (fst p); b \<leftarrow> g (snd p); State_Monad.return (a, b) }"

lemma deep_copier_pair:
  assumes f: "deep_copier f va wa ra" and g: "deep_copier g vb wb rb"
  shows "deep_copier (copy_pair f g) (\<lambda>h p. va h (fst p) \<and> vb h (snd p))
           (\<lambda>h p. (wa h (fst p), wb h (snd p))) (\<lambda>h p. ra h (fst p) \<union> rb h (snd p))"
proof
  fix h h' :: heap and p
  assume "va h (fst p) \<and> vb h (snd p)" and "\<forall>a \<in> ra h (fst p) \<union> rb h (snd p). h_cells h' a = h_cells h a"
  then show "(va h' (fst p) \<and> vb h' (snd p)) \<and> (wa h' (fst p), wb h' (snd p)) = (wa h (fst p), wb h (snd p)) \<and>
      ra h' (fst p) \<union> rb h' (snd p) = ra h (fst p) \<union> rb h (snd p)"
    using deep_copier.local [OF f, of h "fst p" h'] deep_copier.local [OF g, of h "snd p" h'] by auto
next
  fix h p q h'
  assume wf: "wf_heap h" and v: "va h (fst p) \<and> vb h (snd p)" and run: "run_state (copy_pair f g p) h = (q, h')"
  obtain a h1 where a: "run_state (f (fst p)) h = (a, h1)" by (cases "run_state (f (fst p)) h")
  note fa = deep_copier.copies [OF f wf conjunct1 [OF v] a]
  from fa have wf1: "wf_heap h1" and le1: "heap_le h h1" by (simp_all add: heap_le_def)
  obtain b h2 where b: "run_state (g (snd p)) h1 = (b, h2)" by (cases "run_state (g (snd p)) h1")
  have gb1: "vb h1 (snd p) \<and> wb h1 (snd p) = wb h (snd p) \<and> rb h1 (snd p) = rb h (snd p)"
    by (rule deep_copier.grows [OF g conjunct2 [OF v] le1])
  note gb = deep_copier.copies [OF g wf1 conjunct1 [OF gb1] b]
  have q: "q = (a, b)" and h': "h' = h2" using run a b by (simp_all add: copy_pair_def)
  have fa2: "va h2 a \<and> wa h2 a = wa h1 a \<and> ra h2 a = ra h1 a"
    using deep_copier.grows [OF f, of h1 a h2] fa gb by blast
  show "heap_le h h' \<and> (va h' (fst q) \<and> vb h' (snd q)) \<and>
      (wa h' (fst q), wb h' (snd q)) = (wa h (fst p), wb h (snd p)) \<and>
      ra h' (fst q) \<union> rb h' (snd q) \<subseteq> {h_next h..<h_next h'}"
    using fa gb gb1 fa2 heap_le_trans [OF le1] unfolding q h' heap_le_def by auto
qed (use deep_copier.live [OF f] deep_copier.live [OF g] in auto)

lemma traverse_copies:
  assumes f: "deep_copier f v w r" and "wf_heap h" and "\<forall>x \<in> set xs. v h x"
    and "run_state (State_Monad.traverse_list f xs) h = (ys, h')"
  shows "heap_le h h' \<and> (\<forall>y \<in> set ys. v h' y) \<and> map (w h') ys = map (w h) xs \<and>
           (\<Union>y \<in> set ys. r h' y) \<subseteq> {h_next h..<h_next h'}"
  using assms(2-4)
proof (induction xs arbitrary: h ys h')
  case Nil
  then show ?case by (simp add: heap_le_refl)
next
  case (Cons x xs)
  obtain y h1 where y: "run_state (f x) h = (y, h1)" by (cases "run_state (f x) h")
  have vx: "v h x" using Cons.prems by simp
  note c = deep_copier.copies [OF f Cons.prems(1) vx y]
  from c have wf1: "wf_heap h1" and le1: "heap_le h h1" by (simp_all add: heap_le_def)
  obtain zs h2 where zs: "run_state (State_Monad.traverse_list f xs) h1 = (zs, h2)"
    by (cases "run_state (State_Monad.traverse_list f xs) h1")
  have ys: "ys = y # zs" and h': "h' = h2" using Cons.prems(3) y zs by simp_all
  have xs1: "v h1 u \<and> w h1 u = w h u \<and> r h1 u = r h u" if "u \<in> set xs" for u
    using that Cons.prems(2) by (intro deep_copier.grows [OF f _ le1]) simp
  have IH: "heap_le h1 h2 \<and> (\<forall>y \<in> set zs. v h2 y) \<and> map (w h2) zs = map (w h1) xs \<and>
      (\<Union>y \<in> set zs. r h2 y) \<subseteq> {h_next h1..<h_next h2}"
    using xs1 by (intro Cons.IH [OF wf1 _ zs]) simp
  have y2: "v h2 y \<and> w h2 y = w h1 y \<and> r h2 y = r h1 y"
    using deep_copier.grows [OF f, of h1 y h2] c IH by blast
  have "map (w h1) xs = map (w h) xs" using xs1 by simp
  with c IH y2 heap_le_trans [OF le1] show ?case
    unfolding ys h' heap_le_def by auto
qed

lemma deep_copier_list:
  assumes f: "deep_copier f v w r"
  shows "deep_copier (State_Monad.traverse_list f) (\<lambda>h xs. \<forall>x \<in> set xs. v h x)
           (\<lambda>h xs. map (w h) xs) (\<lambda>h xs. \<Union>x \<in> set xs. r h x)"
proof
  fix h xs ys h'
  assume "wf_heap h" and "\<forall>x \<in> set xs. v h x" and "run_state (State_Monad.traverse_list f xs) h = (ys, h')"
  then show "heap_le h h' \<and> (\<forall>y \<in> set ys. v h' y) \<and> map (w h') ys = map (w h) xs \<and>
      (\<Union>y \<in> set ys. r h' y) \<subseteq> {h_next h..<h_next h'}"
    by (rule traverse_copies [OF f])
next
  fix h h' :: heap and xs
  assume "\<forall>x \<in> set xs. v h x" and "\<forall>a \<in> (\<Union>x \<in> set xs. r h x). h_cells h' a = h_cells h a"
  then have "v h' x \<and> w h' x = w h x \<and> r h' x = r h x" if "x \<in> set xs" for x
    using that by (intro deep_copier.local [OF f]) auto
  then show "(\<forall>x \<in> set xs. v h' x) \<and> map (w h') xs = map (w h) xs \<and> (\<Union>x \<in> set xs. r h' x) = (\<Union>x \<in> set xs. r h x)"
    by simp
qed (use deep_copier.live [OF f] in blast)

text \<open>A struct whose references are read by \<open>get\<close> and replaced by \<open>put\<close>; \<open>put none\<close> leaves its other fields.\<close>

lemma deep_copier_struct:
  assumes f: "deep_copier f v w r" and get: "\<And>x m. get (put x m) = x" and put: "\<And>x y m. put y (put x m) = put y m"
    and cp: "\<And>m. cp m = do { x \<leftarrow> f (get m); State_Monad.return (put x m) }"
  shows "deep_copier cp (\<lambda>h m. v h (get m)) (\<lambda>h m. (put none m, w h (get m))) (\<lambda>h m. r h (get m))"
proof
  fix h m n h'
  assume wf: "wf_heap h" and v: "v h (get m)" and run: "run_state (cp m) h = (n, h')"
  obtain x h1 where x: "run_state (f (get m)) h = (x, h1)" by (cases "run_state (f (get m)) h")
  have "n = put x m" and "h' = h1" using run x by (simp_all add: cp)
  with deep_copier.copies [OF f wf v x]
  show "heap_le h h' \<and> v h' (get n) \<and> (put none n, w h' (get n)) = (put none m, w h (get m)) \<and>
      r h' (get n) \<subseteq> {h_next h..<h_next h'}"
    by (simp add: get put)
next
  fix h h' :: heap and m
  assume "v h (get m)" and "\<forall>a \<in> r h (get m). h_cells h' a = h_cells h a"
  from deep_copier.local [OF f this]
  show "v h' (get m) \<and> (put none m, w h' (get m)) = (put none m, w h (get m)) \<and> r h' (get m) = r h (get m)" by simp
qed (rule deep_copier.live [OF f])


section \<open>The generated copies are deep\<close>

abbreviation flat_valid :: "(cell \<Rightarrow> 'p option) \<Rightarrow> heap \<Rightarrow> ref \<Rightarrow> bool" where
  "flat_valid un \<equiv> ref_valid un (\<lambda>h x. True)"

abbreviation flat_view :: "(cell \<Rightarrow> 'p option) \<Rightarrow> heap \<Rightarrow> ref \<Rightarrow> 'p option" where
  "flat_view un \<equiv> ref_vw un (\<lambda>h x. x)"

abbreviation flat_reach :: "(cell \<Rightarrow> 'p option) \<Rightarrow> heap \<Rightarrow> ref \<Rightarrow> nat set" where
  "flat_reach un \<equiv> ref_rf un (\<lambda>h x. {})"

abbreviation map_valid :: "heap \<Rightarrow> ref \<Rightarrow> bool" where
  "map_valid \<equiv> ref_valid asMap (\<lambda>h xs. distinct (map fst xs))"

abbreviation map_view :: "heap \<Rightarrow> ref \<Rightarrow> (string \<rightharpoonup> string) option" where
  "map_view \<equiv> ref_vw asMap (\<lambda>h xs. map_of xs)"

lemmas flat_copier = deep_copier_ref [OF deep_copier_value]

lemmas map_copier = deep_copier_ref [OF deep_copier_map, of asMap MapCell, OF asMap.simps(1)]

definition OwnerReference_valid where
  "OwnerReference_valid h (x :: OwnerReference) \<longleftrightarrow>
     flat_valid asBool h (orf_Controller x) \<and> flat_valid asBool h (orf_BlockOwnerDeletion x)"

definition OwnerReference_view where
  "OwnerReference_view h (x :: OwnerReference) =
     (x\<lparr>orf_Controller := None, orf_BlockOwnerDeletion := None\<rparr>,
      flat_view asBool h (orf_Controller x), flat_view asBool h (orf_BlockOwnerDeletion x))"

definition OwnerReference_reach where
  "OwnerReference_reach h (x :: OwnerReference) =
     flat_reach asBool h (orf_Controller x) \<union> flat_reach asBool h (orf_BlockOwnerDeletion x)"

interpretation owner_copy: deep_copier
  OwnerReference_DeepCopyInto OwnerReference_valid OwnerReference_view OwnerReference_reach
  using deep_copier_struct
    [OF deep_copier_pair [OF flat_copier [of asBool BoolCell, OF asBool.simps(1)]
                             flat_copier [of asBool BoolCell, OF asBool.simps(1)]],
     where get = "\<lambda>x. (orf_Controller x, orf_BlockOwnerDeletion x)"
       and put = "\<lambda>p x. x\<lparr>orf_Controller := fst p, orf_BlockOwnerDeletion := snd p\<rparr>"
       and none = "(None, None)" and cp = OwnerReference_DeepCopyInto]
  by (simp add: OwnerReference_DeepCopyInto_def copy_pair_def OwnerReference_valid_def [abs_def]
      OwnerReference_view_def [abs_def] OwnerReference_reach_def [abs_def])

definition FieldsV1_valid where
  "FieldsV1_valid h (x :: FieldsV1) \<longleftrightarrow> flat_valid asBytes h (fv_Raw x)"

definition FieldsV1_view where
  "FieldsV1_view h (x :: FieldsV1) = (x\<lparr>fv_Raw := None\<rparr>, flat_view asBytes h (fv_Raw x))"

definition FieldsV1_reach where
  "FieldsV1_reach h (x :: FieldsV1) = flat_reach asBytes h (fv_Raw x)"

interpretation fields_copy: deep_copier FieldsV1_DeepCopyInto FieldsV1_valid FieldsV1_view FieldsV1_reach
  using deep_copier_struct
    [OF flat_copier [of asBytes BytesCell, OF asBytes.simps(1)],
     where get = fv_Raw and put = "\<lambda>p x. x\<lparr>fv_Raw := p\<rparr>" and none = None and cp = FieldsV1_DeepCopyInto]
  by (simp add: FieldsV1_DeepCopyInto_def FieldsV1_valid_def [abs_def] FieldsV1_view_def [abs_def]
      FieldsV1_reach_def [abs_def])

definition ManagedFieldsEntry_valid where
  "ManagedFieldsEntry_valid h (x :: ManagedFieldsEntry) \<longleftrightarrow>
     flat_valid asTime h (mf_Time x) \<and> ref_valid asFieldsV1 FieldsV1_valid h (mf_FieldsV1 x)"

definition ManagedFieldsEntry_view where
  "ManagedFieldsEntry_view h (x :: ManagedFieldsEntry) =
     (x\<lparr>mf_Time := None, mf_FieldsV1 := None\<rparr>, flat_view asTime h (mf_Time x),
      ref_vw asFieldsV1 FieldsV1_view h (mf_FieldsV1 x))"

definition ManagedFieldsEntry_reach where
  "ManagedFieldsEntry_reach h (x :: ManagedFieldsEntry) =
     flat_reach asTime h (mf_Time x) \<union> ref_rf asFieldsV1 FieldsV1_reach h (mf_FieldsV1 x)"

interpretation managed_copy: deep_copier ManagedFieldsEntry_DeepCopyInto
  ManagedFieldsEntry_valid ManagedFieldsEntry_view ManagedFieldsEntry_reach
  using deep_copier_struct
    [OF deep_copier_pair [OF flat_copier [of asTime TimeCell, OF asTime.simps(1)]
         deep_copier_ref [OF fields_copy.deep_copier_axioms, of asFieldsV1 FieldsV1Cell, OF asFieldsV1.simps(1)]],
     where get = "\<lambda>x. (mf_Time x, mf_FieldsV1 x)" and put = "\<lambda>p x. x\<lparr>mf_Time := fst p, mf_FieldsV1 := snd p\<rparr>"
       and none = "(None, None)" and cp = ManagedFieldsEntry_DeepCopyInto]
  by (simp add: ManagedFieldsEntry_DeepCopyInto_def copy_pair_def ManagedFieldsEntry_valid_def [abs_def]
      ManagedFieldsEntry_view_def [abs_def] ManagedFieldsEntry_reach_def [abs_def])


abbreviation owners_valid :: "heap \<Rightarrow> ref \<Rightarrow> bool" where
  "owners_valid \<equiv> ref_valid asOwners (\<lambda>h xs. \<forall>x \<in> set xs. OwnerReference_valid h x)"

abbreviation managed_valid :: "heap \<Rightarrow> ref \<Rightarrow> bool" where
  "managed_valid \<equiv> ref_valid asManaged (\<lambda>h xs. \<forall>x \<in> set xs. ManagedFieldsEntry_valid h x)"

definition ObjectMeta_valid where
  "ObjectMeta_valid h (x :: ObjectMeta) \<longleftrightarrow>
     flat_valid asTime h (om_DeletionTimestamp x) \<and> flat_valid asInt64 h (om_DeletionGracePeriodSeconds x) \<and>
     map_valid h (om_Labels x) \<and> map_valid h (om_Annotations x) \<and> owners_valid h (om_OwnerReferences x) \<and>
     flat_valid asStrings h (om_Finalizers x) \<and> managed_valid h (om_ManagedFields x)"

definition ObjectMeta_view where
  "ObjectMeta_view h (x :: ObjectMeta) =
     (x\<lparr>om_DeletionTimestamp := None, om_DeletionGracePeriodSeconds := None, om_Labels := None,
        om_Annotations := None, om_OwnerReferences := None, om_Finalizers := None, om_ManagedFields := None\<rparr>,
      flat_view asTime h (om_DeletionTimestamp x), flat_view asInt64 h (om_DeletionGracePeriodSeconds x),
      map_view h (om_Labels x), map_view h (om_Annotations x),
      ref_vw asOwners (\<lambda>h xs. map (OwnerReference_view h) xs) h (om_OwnerReferences x),
      flat_view asStrings h (om_Finalizers x),
      ref_vw asManaged (\<lambda>h xs. map (ManagedFieldsEntry_view h) xs) h (om_ManagedFields x))"

definition ObjectMeta_reach where
  "ObjectMeta_reach h (x :: ObjectMeta) =
     flat_reach asTime h (om_DeletionTimestamp x) \<union> (flat_reach asInt64 h (om_DeletionGracePeriodSeconds x) \<union>
     (flat_reach asMap h (om_Labels x) \<union> (flat_reach asMap h (om_Annotations x) \<union>
     (ref_rf asOwners (\<lambda>h xs. \<Union>x \<in> set xs. OwnerReference_reach h x) h (om_OwnerReferences x) \<union>
     (flat_reach asStrings h (om_Finalizers x) \<union>
      ref_rf asManaged (\<lambda>h xs. \<Union>x \<in> set xs. ManagedFieldsEntry_reach h x) h (om_ManagedFields x))))))"

lemmas owners_copier = deep_copier_ref
  [OF deep_copier_list [OF owner_copy.deep_copier_axioms], of asOwners OwnersCell, OF asOwners.simps(1)]

lemmas managed_copier = deep_copier_ref
  [OF deep_copier_list [OF managed_copy.deep_copier_axioms], of asManaged ManagedCell, OF asManaged.simps(1)]

interpretation meta_copy: deep_copier ObjectMeta_DeepCopyInto ObjectMeta_valid ObjectMeta_view ObjectMeta_reach
  using deep_copier_struct
    [OF deep_copier_pair [OF flat_copier [of asTime TimeCell, OF asTime.simps(1)]
        deep_copier_pair [OF flat_copier [of asInt64 Int64Cell, OF asInt64.simps(1)]
        deep_copier_pair [OF map_copier deep_copier_pair [OF map_copier
        deep_copier_pair [OF owners_copier
        deep_copier_pair [OF flat_copier [of asStrings StringsCell, OF asStrings.simps(1)] managed_copier]]]]]],
     where get = "\<lambda>x. (om_DeletionTimestamp x, om_DeletionGracePeriodSeconds x, om_Labels x, om_Annotations x,
                       om_OwnerReferences x, om_Finalizers x, om_ManagedFields x)"
       and put = "\<lambda>(t, g, l, a, os, f, m) x.
                     x\<lparr>om_DeletionTimestamp := t, om_DeletionGracePeriodSeconds := g, om_Labels := l,
                       om_Annotations := a, om_OwnerReferences := os, om_Finalizers := f, om_ManagedFields := m\<rparr>"
       and none = "(None, None, None, None, None, None, None)" and cp = ObjectMeta_DeepCopyInto]
  by (simp add: ObjectMeta_DeepCopyInto_def copy_pair_def split_beta ObjectMeta_valid_def [abs_def]
      ObjectMeta_view_def [abs_def] ObjectMeta_reach_def [abs_def])

definition ListMeta_valid where
  "ListMeta_valid h (x :: ListMeta) \<longleftrightarrow> flat_valid asInt64 h (lm_RemainingItemCount x)"

definition ListMeta_view where
  "ListMeta_view h (x :: ListMeta) = (x\<lparr>lm_RemainingItemCount := None\<rparr>, flat_view asInt64 h (lm_RemainingItemCount x))"

definition ListMeta_reach where
  "ListMeta_reach h (x :: ListMeta) = flat_reach asInt64 h (lm_RemainingItemCount x)"

interpretation listmeta_copy: deep_copier ListMeta_DeepCopyInto ListMeta_valid ListMeta_view ListMeta_reach
  using deep_copier_struct
    [OF flat_copier [of asInt64 Int64Cell, OF asInt64.simps(1)],
     where get = lm_RemainingItemCount and put = "\<lambda>p x. x\<lparr>lm_RemainingItemCount := p\<rparr>" and none = None
       and cp = ListMeta_DeepCopyInto]
  by (simp add: ListMeta_DeepCopyInto_def ListMeta_valid_def [abs_def] ListMeta_view_def [abs_def]
      ListMeta_reach_def [abs_def])

definition empty_ObjectMeta :: ObjectMeta where
  "empty_ObjectMeta =
     \<lparr>om_Name = '''', om_GenerateName = '''', om_Namespace = '''', om_SelfLink = '''', om_UID = '''',
      om_ResourceVersion = '''', om_Generation = 0, om_CreationTimestamp = 0, om_DeletionTimestamp = None,
      om_DeletionGracePeriodSeconds = None, om_Labels = None, om_Annotations = None, om_OwnerReferences = None,
      om_Finalizers = None, om_ClusterName = '''', om_ManagedFields = None\<rparr>"

definition Node_valid where
  "Node_valid h (x :: Node) \<longleftrightarrow> ObjectMeta_valid h (nd_ObjectMeta x)"

definition Node_view where
  "Node_view h (x :: Node) = (x\<lparr>nd_ObjectMeta := empty_ObjectMeta\<rparr>, ObjectMeta_view h (nd_ObjectMeta x))"

definition Node_reach where
  "Node_reach h (x :: Node) = ObjectMeta_reach h (nd_ObjectMeta x)"

interpretation node_copy: deep_copier Node_DeepCopyInto Node_valid Node_view Node_reach
  using deep_copier_struct
    [OF meta_copy.deep_copier_axioms,
     where get = nd_ObjectMeta and put = "\<lambda>p x. x\<lparr>nd_ObjectMeta := p\<rparr>" and none = empty_ObjectMeta
       and cp = Node_DeepCopyInto]
  by (simp add: Node_DeepCopyInto_def Node_valid_def [abs_def] Node_view_def [abs_def] Node_reach_def [abs_def])

definition empty_ListMeta :: ListMeta where
  "empty_ListMeta = \<lparr>lm_SelfLink = '''', lm_ResourceVersion = '''', lm_Continue = '''', lm_RemainingItemCount = None\<rparr>"

abbreviation nodes_valid :: "heap \<Rightarrow> ref \<Rightarrow> bool" where
  "nodes_valid \<equiv> ref_valid asNodes (\<lambda>h xs. \<forall>x \<in> set xs. Node_valid h x)"

definition NodeList_valid where
  "NodeList_valid h (x :: NodeList) \<longleftrightarrow> ListMeta_valid h (nl_ListMeta x) \<and> nodes_valid h (nl_Items x)"

definition NodeList_view where
  "NodeList_view h (x :: NodeList) =
     (x\<lparr>nl_ListMeta := empty_ListMeta, nl_Items := None\<rparr>, ListMeta_view h (nl_ListMeta x),
      ref_vw asNodes (\<lambda>h xs. map (Node_view h) xs) h (nl_Items x))"

definition NodeList_reach where
  "NodeList_reach h (x :: NodeList) =
     ListMeta_reach h (nl_ListMeta x) \<union> ref_rf asNodes (\<lambda>h xs. \<Union>x \<in> set xs. Node_reach h x) h (nl_Items x)"

interpretation nodelist_copy: deep_copier NodeList_DeepCopyInto NodeList_valid NodeList_view NodeList_reach
  using deep_copier_struct
    [OF deep_copier_pair [OF listmeta_copy.deep_copier_axioms
        deep_copier_ref [OF deep_copier_list [OF node_copy.deep_copier_axioms], of asNodes NodesCell, OF asNodes.simps(1)]],
     where get = "\<lambda>x. (nl_ListMeta x, nl_Items x)" and put = "\<lambda>p x. x\<lparr>nl_ListMeta := fst p, nl_Items := snd p\<rparr>"
       and none = "(empty_ListMeta, None)" and cp = NodeList_DeepCopyInto]
  by (simp add: NodeList_DeepCopyInto_def copy_pair_def NodeList_valid_def [abs_def]
      NodeList_view_def [abs_def] NodeList_reach_def [abs_def])

text \<open>The copies through a pointer, which are what callers use.\<close>

interpretation node_ptr: deep_copier Node_DeepCopy
  "ref_valid asNode Node_valid" "ref_vw asNode Node_view" "ref_rf asNode Node_reach"
  unfolding Node_DeepCopy_def
  by (rule deep_copier_ref [OF node_copy.deep_copier_axioms]) simp

interpretation nodelist_ptr: deep_copier NodeList_DeepCopy
  "ref_valid asNodeList NodeList_valid" "ref_vw asNodeList NodeList_view" "ref_rf asNodeList NodeList_reach"
  unfolding NodeList_DeepCopy_def
  by (rule deep_copier_ref [OF nodelist_copy.deep_copier_axioms]) simp


section \<open>Properties\<close>

lemma NodeList_DeepCopy_nil:
  assumes "ref_valid asNodeList NodeList_valid h p" and "run_state (NodeList_DeepCopy p) h = (q, h')"
  shows "q = None \<longleftrightarrow> p = None" and "p = None \<Longrightarrow> h' = h"
  using assms
  by (auto simp: NodeList_DeepCopy_def copy_ref_def ref_valid_def split: option.splits Option.bind_splits prod.splits)

text \<open>
  C13. A deep copy of a node list shares nothing with it. From a well-formed heap, the
  copy of nil is a nil interface and nothing is allocated; the copy of a list is an
  object that stands for the same list, all its labels, annotations, owner references,
  timestamps and nodes included, no existing cell changes, the two have no address in
  common, and whatever is later written through the copy, the original stands for the
  same as before.
\<close>

theorem NodeList_DeepCopyObject_deep:
  assumes "wf_heap h" and "ref_valid asNodeList NodeList_valid h p"
    and "run_state (NodeList_DeepCopyObject p) h = (obj, h')"
  shows "case obj of
           None \<Rightarrow> p = None \<and> h' = h
         | Some ob \<Rightarrow> p \<noteq> None \<and>
             (\<exists>q. ob = NodeListObject q \<and>
                ref_vw asNodeList NodeList_view h' (Some q) = ref_vw asNodeList NodeList_view h p \<and>
                h_cells h \<subseteq>\<^sub>m h_cells h' \<and>
                ref_rf asNodeList NodeList_reach h' p \<inter> ref_rf asNodeList NodeList_reach h' (Some q) = {} \<and>
                (\<forall>h2. (\<forall>a. a \<notin> ref_rf asNodeList NodeList_reach h' (Some q) \<longrightarrow> h_cells h2 a = h_cells h' a) \<longrightarrow>
                   ref_vw asNodeList NodeList_view h2 p = ref_vw asNodeList NodeList_view h p))"
proof -
  obtain q where run: "run_state (NodeList_DeepCopy p) h = (q, h')"
    and obj: "obj = (case q of Some a \<Rightarrow> Some (NodeListObject a) | None \<Rightarrow> None)"
    using assms(3) by (auto simp: NodeList_DeepCopyObject_def split: prod.splits)
  note facts = nodelist_ptr.copies [OF assms(1,2) run] nodelist_ptr.separate [OF assms(1,2) run]
    nodelist_ptr.independent(1) [OF assms(1,2) run] NodeList_DeepCopy_nil [OF assms(2) run]
  show ?thesis
  proof (cases q)
    case None
    with obj facts show ?thesis by simp
  next
    case (Some a)
    with obj facts show ?thesis by (simp add: heap_le_def)
  qed
qed

definition sample_heap :: heap where
  "sample_heap =
     \<lparr>h_cells = [0 \<mapsto> NodeListCell \<lparr>nl_TypeMeta = \<lparr>tm_Kind = ''NodeList'', tm_APIVersion = ''storageos.com/v1''\<rparr>,
                                   nl_ListMeta = empty_ListMeta, nl_Items = Some 1\<rparr>,
                 1 \<mapsto> NodesCell [\<lparr>nd_TypeMeta = \<lparr>tm_Kind = ''Node'', tm_APIVersion = ''storageos.com/v1''\<rparr>,
                                 nd_ObjectMeta = empty_ObjectMeta\<lparr>om_Name := ''worker-1'', om_Labels := Some 2\<rparr>,
                                 nd_Spec = \<lparr>IoEndpoint = ''10.0.0.1:5703'', SupervisorEndpoint = ''10.0.0.1:5704'',
                                           GossipEndpoint = ''10.0.0.1:5711'', ClusteringEndpoint = ''10.0.0.1:5710''\<rparr>,
                                 nd_Status = \<lparr>Health = NodeHealthOnline,
                                             Capacity = \<lparr>cap_Total = 100, cap_Free = 60, cap_Available = 50\<rparr>\<rparr>\<rparr>],
                 2 \<mapsto> MapCell [(''zone'', ''a'')]],
      h_next = 3\<rparr>"

theorem NodeList_DeepCopyObject_deep_witness:
  "\<exists>q h'. run_state (NodeList_DeepCopyObject (Some 0)) sample_heap = (Some (NodeListObject q), h') \<and>
     ref_vw asNodeList NodeList_view h' (Some q) = ref_vw asNodeList NodeList_view sample_heap (Some 0) \<and>
     ref_rf asNodeList NodeList_reach h' (Some 0) \<inter> ref_rf asNodeList NodeList_reach h' (Some q) = {}"
proof -
  obtain obj h' where run: "run_state (NodeList_DeepCopyObject (Some 0)) sample_heap = (obj, h')"
    by (cases "run_state (NodeList_DeepCopyObject (Some 0)) sample_heap")
  have "wf_heap sample_heap" and "ref_valid asNodeList NodeList_valid sample_heap (Some 0)"
    by (auto simp: wf_heap_def sample_heap_def ref_valid_def NodeList_valid_def ListMeta_valid_def Node_valid_def
        ObjectMeta_valid_def empty_ListMeta_def empty_ObjectMeta_def split: if_splits)
  from NodeList_DeepCopyObject_deep [OF this run] run show ?thesis
    by (auto split: option.splits)
qed

end
