(* ===== verification/Observed.thy ===== *)
theory Observed
  imports Shared_Volume Node_Labels Volume_Labels Metrics
begin

text \<open>
  The metrics of the API helpers (\<open>node.go\<close>, \<open>namespace.go\<close>, \<open>node_labels.go\<close>,
  \<open>volume.go\<close>, \<open>volume_labels.go\<close>, \<open>shared_volume.go\<close>). Every helper measures its own
  duration (\<open>defer metrics.Latency.Observe\<close>) and has a closure \<open>observeErr\<close> that counts a
  result and returns it. The models of the helpers in the other theories leave this
  out; here each helper is given once more with its observations, over a world that
  also holds the state of the metrics. The locale \<open>sampling_meter\<close> states what the
  metrics promise, and in it each observed helper is shown to do what the plain one
  does and to leave exactly the samples that are listed.
\<close>

section \<open>Programs beside a second state\<close>

definition besideX :: "('w, 'a) ext \<Rightarrow> ('w \<times> 's, 'a) ext" where
  "besideX f = (\<lambda>(w, s). case f w of (a, w') \<Rightarrow> (a, (w', s)))"

definition beside :: "('w, 'a) prog \<Rightarrow> ('w \<times> 's, 'a) prog" where
  "beside m = (\<lambda>(w, s). case m w of (r, w') \<Rightarrow> (r, (w', s)))"

lemma besideX_run [simp]: "besideX f (w, s) = (fst (f w), (snd (f w), s))"
  by (simp add: besideX_def case_prod_beta)

lemma beside_run [simp]: "beside m (w, s) = (fst (m w), (snd (m w), s))"
  by (simp add: beside_def case_prod_beta)

named_theorems beside_simps \<open>programs that leave the second state alone\<close>

lemma beside_retP [beside_simps]: "retP a = beside (retP a)"
  by (rule ext) (simp add: beside_def retP_run split: prod.splits)

lemma beside_callP [beside_simps]: "callP (besideX f) = beside (callP f)"
  by (rule ext) (simp add: beside_def besideX_def split: prod.splits)

lemma beside_bindP:
  "(\<And>a. f' a = beside (f a)) \<Longrightarrow> bindP (beside m) f' = beside (bindP m f)"
  by (rule ext) (simp add: beside_def bindP_def split: prod.splits outcome.splits)

lemma beside_apiP [beside_simps]: "apiP (besideX f) = beside (apiP f)"
  by (rule ext) (simp add: beside_def besideX_def apiP_run split: prod.splits)

lemma beside_tryP:
  "(\<And>a. f' a = beside (f a)) \<Longrightarrow> tryP (beside m) f' = beside (tryP m f)"
  by (rule ext) (simp add: beside_def tryP_run split: prod.splits outcome.splits sum.splits)

lemma beside_panicP [beside_simps]: "panicP = beside panicP"
  by (rule ext) (simp add: beside_def panicP_run split: prod.splits)

lemma beside_forE:
  assumes "\<And>x s. f' x s = beside (f x s)"
  shows "forE f' xs s = beside (forE f xs s)"
proof (induction xs arbitrary: s)
  case Nil
  show ?case by (simp add: beside_retP)
next
  case (Cons x xs)
  show ?case by (simp only: forE.simps) (subst assms, rule beside_tryP, rule Cons.IH)
qed

definition beside_cp :: "'w control_plane \<Rightarrow> ('w \<times> 's) control_plane" where
  "beside_cp cp =
     \<lparr>api_RefreshJwt = (\<lambda>x. besideX (api_RefreshJwt cp x)),
      api_AuthenticateUser = (\<lambda>u p. besideX (api_AuthenticateUser cp u p)),
      api_ListNamespaces = (\<lambda>x. besideX (api_ListNamespaces cp x)),
      api_DeleteNamespace = (\<lambda>x i v. besideX (api_DeleteNamespace cp x i v)),
      api_ListNodes = (\<lambda>x. besideX (api_ListNodes cp x)),
      api_UpdateNode = (\<lambda>x i l v. besideX (api_UpdateNode cp x i l v)),
      api_DeleteNode = (\<lambda>x i v. besideX (api_DeleteNode cp x i v)),
      api_SetComputeOnly = (\<lambda>x i b v. besideX (api_SetComputeOnly cp x i b v)),
      api_ListVolumes = (\<lambda>x n. besideX (api_ListVolumes cp x n)),
      api_GetVolume = (\<lambda>x n i. besideX (api_GetVolume cp x n i)),
      api_UpdateVolume = (\<lambda>x n i l v. besideX (api_UpdateVolume cp x n i l v)),
      api_SetReplicas = (\<lambda>x n i r v. besideX (api_SetReplicas cp x n i r v)),
      api_SetFailureMode = (\<lambda>x n i m t v. besideX (api_SetFailureMode cp x n i m t v)),
      api_UpdateNFSVolumeMountEndpoint = (\<lambda>x n i e v.
        besideX (api_UpdateNFSVolumeMountEndpoint cp x n i e v))\<rparr>"

lemma beside_cp_sel [simp]:
  "api_ListNamespaces (beside_cp cp) x = besideX (api_ListNamespaces cp x)"
  "api_DeleteNamespace (beside_cp cp) x i v = besideX (api_DeleteNamespace cp x i v)"
  "api_ListNodes (beside_cp cp) x = besideX (api_ListNodes cp x)"
  "api_UpdateNode (beside_cp cp) x i l v = besideX (api_UpdateNode cp x i l v)"
  "api_DeleteNode (beside_cp cp) x i v = besideX (api_DeleteNode cp x i v)"
  "api_SetComputeOnly (beside_cp cp) x i b v = besideX (api_SetComputeOnly cp x i b v)"
  "api_ListVolumes (beside_cp cp) x n = besideX (api_ListVolumes cp x n)"
  "api_GetVolume (beside_cp cp) x n i = besideX (api_GetVolume cp x n i)"
  "api_UpdateVolume (beside_cp cp) x n i l v = besideX (api_UpdateVolume cp x n i l v)"
  "api_SetReplicas (beside_cp cp) x n i d v = besideX (api_SetReplicas cp x n i d v)"
  "api_SetFailureMode (beside_cp cp) x n i m t v = besideX (api_SetFailureMode cp x n i m t v)"
  "api_UpdateNFSVolumeMountEndpoint (beside_cp cp) x n i e v =
     besideX (api_UpdateNFSVolumeMountEndpoint cp x n i e v)"
  by (simp_all add: beside_cp_def)

text \<open>The lookups the helpers share have no observations of their own.\<close>

lemma getNamespace_beside [beside_simps]:
  "getNamespace (beside_cp cp) ctx key = beside (getNamespace cp ctx key)"
  unfolding getNamespace_def
  by (simp add: beside_apiP) (rule beside_tryP, simp add: beside_retP split: option.splits)

lemma getNodeByKey_beside [beside_simps]:
  "getNodeByKey (beside_cp cp) ctx key = beside (getNodeByKey cp ctx key)"
  unfolding getNodeByKey_def
  by (simp add: beside_apiP) (rule beside_tryP, simp add: beside_retP split: option.splits)

lemma getVolume_beside [beside_simps]:
  "getVolume (beside_cp cp) ctx key = beside (getVolume cp ctx key)"
  unfolding getVolume_def
  by (simp add: beside_apiP getNamespace_beside)
    (intro beside_tryP, simp add: beside_retP split: option.splits)

lemma getVolumeByID_beside [beside_simps]:
  "getVolumeByID (beside_cp cp) ctx volID namespace = beside (getVolumeByID cp ctx volID namespace)"
  unfolding getVolumeByID_def by (simp add: beside_apiP getNamespace_beside) (rule beside_tryP, rule refl)

lemma volumes_loop_beside:
  "forE (\<lambda>ns volumes. tryP (apiP (api_ListVolumes (beside_cp cp) ctx (GetID ns)))
           (\<lambda>nsVols. retP (Inr (volumes @ nsVols)))) nss vs =
   beside (forE (\<lambda>ns volumes. tryP (apiP (api_ListVolumes cp ctx (GetID ns)))
           (\<lambda>nsVols. retP (Inr (volumes @ nsVols)))) nss vs)"
  unfolding beside_cp_sel beside_apiP by (intro beside_forE beside_tryP) (rule beside_retP)

section \<open>Measuring and counting\<close>

text \<open>
  The interfaces \<open>ResultMetric\<close> and \<open>LatencyMetric\<close> with the clock of \<open>time.Now\<close>.
\<close>

record 's meter =
  Increment :: "string \<Rightarrow> error_or_nil \<Rightarrow> 's \<Rightarrow> 's"
  Observe :: "string \<Rightarrow> int \<Rightarrow> 's \<Rightarrow> 's"
  Now :: "'s \<Rightarrow> int \<times> 's"

text \<open>
  The prologue of every helper: the start time is read, and the deferred call
  observes the time since then when the body returns and when it panics.
\<close>

definition measured :: "'s meter \<Rightarrow> string \<Rightarrow> ('w \<times> 's, 'a) prog \<Rightarrow> ('w \<times> 's, 'a) prog" where
  "measured mt funcName body = (\<lambda>(w, s).
     case Now mt s of (start, s1) \<Rightarrow>
     case body (w, s1) of (r, (w', s2)) \<Rightarrow>
     case Now mt s2 of (stop, s3) \<Rightarrow>
       (r, (w', Observe mt funcName (stop - start) s3)))"

definition observeErr :: "'s meter \<Rightarrow> string \<Rightarrow> error_or_nil \<Rightarrow> ('w \<times> 's, error_or_nil) prog" where
  "observeErr mt funcName e = (\<lambda>(w, s). (Ret e, (w, Increment mt funcName e s)))"

text \<open>The idiom \<open>if err != nil { return nil, observeErr(err) }\<close>, and without the first result.\<close>

definition tryO ::
  "'s meter \<Rightarrow> string \<Rightarrow> ('w \<times> 's, goerr + 'a) prog \<Rightarrow> ('a \<Rightarrow> ('w \<times> 's, goerr + 'b) prog)
     \<Rightarrow> ('w \<times> 's, goerr + 'b) prog" where
  "tryO mt funcName m f =
     bindP m (\<lambda>r. case r of
       Inl e \<Rightarrow> bindP (observeErr mt funcName (Some e)) (\<lambda>_. retP (Inl e))
     | Inr x \<Rightarrow> f x)"

definition tryOE ::
  "'s meter \<Rightarrow> string \<Rightarrow> ('w \<times> 's, goerr + 'a) prog \<Rightarrow> ('a \<Rightarrow> ('w \<times> 's, error_or_nil) prog)
     \<Rightarrow> ('w \<times> 's, error_or_nil) prog" where
  "tryOE mt funcName m f =
     bindP m (\<lambda>r. case r of Inl e \<Rightarrow> observeErr mt funcName (Some e) | Inr x \<Rightarrow> f x)"

section \<open>The observed helpers\<close>

definition ListNamespaces_observed ::
  "'s meter \<Rightarrow> ('w \<times> 's) control_plane \<Rightarrow> client \<Rightarrow> ('w \<times> 's, goerr + sobject list) prog" where
  "ListNamespaces_observed mt cp c =
     measured mt ''list_namespaces''
       (tryO mt ''list_namespaces'' (apiP (api_ListNamespaces cp (AddToken c))) (\<lambda>namespaces.
          retP (Inr (map namespace_object namespaces))))"

text \<open>The mapped error is counted before the status code decides what is returned.\<close>

definition DeleteNamespace_observed ::
  "'s meter \<Rightarrow> ('w \<times> 's) control_plane \<Rightarrow> client \<Rightarrow> objkey \<Rightarrow> ('w \<times> 's, error_or_nil) prog" where
  "DeleteNamespace_observed mt cp c key =
     measured mt ''delete_namespace''
       (let ctx = AddToken c in
        tryOE mt ''delete_namespace'' (getNamespace cp ctx key) (\<lambda>ns.
          bindP (callP (api_DeleteNamespace cp ctx (ns_Id ns) (ns_Version ns))) (\<lambda>(_, resp, err).
            case err of
              None \<Rightarrow> retP None
            | Some e \<Rightarrow>
                bindP (observeErr mt ''delete_namespace'' (Some (MapAPIError e resp))) (\<lambda>err.
                  case resp of
                    None \<Rightarrow> panicP
                  | Some r \<Rightarrow>
                      retP (if StatusCode r = 409 then Some ErrNamespaceInUse
                            else if StatusCode r = 404 then Some ErrNamespaceNotFound
                            else err)))))"

definition NodeObjects_observed ::
  "'s meter \<Rightarrow> ('w \<times> 's) control_plane \<Rightarrow> client \<Rightarrow> ('w \<times> 's, goerr + (objkey \<times> sobject) list) prog" where
  "NodeObjects_observed mt cp c =
     measured mt ''node_objects''
       (tryO mt ''node_objects'' (apiP (api_ListNodes cp (AddToken c))) (\<lambda>nodes.
          retP (Inr (object_map (\<lambda>n. mk_key '''' (node_Name n)) node_object nodes))))"

definition ListNodes_observed ::
  "'s meter \<Rightarrow> ('w \<times> 's) control_plane \<Rightarrow> client \<Rightarrow> ('w \<times> 's, goerr + NodeCR list) prog" where
  "ListNodes_observed mt cp c =
     measured mt ''list_nodes''
       (tryO mt ''list_nodes'' (apiP (api_ListNodes cp (AddToken c))) (\<lambda>nodes.
          retP (Inr (map nodeToCR nodes))))"

text \<open>The result of the deletion itself is returned without being counted.\<close>

definition DeleteNode_observed ::
  "'s meter \<Rightarrow> ('w \<times> 's) control_plane \<Rightarrow> client \<Rightarrow> objkey \<Rightarrow> ('w \<times> 's, error_or_nil) prog" where
  "DeleteNode_observed mt cp c key =
     measured mt ''delete_node''
       (let ctx = AddToken c in
        tryOE mt ''delete_node'' (getNodeByKey cp ctx key) (\<lambda>n.
          bindP (callP (api_DeleteNode cp ctx (node_Id n) (node_Version n))) (\<lambda>(_, resp, err).
            case err of
              None \<Rightarrow> retP None
            | Some e \<Rightarrow>
                (case resp of
                   None \<Rightarrow> panicP
                 | Some r \<Rightarrow>
                     retP (Some (if StatusCode r = 409 then ErrNodeInUse
                                 else if StatusCode r = 423 then ErrNodeHasLock
                                 else if StatusCode r = 404 then ErrNodeNotFound
                                 else MapAPIError e resp))))))"

definition EnsureUnreservedNodeLabels_observed ::
  "'s meter \<Rightarrow> ('w \<times> 's) control_plane \<Rightarrow> client \<Rightarrow> objkey \<Rightarrow> smap \<Rightarrow> ('w \<times> 's, error_or_nil) prog" where
  "EnsureUnreservedNodeLabels_observed mt cp c key labels0 =
     (let observeErr = observeErr mt ''ensure_unreserved_node_labels'' in
      measured mt ''ensure_unreserved_node_labels''
        (let labels = (if labels0 = NilMap then SMap [] else labels0);
             ctx = AddToken c
         in tryOE mt ''ensure_unreserved_node_labels'' (getNodeByKey cp ctx key) (\<lambda>n.
              let applyLabels = apply_labels (node_Labels n) labels in
              if skip_update (node_Labels n) applyLabels then observeErr None
              else tryOE mt ''ensure_unreserved_node_labels''
                     (apiP (api_UpdateNode cp ctx (node_Id n) labels (node_Version n)))
                     (\<lambda>_. observeErr None))))"

definition EnsureComputeOnly_observed ::
  "'s meter \<Rightarrow> ('w \<times> 's) control_plane \<Rightarrow> client \<Rightarrow> objkey \<Rightarrow> bool \<Rightarrow> ('w \<times> 's, error_or_nil) prog" where
  "EnsureComputeOnly_observed mt cp c key enabled =
     measured mt ''ensure_compute_only''
       (let ctx = AddToken c in
        tryOE mt ''ensure_compute_only'' (getNodeByKey cp ctx key) (\<lambda>n.
          case (case smap_get (node_Labels n) ReservedLabelComputeOnly of
                  None \<Rightarrow> Inr False | Some v \<Rightarrow> ParseBool v) of
            Inl e \<Rightarrow> retP (Some e)
          | Inr current \<Rightarrow>
              if current = enabled then retP None
              else tryOE mt ''ensure_compute_only''
                     (apiP (api_SetComputeOnly cp ctx (node_Id n) enabled (node_Version n)))
                     (\<lambda>_. observeErr mt ''ensure_compute_only'' None)))"

text \<open>The listing of the namespaces is a helper itself.\<close>

definition getVolumes_observed ::
  "'s meter \<Rightarrow> ('w \<times> 's) control_plane \<Rightarrow> client \<Rightarrow> ctx \<Rightarrow> ('w \<times> 's, goerr + volume list) prog" where
  "getVolumes_observed mt cp c ctx =
     tryP (ListNamespaces_observed mt cp c) (\<lambda>namespaces.
       forE (\<lambda>ns volumes.
               tryP (apiP (api_ListVolumes cp ctx (GetID ns))) (\<lambda>nsVols. retP (Inr (volumes @ nsVols))))
            namespaces [])"

definition VolumeObjects_observed ::
  "'s meter \<Rightarrow> ('w \<times> 's) control_plane \<Rightarrow> client \<Rightarrow> ('w \<times> 's, goerr + (objkey \<times> sobject) list) prog" where
  "VolumeObjects_observed mt cp c =
     measured mt ''volume_objects''
       (tryO mt ''volume_objects'' (getVolumes_observed mt cp c (AddToken c)) (\<lambda>volumes.
          retP (Inr (object_map (\<lambda>v. ObjectKeyFromObject (volume_object v)) volume_object volumes))))"

definition ListVolumes_observed ::
  "'s meter \<Rightarrow> ('w \<times> 's) control_plane \<Rightarrow> client \<Rightarrow> ('w \<times> 's, goerr + sobject list) prog" where
  "ListVolumes_observed mt cp c =
     measured mt ''list_volumes''
       (tryO mt ''list_volumes'' (getVolumes_observed mt cp c (AddToken c)) (\<lambda>volumes.
          retP (Inr (map volume_object volumes))))"

definition GetVolume_observed ::
  "'s meter \<Rightarrow> ('w \<times> 's) control_plane \<Rightarrow> client \<Rightarrow> objkey \<Rightarrow> ('w \<times> 's, goerr + sobject) prog" where
  "GetVolume_observed mt cp c key =
     measured mt ''get_volume''
       (tryO mt ''get_volume'' (getVolume cp (AddToken c) key) (\<lambda>vol. retP (Inr (volume_object vol))))"

definition EnsureUnreservedVolumeLabels_observed ::
  "'s meter \<Rightarrow> ('w \<times> 's) control_plane \<Rightarrow> client \<Rightarrow> objkey \<Rightarrow> smap \<Rightarrow> ('w \<times> 's, error_or_nil) prog" where
  "EnsureUnreservedVolumeLabels_observed mt cp c key labels0 =
     (let observeErr = observeErr mt ''ensure_unreserved_volume_labels'' in
      measured mt ''ensure_unreserved_volume_labels''
        (let labels = (if labels0 = NilMap then SMap [] else labels0);
             ctx = AddToken c
         in tryOE mt ''ensure_unreserved_volume_labels'' (getVolume cp ctx key) (\<lambda>vol.
              let applyLabels = apply_labels (vol_Labels vol) labels in
              if skip_update (vol_Labels vol) applyLabels then observeErr None
              else tryOE mt ''ensure_unreserved_volume_labels''
                     (apiP (api_UpdateVolume cp ctx (vol_NamespaceID vol) (vol_Id vol)
                              applyLabels (vol_Version vol)))
                     (\<lambda>_. observeErr None))))"

definition EnsureReplicas_observed ::
  "'s meter \<Rightarrow> ('w \<times> 's) control_plane \<Rightarrow> client \<Rightarrow> objkey \<Rightarrow> uint64 \<Rightarrow> ('w \<times> 's, error_or_nil) prog" where
  "EnsureReplicas_observed mt cp c key desired =
     measured mt ''ensure_replicas''
       (let ctx = AddToken c in
        tryOE mt ''ensure_replicas'' (getVolume cp ctx key) (\<lambda>vol.
          case (case smap_get (vol_Labels vol) ReservedLabelReplicas of
                  None \<Rightarrow> (0, None) | Some v \<Rightarrow> ParseUint v) of
            (current, Some e) \<Rightarrow> retP (Some e)
          | (current, None) \<Rightarrow>
              if current = desired then retP None
              else tryOE mt ''ensure_replicas''
                     (apiP (api_SetReplicas cp ctx (vol_NamespaceID vol) (vol_Id vol) desired
                              (vol_Version vol)))
                     (\<lambda>_. observeErr mt ''ensure_replicas'' None)))"

definition EnsureFailureMode_observed ::
  "'s meter \<Rightarrow> ('w \<times> 's) control_plane \<Rightarrow> client \<Rightarrow> objkey \<Rightarrow> string \<Rightarrow> ('w \<times> 's, error_or_nil) prog" where
  "EnsureFailureMode_observed mt cp c key desired =
     measured mt ''ensure_failure_mode''
       (let ctx = AddToken c in
        tryOE mt ''ensure_failure_mode'' (getVolume cp ctx key) (\<lambda>vol.
          let current = smap_get0 (vol_Labels vol) ReservedLabelFailureMode in
          if current = desired then retP None
          else (case ParseFailureMode desired of
                  Inl e \<Rightarrow> observeErr mt ''ensure_failure_mode'' (Some e)
                | Inr (mode, threshold) \<Rightarrow>
                    tryOE mt ''ensure_failure_mode''
                      (apiP (api_SetFailureMode cp ctx (vol_NamespaceID vol) (vol_Id vol) mode
                               threshold (vol_Version vol)))
                      (\<lambda>_. observeErr mt ''ensure_failure_mode'' None))))"

text \<open>An error of a listing is counted alone and returned inside a multi-error.\<close>

primrec listSharedVolumes_loop_observed ::
  "'s meter \<Rightarrow> ('w \<times> 's) control_plane \<Rightarrow> ctx \<Rightarrow> namespace list \<Rightarrow> SharedVolume list
     \<Rightarrow> ('w \<times> 's, goerr + SharedVolume list) prog" where
  "listSharedVolumes_loop_observed mt cp ctx [] sharedVolumes =
     bindP (observeErr mt ''list_shared_volumes'' None) (\<lambda>_. retP (Inr sharedVolumes))"
| "listSharedVolumes_loop_observed mt cp ctx (ns # namespaces) sharedVolumes =
     bindP (callP (api_ListVolumes cp ctx (ns_Id ns))) (\<lambda>(volumes, resp, err).
       case err of
         Some e \<Rightarrow>
           bindP (observeErr mt ''list_shared_volumes'' (Some (MapAPIError e resp))) (\<lambda>err.
             case ErrorOrNil (Append [] err) of
               Some errors \<Rightarrow> retP (Inl errors)
             | None \<Rightarrow> retP (Inr []))
       | None \<Rightarrow>
           listSharedVolumes_loop_observed mt cp ctx namespaces (sharedVolumes @ sharedVolumesOf ns volumes))"

definition ListSharedVolumes_observed ::
  "'s meter \<Rightarrow> ('w \<times> 's) control_plane \<Rightarrow> client \<Rightarrow> ('w \<times> 's, goerr + SharedVolume list) prog" where
  "ListSharedVolumes_observed mt cp c =
     measured mt ''list_shared_volumes''
       (let ctx = AddToken c in
        tryO mt ''list_shared_volumes'' (apiP (api_ListNamespaces cp ctx)) (\<lambda>namespaces.
          listSharedVolumes_loop_observed mt cp ctx namespaces []))"

definition SetExternalEndpoint_observed ::
  "'s meter \<Rightarrow> ('w \<times> 's) control_plane \<Rightarrow> client \<Rightarrow> string \<Rightarrow> string \<Rightarrow> string
     \<Rightarrow> ('w \<times> 's, error_or_nil) prog" where
  "SetExternalEndpoint_observed mt cp c volID namespace endpoint =
     measured mt ''set_external_endpoint''
       (let ctx = AddToken c in
        tryOE mt ''set_external_endpoint'' (getVolumeByID cp ctx volID namespace) (\<lambda>curVol.
          let mountEndpoint = smap_get0 (vol_Labels curVol) LabelNFSMountEndpoint in
          if mountEndpoint = endpoint then observeErr mt ''set_external_endpoint'' None
          else tryOE mt ''set_external_endpoint''
                 (apiP (api_UpdateNFSVolumeMountEndpoint cp ctx (vol_NamespaceID curVol) (vol_Id curVol)
                          endpoint (vol_Version curVol)))
                 (\<lambda>_. observeErr mt ''set_external_endpoint'' None)))"

section \<open>What the helpers leave in the metrics\<close>

text \<open>
  A sample is one increment of the result counter, with its two labels, or one
  observation of the duration histogram. \<open>observes smp m' m M\<close>: the observed program
  \<open>m'\<close> returns (or panics) and changes the world as \<open>m\<close> does, and adds to the samples
  precisely those of \<open>M\<close>, which may depend on the world at the start.
\<close>

datatype sample = Result string string | Duration string

definition observes ::
  "('s \<Rightarrow> sample \<Rightarrow> nat) \<Rightarrow> ('w \<times> 's, 'a) prog \<Rightarrow> ('w, 'a) prog \<Rightarrow> ('w \<Rightarrow> sample multiset) \<Rightarrow> bool" where
  "observes smp m' m M \<longleftrightarrow>
     (\<forall>w s. case m' (w, s) of (r, (w', s')) \<Rightarrow>
        m w = (r, w') \<and> (\<forall>k. smp s' k = smp s k + count (M w) k))"

definition error_label :: "(goerr \<Rightarrow> string) \<Rightarrow> error_or_nil \<Rightarrow> string" where
  "error_label es e = (case e of None \<Rightarrow> '''' | Some e \<Rightarrow> es e)"

text \<open>The samples of a helper that counts only its failures, and of one that counts every result.\<close>

definition failures :: "(goerr \<Rightarrow> string) \<Rightarrow> string \<Rightarrow> ('w, goerr + 'a) prog \<Rightarrow> 'w \<Rightarrow> sample multiset" where
  "failures es f m w = (case fst (m w) of Ret (Inl e) \<Rightarrow> {#Result f (es e)#} | _ \<Rightarrow> {#})"

definition results :: "(goerr \<Rightarrow> string) \<Rightarrow> string \<Rightarrow> ('w, error_or_nil) prog \<Rightarrow> 'w \<Rightarrow> sample multiset" where
  "results es f m w = (case fst (m w) of Ret e \<Rightarrow> {#Result f (error_label es e)#} | _ \<Rightarrow> {#})"

text \<open>
  The samples of a helper that counts no result when what it looked up satisfies
  \<open>P\<close>; and the listings of \<open>ListSharedVolumes\<close> alone, with the first error of them.
\<close>

definition results_unless ::
  "('x \<Rightarrow> bool) \<Rightarrow> ('w, goerr + 'x) prog \<Rightarrow> (goerr \<Rightarrow> string) \<Rightarrow> string \<Rightarrow> ('w, error_or_nil) prog
     \<Rightarrow> 'w \<Rightarrow> sample multiset" where
  "results_unless P lookup es f m w =
     (case fst (lookup w) of
        Ret (Inr x) \<Rightarrow> if P x then {#} else results es f m w
      | _ \<Rightarrow> results es f m w)"

primrec list_all_volumes :: "'w control_plane \<Rightarrow> ctx \<Rightarrow> namespace list \<Rightarrow> ('w, error_or_nil) prog" where
  "list_all_volumes cp ctx [] = retP None"
| "list_all_volumes cp ctx (ns # nss) =
     tryE (apiP (api_ListVolumes cp ctx (ns_Id ns))) (\<lambda>_. list_all_volumes cp ctx nss)"

definition keeps_compute_only :: "bool \<Rightarrow> node \<Rightarrow> bool" where
  "keeps_compute_only enabled n \<longleftrightarrow>
     (case smap_get (node_Labels n) ReservedLabelComputeOnly of
        None \<Rightarrow> \<not> enabled
      | Some v \<Rightarrow> (case ParseBool v of Inl e \<Rightarrow> True | Inr b \<Rightarrow> b = enabled))"

definition keeps_replicas :: "uint64 \<Rightarrow> volume \<Rightarrow> bool" where
  "keeps_replicas desired vol \<longleftrightarrow>
     (case smap_get (vol_Labels vol) ReservedLabelReplicas of
        None \<Rightarrow> desired = 0
      | Some v \<Rightarrow> snd (ParseUint v) \<noteq> None \<or> fst (ParseUint v) = desired)"

definition keeps_failure_mode :: "string \<Rightarrow> volume \<Rightarrow> bool" where
  "keeps_failure_mode desired vol \<longleftrightarrow> smap_get0 (vol_Labels vol) ReservedLabelFailureMode = desired"

text \<open>What the two metrics promise, whatever holds their state.\<close>

locale sampling_meter =
  fixes mt :: "'s meter"
    and es :: "goerr \<Rightarrow> string"
    and smp :: "'s \<Rightarrow> sample \<Rightarrow> nat"
  assumes smp_Increment: "smp (Increment mt f e s) k = smp s k + count {#Result f (error_label es e)#} k"
    and smp_Observe: "smp (Observe mt f d s) k = smp s k + count {#Duration f#} k"
    and smp_Now: "smp (snd (Now mt s)) k = smp s k"
begin

lemma observes_cong: "observes smp m' m M \<Longrightarrow> (\<And>w. M w = M' w) \<Longrightarrow> observes smp m' m M'"
  by (simp add: observes_def)

lemma observes_beside: "observes smp (beside m) m (\<lambda>w. {#})"
  by (simp add: observes_def)

lemma observes_retP: "observes smp (retP a) (retP a) (\<lambda>w. {#})"
  by (simp add: observes_def retP_run)

lemma observes_observeErr:
  "observes smp (observeErr mt f e) (retP e) (\<lambda>w. {#Result f (error_label es e)#})"
  by (simp add: observes_def observeErr_def retP_run smp_Increment)

lemma observes_callP:
  "(\<And>a. f' a = beside (f a)) \<Longrightarrow> observes smp (bindP (callP (besideX g)) f') (bindP (callP g) f) (\<lambda>w. {#})"
  unfolding beside_callP by (subst beside_bindP, assumption, rule observes_beside)

lemma observes_measured:
  assumes "observes smp m' m M"
  shows "observes smp (measured mt f m') m (\<lambda>w. add_mset (Duration f) (M w))"
  unfolding observes_def
proof (intro allI)
  fix w s
  obtain start s1 where n1: "Now mt s = (start, s1)" by fastforce
  obtain r w' s2 where b: "m' (w, s1) = (r, (w', s2))" by (metis prod.collapse)
  obtain stop s3 where n2: "Now mt s2 = (stop, s3)" by fastforce
  have "m w = (r, w')" and "smp s2 k = smp s1 k + count (M w) k" for k
    using assms b by (auto simp: observes_def split: prod.splits)
  with n1 b n2 smp_Now [of s] smp_Now [of s2] show
    "case measured mt f m' (w, s) of (r, (w', s')) \<Rightarrow>
       m w = (r, w') \<and> (\<forall>k. smp s' k = smp s k + count (add_mset (Duration f) (M w)) k)"
    by (simp add: measured_def smp_Observe)
qed

lemma observes_bindP:
  assumes "observes smp m' m M" and "\<And>a. observes smp (f' a) (f a) (N a)"
  shows "observes smp (bindP m' f') (bindP m f)
           (\<lambda>w. M w + (case m w of (Ret a, w1) \<Rightarrow> N a w1 | (Panic, w1) \<Rightarrow> {#}))"
  unfolding observes_def
proof (intro allI)
  fix w s
  obtain r w1 s1 where m: "m' (w, s) = (r, (w1, s1))" by (metis prod.collapse)
  with assms(1) have m': "m w = (r, w1)" "\<And>k. smp s1 k = smp s k + count (M w) k"
    by (auto simp: observes_def split: prod.splits)
  show "case bindP m' f' (w, s) of (r, (w', s')) \<Rightarrow> bindP m f w = (r, w') \<and>
      (\<forall>k. smp s' k = smp s k + count (M w + (case m w of (Ret a, w1) \<Rightarrow> N a w1 | (Panic, w1) \<Rightarrow> {#})) k)"
  proof (cases r)
    case (Ret a)
    obtain r2 w2 s2 where f: "f' a (w1, s1) = (r2, (w2, s2))" by (metis prod.collapse)
    with assms(2) [of a] have "f a w1 = (r2, w2)" "\<And>k. smp s2 k = smp s1 k + count (N a w1) k"
      by (auto simp: observes_def split: prod.splits)
    with m m' f Ret show ?thesis by simp
  qed (use m m' in simp)
qed

lemma observes_tryP:
  assumes "observes smp m' m M" and "\<And>x. observes smp (k' x) (k x) (N x)"
  shows "observes smp (tryP m' k') (tryP m k)
           (\<lambda>w. M w + (case m w of (Ret (Inr x), w1) \<Rightarrow> N x w1 | _ \<Rightarrow> {#}))"
  unfolding tryP_def
  by (rule observes_cong, rule observes_bindP [OF assms(1),
        where N = "\<lambda>r. case r of Inl e \<Rightarrow> (\<lambda>w. {#}) | Inr x \<Rightarrow> N x"])
    (auto simp: observes_retP assms(2) split: sum.splits prod.splits outcome.splits)

lemma observes_tryO:
  assumes "observes smp m' m M" and "\<And>x. observes smp (k' x) (k x) (N x)"
  shows "observes smp (tryO mt f m' k') (tryP m k)
           (\<lambda>w. M w + (case m w of (Ret (Inl e), w1) \<Rightarrow> {#Result f (es e)#}
                       | (Ret (Inr x), w1) \<Rightarrow> N x w1 | _ \<Rightarrow> {#}))"
proof -
  have fail: "observes smp (bindP (observeErr mt f (Some e)) (\<lambda>_. retP (Inl e))) (retP (Inl e))
                (\<lambda>w. {#Result f (es e)#})" for e
    by (simp add: observes_def observeErr_def bindP_run retP_run smp_Increment error_label_def)
  show ?thesis
    unfolding tryO_def tryP_def
    by (rule observes_cong, rule observes_bindP [OF assms(1),
          where N = "\<lambda>r. case r of Inl e \<Rightarrow> (\<lambda>w. {#Result f (es e)#}) | Inr x \<Rightarrow> N x"])
      (auto simp: fail assms(2) split: sum.splits prod.splits outcome.splits)
qed

lemma observes_tryOE:
  assumes "observes smp m' m M" and "\<And>x. observes smp (k' x) (k x) (N x)"
  shows "observes smp (tryOE mt f m' k') (tryE m k)
           (\<lambda>w. M w + (case m w of (Ret (Inl e), w1) \<Rightarrow> {#Result f (es e)#}
                       | (Ret (Inr x), w1) \<Rightarrow> N x w1 | _ \<Rightarrow> {#}))"
proof -
  have fail: "observes smp (observeErr mt f (Some e)) (retP (Some e)) (\<lambda>w. {#Result f (es e)#})" for e
    using observes_observeErr [of f "Some e"] by (simp add: error_label_def)
  show ?thesis
    unfolding tryOE_def tryE_def
    by (rule observes_cong, rule observes_bindP [OF assms(1),
          where N = "\<lambda>r. case r of Inl e \<Rightarrow> (\<lambda>w. {#Result f (es e)#}) | Inr x \<Rightarrow> N x"])
      (auto simp: fail assms(2) split: sum.splits prod.splits outcome.splits)
qed

text \<open>The listings.\<close>

lemma observes_listing:
  assumes "\<And>x. k' x = beside (k x)" and "\<And>x w. \<exists>y. fst (k x w) = Ret (Inr y)"
  shows "observes smp (measured mt f (tryO mt f (beside m) k')) (tryP m k)
           (\<lambda>w. add_mset (Duration f) (failures es f (tryP m k) w))"
proof (rule observes_measured, rule observes_cong, rule observes_tryO, rule observes_beside)
  show "observes smp (k' x) (k x) (\<lambda>w. {#})" for x
    unfolding assms(1) by (rule observes_beside)
  show "{#} + (case m w of (Ret (Inl e), w1) \<Rightarrow> {#Result f (es e)#} | (Ret (Inr x), w1) \<Rightarrow> {#} | _ \<Rightarrow> {#}) =
      failures es f (tryP m k) w" for w
    using assms(2)
    by (auto simp: failures_def tryP_run split: prod.splits outcome.splits sum.splits) (metis fst_conv outcome.inject sum.distinct(1))
qed

lemma NodeObjects_observes:
  "observes smp (NodeObjects_observed mt (beside_cp cp) c) (NodeObjects cp c)
     (\<lambda>w. add_mset (Duration ''node_objects'') (failures es ''node_objects'' (NodeObjects cp c) w))"
  unfolding NodeObjects_observed_def NodeObjects_def beside_cp_sel beside_apiP
  by (rule observes_listing) (simp_all add: beside_retP [symmetric] retP_run)

lemma ListNodes_observes:
  "observes smp (ListNodes_observed mt (beside_cp cp) c) (ListNodes cp c)
     (\<lambda>w. add_mset (Duration ''list_nodes'') (failures es ''list_nodes'' (ListNodes cp c) w))"
  unfolding ListNodes_observed_def ListNodes_def beside_cp_sel beside_apiP
  by (rule observes_listing) (simp_all add: beside_retP [symmetric] retP_run)

lemma ListNamespaces_observes:
  "observes smp (ListNamespaces_observed mt (beside_cp cp) c) (ListNamespaces cp c)
     (\<lambda>w. add_mset (Duration ''list_namespaces'')
            (failures es ''list_namespaces'' (ListNamespaces cp c) w))"
  unfolding ListNamespaces_observed_def ListNamespaces_def beside_cp_sel beside_apiP
  by (rule observes_listing) (simp_all add: beside_retP [symmetric] retP_run)

lemma GetVolume_observes:
  "observes smp (GetVolume_observed mt (beside_cp cp) c key) (GetVolume cp c key)
     (\<lambda>w. add_mset (Duration ''get_volume'') (failures es ''get_volume'' (GetVolume cp c key) w))"
  unfolding GetVolume_observed_def GetVolume_def Let_def getVolume_beside
  by (rule observes_listing) (simp_all add: beside_retP [symmetric] retP_run)

text \<open>The listings of volumes run the listing of namespaces as a helper of its own.\<close>

lemma getVolumes_observes:
  "observes smp (getVolumes_observed mt (beside_cp cp) c ctx) (getVolumes cp c ctx)
     (\<lambda>w. add_mset (Duration ''list_namespaces'')
            (failures es ''list_namespaces'' (ListNamespaces cp c) w))"
  unfolding getVolumes_observed_def getVolumes_def
  unfolding volumes_loop_beside
  by (rule observes_cong, rule observes_tryP, rule ListNamespaces_observes, rule observes_beside)
    (simp split: prod.splits outcome.splits sum.splits)

lemma observes_volume_listing:
  assumes "\<And>x. k' x = retP (Inr (g x))" and "\<And>x. k x = retP (Inr (g x))"
  shows "observes smp (measured mt f (tryO mt f (getVolumes_observed mt (beside_cp cp) c ctx) k'))
           (tryP (getVolumes cp c ctx) k)
           (\<lambda>w. {#Duration f, Duration ''list_namespaces''#} +
                failures es ''list_namespaces'' (ListNamespaces cp c) w +
                failures es f (tryP (getVolumes cp c ctx) k) w)"
proof (rule observes_cong, rule observes_measured, rule observes_tryO, rule getVolumes_observes)
  show "observes smp (k' x) (k x) (\<lambda>w. {#})" for x
    unfolding assms by (rule observes_retP)
qed (auto simp: failures_def tryP_run assms retP_run split: prod.splits outcome.splits sum.splits)

lemma VolumeObjects_observes:
  "observes smp (VolumeObjects_observed mt (beside_cp cp) c) (VolumeObjects cp c)
     (\<lambda>w. {#Duration ''volume_objects'', Duration ''list_namespaces''#} +
          failures es ''list_namespaces'' (ListNamespaces cp c) w +
          failures es ''volume_objects'' (VolumeObjects cp c) w)"
  unfolding VolumeObjects_observed_def VolumeObjects_def Let_def
  by (rule observes_volume_listing) (rule refl)+

lemma ListVolumes_observes:
  "observes smp (ListVolumes_observed mt (beside_cp cp) c) (ListVolumes cp c)
     (\<lambda>w. {#Duration ''list_volumes'', Duration ''list_namespaces''#} +
          failures es ''list_namespaces'' (ListNamespaces cp c) w +
          failures es ''list_volumes'' (ListVolumes cp c) w)"
  unfolding ListVolumes_observed_def ListVolumes_def Let_def
  by (rule observes_volume_listing) (rule refl)+

text \<open>The deletions.\<close>

lemma DeleteNode_observes:
  "observes smp (DeleteNode_observed mt (beside_cp cp) c key) (DeleteNode cp c key)
     (\<lambda>w. add_mset (Duration ''delete_node'')
            (failures es ''delete_node'' (getNodeByKey cp (AddToken c) key) w))"
  unfolding DeleteNode_observed_def DeleteNode_def Let_def getNodeByKey_beside beside_cp_sel
  by (rule observes_measured, rule observes_cong, rule observes_tryOE, rule observes_beside, rule observes_callP)
    (auto simp: fun_eq_iff retP_run panicP_run failures_def split: prod.splits option.splits outcome.splits sum.splits)

lemma DeleteNamespace_observes:
  "observes smp (DeleteNamespace_observed mt (beside_cp cp) c key) (DeleteNamespace cp c key)
     (\<lambda>w. add_mset (Duration ''delete_namespace'')
            (failures es ''delete_namespace''
               (tryP (getNamespace cp (AddToken c) key) (\<lambda>ns.
                  apiP (api_DeleteNamespace cp (AddToken c) (ns_Id ns) (ns_Version ns)))) w))"
proof -
  let ?f = "''delete_namespace''"
  have tail: "observes smp
      (bindP (callP (besideX g)) (\<lambda>(u, resp, err). case err of None \<Rightarrow> retP None
         | Some e \<Rightarrow> bindP (observeErr mt ?f (Some (MapAPIError e resp))) (\<lambda>err.
             case resp of None \<Rightarrow> panicP
             | Some r \<Rightarrow> retP (if StatusCode r = 409 then Some ErrNamespaceInUse
                              else if StatusCode r = 404 then Some ErrNamespaceNotFound else err))))
      (bindP (callP g) (\<lambda>(u, resp, err). case err of None \<Rightarrow> retP None
         | Some e \<Rightarrow> (case resp of None \<Rightarrow> panicP
             | Some r \<Rightarrow> retP (Some (if StatusCode r = 409 then ErrNamespaceInUse
                                   else if StatusCode r = 404 then ErrNamespaceNotFound
                                   else MapAPIError e resp)))))
      (failures es ?f (apiP g))" for g :: "('w, unit api_ret) ext"
    by (auto simp: observes_def observeErr_def failures_def apiP_run bindP_run retP_run panicP_run smp_Increment
        error_label_def split: prod.splits option.splits)
  show ?thesis
    unfolding DeleteNamespace_observed_def DeleteNamespace_def Let_def getNamespace_beside beside_cp_sel
    by (rule observes_measured, rule observes_cong, rule observes_tryOE, rule observes_beside, rule tail)
      (auto simp: failures_def tryP_run split: prod.splits outcome.splits sum.splits)
qed

text \<open>
  The updates. In a body that looks an object up and then either keeps it or sends
  an update, every result is counted, or none when the object is kept.
\<close>

lemma observes_update:
  assumes "\<And>x. P x \<Longrightarrow> k' x = retP (g x) \<and> k x = retP (g x)"
    and "\<And>x. \<not> P x \<Longrightarrow> observes smp (k' x) (k x) (results es f (k x))"
  shows "observes smp (measured mt f (tryOE mt f (beside m) k')) (tryE m k)
           (\<lambda>w. add_mset (Duration f) (results_unless P m es f (tryE m k) w))"
proof (rule observes_measured, rule observes_cong, rule observes_tryOE, rule observes_beside)
  show "observes smp (k' x) (k x) (\<lambda>w. if P x then {#} else results es f (k x) w)" for x
    using assms [of x] by (cases "P x") (simp_all add: observes_retP)
qed (auto simp: results_unless_def results_def tryE_run error_label_def
       split: prod.splits outcome.splits sum.splits)

lemma observes_send:
  "observes smp (tryOE mt f (apiP (besideX g)) (\<lambda>_. observeErr mt f None)) (tryE (apiP g) (\<lambda>_. retP None))
     (results es f (tryE (apiP g) (\<lambda>_. retP None)))"
  unfolding beside_apiP
  by (rule observes_cong, rule observes_tryOE, rule observes_beside, rule observes_observeErr)
    (auto simp: results_def tryE_run retP_run error_label_def split: prod.splits outcome.splits sum.splits)

lemma observes_result: "observes smp (observeErr mt f e) (retP e) (results es f (retP e))"
  by (rule observes_cong, rule observes_observeErr) (simp add: results_def retP_run)

lemma results_unless_False [simp]: "results_unless (\<lambda>_. False) m es f = results es f"
  by (rule ext)+ (simp add: results_unless_def split: outcome.splits sum.splits)

lemma observes_update_all:
  assumes "\<And>x. observes smp (k' x) (k x) (results es f (k x))"
  shows "observes smp (measured mt f (tryOE mt f (beside m) k')) (tryE m k)
           (\<lambda>w. add_mset (Duration f) (results es f (tryE m k) w))"
  using observes_update [where P = "\<lambda>_. False", OF _ assms] by simp

lemma EnsureUnreservedNodeLabels_observes:
  "observes smp (EnsureUnreservedNodeLabels_observed mt (beside_cp cp) c key labels)
     (EnsureUnreservedNodeLabels cp c key labels)
     (\<lambda>w. add_mset (Duration ''ensure_unreserved_node_labels'')
            (results es ''ensure_unreserved_node_labels'' (EnsureUnreservedNodeLabels cp c key labels) w))"
  unfolding EnsureUnreservedNodeLabels_observed_def EnsureUnreservedNodeLabels_def Let_def
    getNodeByKey_beside beside_cp_sel
  by (rule observes_update_all) (simp add: observes_send observes_result)

lemma EnsureUnreservedVolumeLabels_observes:
  "observes smp (EnsureUnreservedVolumeLabels_observed mt (beside_cp cp) c key labels)
     (EnsureUnreservedVolumeLabels cp c key labels)
     (\<lambda>w. add_mset (Duration ''ensure_unreserved_volume_labels'')
            (results es ''ensure_unreserved_volume_labels'' (EnsureUnreservedVolumeLabels cp c key labels) w))"
  unfolding EnsureUnreservedVolumeLabels_observed_def EnsureUnreservedVolumeLabels_def Let_def
    getVolume_beside beside_cp_sel
  by (rule observes_update_all) (simp add: observes_send observes_result)

lemma SetExternalEndpoint_observes:
  "observes smp (SetExternalEndpoint_observed mt (beside_cp cp) c volID namespace endpoint)
     (SetExternalEndpoint cp c volID namespace endpoint)
     (\<lambda>w. add_mset (Duration ''set_external_endpoint'')
            (results es ''set_external_endpoint'' (SetExternalEndpoint cp c volID namespace endpoint) w))"
  unfolding SetExternalEndpoint_observed_def SetExternalEndpoint_def Let_def
    getVolumeByID_beside beside_cp_sel
  by (rule observes_update_all) (simp add: observes_send observes_result)

lemma EnsureFailureMode_observes:
  "observes smp (EnsureFailureMode_observed mt (beside_cp cp) c key desired) (EnsureFailureMode cp c key desired)
     (\<lambda>w. add_mset (Duration ''ensure_failure_mode'')
            (results_unless (keeps_failure_mode desired) (getVolume cp (AddToken c) key) es
               ''ensure_failure_mode'' (EnsureFailureMode cp c key desired) w))"
  unfolding EnsureFailureMode_observed_def EnsureFailureMode_def Let_def getVolume_beside beside_cp_sel
  by (rule observes_update [where g = "\<lambda>_. None"])
    (auto simp: keeps_failure_mode_def observes_send observes_result split: sum.splits)

lemma EnsureReplicas_observes:
  "observes smp (EnsureReplicas_observed mt (beside_cp cp) c key desired) (EnsureReplicas cp c key desired)
     (\<lambda>w. add_mset (Duration ''ensure_replicas'')
            (results_unless (keeps_replicas desired) (getVolume cp (AddToken c) key) es
               ''ensure_replicas'' (EnsureReplicas cp c key desired) w))"
  unfolding EnsureReplicas_observed_def EnsureReplicas_def Let_def getVolume_beside beside_cp_sel
  by (rule observes_update [where g = "\<lambda>vol. case smap_get (vol_Labels vol) ReservedLabelReplicas of
        None \<Rightarrow> None | Some v \<Rightarrow> snd (ParseUint v)"])
    (auto simp: keeps_replicas_def observes_send split: option.splits prod.splits)

lemma EnsureComputeOnly_observes:
  "observes smp (EnsureComputeOnly_observed mt (beside_cp cp) c key enabled) (EnsureComputeOnly cp c key enabled)
     (\<lambda>w. add_mset (Duration ''ensure_compute_only'')
            (results_unless (keeps_compute_only enabled) (getNodeByKey cp (AddToken c) key) es
               ''ensure_compute_only'' (EnsureComputeOnly cp c key enabled) w))"
  unfolding EnsureComputeOnly_observed_def EnsureComputeOnly_def Let_def getNodeByKey_beside beside_cp_sel
  by (rule observes_update [where g = "\<lambda>n. case smap_get (node_Labels n) ReservedLabelComputeOnly of
        None \<Rightarrow> None | Some v \<Rightarrow> (case ParseBool v of Inl e \<Rightarrow> Some e | Inr b \<Rightarrow> None)"])
    (auto simp: keeps_compute_only_def observes_send split: option.splits sum.splits)

text \<open>The listing of shared volumes counts its own result, but the error that made it fail.\<close>

lemma listSharedVolumes_loop_observes:
  "observes smp (listSharedVolumes_loop_observed mt (beside_cp cp) ctx nss svs)
     (listSharedVolumes_loop cp ctx nss svs)
     (results es ''list_shared_volumes'' (list_all_volumes cp ctx nss))"
proof (induction nss arbitrary: svs)
  case Nil
  show ?case
    by (simp add: observes_def observeErr_def bindP_run retP_run smp_Increment results_def)
next
  case (Cons ns nss)
  show ?case
    unfolding observes_def
  proof (intro allI)
    fix w s
    obtain vols resp err w1 where call: "api_ListVolumes cp ctx (ns_Id ns) w = ((vols, resp, err), w1)"
      by (metis surj_pair)
    show "case listSharedVolumes_loop_observed mt (beside_cp cp) ctx (ns # nss) svs (w, s) of (r, (w', s')) \<Rightarrow>
        listSharedVolumes_loop cp ctx (ns # nss) svs w = (r, w') \<and>
        (\<forall>k. smp s' k = smp s k + count (results es ''list_shared_volumes'' (list_all_volumes cp ctx (ns # nss)) w) k)"
      using call Cons.IH [of "svs @ sharedVolumesOf ns vols", unfolded observes_def, rule_format, of w1 s]
      by (cases err) (simp_all add: results_def tryE_run apiP_run bindP_run observeErr_def retP_run
          smp_Increment error_label_def ErrorOrNil_def split: option.splits prod.splits)
  qed
qed

lemma ListSharedVolumes_observes:
  "observes smp (ListSharedVolumes_observed mt (beside_cp cp) c) (ListSharedVolumes cp c)
     (\<lambda>w. add_mset (Duration ''list_shared_volumes'')
            (results es ''list_shared_volumes''
               (tryE (apiP (api_ListNamespaces cp (AddToken c))) (list_all_volumes cp (AddToken c))) w))"
  unfolding ListSharedVolumes_observed_def ListSharedVolumes_def Let_def beside_cp_sel beside_apiP
  by (rule observes_measured, rule observes_cong, rule observes_tryO, rule observes_beside,
      rule listSharedVolumes_loop_observes)
    (auto simp: results_def tryE_run error_label_def split: prod.splits outcome.splits sum.splits)

end

section \<open>The collectors of the process\<close>

text \<open>
  The helpers of the program count with the adapters of \<open>metrics.go\<close>. The clock is a
  parameter: \<open>clk n\<close> is what the \<open>n\<close>-th reading of it returns.
\<close>

record observed_state =
  os_metrics :: metrics
  os_readings :: nat

definition prometheus_meter :: "(nat \<Rightarrow> int) \<Rightarrow> (goerr \<Rightarrow> string) \<Rightarrow> observed_state meter" where
  "prometheus_meter clk es =
     \<lparr>Increment = (\<lambda>f e s. s\<lparr>os_metrics := Errors_Increment es f e (os_metrics s)\<rparr>),
      Observe = (\<lambda>f d s. s\<lparr>os_metrics := Latency_Observe f d (os_metrics s)\<rparr>),
      Now = (\<lambda>s. (clk (os_readings s), s\<lparr>os_readings := Suc (os_readings s)\<rparr>))\<rparr>"

primrec samples :: "observed_state \<Rightarrow> sample \<Rightarrow> nat" where
  "samples s (Result f l) = (case map_of (mt_helperResult (os_metrics s)) (f, l) of Some n \<Rightarrow> n | None \<Rightarrow> 0)"
| "samples s (Duration f) = length (filter (\<lambda>(g, d). g = f) (mt_helperLatency (os_metrics s)))"

interpretation prom: sampling_meter "prometheus_meter clk es" es samples
proof unfold_locales
  show "samples (Increment (prometheus_meter clk es) f e s) k =
      samples s k + count {#Result f (error_label es e)#} k" for f e s k
    by (cases k) (auto simp: prometheus_meter_def Errors_Increment_def Let_def error_label_def
        update_conv' split: option.splits)
  show "samples (Observe (prometheus_meter clk es) f d s) k = samples s k + count {#Duration f#} k" for f d s k
    by (cases k) (auto simp: prometheus_meter_def Latency_Observe_def)
  show "samples (snd (Now (prometheus_meter clk es) s)) k = samples s k" for s k
    by (cases k) (auto simp: prometheus_meter_def)
qed

text \<open>
  C16. The metrics of the API helpers are exact. Every helper does to the world, and
  returns, what its model without metrics does, and on every run, also one that
  panics, it adds one duration to the histogram and to the result counter no more
  than this: the listings and \<open>GetVolume\<close> count their failures only, and the two
  listings of volumes leave the samples of \<open>ListNamespaces\<close> too; \<open>DeleteNode\<close> counts a
  failed lookup but neither a failed nor a successful deletion; \<open>DeleteNamespace\<close> counts
  its failures, under the mapped error and not the one it returns; the updates of the
  unreserved labels and of the external endpoint count every result; \<open>EnsureReplicas\<close>,
  \<open>EnsureComputeOnly\<close> and \<open>EnsureFailureMode\<close> count every result unless there is nothing
  to change, or the current value cannot be parsed; \<open>ListSharedVolumes\<close> counts every
  result, under the error of the listing that failed.
\<close>

theorem helpers_observed:
  fixes cp :: "'w control_plane"
  shows "observes samples (NodeObjects_observed (prometheus_meter clk es) (beside_cp cp) c) (NodeObjects cp c)
    (\<lambda>w. add_mset (Duration ''node_objects'') (failures es ''node_objects'' (NodeObjects cp c) w)) \<and>
  observes samples (ListNodes_observed (prometheus_meter clk es) (beside_cp cp) c) (ListNodes cp c)
    (\<lambda>w. add_mset (Duration ''list_nodes'') (failures es ''list_nodes'' (ListNodes cp c) w)) \<and>
  observes samples (ListNamespaces_observed (prometheus_meter clk es) (beside_cp cp) c) (ListNamespaces cp c)
    (\<lambda>w. add_mset (Duration ''list_namespaces'') (failures es ''list_namespaces'' (ListNamespaces cp c) w)) \<and>
  observes samples (GetVolume_observed (prometheus_meter clk es) (beside_cp cp) c key) (GetVolume cp c key)
    (\<lambda>w. add_mset (Duration ''get_volume'') (failures es ''get_volume'' (GetVolume cp c key) w)) \<and>
  observes samples (VolumeObjects_observed (prometheus_meter clk es) (beside_cp cp) c) (VolumeObjects cp c)
    (\<lambda>w. {#Duration ''volume_objects'', Duration ''list_namespaces''#} +
         failures es ''list_namespaces'' (ListNamespaces cp c) w +
         failures es ''volume_objects'' (VolumeObjects cp c) w) \<and>
  observes samples (ListVolumes_observed (prometheus_meter clk es) (beside_cp cp) c) (ListVolumes cp c)
    (\<lambda>w. {#Duration ''list_volumes'', Duration ''list_namespaces''#} +
         failures es ''list_namespaces'' (ListNamespaces cp c) w +
         failures es ''list_volumes'' (ListVolumes cp c) w) \<and>
  observes samples (DeleteNode_observed (prometheus_meter clk es) (beside_cp cp) c key) (DeleteNode cp c key)
    (\<lambda>w. add_mset (Duration ''delete_node'')
           (failures es ''delete_node'' (getNodeByKey cp (AddToken c) key) w)) \<and>
  observes samples (DeleteNamespace_observed (prometheus_meter clk es) (beside_cp cp) c key)
    (DeleteNamespace cp c key)
    (\<lambda>w. add_mset (Duration ''delete_namespace'')
           (failures es ''delete_namespace''
              (tryP (getNamespace cp (AddToken c) key) (\<lambda>ns.
                 apiP (api_DeleteNamespace cp (AddToken c) (ns_Id ns) (ns_Version ns)))) w)) \<and>
  observes samples (EnsureUnreservedNodeLabels_observed (prometheus_meter clk es) (beside_cp cp) c key labels)
    (EnsureUnreservedNodeLabels cp c key labels)
    (\<lambda>w. add_mset (Duration ''ensure_unreserved_node_labels'')
           (results es ''ensure_unreserved_node_labels'' (EnsureUnreservedNodeLabels cp c key labels) w)) \<and>
  observes samples (EnsureUnreservedVolumeLabels_observed (prometheus_meter clk es) (beside_cp cp) c key labels)
    (EnsureUnreservedVolumeLabels cp c key labels)
    (\<lambda>w. add_mset (Duration ''ensure_unreserved_volume_labels'')
           (results es ''ensure_unreserved_volume_labels'' (EnsureUnreservedVolumeLabels cp c key labels) w)) \<and>
  observes samples (SetExternalEndpoint_observed (prometheus_meter clk es) (beside_cp cp) c volID ns endpoint)
    (SetExternalEndpoint cp c volID ns endpoint)
    (\<lambda>w. add_mset (Duration ''set_external_endpoint'')
           (results es ''set_external_endpoint'' (SetExternalEndpoint cp c volID ns endpoint) w)) \<and>
  observes samples (EnsureComputeOnly_observed (prometheus_meter clk es) (beside_cp cp) c key enabled)
    (EnsureComputeOnly cp c key enabled)
    (\<lambda>w. add_mset (Duration ''ensure_compute_only'')
           (results_unless (keeps_compute_only enabled) (getNodeByKey cp (AddToken c) key) es
              ''ensure_compute_only'' (EnsureComputeOnly cp c key enabled) w)) \<and>
  observes samples (EnsureReplicas_observed (prometheus_meter clk es) (beside_cp cp) c key replicas)
    (EnsureReplicas cp c key replicas)
    (\<lambda>w. add_mset (Duration ''ensure_replicas'')
           (results_unless (keeps_replicas replicas) (getVolume cp (AddToken c) key) es
              ''ensure_replicas'' (EnsureReplicas cp c key replicas) w)) \<and>
  observes samples (EnsureFailureMode_observed (prometheus_meter clk es) (beside_cp cp) c key mode)
    (EnsureFailureMode cp c key mode)
    (\<lambda>w. add_mset (Duration ''ensure_failure_mode'')
           (results_unless (keeps_failure_mode mode) (getVolume cp (AddToken c) key) es
              ''ensure_failure_mode'' (EnsureFailureMode cp c key mode) w)) \<and>
  observes samples (ListSharedVolumes_observed (prometheus_meter clk es) (beside_cp cp) c) (ListSharedVolumes cp c)
    (\<lambda>w. add_mset (Duration ''list_shared_volumes'')
           (results es ''list_shared_volumes''
              (tryE (apiP (api_ListNamespaces cp (AddToken c))) (list_all_volumes cp (AddToken c))) w))"
  by (intro conjI prom.NodeObjects_observes prom.ListNodes_observes prom.ListNamespaces_observes
      prom.GetVolume_observes prom.VolumeObjects_observes prom.ListVolumes_observes prom.DeleteNode_observes
      prom.DeleteNamespace_observes prom.EnsureUnreservedNodeLabels_observes
      prom.EnsureUnreservedVolumeLabels_observes prom.SetExternalEndpoint_observes
      prom.EnsureComputeOnly_observes prom.EnsureReplicas_observes prom.EnsureFailureMode_observes
      prom.ListSharedVolumes_observes)

end
