(* ===== verification/Spec2Isabelle.thy ===== *)
theory Spec2Isabelle
  imports Flags Mock_Client Mock_Tests Scheme Reset_Channel Sharing_Cluster Fencing_Cluster Deepcopy Observed
begin

text \<open>
  \<^bold>\<open>The StorageOS API manager.\<close> The program is a Kubernetes operator that runs next to
  a StorageOS cluster and keeps the two control planes in step. It has these parts.

  \<^item> A client of the StorageOS API (\<open>internal/pkg/storageos\<close>) with wrappers for nodes,
    namespaces, volumes, labels and shared volumes, and a loop that refreshes its token.
  \<^item> Controllers built on the vendored operator toolkit: \<open>controllers/node-delete\<close> and
    \<open>controllers/namespace-delete\<close> remove from StorageOS what is gone from Kubernetes,
    \<open>controllers/node-label\<close> and \<open>controllers/pvc-label\<close> copy labels,
    \<open>controllers/fencer\<close> deletes the pods of offline nodes.
  \<^item> The shared volume controller (\<open>internal/controllers/sharedvolume\<close>), a loop that
    gives every shared volume a service and endpoints and publishes its address.
  \<^item> Two admission webhooks: \<open>controllers/pod-mutator\<close> sets the scheduler of pods,
    \<open>controllers/pvc-mutator\<close> records the storage class of a claim and creates the keys
    of encrypted volumes, with \<open>internal/pkg/crypto\<close>.
  \<^item> \<open>main.go\<close>, which waits for the API and wires the parts together.

  The controllers and webhooks meet only in the two services: they call the
  StorageOS control plane and the Kubernetes API, and the controllers ask through a
  channel for a new token when a listing fails.

  \<^bold>\<open>How programs are modelled.\<close> A service is a record of calls, each a function on an
  abstract world that returns an answer and the next world (\<open>Prelude\<close>). Nothing is
  assumed of the answers, so the world may change between calls through other
  clients. A program over the world returns a value or panics; a Go error is a value
  of \<open>goerr\<close>, a nil error is \<open>None\<close>. Go maps are association lists in the order in
  which an execution visits them, and theorems that depend on no order say so.
  \<open>uint64\<close>, \<open>int32\<close> and bytes are machine words; durations and times are integers in
  nanoseconds, and the creation times of Kubernetes objects in seconds. To state what a program asks of a service, the service is
  instrumented with the list of its calls (\<open>Api_Trace\<close>, \<open>K8s_Trace\<close>); to state what a
  program achieves, it is run on a concrete store. Loops of
  goroutines are driven by the list of events their \<open>select\<close> receives, so theorems
  hold for every length of such a run; polls are bounded by the ticks that arrive; the
  wait for the API, which may never end, is a partial function into \<open>option\<close>.

  \<^bold>\<open>Theories and what they model.\<close>
  \<^item> \<open>Prelude\<close>: errors, programs, a program logic, traces, string maps.
    \<open>Go_Std\<close>: string, number and address functions of the standard library.
  \<^item> \<open>Api\<close>: entities, the \<open>ControlPlane\<close> and \<open>Object\<close> interfaces, labels, error mapping
    (\<open>client.go\<close>, \<open>labels.go\<close>, \<open>object.go\<close>, \<open>api/v1\<close> and the vendored \<open>go-api\<close>).
    \<open>Mem_Plane\<close> and \<open>Mem_K8s\<close> are concrete services for witnesses.
  \<^item> \<open>Client\<close> (\<open>client.go\<close>: tokens, credentials, \<open>Refresh\<close>), \<open>Connect\<close> (construction of
    clients and the connection loop of \<open>main.go\<close>), \<open>Metrics\<close> (the two \<open>metrics\<close>
    packages), \<open>Observed\<close> (the API helpers once more, with the durations they observe and
    the results they count).
  \<^item> \<open>Nodes\<close> (\<open>node.go\<close>, \<open>namespace.go\<close>), \<open>Label_Merge\<close>, \<open>Node_Labels\<close>
    (\<open>node_labels.go\<close>), \<open>Volumes\<close> (\<open>volume.go\<close>), \<open>Volume_Labels\<close> (\<open>volume_labels.go\<close>),
    \<open>Shared_Volume\<close> (\<open>shared_volume.go\<close>, \<open>shared_volume_types.go\<close>), \<open>Mock_Client\<close>
    (\<open>mock_client.go\<close>, the in-memory StorageOS of the tests).
  \<^item> \<open>K8s\<close>: the Kubernetes objects and client calls used. \<open>Provisioner\<close>:
    \<open>internal/pkg/provisioner\<close>. \<open>Cache\<close>: \<open>internal/pkg/cache\<close> and the vendored
    \<open>go-cache\<close> with its janitor. \<open>Toolkit\<close>: reconcile, garbage collection, resync and the action loop.
  \<^item> \<open>Delete_Controllers\<close>, \<open>Label_Controllers\<close>, \<open>Fencer\<close>, \<open>Shared_Volume_Controller\<close>:
    the controllers, with their predicates and pollers. \<open>Fencing_Cluster\<close> and
    \<open>Sharing_Cluster\<close> run the last two against stores whose calls succeed.
  \<^item> \<open>Aes\<close>, \<open>Sha256\<close>: the primitives of the standard library, computed from their
    definitions. \<open>Crypto\<close>: \<open>internal/pkg/crypto\<close>, the vendored \<open>hkdf\<close> and \<open>uuid\<close>.
    \<open>Key_Manager\<close>: \<open>encryption/keys/manager.go\<close>. \<open>Mutators\<close>: both webhooks,
    and the mutator of their tests.
  \<^item> \<open>Deepcopy\<close>: the generated copies of the node resource (\<open>zz_generated.deepcopy.go\<close>) on
    an explicit heap. \<open>Scheme\<close>: the registration of the node resource with the scheme of the
    Kubernetes client (\<open>groupversion_info.go\<close>, the \<open>init\<close> functions, the vendored builders).
  \<^item> \<open>Gomock\<close>: the controller of the vendored \<open>gomock\<close>. \<open>Mocks\<close>: the nine generated mocks, which
    forward to it. \<open>Mock_Tests\<close>: the label operations of the client run against a
    \<open>MockControlPlane\<close>, with the tables of \<open>node_labels_test.go\<close> and \<open>volume_labels_test.go\<close>.
  \<^item> \<open>Startup\<close>: flags, \<open>internal/pkg/cluster\<close>, the composite client, the constructors and
    \<open>SetupWithManager\<close> of all reconcilers, and \<open>main\<close>. \<open>Go_Flag\<close>, \<open>Flags\<close>: the \<open>flag\<close> package
    and the command line. \<open>Reset_Channel\<close>: the goroutines
    that share the API client, as an interleaving step relation.

  Interfaces are locales, interpreted on the definitions of the components: deletion,
  diff and action contracts of the toolkit (\<open>external_deleter\<close>, \<open>metadata_differ\<close>,
  \<open>traced_action\<close>), the expiring cache, the block cipher, the secret store of the key
  manager, the frame of a claim mutator, the clusters that fencing and sharing act on
  (\<open>fencing_cluster\<close>, \<open>sharing_cluster\<close>), a copier of values on the heap
  (\<open>deep_copier\<close>), the metrics of the helpers (\<open>sampling_meter\<close>), a set of flags
  (\<open>declared_flags\<close>) and an operation judged through a mock (\<open>mocked_operation\<close>).

  \<^bold>\<open>What is shown.\<close>
  \<^item> Deletion is exact: garbage collection asks StorageOS to delete precisely what
    Kubernetes did not list and StorageOS still lists at its turn, one request each, and
    nothing when a listing failed (C1, C3).
  \<^item> Labels: what may be sent, fixed points, independence of the map order, the
    bounds of parsed values, what both label controllers do, and the overlay of claim
    labels on class parameters (C4 to C8, C10, C11, C38).
  \<^item> The token is never lost (C12), and the process waits for the API exactly as
    long as needed (C39); the start-up is a plan that stops at the first failure
    (C2), whose tickers are valid exactly when two flags are, with the configuration the
    command line gives (C9). In every infinite fair run of the goroutines that share the
    client each request for a new token is taken and carried out (C28): runs are
    functions from the naturals to states, weak fairness says that the work of the refresh
    loop ends, strong fairness that its \<open>select\<close> does not always prefer other cases.
  \<^item> Fencing deletes only pods that opted in, only after their volumes were found
    healthy, and goes on until a check of the node's own cache entry finds it no longer
    offline or without such pods, or its context ends (C17 to C22). On a
    cluster whose deletions succeed it deletes exactly the pods that can fail over
    (C14), and one lost claim keeps it from all of them (C15).
  \<^item> Shared volumes: services and endpoints lead to the volume they are for; a pass
    publishes the endpoint of the service it found when it is new, and caches the volume
    only then (C23, C25, C27). Where calls succeed, a pass reaches the
    desired objects exactly when those found can be corrected (C24), and one round of the
    controller serves every volume, after which the next changes nothing (C26).
  \<^item> A deep copy of the node resource shares nothing with its original (C13), and the
    metrics change nothing in what a helper does and count exactly what is listed (C16).
  \<^item> Encryption: decryption inverts encryption, the key derivation is that of its
    standard, and the secrets the key manager creates are consistent, also with
    concurrent creations (C29 to C32). The pod webhook reads exactly the claims of the
    pod and decides by their classes (C33); the claim webhook's answer is determined by
    its two mutators, changes three annotations at most and is an error whenever one of
    them fails (C34, C35); a claim that names the secret of its namespace is failed and,
    repeated, admitted without a volume key (C36).
  \<^item> The in-memory StorageOS refines finite maps (C37), and on it a garbage collection is
    the restriction of a map (\<open>Mock_Client.mock_node_gc\<close>).
  \<^item> A test of the label operations against a mock passes exactly when the calls the
    operation makes conform to the expectations (C40); the tables of the repository's
    label tests pass on the models (\<open>node_label_tests_pass\<close>, \<open>volume_label_tests_pass\<close>,
    \<open>parseFailureMode_tests_pass\<close>). The scheme knows the node resource by one kind, whatever
    client-go registers besides (\<open>Scheme.main_init_registers\<close>).

  \<^bold>\<open>Bounds.\<close> \<open>WaitFor\<close> is bounded by the number of ticks before the timeout, which is
  an argument; event lists are arbitrary; the key derivation ends after 255 blocks,
  as its counter is one byte; decimal parsing saturates at 64 bits as the library
  does, and durations wrap at 64 bits where the library checks for it.

  \<^bold>\<open>Not modelled.\<close> Logging, its flags among it, and tracing; parsing of URLs; JSON and
  the conversions of the scheme, which are parameters; the controller manager,
  its work queues and the certificate manager, which are services the program calls;
  orderings between the calls of a mock, which no test uses. Outside \<open>Deepcopy\<close> shared
  objects are values: where the Go code shares a pointer, the models pass the changed value
  on; so the in-memory StorageOS stores and lists copies of shared volumes where the code
  keeps the pointers. In \<open>Reset_Channel\<close> a handler is one step, so that the calls of two
  handlers are not interleaved; a call that does not return is a step that is never
  taken. Cache expiry times are unbounded integers, where Go's wrap in the year 2262. The models of the controllers use the
  API helpers without their metrics, which no code reads back; C16 relates the two. \<open>TrimSpace\<close> knows the ASCII spaces only.
\<close>

end
